(* ===== verification/Prelude.thy ===== *)
theory Prelude
  imports Complex_Main "HOL-Library.State_Monad" "HOL-Library.Monad_Syntax"
    "HOL-Library.List_Lexorder" "HOL-Library.Char_ord" "HOL-Library.Word"
    "HOL-Library.Multiset"
begin

text \<open>
  The prelude of the pv-api development: a small calculus for stateful code written in the
  state monad (preservation of an invariant, rules for sequencing and branching), the
  lemmas on lists of table rows that the SQL operations need, and the collections the
  component theories add their facts to.

  Go code that mutates shared state is written in the state monad of \<open>State_Monad\<close>, so
  that a definition has the order of calls, the guards and the early returns of the Go
  function. A Go pair \<open>(value, error)\<close> is a sum: \<open>Inl e\<close> the error, \<open>Inr v\<close> the value.
\<close>

named_theorems preserve_rules
  \<open>preservation of an invariant by the operations of the stores\<close>

named_theorems row_simps
  \<open>effect of the store operations on the tables\<close>

section \<open>Preservation of an invariant by stateful code\<close>

definition preserves :: "('s \<Rightarrow> bool) \<Rightarrow> ('s, 'a) state \<Rightarrow> bool" where
  "preserves I m \<longleftrightarrow> (\<forall>s. I s \<longrightarrow> I (snd (run_state m s)))"

lemma preservesI [intro?]: "(\<And>s. I s \<Longrightarrow> I (snd (run_state m s))) \<Longrightarrow> preserves I m"
  by (simp add: preserves_def)

lemma preservesD: "preserves I m \<Longrightarrow> I s \<Longrightarrow> I (snd (run_state m s))"
  by (simp add: preserves_def)

lemma preserves_return [preserve_rules]: "preserves I (State_Monad.return x)"
  by (simp add: preserves_def)

lemma preserves_get [preserve_rules]: "preserves I State_Monad.get"
  by (simp add: preserves_def)

lemma run_state_update [simp]: "run_state (State_Monad.update f) s = ((), f s)"
  by (simp add: State_Monad.update_def)

lemma preserves_update: "(\<And>s. I s \<Longrightarrow> I (f s)) \<Longrightarrow> preserves I (State_Monad.update f)"
  by (simp add: preserves_def)

lemma preserves_bind [preserve_rules]:
  assumes "preserves I m" and "\<And>a. preserves I (f a)"
  shows "preserves I (State_Monad.bind m f)"
  using assms by (auto simp: preserves_def split: prod.splits)

lemma preserves_get_bind:
  assumes "\<And>s. I s \<Longrightarrow> I (snd (run_state (f s) s))"
  shows "preserves I (State_Monad.bind State_Monad.get f)"
  using assms by (simp add: preserves_def)

lemma preserves_if [preserve_rules]:
  "(b \<Longrightarrow> preserves I m) \<Longrightarrow> (\<not> b \<Longrightarrow> preserves I n) \<Longrightarrow> preserves I (if b then m else n)"
  by simp

lemma preserves_case_sum [preserve_rules]:
  "(\<And>e. x = Inl e \<Longrightarrow> preserves I (f e)) \<Longrightarrow> (\<And>v. x = Inr v \<Longrightarrow> preserves I (g v)) \<Longrightarrow>
     preserves I (case x of Inl e \<Rightarrow> f e | Inr v \<Rightarrow> g v)"
  by (cases x) auto

lemma preserves_case_option [preserve_rules]:
  "(x = None \<Longrightarrow> preserves I m) \<Longrightarrow> (\<And>v. x = Some v \<Longrightarrow> preserves I (g v)) \<Longrightarrow>
     preserves I (case x of None \<Rightarrow> m | Some v \<Rightarrow> g v)"
  by (cases x) auto

lemma preserves_case_prod [preserve_rules]:
  "(\<And>a b. x = (a, b) \<Longrightarrow> preserves I (g a b)) \<Longrightarrow> preserves I (case x of (a, b) \<Rightarrow> g a b)"
  by (cases x) auto

lemma preserves_case_list [preserve_rules]:
  "(xs = [] \<Longrightarrow> preserves I m) \<Longrightarrow> (\<And>y ys. xs = y # ys \<Longrightarrow> preserves I (g y ys)) \<Longrightarrow>
     preserves I (case xs of [] \<Rightarrow> m | y # ys \<Rightarrow> g y ys)"
  by (cases xs) auto

text \<open>Code that leaves a part of the state alone keeps every property of that part.\<close>

lemma preserves_part: "(\<And>x. preserves (\<lambda>s. f s = x) m) \<Longrightarrow> preserves (\<lambda>s. P (f s)) m"
  by (simp add: preserves_def)

lemma preserves_conj: "preserves I m \<Longrightarrow> preserves J m \<Longrightarrow> preserves (\<lambda>s. I s \<and> J s) m"
  by (simp add: preserves_def)

lemma preserves_Let [preserve_rules]: "preserves I (f v) \<Longrightarrow> preserves I (let x = v in f x)"
  by simp

text \<open>A loop over a list whose body keeps the invariant keeps it.\<close>

fun for_each :: "'a list \<Rightarrow> ('a \<Rightarrow> ('s, unit) state) \<Rightarrow> ('s, unit) state" where
  "for_each [] f = State_Monad.return ()"
| "for_each (x # xs) f = do { f x; for_each xs f }"

lemma preserves_for_each [preserve_rules]:
  "(\<And>x. x \<in> set xs \<Longrightarrow> preserves I (f x)) \<Longrightarrow> preserves I (for_each xs f)"
  by (induction xs) (auto intro: preserve_rules)

lemma for_each_append: "for_each (xs @ ys) f = do { for_each xs f; for_each ys f }"
  by (induction xs) simp_all

section \<open>Pre- and postconditions of stateful code\<close>

text \<open>
  \<open>valid P m Q\<close>: started in a state with \<open>P\<close>, \<open>m\<close> returns a value and a state related by \<open>Q\<close>.
  (Every \<open>state\<close> computation returns.)
\<close>

definition valid :: "('s \<Rightarrow> bool) \<Rightarrow> ('s, 'a) state \<Rightarrow> ('a \<Rightarrow> 's \<Rightarrow> bool) \<Rightarrow> bool" where
  "valid P m Q \<longleftrightarrow> (\<forall>s. P s \<longrightarrow> Q (fst (run_state m s)) (snd (run_state m s)))"

named_theorems valid_rules
  \<open>rules of the calculus of pre- and postconditions\<close>

lemma validD: "valid P m Q \<Longrightarrow> P s \<Longrightarrow> run_state m s = (a, s') \<Longrightarrow> Q a s'"
  unfolding valid_def by (metis fst_conv snd_conv)

lemma valid_snd: "valid P m (\<lambda>_. Q) \<Longrightarrow> P s \<Longrightarrow> Q (snd (run_state m s))"
  by (simp add: valid_def)

lemma valid_bind [valid_rules]:
  "valid P m R \<Longrightarrow> (\<And>a. valid (R a) (f a) Q) \<Longrightarrow> valid P (State_Monad.bind m f) Q"
  by (auto simp: valid_def split: prod.splits)

lemma valid_return: "(\<And>s. P s \<Longrightarrow> Q x s) \<Longrightarrow> valid P (State_Monad.return x) Q"
  by (simp add: valid_def)

lemma valid_pre: "valid P' m Q \<Longrightarrow> (\<And>s. P s \<Longrightarrow> P' s) \<Longrightarrow> valid P m Q"
  by (simp add: valid_def)

lemma valid_post: "valid P m Q' \<Longrightarrow> (\<And>a s. Q' a s \<Longrightarrow> Q a s) \<Longrightarrow> valid P m Q"
  by (simp add: valid_def)

lemma valid_get_bind:
  "(\<And>s. P s \<Longrightarrow> valid (\<lambda>t. t = s) (f s) Q) \<Longrightarrow> valid P (State_Monad.bind State_Monad.get f) Q"
  by (simp add: valid_def)

lemma valid_preserves: "preserves I m \<Longrightarrow> valid I m (\<lambda>_. I)"
  by (simp add: valid_def preserves_def)

lemma valid_if [valid_rules]: "(b \<Longrightarrow> valid P m Q) \<Longrightarrow> (\<not> b \<Longrightarrow> valid P n Q) \<Longrightarrow> valid P (if b then m else n) Q"
  by simp

lemma valid_case_sum [valid_rules]:
  "(\<And>e. x = Inl e \<Longrightarrow> valid P (f e) Q) \<Longrightarrow> (\<And>v. x = Inr v \<Longrightarrow> valid P (g v) Q) \<Longrightarrow>
     valid P (case x of Inl e \<Rightarrow> f e | Inr v \<Rightarrow> g v) Q"
  by (cases x) auto

lemma valid_case_option [valid_rules]:
  "(x = None \<Longrightarrow> valid P m Q) \<Longrightarrow> (\<And>v. x = Some v \<Longrightarrow> valid P (g v) Q) \<Longrightarrow>
     valid P (case x of None \<Rightarrow> m | Some v \<Rightarrow> g v) Q"
  by (cases x) auto

section \<open>Table rows\<close>

text \<open>
  A table is the list of its rows. \<open>UPDATE ... SET u WHERE c\<close> maps \<open>u\<close> over the rows
  that satisfy \<open>c\<close>; the number of affected rows is the length of the filtered list.
\<close>

definition update_where :: "('r \<Rightarrow> bool) \<Rightarrow> ('r \<Rightarrow> 'r) \<Rightarrow> 'r list \<Rightarrow> 'r list" where
  "update_where c u rs = map (\<lambda>r. if c r then u r else r) rs"

definition affected :: "('r \<Rightarrow> bool) \<Rightarrow> 'r list \<Rightarrow> nat" where
  "affected c rs = length (filter c rs)"

definition delete_where :: "('r \<Rightarrow> bool) \<Rightarrow> 'r list \<Rightarrow> 'r list" where
  "delete_where c rs = filter (\<lambda>r. \<not> c r) rs"

lemma affected_eq_0: "affected c rs = 0 \<longleftrightarrow> (\<forall>r \<in> set rs. \<not> c r)"
  by (simp add: affected_def filter_empty_conv)

lemma length_update_where [simp]: "length (update_where c u rs) = length rs"
  by (simp add: update_where_def)

lemma update_where_none: "affected c rs = 0 \<Longrightarrow> update_where c u rs = rs"
  by (auto simp: affected_eq_0 update_where_def intro: map_idI)

lemma set_update_where:
  "set (update_where c u rs) = u ` {r \<in> set rs. c r} \<union> {r \<in> set rs. \<not> c r}"
  by (auto simp: update_where_def)

lemma update_whereI: "r \<in> set rs \<Longrightarrow> c r \<Longrightarrow> u r \<in> set (update_where c u rs)"
  by (simp add: set_update_where)

lemma map_update_where [simp]:
  assumes "\<And>r. f (u r) = f r"
  shows "map f (update_where c u rs) = map f rs"
  using assms by (simp add: update_where_def)

lemma filter_update_where:
  assumes "\<And>r. q (u r) = q r"
  shows "filter q (update_where c u rs) = update_where c u (filter q rs)"
  using assms by (induction rs) (auto simp: update_where_def)

lemma in_update_whereE:
  assumes "r \<in> set (update_where c u rs)"
  obtains r0 where "r0 \<in> set rs" "r = (if c r0 then u r0 else r0)"
  using assms by (auto simp: update_where_def)

lemma set_delete_where [simp]: "set (delete_where c rs) = {r \<in> set rs. \<not> c r}"
  by (simp add: delete_where_def)

lemma distinct_map_delete_where: "distinct (map f rs) \<Longrightarrow> distinct (map f (delete_where c rs))"
  by (simp add: delete_where_def distinct_map_filter)

text \<open>Rows are identified by a key: a \<open>SELECT ... WHERE key = k\<close> reads the first match.\<close>

lemma find_Some_iff_key:
  assumes "distinct (map k rs)"
  shows "List.find (\<lambda>r. k r = x) rs = Some r \<longleftrightarrow> r \<in> set rs \<and> k r = x"
  using assms by (induction rs) (auto simp: image_iff)

lemma find_Some_in: "List.find c rs = Some r \<Longrightarrow> r \<in> set rs \<and> c r"
  by (induction rs) (auto split: if_splits)

lemma find_None_affected: "List.find c rs = None \<longleftrightarrow> affected c rs = 0"
  by (auto simp: affected_eq_0 find_None_iff)

lemma keys_map_filter:
  "fst ` set (List.map_filter (\<lambda>k. map_option (\<lambda>v. (k, g v)) (h k)) ks) = {k \<in> set ks. h k \<noteq> None}"
  by (induction ks) (auto split: option.splits)

lemma distinct_map_count: "distinct (map f xs) \<Longrightarrow> length (filter (\<lambda>x. f x = a) xs) \<le> 1"
proof (induction xs)
  case (Cons x xs)
  then show ?case by (cases "f x = a") (auto simp: filter_empty_conv image_iff)
qed simp

text \<open>The rank of an element of a descending list is the number of larger elements.\<close>

lemma rank_take_desc:
  fixes ys :: "nat list"
  assumes "sorted_wrt (>) ys" and "x \<in> set ys"
  shows "x \<in> set (take k ys) \<longleftrightarrow> length (filter (\<lambda>y. x < y) ys) < k"
  using assms
proof (induction ys arbitrary: k)
  case (Cons y ys)
  show ?case
  proof (cases "x = y")
    case True
    with Cons.prems have "filter (\<lambda>z. x < z) (y # ys) = []" by (auto simp: filter_empty_conv)
    then have "length (filter (\<lambda>z. x < z) (y # ys)) = 0" by (simp only: list.size)
    with True show ?thesis by (cases k) auto
  next
    case False
    with Cons.prems have x: "x \<in> set ys" "x < y" by auto
    with Cons.IH [OF _ x(1)] Cons.prems(1) False show ?thesis by (cases k) auto
  qed
qed simp

lemma rank_take_sorted:
  fixes xs :: "nat list"
  assumes "distinct xs" and "x \<in> set xs"
  shows "x \<in> set (take k (rev (sort xs))) \<longleftrightarrow> length (filter (\<lambda>y. x < y) xs) < k"
proof -
  have "sorted_wrt (<) (sort xs)" using assms(1) by (simp add: strict_sorted_iff)
  then have "sorted_wrt (>) (rev (sort xs))" by (simp add: sorted_wrt_rev)
  moreover have "length (filter (\<lambda>y. x < y) (rev (sort xs))) = length (filter (\<lambda>y. x < y) xs)"
    by (metis filter_sort length_rev length_sort rev_filter)
  ultimately show ?thesis using rank_take_desc [of "rev (sort xs)" x k] assms(2) by simp
qed

section \<open>Strings\<close>

text \<open>
  \<open>strings.TrimSpace\<close> on UTF-8 bytes: the encodings of the Unicode white space characters
  (the ASCII ones, U+0085, U+00A0, U+1680, U+2000 to U+200A, U+2028, U+2029, U+202F, U+205F,
  U+3000) are removed at both ends.
\<close>

definition space_seqs :: "string list" where
  "space_seqs = map (map char_of)
     ([[9], [10], [11], [12], [13], [32], [194, 133], [194, 160], [225, 154, 128],
       [226, 128, 168], [226, 128, 169], [226, 128, 175], [226, 129, 159], [227, 128, 128::nat]]
      @ map (\<lambda>i. [226, 128, 128 + i]) [0..<11])"

fun trim_fuel :: "nat \<Rightarrow> string list \<Rightarrow> string \<Rightarrow> string" where
  "trim_fuel 0 seqs s = s"
| "trim_fuel (Suc n) seqs s =
     (case List.find (\<lambda>q. take (length q) s = q) seqs of
        None \<Rightarrow> s
      | Some q \<Rightarrow> trim_fuel n seqs (drop (length q) s))"

definition TrimSpace :: "string \<Rightarrow> string" where
  "TrimSpace s =
     (let l = trim_fuel (length s) space_seqs s in
      rev (trim_fuel (length l) (map rev space_seqs) (rev l)))"

definition has_suffix :: "string \<Rightarrow> string \<Rightarrow> bool" where
  "has_suffix s suf \<longleftrightarrow> length suf \<le> length s \<and> drop (length s - length suf) s = suf"

definition trim_suffix :: "string \<Rightarrow> string \<Rightarrow> string" where
  "trim_suffix s suf = (if has_suffix s suf then take (length s - length suf) s else s)"

lemma has_suffix_append [simp]: "has_suffix (s @ suf) suf"
  by (simp add: has_suffix_def)

lemma trim_suffix_append [simp]: "trim_suffix (s @ suf) suf = s"
  by (simp add: trim_suffix_def)

lemma has_suffix_iff: "has_suffix s suf \<longleftrightarrow> (\<exists>p. s = p @ suf)"
proof
  assume "has_suffix s suf"
  then have "s = take (length s - length suf) s @ suf"
    by (metis append_take_drop_id has_suffix_def)
  then show "\<exists>p. s = p @ suf" ..
qed auto

end
