(* ===== verification/Dates.thy ===== *)
theory Dates
  imports Prelude
begin

text \<open>
  Calendar dates. The Go code carries dates as \<open>*time.Time\<close> values that come from
  \<open>time.Parse("2006-01-02", s)\<close> or from a Postgres \<open>DATE\<close> column: instants at midnight UTC.
  Such an instant is its calendar day, modelled by \<open>date\<close>; \<open>Before\<close> and \<open>After\<close> on the
  instants are the order on the days. \<open>parseDate\<close> is \<open>portfolio/handler.go\<close>'s function;
  \<open>time_Parse\<close> and \<open>time_Format\<close> are the part of Go's \<open>time\<close> package it uses, for the layout
  \<open>2006-01-02\<close>.
\<close>

datatype date = Date (dyear: nat) (dmonth: nat) (dday: nat)

text \<open>The order of instants at midnight: by year, then month, then day.\<close>

instantiation date :: linorder
begin

definition less_eq_date :: "date \<Rightarrow> date \<Rightarrow> bool" where
  "less_eq_date a b \<longleftrightarrow> dyear a < dyear b \<or>
     dyear a = dyear b \<and> (dmonth a < dmonth b \<or> dmonth a = dmonth b \<and> dday a \<le> dday b)"

definition less_date :: "date \<Rightarrow> date \<Rightarrow> bool" where
  "less_date a b \<longleftrightarrow> dyear a < dyear b \<or>
     dyear a = dyear b \<and> (dmonth a < dmonth b \<or> dmonth a = dmonth b \<and> dday a < dday b)"

instance
  by standard (auto simp: less_eq_date_def less_date_def date.expand)

end

definition is_leap :: "nat \<Rightarrow> bool" where
  "is_leap y \<longleftrightarrow> y mod 4 = 0 \<and> (y mod 100 \<noteq> 0 \<or> y mod 400 = 0)"

definition daysIn :: "nat \<Rightarrow> nat \<Rightarrow> nat" where
  "daysIn m y = (if m = 2 then (if is_leap y then 29 else 28)
     else if m \<in> {4, 6, 9, 11} then 30 else 31)"

definition valid_date :: "date \<Rightarrow> bool" where
  "valid_date d \<longleftrightarrow> 1 \<le> dmonth d \<and> dmonth d \<le> 12 \<and> 1 \<le> dday d \<and> dday d \<le> daysIn (dmonth d) (dyear d)"

subsection \<open>Decimal digits\<close>

definition digit_char :: "nat \<Rightarrow> char" where
  "digit_char n = char_of (48 + n)"

definition is_digit :: "char \<Rightarrow> bool" where
  "is_digit c \<longleftrightarrow> 48 \<le> (of_char c :: nat) \<and> (of_char c :: nat) \<le> 57"

definition digit_val :: "char \<Rightarrow> nat" where
  "digit_val c = of_char c - 48"

fun atoi_acc :: "nat \<Rightarrow> string \<Rightarrow> nat" where
  "atoi_acc a [] = a"
| "atoi_acc a (c # cs) = atoi_acc (10 * a + digit_val c) cs"

text \<open>The value of a run of digits; \<open>None\<close> when a byte is not a digit.\<close>

definition atoi :: "string \<Rightarrow> nat option" where
  "atoi s = (if list_all is_digit s then Some (atoi_acc 0 s) else None)"

fun digits_w :: "nat \<Rightarrow> nat \<Rightarrow> string" where
  "digits_w 0 n = []"
| "digits_w (Suc w) n = digits_w w (n div 10) @ [digit_char (n mod 10)]"

fun dec_string :: "nat \<Rightarrow> string" where
  "dec_string n = (if n < 10 then [digit_char n] else dec_string (n div 10) @ [digit_char (n mod 10)])"

declare dec_string.simps [simp del]

text \<open>Go's \<open>appendInt\<close>: decimal, zero-padded to at least \<open>w\<close> digits.\<close>

definition append_int :: "nat \<Rightarrow> nat \<Rightarrow> string" where
  "append_int w n = (if n < 10 ^ w then digits_w w n else dec_string n)"

lemma of_char_digit_char: "n < 10 \<Longrightarrow> (of_char (digit_char n) :: nat) = 48 + n"
  by (simp add: digit_char_def)

lemma is_digit_digit_char [simp]: "n < 10 \<Longrightarrow> is_digit (digit_char n)"
  by (simp add: is_digit_def of_char_digit_char)

lemma digit_val_digit_char [simp]: "n < 10 \<Longrightarrow> digit_val (digit_char n) = n"
  by (simp add: digit_val_def of_char_digit_char)

lemma digit_val_less: "is_digit c \<Longrightarrow> digit_val c < 10"
  unfolding is_digit_def digit_val_def by linarith

lemma digit_char_digit_val [simp]: "is_digit c \<Longrightarrow> digit_char (digit_val c) = c"
  by (simp add: is_digit_def digit_val_def digit_char_def)

lemma length_digits_w [simp]: "length (digits_w w n) = w"
  by (induction w arbitrary: n) auto

lemma all_digits_w [simp]: "list_all is_digit (digits_w w n)"
  by (induction w arbitrary: n) auto

lemma atoi_acc_append: "atoi_acc a (s @ t) = atoi_acc (atoi_acc a s) t"
  by (induction s arbitrary: a) auto

lemma atoi_acc_digits_w: "n < 10 ^ w \<Longrightarrow> atoi_acc 0 (digits_w w n) = n"
proof (induction w arbitrary: n)
  case (Suc w)
  then have "n div 10 < 10 ^ w" by (simp add: less_mult_imp_div_less mult.commute)
  with Suc.IH show ?case by (simp add: atoi_acc_append)
qed simp

lemma atoi_digits_w: "n < 10 ^ w \<Longrightarrow> atoi (digits_w w n) = Some n"
  by (simp add: atoi_def atoi_acc_digits_w)

lemma digits_w_atoi_acc: "list_all is_digit s \<Longrightarrow> digits_w (length s) (atoi_acc 0 s) = s"
proof (induction s rule: rev_induct)
  case (snoc c s)
  then show ?case by (simp add: atoi_acc_append digit_val_less)
qed simp

lemma atoi_acc_less: "list_all is_digit s \<Longrightarrow> atoi_acc 0 s < 10 ^ length s"
proof (induction s rule: rev_induct)
  case (snoc c s)
  then have "atoi_acc 0 s + 1 \<le> 10 ^ length s" and "digit_val c < 10"
    by (auto simp: digit_val_less)
  then show ?case by (simp add: atoi_acc_append)
qed simp

subsection \<open>Parsing and formatting\<close>

text \<open>\<open>time.Parse("2006-01-02", s)\<close>: four digits, two digits, two digits, a day of the month.\<close>

definition time_Parse :: "string \<Rightarrow> date option" where
  "time_Parse s =
     (if length s = 10 \<and> s ! 4 = CHR ''-'' \<and> s ! 7 = CHR ''-'' then
        (case (atoi (take 4 s), atoi (take 2 (drop 5 s)), atoi (drop 8 s)) of
           (Some y, Some m, Some d) \<Rightarrow>
             (if valid_date (Date y m d) then Some (Date y m d) else None)
         | _ \<Rightarrow> None)
      else None)"

definition time_Format :: "date \<Rightarrow> string" where
  "time_Format d = append_int 4 (dyear d) @ ''-'' @ append_int 2 (dmonth d) @ ''-'' @ append_int 2 (dday d)"

lemma valid_date_bounds: "valid_date d \<Longrightarrow> dmonth d < 100 \<and> dday d < 100"
  by (auto simp: valid_date_def daysIn_def split: if_splits)

lemma time_Format_eq:
  assumes "valid_date d" and "dyear d < 10000"
  shows "time_Format d = digits_w 4 (dyear d) @ ''-'' @ digits_w 2 (dmonth d) @ ''-'' @ digits_w 2 (dday d)"
  using assms valid_date_bounds [of d] by (simp add: time_Format_def append_int_def)

lemma time_Parse_Format:
  assumes "valid_date d" and "dyear d < 10000"
  shows "time_Parse (time_Format d) = Some d"
proof -
  have "dmonth d < 10 ^ 2" "dday d < 10 ^ 2" "dyear d < 10 ^ 4"
    using assms valid_date_bounds [of d] by auto
  then have "atoi (digits_w 4 (dyear d)) = Some (dyear d)"
    "atoi (digits_w 2 (dmonth d)) = Some (dmonth d)" "atoi (digits_w 2 (dday d)) = Some (dday d)"
    by (simp_all only: atoi_digits_w)
  then show ?thesis
    using assms by (simp add: time_Format_eq time_Parse_def nth_append del: digits_w.simps)
qed

lemma time_Parse_SomeD:
  assumes "time_Parse s = Some d"
  shows "valid_date d \<and> dyear d < 10000 \<and> time_Format d = s"
proof -
  let ?y = "take 4 s" and ?m = "take 2 (drop 5 s)" and ?d = "drop 8 s"
  have len: "length s = 10" and dash: "s ! 4 = CHR ''-''" "s ! 7 = CHR ''-''"
    using assms by (auto simp: time_Parse_def split: if_splits)
  have dig: "list_all is_digit ?y" "list_all is_digit ?m" "list_all is_digit ?d"
    and d: "d = Date (atoi_acc 0 ?y) (atoi_acc 0 ?m) (atoi_acc 0 ?d)" and v: "valid_date d"
    using assms by (auto simp: time_Parse_def atoi_def split: if_splits option.splits prod.splits)
  have y: "dyear d < 10000" using atoi_acc_less [OF dig(1)] len d by simp
  have parts: "s = ?y @ [s ! 4] @ ?m @ [s ! 7] @ ?d"
  proof -
    have "s = ?y @ drop 4 s" by simp
    also have "drop 4 s = s ! 4 # drop 5 s" using Cons_nth_drop_Suc [of 4 s] len by simp
    also have "drop 5 s = ?m @ drop 7 s"
      using append_take_drop_id [of 2 "drop 5 s"] by simp
    also have "drop 7 s = s ! 7 # ?d" using Cons_nth_drop_Suc [of 7 s] len by simp
    finally show ?thesis by simp
  qed
  have "time_Format d = ?y @ ''-'' @ ?m @ ''-'' @ ?d"
    using digits_w_atoi_acc [OF dig(1)] digits_w_atoi_acc [OF dig(2)] digits_w_atoi_acc [OF dig(3)] len
    unfolding time_Format_eq [OF v y] by (simp add: d del: digits_w.simps)
  with parts dash have "time_Format d = s" by simp
  with v y show ?thesis by simp
qed

end
