(* ===== verification/Json.thy ===== *)
theory Json
  imports Prelude
begin

text \<open>
  JSON values as Go's \<open>encoding/json\<close> decodes them into an \<open>any\<close>, and the canonical form
  that \<open>portfolio/slug.go\<close> computes of them. A number is kept as the text Go prints for the
  \<open>float64\<close> it was decoded to (that text determines the finite \<open>float64\<close>), so equal numbers
  have equal texts. An object is the list of its members; the order of the list stands for the
  unspecified iteration order of a Go map.
\<close>

datatype json =
    JNull
  | JBool bool
  | JNum string
  | JStr string
  | JArr "json list"
  | JObj "(string \<times> json) list"

type_synonym params = "(string \<times> json) list"

text \<open>Go maps have each key once, at every depth.\<close>

inductive wf_json :: "json \<Rightarrow> bool" where
  wf_JNull: "wf_json JNull"
| wf_JBool: "wf_json (JBool b)"
| wf_JNum: "wf_json (JNum s)"
| wf_JStr: "wf_json (JStr s)"
| wf_JArr: "list_all wf_json xs \<Longrightarrow> wf_json (JArr xs)"
| wf_JObj: "distinct (map fst kvs) \<Longrightarrow> list_all (\<lambda>kv. wf_json (snd kv)) kvs \<Longrightarrow> wf_json (JObj kvs)"
monos list.pred_mono

inductive_simps wf_json_simps [simp]:
  "wf_json (JArr xs)" "wf_json (JObj kvs)"

subsection \<open>canonicalize and json.Marshal\<close>

text \<open>
  \<open>canonicalize\<close> copies an object key by key in sorted order, an array element by element,
  and leaves anything else alone.
\<close>

fun canonicalize :: "json \<Rightarrow> json" where
  "canonicalize (JObj kvs) = JObj (sort_key fst (map (\<lambda>(k, v). (k, canonicalize v)) kvs))"
| "canonicalize (JArr xs) = JArr (map canonicalize xs)"
| "canonicalize v = v"

text \<open>
  The string escapes of \<open>json.Marshal\<close>: quote, backslash, control characters, the
  HTML-sensitive bytes and the line separators U+2028 and U+2029; every other byte of a valid
  UTF-8 string is copied.
\<close>

definition hex_digit :: "nat \<Rightarrow> char" where
  "hex_digit n = (if n < 10 then char_of (48 + n) else char_of (87 + n))"

definition u_escape :: "nat \<Rightarrow> string" where
  "u_escape n = [char_of (92::nat), CHR ''u'', CHR ''0'', CHR ''0'', hex_digit (n div 16), hex_digit (n mod 16)]"

definition escape_char :: "char \<Rightarrow> string" where
  "escape_char c =
     (let n = (of_char c :: nat) in
      if n = 34 \<or> n = 92 then [char_of (92::nat), c]
      else if n = 8 then [char_of (92::nat), CHR ''b'']
      else if n = 12 then [char_of (92::nat), CHR ''f'']
      else if n = 10 then [char_of (92::nat), CHR ''n'']
      else if n = 13 then [char_of (92::nat), CHR ''r'']
      else if n = 9 then [char_of (92::nat), CHR ''t'']
      else if n < 32 \<or> n = 60 \<or> n = 62 \<or> n = 38 then u_escape n
      else [c])"

fun escape_string :: "string \<Rightarrow> string" where
  "escape_string [] = []"
| "escape_string (a # b # c # cs) =
     (if of_char a = (226::nat) \<and> of_char b = (128::nat) \<and> of_char c \<in> {168::nat, 169}
      then [char_of (92::nat)] @ ''u202'' @ [hex_digit (of_char c - 160)] @ escape_string cs
      else escape_char a @ escape_string (b # c # cs))"
| "escape_string (a # cs) = escape_char a @ escape_string cs"

definition quote_string :: "string \<Rightarrow> string" where
  "quote_string s = [char_of (34::nat)] @ escape_string s @ [char_of (34::nat)]"

fun join :: "string \<Rightarrow> string list \<Rightarrow> string" where
  "join sep [] = []"
| "join sep [s] = s"
| "join sep (s # ss) = s @ sep @ join sep ss"

text \<open>\<open>json.Marshal\<close> prints the members of a map in the order of their keys.\<close>

fun marshal :: "json \<Rightarrow> string" where
  "marshal JNull = ''null''"
| "marshal (JBool b) = (if b then ''true'' else ''false'')"
| "marshal (JNum s) = s"
| "marshal (JStr s) = quote_string s"
| "marshal (JArr xs) = ''['' @ join '','' (map marshal xs) @ '']''"
| "marshal (JObj kvs) =
     ''{'' @ join '','' (map snd (sort_key fst
        (map (\<lambda>(k, v). (k, quote_string k @ '':'' @ marshal v)) kvs))) @ ''}''"

definition canonicalJSON :: "json \<Rightarrow> string" where
  "canonicalJSON v = marshal (canonicalize v)"

lemma map_fst_canonicalize [simp]:
  "map fst (map (\<lambda>(k, v). (k, f v)) kvs) = map fst kvs"
  by (induction kvs) auto

lemma sort_key_map_snd:
  "sort_key fst (map (\<lambda>(k, v). (k, f k v)) kvs) = map (\<lambda>(k, v). (k, f k v)) (sort_key fst kvs)"
proof -
  have ins: "insort_key fst (k, f k v) (map (\<lambda>(k, v). (k, f k v)) xs) =
      map (\<lambda>(k, v). (k, f k v)) (insort_key fst (k, v) xs)" for k v xs
    by (induction xs) auto
  show ?thesis by (induction kvs) (auto simp: ins)
qed

text \<open>\<open>json.Marshal\<close> already sorts, so canonicalising first does not change the bytes.\<close>

lemma marshal_canonicalize: "marshal (canonicalize v) = marshal v"
proof (induction v rule: canonicalize.induct)
  case (1 kvs)
  let ?pr = "\<lambda>(k, v). (k, quote_string k @ '':'' @ marshal v)"
  let ?c = "\<lambda>(k, v). (k, canonicalize v)"
  have pr: "map ?pr (map ?c kvs) = map ?pr kvs"
    using 1 by (auto simp: split_beta)
  have "map ?pr (sort_key fst (map ?c kvs)) = sort_key fst (map ?pr (map ?c kvs))"
    by (rule sort_key_map_snd [symmetric])
  also have "\<dots> = sort_key fst (map ?pr kvs)" by (simp only: pr)
  finally have "sort_key fst (map ?pr (sort_key fst (map ?c kvs))) = sort_key fst (map ?pr kvs)"
    by (simp add: sort_key_id_if_sorted)
  then show ?case by simp
next
  case (2 xs)
  then show ?case by (simp cong: map_cong)
qed auto

text \<open>The member order of an object does not show in the canonical bytes.\<close>

lemma sort_key_fst_perm:
  assumes "mset kvs = mset kvs'" and "distinct (map fst kvs)"
  shows "sort_key fst kvs = sort_key fst kvs'"
  using assms by (intro sort_key_inj_key_eq) (auto simp: distinct_map)

lemma canonicalJSON_perm:
  assumes "mset kvs = mset kvs'" and "distinct (map fst kvs)"
  shows "canonicalJSON (JObj kvs) = canonicalJSON (JObj kvs')"
proof -
  let ?f = "\<lambda>(k, v). (k, canonicalize v)"
  have "mset (map ?f kvs) = mset (map ?f kvs')" using assms(1) by simp
  moreover have "distinct (map fst (map ?f kvs))" 
    using assms(2) by (simp only: map_fst_canonicalize)
  ultimately have "sort_key fst (map ?f kvs) = sort_key fst (map ?f kvs')"
    by (rule sort_key_fst_perm)
  then show ?thesis by (simp add: canonicalJSON_def)
qed

end
