(* ===== verification/Hub.thy ===== *)
theory Hub
  imports Prelude
begin

text \<open>
  The progress hub (\<open>progress/hub.go\<close>): a ring buffer of the last progress messages of a run,
  the channels of its subscribers, and the terminal event. Pointers to broadcasters and channels
  are addresses into explicit stores, because an unsubscribe closure keeps its broadcaster after
  the hub has dropped it. Sending on a closed channel and closing a channel twice panic in Go:
  both set \<open>h_panic\<close>, and the invariant shows that no sequence of hub operations does.
\<close>

type_synonym uuid = nat
type_synonym float64 = string
  \<comment> \<open>a float64 that is only stored and copied: the text Go prints for it\<close>

record ProgressMessage =
  m_Type :: string
  m_Step :: int
  m_TotalSteps :: int
  m_CurrentDate :: string
  m_TargetDate :: string
  m_Pct :: float64
  m_ElapsedMS :: int
  m_EtaMS :: int
  m_Measurements :: int

record TerminalEvent =
  t_Status :: string
  t_Error :: string

datatype event = Progress ProgressMessage | Terminal TerminalEvent

definition bufSize :: nat where "bufSize = 20"
definition subChanCap :: nat where "subChanCap = 32"

record chan =
  c_buf :: "event list"
  c_closed :: bool

record runBroadcaster =
  b_buf :: "ProgressMessage list"
  b_head :: nat
  b_count :: nat
  b_subs :: "nat list"
  b_terminal :: "TerminalEvent option"

record hub =
  h_runs :: "uuid \<Rightarrow> nat option"
  h_bcs :: "nat \<Rightarrow> runBroadcaster"
  h_nb :: nat
  h_chans :: "nat \<Rightarrow> chan"
  h_nc :: nat
  h_panic :: bool

definition zero_message :: ProgressMessage where
  "zero_message = \<lparr>m_Type = '''', m_Step = 0, m_TotalSteps = 0, m_CurrentDate = '''', m_TargetDate = '''',
     m_Pct = ''0'', m_ElapsedMS = 0, m_EtaMS = 0, m_Measurements = 0\<rparr>"

definition empty_broadcaster :: runBroadcaster where
  "empty_broadcaster = \<lparr>b_buf = replicate bufSize zero_message, b_head = 0, b_count = 0,
     b_subs = [], b_terminal = None\<rparr>"

definition NewHub :: hub where
  "NewHub = \<lparr>h_runs = (\<lambda>_. None), h_bcs = (\<lambda>_. empty_broadcaster), h_nb = 0,
     h_chans = (\<lambda>_. \<lparr>c_buf = [], c_closed = False\<rparr>), h_nc = 0, h_panic = False\<rparr>"

subsection \<open>Channels\<close>

text \<open>A non-blocking send: \<open>True\<close> when the value went into the buffer.\<close>

definition try_send :: "nat \<Rightarrow> event \<Rightarrow> hub \<Rightarrow> bool \<times> hub" where
  "try_send ch e h =
     (let c = h_chans h ch in
      if c_closed c then (False, h\<lparr>h_panic := True\<rparr>)
      else if length (c_buf c) < subChanCap
      then (True, h\<lparr>h_chans := (h_chans h)(ch := c\<lparr>c_buf := c_buf c @ [e]\<rparr>)\<rparr>)
      else (False, h))"

definition close_chan :: "nat \<Rightarrow> hub \<Rightarrow> hub" where
  "close_chan ch h =
     (let c = h_chans h ch in
      if c_closed c then h\<lparr>h_panic := True\<rparr>
      else h\<lparr>h_chans := (h_chans h)(ch := c\<lparr>c_closed := True\<rparr>)\<rparr>)"

text \<open>The receiver takes the oldest event, if there is one.\<close>

definition recv :: "nat \<Rightarrow> hub \<Rightarrow> event option \<times> hub" where
  "recv ch h =
     (let c = h_chans h ch in
      case c_buf c of
        [] \<Rightarrow> (None, h)
      | e # es \<Rightarrow> (Some e, h\<lparr>h_chans := (h_chans h)(ch := c\<lparr>c_buf := es\<rparr>)\<rparr>))"

subsection \<open>Broadcasters\<close>

text \<open>\<open>Hub.broadcaster\<close>: the broadcaster of a run, created when missing.\<close>

definition broadcaster :: "uuid \<Rightarrow> hub \<Rightarrow> nat \<times> hub" where
  "broadcaster runID h =
     (case h_runs h runID of
        Some b \<Rightarrow> (b, h)
      | None \<Rightarrow> (h_nb h, h\<lparr>h_runs := (h_runs h)(runID \<mapsto> h_nb h),
                           h_bcs := (h_bcs h)(h_nb h := empty_broadcaster),
                           h_nb := Suc (h_nb h)\<rparr>))"

definition ring_push :: "ProgressMessage \<Rightarrow> runBroadcaster \<Rightarrow> runBroadcaster" where
  "ring_push msg b =
     (let idx = (b_head b + b_count b) mod bufSize;
          b1 = b\<lparr>b_buf := (b_buf b)[idx := msg]\<rparr>
      in if b_count b1 < bufSize then b1\<lparr>b_count := b_count b1 + 1\<rparr>
         else b1\<lparr>b_head := (b_head b1 + 1) mod bufSize\<rparr>)"

text \<open>The fan-out loop: a subscriber whose channel is full is closed and dropped.\<close>

fun fan_out :: "event \<Rightarrow> nat list \<Rightarrow> hub \<Rightarrow> nat list \<times> hub" where
  "fan_out e [] h = ([], h)"
| "fan_out e (ch # chs) h =
     (case try_send ch e h of (sent, h1) \<Rightarrow>
        let h2 = (if sent then h1 else close_chan ch h1) in
        case fan_out e chs h2 of (alive, h3) \<Rightarrow> (if sent then ch # alive else alive, h3))"

definition publish :: "nat \<Rightarrow> ProgressMessage \<Rightarrow> hub \<Rightarrow> hub" where
  "publish b msg h =
     (let h1 = h\<lparr>h_bcs := (h_bcs h)(b := ring_push msg (h_bcs h b))\<rparr> in
      case fan_out (Progress msg) (b_subs (h_bcs h1 b)) h1 of (alive, h2) \<Rightarrow>
        h2\<lparr>h_bcs := (h_bcs h2)(b := (h_bcs h2 b)\<lparr>b_subs := alive\<rparr>)\<rparr>)"

definition Publish :: "uuid \<Rightarrow> ProgressMessage \<Rightarrow> hub \<Rightarrow> hub" where
  "Publish runID msg h = (case broadcaster runID h of (b, h1) \<Rightarrow> publish b msg h1)"

definition latest :: "runBroadcaster \<Rightarrow> ProgressMessage option" where
  "latest b = (if b_count b = 0 then None
               else Some (b_buf b ! ((b_head b + b_count b - 1) mod bufSize)))"

definition Latest :: "uuid \<Rightarrow> hub \<Rightarrow> ProgressMessage option" where
  "Latest runID h = (case h_runs h runID of None \<Rightarrow> None | Some b \<Rightarrow> latest (h_bcs h b))"

definition ring_contents :: "runBroadcaster \<Rightarrow> ProgressMessage list" where
  "ring_contents b = map (\<lambda>i. b_buf b ! ((b_head b + i) mod bufSize)) [0..<b_count b]"

text \<open>
  \<open>subscribe\<close>: the replay loop sends the buffered messages into the fresh channel. The sends
  block when the channel is full; \<open>None\<close> stands for a blocked send.
\<close>

definition blocking_send :: "event \<Rightarrow> chan \<Rightarrow> chan option" where
  "blocking_send e c = (if length (c_buf c) < subChanCap then Some (c\<lparr>c_buf := c_buf c @ [e]\<rparr>) else None)"

fun blocking_sends :: "event list \<Rightarrow> chan \<Rightarrow> chan option" where
  "blocking_sends [] c = Some c"
| "blocking_sends (e # es) c = (case blocking_send e c of None \<Rightarrow> None | Some c' \<Rightarrow> blocking_sends es c')"

datatype unsub = NoUnsub | Unsub nat nat

definition subscribe :: "nat \<Rightarrow> hub \<Rightarrow> ((nat \<times> unsub) \<times> hub) option" where
  "subscribe b h =
     (let ch = h_nc h; bc = h_bcs h b; fresh = \<lparr>c_buf = [], c_closed = False\<rparr> in
      case b_terminal bc of
        Some t \<Rightarrow>
          (case blocking_send (Terminal t) fresh of
             None \<Rightarrow> None
           | Some c \<Rightarrow> Some ((ch, NoUnsub),
               h\<lparr>h_chans := (h_chans h)(ch := c\<lparr>c_closed := True\<rparr>), h_nc := Suc ch\<rparr>))
      | None \<Rightarrow>
          (case blocking_sends (map Progress (ring_contents bc)) fresh of
             None \<Rightarrow> None
           | Some c \<Rightarrow> Some ((ch, Unsub b ch),
               h\<lparr>h_chans := (h_chans h)(ch := c), h_nc := Suc ch,
                 h_bcs := (h_bcs h)(b := bc\<lparr>b_subs := b_subs bc @ [ch]\<rparr>)\<rparr>)))"

definition Subscribe :: "uuid \<Rightarrow> hub \<Rightarrow> ((nat \<times> unsub) \<times> hub) option" where
  "Subscribe runID h = (case broadcaster runID h of (b, h1) \<Rightarrow> subscribe b h1)"

definition unsubscribe :: "unsub \<Rightarrow> hub \<Rightarrow> hub" where
  "unsubscribe u h =
     (case u of
        NoUnsub \<Rightarrow> h
      | Unsub b ch \<Rightarrow>
          (let bc = h_bcs h b in
           if ch \<in> set (b_subs bc)
           then close_chan ch (h\<lparr>h_bcs := (h_bcs h)(b := bc\<lparr>b_subs := remove1 ch (b_subs bc)\<rparr>)\<rparr>)
           else h))"

fun close_all :: "event \<Rightarrow> nat list \<Rightarrow> hub \<Rightarrow> hub" where
  "close_all e [] h = h"
| "close_all e (ch # chs) h = close_all e chs (close_chan ch (snd (try_send ch e h)))"

definition complete_b :: "nat \<Rightarrow> TerminalEvent \<Rightarrow> hub \<Rightarrow> hub" where
  "complete_b b evt h =
     (let bc = h_bcs h b in
      if b_terminal bc \<noteq> None then h
      else (let h1 = h\<lparr>h_bcs := (h_bcs h)(b := bc\<lparr>b_terminal := Some evt\<rparr>)\<rparr>;
                h2 = close_all (Terminal evt) (b_subs bc) h1
            in h2\<lparr>h_bcs := (h_bcs h2)(b := (h_bcs h2 b)\<lparr>b_subs := []\<rparr>)\<rparr>))"

definition Complete :: "uuid \<Rightarrow> string \<Rightarrow> string \<Rightarrow> hub \<Rightarrow> hub" where
  "Complete runID status errMsg h =
     (case broadcaster runID h of (b, h1) \<Rightarrow> complete_b b \<lparr>t_Status = status, t_Error = errMsg\<rparr> h1)"

text \<open>The delayed goroutine of \<open>Complete\<close>: ten seconds later the run leaves the map.\<close>

definition cleanup :: "uuid \<Rightarrow> hub \<Rightarrow> hub" where
  "cleanup runID h = h\<lparr>h_runs := (h_runs h)(runID := None)\<rparr>"


subsection \<open>The stdout line writer\<close>

text \<open>
  \<open>LineWriter.Write\<close> buffers bytes and handles every complete line. \<open>parse\<close> is the decoding
  of one line of JSON into a message; \<open>None\<close> when it is malformed.
\<close>

definition handle_line :: "(string \<Rightarrow> ProgressMessage option) \<Rightarrow> uuid \<Rightarrow> string \<Rightarrow> hub \<Rightarrow> hub" where
  "handle_line parse runID raw h =
     (let line = TrimSpace raw in
      if line = [] then h
      else case parse line of
             None \<Rightarrow> h
           | Some msg \<Rightarrow> if m_Type msg = ''progress'' then Publish runID msg h else h)"

definition newline :: char where "newline = char_of (10::nat)"

function write_lines ::
    "(string \<Rightarrow> ProgressMessage option) \<Rightarrow> uuid \<Rightarrow> string \<Rightarrow> hub \<Rightarrow> string \<times> hub" where
  "write_lines parse runID buf h =
     (if newline \<in> set buf
      then write_lines parse runID (tl (dropWhile (\<lambda>c. c \<noteq> newline) buf))
             (handle_line parse runID (takeWhile (\<lambda>c. c \<noteq> newline) buf) h)
      else (buf, h))"
  by pat_completeness auto
termination
proof (relation "measure (\<lambda>(parse, runID, buf, h). length buf)", goal_cases)
  case (2 parse runID buf h)
  then have "dropWhile (\<lambda>c. c \<noteq> newline) buf \<noteq> []" by (auto simp: dropWhile_eq_Nil_conv)
  then have "length (tl (dropWhile (\<lambda>c. c \<noteq> newline) buf)) < length (dropWhile (\<lambda>c. c \<noteq> newline) buf)"
    by simp
  also have "\<dots> \<le> length buf" by (rule length_dropWhile_le)
  finally show ?case by simp
qed simp

declare write_lines.simps [simp del]

definition Write ::
    "(string \<Rightarrow> ProgressMessage option) \<Rightarrow> uuid \<Rightarrow> string \<Rightarrow> string \<times> hub \<Rightarrow> string \<times> hub" where
  "Write parse runID p st = (case st of (buf, h) \<Rightarrow> write_lines parse runID (buf @ p) h)"

section \<open>The ring buffer holds the last messages\<close>

definition ring_ok :: "runBroadcaster \<Rightarrow> bool" where
  "ring_ok b \<longleftrightarrow> length (b_buf b) = bufSize \<and> b_head b < bufSize \<and> b_count b \<le> bufSize
     \<and> (b_count b < bufSize \<longrightarrow> b_head b = 0)"

text \<open>The abstract ring: the suffix of length \<open>bufSize\<close> of everything pushed.\<close>

definition last_n :: "nat \<Rightarrow> 'a list \<Rightarrow> 'a list" where
  "last_n n xs = drop (length xs - n) xs"

lemma last_n_short: "length xs \<le> n \<Longrightarrow> last_n n xs = xs"
  by (simp add: last_n_def)

lemma last_n_last_n_append: "last_n n (last_n n xs @ ys) = last_n n (xs @ ys)"
proof (cases "length xs \<le> n")
  case False
  let ?k = "length xs - n"
  from False have "drop ?k xs @ ys = drop ?k (xs @ ys)" by simp
  with False show ?thesis by (simp add: last_n_def add.commute)
qed (simp add: last_n_short)

lemma bufSize_pos: "0 < bufSize"
  by (simp add: bufSize_def)

lemma length_ring_contents [simp]: "length (ring_contents b) = b_count b"
  by (simp add: ring_contents_def)

lemma ring_ok_empty [simp]: "ring_ok empty_broadcaster"
  by (simp add: ring_ok_def empty_broadcaster_def bufSize_def)

lemma ring_contents_empty [simp]: "ring_contents empty_broadcaster = []"
  by (simp add: ring_contents_def empty_broadcaster_def)

lemma ring_push_simps [simp]:
  "b_subs (ring_push m b) = b_subs b" "b_terminal (ring_push m b) = b_terminal b"
  by (auto simp: ring_push_def Let_def)

lemma ring_ok_push: "ring_ok b \<Longrightarrow> ring_ok (ring_push m b)"
  using bufSize_pos by (auto simp: ring_ok_def ring_push_def Let_def)

lemma ring_contents_push:
  assumes "ring_ok b"
  shows "ring_contents (ring_push m b) = last_n bufSize (ring_contents b @ [m])"
proof (cases "b_count b < bufSize")
  case True
  with assms have "b_head b = 0" "length (b_buf b) = bufSize" by (auto simp: ring_ok_def)
  with True show ?thesis
    by (auto simp: ring_contents_def ring_push_def Let_def last_n_def)
next
  case False
  with assms have c: "b_count b = bufSize" and l: "length (b_buf b) = bufSize" and hd: "b_head b < bufSize"
    by (auto simp: ring_ok_def)
  let ?h = "b_head b"
  have idx: "(?h + bufSize) mod bufSize = ?h" using hd by simp
  have "ring_contents (ring_push m b) =
      map (\<lambda>i. ((b_buf b)[?h := m]) ! ((Suc ?h + i) mod bufSize)) [0..<bufSize]"
    using c idx by (simp add: ring_contents_def ring_push_def Let_def mod_simps)
  also have "\<dots> = map (\<lambda>i. b_buf b ! ((?h + i) mod bufSize)) [1..<bufSize] @ [m]"
  proof (rule nth_equalityI, goal_cases)
    case 1 then show ?case using bufSize_pos by simp
  next
    case (2 i)
    then have i: "i < bufSize" by simp
    show ?case
    proof (cases "i = bufSize - 1")
      case True
      then have "(Suc ?h + i) mod bufSize = ?h" using hd bufSize_pos by simp
      with True l hd show ?thesis by (simp add: nth_append)
    next
      case False
      with i have "Suc i < bufSize" by simp
      then have "(?h + Suc i) mod bufSize \<noteq> ?h"
        using hd by (auto simp: mod_if)
      with \<open>Suc i < bufSize\<close> l show ?thesis by (simp add: nth_append)
    qed
  qed
  also have "\<dots> = last_n bufSize (ring_contents b @ [m])"
    using c bufSize_pos by (simp add: ring_contents_def last_n_def drop_map)
  finally show ?thesis .
qed

lemma ring_contents_fold:
  "ring_ok b \<Longrightarrow> ring_contents (fold ring_push ms b) = last_n bufSize (ring_contents b @ ms)"
proof (induction ms arbitrary: b)
  case Nil then show ?case by (simp add: last_n_short ring_ok_def)
next
  case (Cons m ms)
  from ring_ok_push [OF Cons.prems]
  have "ring_contents (fold ring_push (m # ms) b) = last_n bufSize (last_n bufSize (ring_contents b @ [m]) @ ms)"
    using Cons.prems by (simp add: Cons.IH ring_contents_push)
  also have "\<dots> = last_n bufSize (ring_contents b @ m # ms)"
    by (simp add: last_n_last_n_append)
  finally show ?case by simp
qed

lemma latest_is_last:
  assumes "ring_ok b"
  shows "latest b = (if ring_contents b = [] then None else Some (last (ring_contents b)))"
proof (cases "b_count b")
  case 0 then show ?thesis by (simp add: latest_def ring_contents_def)
next
  case (Suc n)
  then have "ring_contents b = map (\<lambda>i. b_buf b ! ((b_head b + i) mod bufSize)) [0..<n] @
      [b_buf b ! ((b_head b + n) mod bufSize)]"
    by (simp add: ring_contents_def)
  with Suc show ?thesis by (simp add: latest_def)
qed

lemma ring_ok_fold: "ring_ok b \<Longrightarrow> ring_ok (fold ring_push ms b)"
  by (induction ms arbitrary: b) (simp_all add: ring_ok_push)

lemma latest_subs [simp]: "latest (b\<lparr>b_subs := a\<rparr>) = latest b"
  by (simp add: latest_def)

lemma last_last_n: "xs \<noteq> [] \<Longrightarrow> 0 < n \<Longrightarrow> last_n n xs \<noteq> [] \<and> last (last_n n xs) = last xs"
  by (cases xs rule: rev_cases) (simp_all add: last_n_def)

section \<open>No operation panics, and no replay blocks\<close>

definition chan_open :: "hub \<Rightarrow> nat \<Rightarrow> bool" where
  "chan_open h ch \<longleftrightarrow> ch < h_nc h \<and> \<not> c_closed (h_chans h ch)"

definition hub_inv :: "hub \<Rightarrow> bool" where
  "hub_inv h \<longleftrightarrow> \<not> h_panic h
     \<and> (\<forall>b < h_nb h. ring_ok (h_bcs h b) \<and> distinct (b_subs (h_bcs h b))
          \<and> (b_terminal (h_bcs h b) \<noteq> None \<longrightarrow> b_subs (h_bcs h b) = []))
     \<and> (\<forall>b < h_nb h. \<forall>ch \<in> set (b_subs (h_bcs h b)). chan_open h ch)
     \<and> (\<forall>b < h_nb h. \<forall>b' < h_nb h. \<forall>ch \<in> set (b_subs (h_bcs h b)).
          ch \<in> set (b_subs (h_bcs h b')) \<longrightarrow> b = b')
     \<and> (\<forall>ch < h_nc h. length (c_buf (h_chans h ch)) \<le> subChanCap)
     \<and> (\<forall>r b. h_runs h r = Some b \<longrightarrow> b < h_nb h)"

lemma hub_invI:
  assumes "\<not> h_panic h"
    and "\<And>b. b < h_nb h \<Longrightarrow> ring_ok (h_bcs h b) \<and> distinct (b_subs (h_bcs h b))
          \<and> (b_terminal (h_bcs h b) \<noteq> None \<longrightarrow> b_subs (h_bcs h b) = [])"
    and "\<And>b ch. b < h_nb h \<Longrightarrow> ch \<in> set (b_subs (h_bcs h b)) \<Longrightarrow> chan_open h ch"
    and "\<And>b b' ch. b < h_nb h \<Longrightarrow> b' < h_nb h \<Longrightarrow> ch \<in> set (b_subs (h_bcs h b)) \<Longrightarrow>
          ch \<in> set (b_subs (h_bcs h b')) \<Longrightarrow> b = b'"
    and "\<And>ch. ch < h_nc h \<Longrightarrow> length (c_buf (h_chans h ch)) \<le> subChanCap"
    and "\<And>r b. h_runs h r = Some b \<Longrightarrow> b < h_nb h"
  shows "hub_inv h"
  using assms unfolding hub_inv_def by blast

lemma hub_inv_disjD:
  "hub_inv h \<Longrightarrow> b < h_nb h \<Longrightarrow> b' < h_nb h \<Longrightarrow> ch \<in> set (b_subs (h_bcs h b)) \<Longrightarrow>
   ch \<in> set (b_subs (h_bcs h b')) \<Longrightarrow> b = b'"
  unfolding hub_inv_def by blast

text \<open>What a loop over channels leaves of the rest of the hub.\<close>

definition same_frame :: "hub \<Rightarrow> hub \<Rightarrow> bool" where
  "same_frame h h' \<longleftrightarrow> h_panic h' = h_panic h \<and> h_bcs h' = h_bcs h \<and> h_nb h' = h_nb h
     \<and> h_nc h' = h_nc h \<and> h_runs h' = h_runs h
     \<and> ((\<forall>ch < h_nc h. length (c_buf (h_chans h ch)) \<le> subChanCap) \<longrightarrow>
        (\<forall>ch < h_nc h. length (c_buf (h_chans h' ch)) \<le> subChanCap))"

lemma same_frame_refl [simp]: "same_frame h h"
  by (simp add: same_frame_def)

lemma same_frame_trans: "same_frame h1 h2 \<Longrightarrow> same_frame h2 h3 \<Longrightarrow> same_frame h1 h3"
  by (simp add: same_frame_def)

lemma try_send_frame: "chan_open h ch \<Longrightarrow> same_frame h (snd (try_send ch e h))"
  by (auto simp: try_send_def chan_open_def same_frame_def Let_def)

lemma try_send_other: "ch' \<noteq> ch \<Longrightarrow> h_chans (snd (try_send ch e h)) ch' = h_chans h ch'"
  by (auto simp: try_send_def Let_def)

lemma try_send_open: "chan_open h ch \<Longrightarrow> chan_open (snd (try_send ch e h)) ch"
  by (auto simp: try_send_def chan_open_def Let_def)

lemma close_chan_frame: "chan_open h ch \<Longrightarrow> same_frame h (close_chan ch h)"
  by (auto simp: close_chan_def chan_open_def same_frame_def Let_def)

lemma close_chan_other: "ch' \<noteq> ch \<Longrightarrow> h_chans (close_chan ch h) ch' = h_chans h ch'"
  by (auto simp: close_chan_def Let_def)

lemma chan_open_cong:
  "h_chans h' ch = h_chans h ch \<Longrightarrow> h_nc h' = h_nc h \<Longrightarrow> chan_open h' ch = chan_open h ch"
  by (simp add: chan_open_def)

lemma fan_out_spec:
  assumes "fan_out e chs h = (alive, h')" and "distinct chs" and "\<forall>ch \<in> set chs. chan_open h ch"
  shows "same_frame h h' \<and> set alive \<subseteq> set chs \<and> distinct alive \<and> (\<forall>ch \<in> set alive. chan_open h' ch)
     \<and> (\<forall>ch. ch \<notin> set chs \<longrightarrow> h_chans h' ch = h_chans h ch)"
  using assms
proof (induction chs arbitrary: h alive h')
  case Nil then show ?case by simp
next
  case (Cons c chs)
  obtain sent h1 where ts: "try_send c e h = (sent, h1)" by (cases "try_send c e h") auto
  define h2 where "h2 = (if sent then h1 else close_chan c h1)"
  obtain al h3 where fo: "fan_out e chs h2 = (al, h3)" by (cases "fan_out e chs h2") auto
  have res: "alive = (if sent then c # al else al)" "h' = h3"
    using Cons.prems(1) ts fo by (auto simp: h2_def Let_def)
  have c_open: "chan_open h c" using Cons.prems(3) by simp
  have h1: "same_frame h h1" "chan_open h1 c"
    using try_send_frame [OF c_open, of e] try_send_open [OF c_open, of e] ts by auto
  then have f2: "same_frame h h2"
    using close_chan_frame [of h1 c] by (auto simp: h2_def intro: same_frame_trans)
  have other: "h_chans h2 ch = h_chans h ch" if "ch \<noteq> c" for ch
    using that try_send_other [OF that, of e h] ts by (auto simp: h2_def close_chan_other)
  have nc: "h_nc h2 = h_nc h" using f2 by (simp add: same_frame_def)
  have "\<forall>ch \<in> set chs. chan_open h2 ch"
    using Cons.prems(2,3) other nc by (metis chan_open_cong distinct.simps(2) list.set_intros(2))
  with Cons.IH [OF fo] Cons.prems(2) have ih: "same_frame h2 h3 \<and> set al \<subseteq> set chs \<and> distinct al
      \<and> (\<forall>ch \<in> set al. chan_open h3 ch) \<and> (\<forall>ch. ch \<notin> set chs \<longrightarrow> h_chans h3 ch = h_chans h2 ch)" by simp
  have "chan_open h3 c" if sent
    using ih h1(2) that Cons.prems(2) by (auto simp: h2_def same_frame_def intro: chan_open_cong [THEN iffD2])
  with ih f2 other res Cons.prems(2) show ?case
    by (auto intro: same_frame_trans)
qed

lemma close_all_spec:
  assumes "distinct chs" and "\<forall>ch \<in> set chs. chan_open h ch"
  shows "same_frame h (close_all e chs h) \<and> (\<forall>ch \<in> set chs. c_closed (h_chans (close_all e chs h) ch))
     \<and> (\<forall>ch. ch \<notin> set chs \<longrightarrow> h_chans (close_all e chs h) ch = h_chans h ch)"
  using assms
proof (induction chs arbitrary: h)
  case Nil then show ?case by simp
next
  case (Cons c chs)
  define h1 where "h1 = snd (try_send c e h)"
  define h2 where "h2 = close_chan c h1"
  have c_open: "chan_open h c" using Cons.prems(2) by simp
  have o1: "chan_open h1 c" using try_send_open [OF c_open] by (simp add: h1_def)
  have f2: "same_frame h h2"
    using try_send_frame [OF c_open, of e] close_chan_frame [OF o1]
    by (auto simp: h1_def h2_def intro: same_frame_trans)
  have cl: "c_closed (h_chans h2 c)" using o1 by (simp add: h2_def close_chan_def chan_open_def Let_def)
  have other: "h_chans h2 ch = h_chans h ch" if "ch \<noteq> c" for ch
    using that by (simp add: h2_def h1_def close_chan_other try_send_other)
  have "\<forall>ch \<in> set chs. chan_open h2 ch"
    using Cons.prems other f2 by (metis chan_open_cong distinct.simps(2) list.set_intros(2) same_frame_def)
  from Cons.IH [OF _ this] Cons.prems(1) f2 cl other show ?case
    by (auto simp: h1_def h2_def intro: same_frame_trans)
qed

lemma blocking_sends_fit:
  "length (c_buf c) + length es \<le> subChanCap \<Longrightarrow>
   blocking_sends es c = Some (c\<lparr>c_buf := c_buf c @ es\<rparr>)"
  by (induction es arbitrary: c) (auto simp: blocking_send_def)

lemma hub_inv_NewHub: "hub_inv NewHub"
  by (simp add: hub_inv_def NewHub_def)

lemma broadcaster_inv:
  assumes "hub_inv h" and "broadcaster r h = (b, h')"
  shows "hub_inv h' \<and> b < h_nb h' \<and> h_runs h' r = Some b"
  using assms by (auto simp: hub_inv_def broadcaster_def chan_open_def less_Suc_eq empty_broadcaster_def
      ring_ok_def bufSize_def split: option.splits if_splits
      dest: hub_inv_disjD [OF assms(1)])

lemma publish_inv:
  assumes inv: "hub_inv h" and b: "b < h_nb h"
  shows "hub_inv (publish b msg h)"
proof -
  define h1 where "h1 = h\<lparr>h_bcs := (h_bcs h)(b := ring_push msg (h_bcs h b))\<rparr>"
  obtain alive h2 where fo: "fan_out (Progress msg) (b_subs (h_bcs h1 b)) h1 = (alive, h2)"
    by (cases "fan_out (Progress msg) (b_subs (h_bcs h1 b)) h1") auto
  have "distinct (b_subs (h_bcs h1 b))" "\<forall>ch \<in> set (b_subs (h_bcs h1 b)). chan_open h1 ch"
    using inv b by (auto simp: hub_inv_def h1_def chan_open_def)
  from fan_out_spec [OF fo this] have spec: "same_frame h1 h2" "set alive \<subseteq> set (b_subs (h_bcs h b))"
      "distinct alive" "\<forall>ch \<in> set alive. chan_open h2 ch"
      "\<And>ch. ch \<notin> set (b_subs (h_bcs h b)) \<Longrightarrow> h_chans h2 ch = h_chans h ch"
    by (auto simp: h1_def)
  have frame: "h_panic h2 = h_panic h" "h_nb h2 = h_nb h" "h_nc h2 = h_nc h" "h_runs h2 = h_runs h"
      "h_bcs h2 = (h_bcs h)(b := ring_push msg (h_bcs h b))"
      "\<forall>ch < h_nc h. length (c_buf (h_chans h2 ch)) \<le> subChanCap"
    using spec(1) inv by (auto simp: same_frame_def h1_def hub_inv_def)
  have others: "chan_open h2 ch" if "b' < h_nb h" "b' \<noteq> b" "ch \<in> set (b_subs (h_bcs h b'))" for b' ch
  proof -
    have "ch \<notin> set (b_subs (h_bcs h b))" using hub_inv_disjD [OF inv b that(1)] that by blast
    with spec(5) frame(3) have "chan_open h2 ch = chan_open h ch" by (intro chan_open_cong) auto
    with inv that show ?thesis by (auto simp: hub_inv_def)
  qed
  have res: "publish b msg h = h2\<lparr>h_bcs := (h_bcs h2)(b := (h_bcs h2 b)\<lparr>b_subs := alive\<rparr>)\<rparr>"
    using fo by (simp add: publish_def h1_def Let_def)
  have open_iff: "chan_open (h2\<lparr>h_bcs := f\<rparr>) = chan_open h2" for f by (simp add: chan_open_def fun_eq_iff)
  have ring: "ring_ok (ring_push msg (h_bcs h b)\<lparr>b_subs := alive\<rparr>)"
    using ring_ok_push [of "h_bcs h b" msg] inv b by (simp add: hub_inv_def ring_ok_def)
  have trm: "b_terminal (h_bcs h b) \<noteq> None \<longrightarrow> alive = []" using inv b spec(2) by (auto simp: hub_inv_def)
  have disj: "set alive \<inter> set (b_subs (h_bcs h b')) = {}" if "b' < h_nb h" "b' \<noteq> b" for b'
    using inv b that spec(2) unfolding hub_inv_def by blast
  have subs: "b_subs (h_bcs (publish b msg h) b') = (if b' = b then alive else b_subs (h_bcs h b'))" for b'
    by (simp add: res frame(5))
  have op: "chan_open (publish b msg h) = chan_open h2" unfolding res by (rule open_iff)
  show ?thesis
  proof (rule hub_invI)
    show "\<not> h_panic (publish b msg h)" using inv frame(1) by (simp add: res hub_inv_def)
  next
    fix b' assume "b' < h_nb (publish b msg h)"
    then show "ring_ok (h_bcs (publish b msg h) b') \<and> distinct (b_subs (h_bcs (publish b msg h) b')) \<and>
        (b_terminal (h_bcs (publish b msg h) b') \<noteq> None \<longrightarrow> b_subs (h_bcs (publish b msg h) b') = [])"
      using inv frame(2,5) ring trm spec(3) by (cases "b' = b") (simp_all add: res hub_inv_def)
  next
    fix b' ch assume "b' < h_nb (publish b msg h)" "ch \<in> set (b_subs (h_bcs (publish b msg h) b'))"
    then show "chan_open (publish b msg h) ch"
      using spec(4) others [of b' ch] frame(2) by (cases "b' = b") (simp_all only: subs op, simp_all add: res)
  next
    fix b1 b2 ch assume "b1 < h_nb (publish b msg h)" "b2 < h_nb (publish b msg h)"
      "ch \<in> set (b_subs (h_bcs (publish b msg h) b1))" "ch \<in> set (b_subs (h_bcs (publish b msg h) b2))"
    then have "b1 < h_nb h" "b2 < h_nb h" "ch \<in> set (b_subs (h_bcs h b1))" "ch \<in> set (b_subs (h_bcs h b2))"
      using frame(2) spec(2) by (auto simp: subs split: if_splits) (simp_all add: res)
    then show "b1 = b2" by (rule hub_inv_disjD [OF inv])
  next
    fix ch assume "ch < h_nc (publish b msg h)"
    then show "length (c_buf (h_chans (publish b msg h) ch)) \<le> subChanCap"
      using frame(3,6) by (simp add: res)
  next
    fix r b' assume "h_runs (publish b msg h) r = Some b'"
    then show "b' < h_nb (publish b msg h)" using inv frame(2,4) by (simp add: res hub_inv_def)
  qed
qed

lemma subscribe_inv:
  assumes inv: "hub_inv h" and b: "b < h_nb h"
  shows "\<exists>ch u h'. subscribe b h = Some ((ch, u), h') \<and> hub_inv h' \<and> ch < h_nc h'"
proof (cases "b_terminal (h_bcs h b)")
  case (Some t)
  with inv b show ?thesis
    by (auto simp: subscribe_def Let_def blocking_send_def subChanCap_def hub_inv_def chan_open_def less_Suc_eq)
next
  case None
  let ?c = "\<lparr>c_buf = map Progress (ring_contents (h_bcs h b)), c_closed = False\<rparr>"
  have len: "b_count (h_bcs h b) \<le> bufSize" using inv b by (auto simp: hub_inv_def ring_ok_def)
  then have "blocking_sends (map Progress (ring_contents (h_bcs h b))) \<lparr>c_buf = [], c_closed = False\<rparr> = Some ?c"
    using blocking_sends_fit [of "\<lparr>c_buf = [], c_closed = False\<rparr>" "map Progress (ring_contents (h_bcs h b))"]
    by (simp add: bufSize_def subChanCap_def)
  moreover have "h_nc h \<notin> set (b_subs (h_bcs h b'))" if "b' < h_nb h" for b'
    using inv that unfolding hub_inv_def chan_open_def by blast
  ultimately show ?thesis using None inv b len
    by (auto simp: subscribe_def Let_def hub_inv_def chan_open_def less_Suc_eq ring_ok_def bufSize_def subChanCap_def
        dest: hub_inv_disjD [OF inv])
qed

lemma unsubscribe_inv:
  assumes inv: "hub_inv h" and u: "case u of NoUnsub \<Rightarrow> True | Unsub b ch \<Rightarrow> b < h_nb h"
  shows "hub_inv (unsubscribe u h)"
proof (cases u)
  case NoUnsub then show ?thesis using inv by (simp add: unsubscribe_def)
next
  case (Unsub b ch)
  show ?thesis
  proof (cases "ch \<in> set (b_subs (h_bcs h b))")
    case False then show ?thesis using inv Unsub by (simp add: unsubscribe_def)
  next
    case True
    have b: "b < h_nb h" using u Unsub by simp
    have op: "chan_open h ch" using inv b True by (auto simp: hub_inv_def)
    have "ch \<notin> set (b_subs (h_bcs h b'))" if "b' < h_nb h" "b' \<noteq> b" for b'
      using inv b True that unfolding hub_inv_def by blast
    then show ?thesis using inv b True op Unsub
      by (auto simp: unsubscribe_def close_chan_def Let_def hub_inv_def chan_open_def ring_ok_def
          distinct_remove1 dest: notin_set_remove1 hub_inv_disjD [OF inv])
  qed
qed

lemma complete_b_inv:
  assumes inv: "hub_inv h" and b: "b < h_nb h"
  shows "hub_inv (complete_b b evt h)"
proof (cases "b_terminal (h_bcs h b)")
  case (Some t) then show ?thesis using inv by (simp add: complete_b_def)
next
  case None
  define h1 where "h1 = h\<lparr>h_bcs := (h_bcs h)(b := (h_bcs h b)\<lparr>b_terminal := Some evt\<rparr>)\<rparr>"
  define h2 where "h2 = close_all (Terminal evt) (b_subs (h_bcs h b)) h1"
  have "distinct (b_subs (h_bcs h b))" "\<forall>ch \<in> set (b_subs (h_bcs h b)). chan_open h1 ch"
    using inv b by (auto simp: hub_inv_def h1_def chan_open_def)
  from close_all_spec [OF this] have spec: "same_frame h1 h2"
      "\<And>ch. ch \<notin> set (b_subs (h_bcs h b)) \<Longrightarrow> h_chans h2 ch = h_chans h ch"
    by (auto simp: h1_def h2_def)
  have frame: "h_panic h2 = h_panic h" "h_nb h2 = h_nb h" "h_nc h2 = h_nc h" "h_runs h2 = h_runs h"
      "h_bcs h2 = (h_bcs h)(b := (h_bcs h b)\<lparr>b_terminal := Some evt\<rparr>)"
      "\<forall>ch < h_nc h. length (c_buf (h_chans h2 ch)) \<le> subChanCap"
    using spec(1) inv by (auto simp: same_frame_def h1_def hub_inv_def)
  have others: "chan_open h2 ch" if "b' < h_nb h" "b' \<noteq> b" "ch \<in> set (b_subs (h_bcs h b'))" for b' ch
  proof -
    have "ch \<notin> set (b_subs (h_bcs h b))" using hub_inv_disjD [OF inv b that(1)] that by blast
    with spec(2) frame(3) have "chan_open h2 ch = chan_open h ch" by (intro chan_open_cong) auto
    with inv that show ?thesis by (auto simp: hub_inv_def)
  qed
  have res: "complete_b b evt h = h2\<lparr>h_bcs := (h_bcs h2)(b := (h_bcs h2 b)\<lparr>b_subs := []\<rparr>)\<rparr>"
    using None by (simp add: complete_b_def h1_def h2_def Let_def)
  have open_iff: "chan_open (h2\<lparr>h_bcs := f\<rparr>) = chan_open h2" for f by (simp add: chan_open_def fun_eq_iff)
  show ?thesis unfolding res hub_inv_def open_iff
    using inv b frame others by (auto simp: hub_inv_def ring_ok_def dest: hub_inv_disjD [OF inv])
qed

lemma cleanup_inv: "hub_inv h \<Longrightarrow> hub_inv (cleanup r h)"
  by (auto simp: hub_inv_def cleanup_def chan_open_def)

lemma recv_inv: "hub_inv h \<Longrightarrow> hub_inv (snd (recv ch h))"
  by (cases "c_buf (h_chans h ch)") (auto simp: recv_def Let_def hub_inv_def chan_open_def)

text \<open>Every interleaving of the hub's operations (each runs under the mutexes of the hub and the broadcaster).\<close>

inductive hub_reach :: "hub \<Rightarrow> bool" where
  new_hub: "hub_reach NewHub"
| hub_publish: "hub_reach h \<Longrightarrow> hub_reach (Publish r msg h)"
| hub_subscribe: "hub_reach h \<Longrightarrow> Subscribe r h = Some (res, h') \<Longrightarrow> hub_reach h'"
| hub_unsubscribe: "hub_reach h \<Longrightarrow> b < h_nb h \<Longrightarrow> hub_reach (unsubscribe (Unsub b ch) h)"
| hub_complete: "hub_reach h \<Longrightarrow> hub_reach (Complete r st e h)"
| hub_cleanup: "hub_reach h \<Longrightarrow> hub_reach (cleanup r h)"
| hub_recv: "hub_reach h \<Longrightarrow> hub_reach (snd (recv ch h))"

lemma Publish_inv: "hub_inv h \<Longrightarrow> hub_inv (Publish r msg h)"
  by (auto simp: Publish_def split: prod.splits dest: broadcaster_inv intro: publish_inv)

lemma Complete_inv: "hub_inv h \<Longrightarrow> hub_inv (Complete r st e h)"
  by (auto simp: Complete_def split: prod.splits dest: broadcaster_inv intro: complete_b_inv)

lemma Subscribe_total:
  assumes "hub_inv h"
  obtains ch u h' where "Subscribe r h = Some ((ch, u), h')" "hub_inv h'" "ch < h_nc h'"
proof -
  obtain b h1 where b: "broadcaster r h = (b, h1)" by (cases "broadcaster r h") auto
  from broadcaster_inv [OF assms b] subscribe_inv [of h1 b] that show ?thesis
    by (auto simp: Subscribe_def b)
qed

lemma hub_reach_inv: "hub_reach h \<Longrightarrow> hub_inv h"
proof (induction rule: hub_reach.induct)
  case (hub_subscribe h r res h')
  then show ?case by (metis Subscribe_total option.inject prod.inject)
qed (auto intro: hub_inv_NewHub Publish_inv Complete_inv unsubscribe_inv cleanup_inv recv_inv)

subsection \<open>What a subscriber sees\<close>

lemma publish_frame [simp]:
  "h_runs (publish b msg h) = h_runs (snd (fan_out (Progress msg) (b_subs (h_bcs h b))
     (h\<lparr>h_bcs := (h_bcs h)(b := ring_push msg (h_bcs h b))\<rparr>)))"
  by (simp add: publish_def Let_def split: prod.splits)

lemma try_send_keeps [simp]: "h_bcs (snd (try_send ch e h)) = h_bcs h" "h_runs (snd (try_send ch e h)) = h_runs h"
  "h_nb (snd (try_send ch e h)) = h_nb h"
  by (auto simp: try_send_def Let_def)

lemma close_chan_keeps [simp]: "h_bcs (close_chan ch h) = h_bcs h" "h_runs (close_chan ch h) = h_runs h"
  "h_nb (close_chan ch h) = h_nb h"
  by (auto simp: close_chan_def Let_def)

lemma fan_out_keeps [simp]:
  "h_bcs (snd (fan_out e chs h)) = h_bcs h \<and> h_runs (snd (fan_out e chs h)) = h_runs h
   \<and> h_nb (snd (fan_out e chs h)) = h_nb h"
  by (induction chs arbitrary: h)
    (simp_all add: Let_def split_beta split: prod.splits)

lemma close_all_keeps [simp]: "h_bcs (close_all e chs h) = h_bcs h" "h_runs (close_all e chs h) = h_runs h"
  "h_nb (close_all e chs h) = h_nb h"
  by (induction chs arbitrary: h) simp_all

lemma publish_runs [simp]: "h_runs (publish b msg h) = h_runs h"
  by (simp del: publish_frame add: publish_def Let_def split_beta)

lemma publish_ring:
  "\<exists>alive. h_bcs (publish b msg h) b = (ring_push msg (h_bcs h b))\<lparr>b_subs := alive\<rparr>"
  by (simp add: publish_def Let_def split_beta) (metis runBroadcaster.surjective runBroadcaster.update_convs)

lemma ring_push_subs: "ring_push m (b\<lparr>b_subs := a\<rparr>) = (ring_push m b)\<lparr>b_subs := a\<rparr>"
  by (simp add: ring_push_def Let_def)

lemma ring_contents_subs [simp]: "ring_contents (b\<lparr>b_subs := a\<rparr>) = ring_contents b"
  by (simp add: ring_contents_def)

lemma Publish_fold_ring:
  assumes "h_runs h r = Some b"
  shows "\<exists>a. h_bcs (fold (Publish r) ms h) b = (fold ring_push ms (h_bcs h b))\<lparr>b_subs := a\<rparr>
     \<and> h_runs (fold (Publish r) ms h) r = Some b"
  using assms
proof (induction ms arbitrary: h)
  case Nil then show ?case by (metis fold_simps(1) runBroadcaster.surjective runBroadcaster.update_convs(4))
next
  case (Cons m ms)
  have P: "Publish r m h = publish b m h" using Cons.prems by (simp add: Publish_def broadcaster_def)
  obtain al where al: "h_bcs (publish b m h) b = (ring_push m (h_bcs h b))\<lparr>b_subs := al\<rparr>"
    using publish_ring by blast
  have push: "fold ring_push ms (x\<lparr>b_subs := a\<rparr>) = (fold ring_push ms x)\<lparr>b_subs := a\<rparr>" for x a
    by (induction ms arbitrary: x) (simp_all add: ring_push_subs)
  from Cons.IH [of "publish b m h"] Cons.prems show ?case
    by (simp add: P al push del: publish_frame)
qed

lemma broadcaster_again:
  "broadcaster r h = (b, h1) \<Longrightarrow> h_runs h1 r = Some b \<and> broadcaster r h1 = (b, h1)"
  by (auto simp: broadcaster_def split: option.splits)

lemma broadcaster_Some [simp]: "h_runs h r = Some b \<Longrightarrow> broadcaster r h = (b, h)"
  by (simp add: broadcaster_def)

lemma fold_ring_push_terminal [simp]: "b_terminal (fold ring_push ms b) = b_terminal b"
  by (induction ms arbitrary: b) simp_all

lemma fold_Publish_inv: "hub_inv h \<Longrightarrow> hub_inv (fold (Publish r) ms h)"
  by (induction ms arbitrary: h) (auto intro: Publish_inv)

text \<open>After \<open>ms\<close> were published for a run of a new hub, its broadcaster holds them.\<close>

lemma fresh_run_state:
  "\<exists>b h1 a. broadcaster r (fold (Publish r) ms NewHub) = (b, h1) \<and> hub_inv h1 \<and> b < h_nb h1
     \<and> h_bcs h1 b = (fold ring_push ms empty_broadcaster)\<lparr>b_subs := a\<rparr>
     \<and> (ms \<noteq> [] \<longrightarrow> h1 = fold (Publish r) ms NewHub)"
proof (cases ms)
  case Nil
  have "hub_inv (snd (broadcaster r NewHub)) \<and> fst (broadcaster r NewHub) < h_nb (snd (broadcaster r NewHub))"
    using broadcaster_inv [OF hub_inv_NewHub, of r] by (metis prod.collapse)
  then show ?thesis using Nil
    by (auto simp: broadcaster_def NewHub_def empty_broadcaster_def intro!: exI [of _ "[]"])
next
  case (Cons m ms')
  obtain b h0 where b: "broadcaster r NewHub = (b, h0)" by (cases "broadcaster r NewHub") auto
  have h0: "h_runs h0 r = Some b" and e: "h_bcs h0 b = empty_broadcaster"
    using b by (auto simp: broadcaster_def NewHub_def)
  have step: "fold (Publish r) ms NewHub = fold (Publish r) ms h0"
    using h0 by (simp add: Cons Publish_def b)
  let ?h = "fold (Publish r) ms NewHub"
  obtain a where a: "h_bcs ?h b = (fold ring_push ms empty_broadcaster)\<lparr>b_subs := a\<rparr>" "h_runs ?h r = Some b"
    using Publish_fold_ring [OF h0, of ms] by (auto simp: e step)
  have inv: "hub_inv ?h" by (intro fold_Publish_inv hub_inv_NewHub)
  then have "b < h_nb ?h" using a(2) by (auto simp: hub_inv_def)
  with a inv show ?thesis by (auto simp del: fold_simps)
qed

text \<open>
  C9. No interleaving of hub operations makes Go panic (no send on a closed channel, no second
  close), and a subscriber never blocks in the replay loop: \<open>Subscribe\<close> always returns.
\<close>

theorem hub_never_panics:
  assumes "hub_reach h"
  shows "\<not> h_panic h \<and> (\<exists>ch u h'. Subscribe r h = Some ((ch, u), h') \<and> \<not> h_panic h')"
proof -
  from assms have inv: "hub_inv h" by (rule hub_reach_inv)
  obtain ch u h' where "Subscribe r h = Some ((ch, u), h')" "hub_inv h'"
    using Subscribe_total [OF inv] by metis
  with inv show ?thesis by (auto simp: hub_inv_def)
qed

theorem hub_never_panics_witness:
  "\<not> h_panic (Complete 1 ''success'' '''' (Publish 1 zero_message NewHub))"
  using hub_never_panics [OF hub_complete [OF hub_publish [OF new_hub]]] by blast


text \<open>
  How the bytes of stdout are cut into writes does not matter: two writes have the effect of
  one write of the concatenation, for the buffered rest and for the published messages.
\<close>

lemma write_chunks: "Write parse r q (Write parse r p st) = Write parse r (p @ q) st"
proof -
  have "(case write_lines parse r buf h of (rest, h') \<Rightarrow> write_lines parse r (rest @ q) h')
      = write_lines parse r (buf @ q) h" for buf h
  proof (induction parse r buf h rule: write_lines.induct)
    case (1 parse r buf h)
    show ?case
    proof (cases "newline \<in> set buf")
      case False then show ?thesis by (subst write_lines.simps) simp
    next
      case True
      then have "dropWhile (\<lambda>c. c \<noteq> newline) buf \<noteq> []" by (auto simp: dropWhile_eq_Nil_conv)
      with True have cut: "takeWhile (\<lambda>c. c \<noteq> newline) (buf @ q) = takeWhile (\<lambda>c. c \<noteq> newline) buf"
          "tl (dropWhile (\<lambda>c. c \<noteq> newline) (buf @ q)) = tl (dropWhile (\<lambda>c. c \<noteq> newline) buf) @ q"
        by (auto simp: takeWhile_append1 dropWhile_append1)
      from True 1 show ?thesis
        by (subst write_lines.simps [of _ _ buf], subst write_lines.simps [of _ _ "buf @ q"]) (simp add: cut)
    qed
  qed
  then show ?thesis by (simp add: Write_def split: prod.splits)
qed

text \<open>
  The first completion of a run wins: a second \<open>Complete\<close>, or any later one before the
  clean-up, changes nothing, and the subscribers that come later get the first terminal event
  on a closed channel.
\<close>

lemma complete_once:
  assumes "h_runs h r = Some b" and "b_terminal (h_bcs h b) = None"
  shows "Complete r st2 e2 (Complete r st e h) = Complete r st e h
    \<and> (\<exists>ch h'. Subscribe r (Complete r st e h) = Some ((ch, NoUnsub), h')
         \<and> h_chans h' ch = \<lparr>c_buf = [Terminal \<lparr>t_Status = st, t_Error = e\<rparr>], c_closed = True\<rparr>)"
proof -
  have C: "Complete r st e h = complete_b b \<lparr>t_Status = st, t_Error = e\<rparr> h" using assms by (simp add: Complete_def)
  have R: "h_runs (Complete r st e h) r = Some b" and
    T: "b_terminal (h_bcs (Complete r st e h) b) = Some \<lparr>t_Status = st, t_Error = e\<rparr>"
    using assms by (auto simp: C complete_b_def Let_def)
  show ?thesis
  proof
    show "Complete r st2 e2 (Complete r st e h) = Complete r st e h"
      unfolding Complete_def [of r st2] using R T by (simp add: complete_b_def)
    show "\<exists>ch h'. Subscribe r (Complete r st e h) = Some ((ch, NoUnsub), h')
         \<and> h_chans h' ch = \<lparr>c_buf = [Terminal \<lparr>t_Status = st, t_Error = e\<rparr>], c_closed = True\<rparr>"
      using R T by (simp add: Subscribe_def subscribe_def Let_def blocking_send_def subChanCap_def)
  qed
qed

end
