(* ===== verification/Schema.thy ===== *)
theory Schema
  imports Dates Json Hub
begin

text \<open>
  The data of pv-api: the rows of the Postgres tables (\<open>sql/migrations\<close>) as the Go structs
  \<open>Portfolio\<close>, \<open>Run\<close>, \<open>Alert\<close> and \<open>Strategy\<close>, the errors and their sentinels, and the state
  \<open>world\<close> that the components share: the tables, the dispatcher's channel, the files under the
  snapshots directory, the progress hub and the response of the current request.

  A UUID made by Postgres' \<open>uuidv7()\<close> is a natural number: the ids increase in the order in
  which they are made, and 0 is \<open>uuid.Nil\<close>. An instant is the number of microseconds since the
  Unix epoch, Postgres' resolution.
\<close>

type_synonym instant = int

subsection \<open>Errors\<close>

text \<open>
  A Go error is its chain of sentinels (what \<open>errors.Is\<close> finds) and its text.
  \<open>fmt.Errorf("ctx: %w", err)\<close> keeps the chain and extends the text.
\<close>

datatype sentinel =
    ErrNotFound | ErrDuplicateSlug | ErrQueueFull | ErrRunInFlight
  | ErrStrategyNotReady | ErrStrategyVersionMismatch | ErrUnknownParameter | ErrMissingParameter
  | ErrInvalidStrategyDescribe | ErrInvalidDate | ErrEndBeforeStart | ErrImmutableField
  | ErrInvalidRunRetention | ErrNoSubject | ErrSnapshotNotFound | NotFoundSentinel
  | ErrAlreadyRunning | ErrTimedOut | ErrStrategyNotInstalled | ErrNonCanonicalSnapshotPath
  | DeadlineExceeded | Canceled | StrategyErrNotFound | AlertErrNotFound
  | BacktestErrQueueFull | ErrSnapshotsDirRequired | ErrInvalidConcurrency | ErrUnsupportedRunnerMode
  | ErrInvalidTickInterval | ErrInvalidBatchSize | ErrEmailNotConfigured | ErrInvalidUnsubscribeToken | ErrUnexpectedStatus
  | ErrInvalidRefreshTime | ErrNoInstalledArtifact | ErrInvalidCloneURL
  | SnapErrNotFound | ErrZeroV0 | ErrResidualCheck | ErrRunnerFailed | ErrArtifactKindMismatch | ErrDockerBuildFailed | ErrDockerClientNil
  | ErrDescribeNonZeroExit | ErrInstallMissingFields | ErrNoTagsFound | ErrRegistrySyncInterval | ErrRegistryOfficialDir | ErrRegistryGitHubOwner
  | ErrInvalidToken | ErrAuthConfigIncomplete | ApiErrNotFound | ErrConflict | ErrInvalidParams | ErrNotImplemented

datatype error = Error (err_chain: "sentinel list") (err_text: string)

definition errors_Is :: "error \<Rightarrow> sentinel \<Rightarrow> bool" where
  "errors_Is e s \<longleftrightarrow> s \<in> set (err_chain e)"

definition wrap :: "string \<Rightarrow> error \<Rightarrow> error" where
  "wrap ctx e = Error (err_chain e) (ctx @ '': '' @ err_text e)"

lemma errors_Is_wrap [simp]: "errors_Is (wrap ctx e) s = errors_Is e s"
  by (simp add: errors_Is_def wrap_def)

lemma errors_Is_Error [simp]: "errors_Is (Error ss t) s \<longleftrightarrow> s \<in> set ss"
  by (simp add: errors_Is_def)

type_synonym 'a result = "error + 'a"

subsection \<open>Strategies (strategy/types.go)\<close>

text \<open>The bytes of a JSON column: absent or empty, not JSON, or a document.\<close>

datatype rawjson = RawEmpty | RawBad | RawDoc json

record DescribeParameter =
  dp_Name :: string
  dp_Type :: string
  dp_Default :: "json option"
  dp_Description :: string

record DescribePreset =
  ds_Name :: string
  ds_Parameters :: params

record Describe =
  d_ShortCode :: string
  d_Name :: string
  d_Description :: string
  d_Parameters :: "DescribeParameter list"
  d_Presets :: "DescribePreset list"
  d_Schedule :: string
  d_Benchmark :: string

datatype InstallState = InstallStatePending | InstallStateInstalling | InstallStateReady | InstallStateFailed

record StatsResult =
  sr_CAGR :: "float64 option"
  sr_MaxDrawdown :: "float64 option"
  sr_Sharpe :: "float64 option"
  sr_Sortino :: "float64 option"
  sr_UlcerIndex :: "float64 option"
  sr_Beta :: "float64 option"
  sr_Alpha :: "float64 option"
  sr_StdDev :: "float64 option"
  sr_TaxCostRatio :: "float64 option"
  sr_OneYearReturn :: "float64 option"
  sr_YtdReturn :: "float64 option"
  sr_BenchmarkYtdReturn :: "float64 option"
  sr_AsOf :: instant

text \<open>The twelve metric columns of a strategy are the fields of a \<open>StatsResult\<close>; a strategy row
  has them once \<open>stats_as_of\<close> is set.\<close>

record Strategy =
  s_ShortCode :: string
  s_RepoOwner :: string
  s_RepoName :: string
  s_CloneURL :: string
  s_IsOfficial :: bool
  s_OwnerSub :: "string option"
  s_Description :: "string option"
  s_Categories :: "string list"
  s_Stars :: "int option"
  s_InstalledVer :: "string option"
  s_InstalledAt :: "instant option"
  s_LastAttemptedVer :: "string option"
  s_InstallError :: "string option"
  s_ArtifactKind :: "string option"
  s_ArtifactRef :: "string option"
  s_DescribeJSON :: rawjson
  s_Stats :: "StatsResult option"
  s_StatsError :: "string option"
  s_DiscoveredAt :: instant
  s_UpdatedAt :: instant

definition DeriveInstallState :: "Strategy \<Rightarrow> InstallState" where
  "DeriveInstallState s =
     (if s_InstalledVer s \<noteq> None \<and> s_InstallError s = None then InstallStateReady
      else if s_InstallError s \<noteq> None then InstallStateFailed
      else if s_LastAttemptedVer s \<noteq> None then InstallStateInstalling
      else InstallStatePending)"

subsection \<open>Portfolios and runs (portfolio/types.go, portfolio/runs.go)\<close>

datatype Status = StatusPending | StatusRunning | StatusReady | StatusFailed

fun status_string :: "Status \<Rightarrow> string" where
  "status_string StatusPending = ''pending''"
| "status_string StatusRunning = ''running''"
| "status_string StatusReady = ''ready''"
| "status_string StatusFailed = ''failed''"

record Portfolio =
  p_ID :: uuid
  p_OwnerSub :: string
  p_Slug :: string
  p_Name :: string
  p_StrategyCode :: string
  p_StrategyVer :: "string option"
  p_StrategyCloneURL :: string
  p_StrategyDescribeJSON :: rawjson
  p_Parameters :: params
  p_PresetName :: "string option"
  p_Benchmark :: string
  p_StartDate :: "date option"
  p_EndDate :: "date option"
  p_Status :: Status
  p_LastRunAt :: "instant option"
  p_LastError :: "string option"
  p_SnapshotPath :: "string option"
  p_CurrentValue :: "float64 option"
  p_YtdReturn :: "float64 option"
  p_MaxDrawdown :: "float64 option"
  p_Sharpe :: "float64 option"
  p_CagrSinceInception :: "float64 option"
  p_InceptionDate :: "date option"
  p_CreatedAt :: instant
  p_UpdatedAt :: instant
  p_RunRetention :: int

record CreateRequest =
  cr_Name :: string
  cr_StrategyCode :: string
  cr_StrategyVer :: string
  cr_StrategyCloneURL :: string
  cr_Parameters :: params
  cr_Benchmark :: string
  cr_StartDate :: "date option"
  cr_EndDate :: "date option"
  cr_RunRetention :: "int option"

datatype run_status = RunQueued | RunRunning | RunSuccess | RunFailed

fun run_status_string :: "run_status \<Rightarrow> string" where
  "run_status_string RunQueued = ''queued''"
| "run_status_string RunRunning = ''running''"
| "run_status_string RunSuccess = ''success''"
| "run_status_string RunFailed = ''failed''"

datatype trigger = TriggerScheduled | TriggerManual

record Run =
  r_ID :: uuid
  r_PortfolioID :: uuid
  r_Status :: run_status
  r_StartedAt :: "instant option"
  r_FinishedAt :: "instant option"
  r_DurationMs :: "int option"
  r_Error :: "string option"
  r_SnapshotPath :: "string option"
  r_TriggeredBy :: trigger

definition in_flight :: "Run \<Rightarrow> bool" where
  "in_flight r \<longleftrightarrow> r_Status r = RunQueued \<or> r_Status r = RunRunning"

record Kpis =
  k_CurrentValue :: float64
  k_YtdReturn :: "float64 option"
  k_MaxDrawdown :: "float64 option"
  k_Sharpe :: "float64 option"
  k_Cagr :: "float64 option"
  k_InceptionDate :: date

record task =
  t_portfolioID :: uuid
  t_runID :: uuid
  t_scheduled :: bool

subsection \<open>Alerts (alert/alert.go)\<close>

record Alert =
  a_ID :: uuid
  a_PortfolioID :: uuid
  a_Frequency :: string
  a_Recipients :: "string list"
  a_LastSentAt :: "instant option"
  a_LastSentValue :: "float64 option"
  a_CreatedAt :: instant
  a_UpdatedAt :: instant

subsection \<open>Responses\<close>

record portfolioView =
  v_Slug :: string
  v_Name :: string
  v_Status :: string
  v_RunID :: "uuid option"
  v_StrategyCode :: string
  v_StrategyVer :: "string option"
  v_StrategyCloneURL :: string
  v_Parameters :: params
  v_PresetName :: "string option"
  v_Benchmark :: string
  v_StartDate :: "string option"
  v_EndDate :: "string option"
  v_CreatedAt :: string
  v_UpdatedAt :: string
  v_LastRunAt :: "string option"
  v_LastError :: "string option"
  v_RunRetention :: int
  v_CurrentValue :: "float64 option"
  v_YtdReturn :: "float64 option"
  v_MaxDrawDown :: "float64 option"
  v_Sharpe :: "float64 option"
  v_CagrSinceInception :: "float64 option"
  v_InceptionDate :: "string option"

record RunProgress =
  rp_Step :: int
  rp_TotalSteps :: int
  rp_Pct :: float64
  rp_ElapsedMs :: "int option"
  rp_EtaMs :: "int option"
  rp_Measurements :: "int option"
  rp_CurrentDate :: "date option"
  rp_TargetDate :: "date option"

record BacktestRun =
  br_Id :: uuid
  br_PortfolioSlug :: string
  br_Status :: run_status
  br_StartedAt :: "instant option"
  br_FinishedAt :: "instant option"
  br_DurationMs :: "int option"
  br_Error :: "string option"
  br_Progress :: "RunProgress option"

record ParameterRetype =
  rt_Name :: string
  rt_From :: string
  rt_To :: string

record ParameterDiff =
  pd_Kept :: "string list"
  pd_AddedWithDefault :: "string list"
  pd_AddedWithoutDefault :: "string list"
  pd_Removed :: "string list"
  pd_Retyped :: "ParameterRetype list"

record alertView =
  av_ID :: uuid
  av_PortfolioID :: uuid
  av_Frequency :: string
  av_Recipients :: "string list"
  av_LastSentAt :: "string option"

record strategyView =
  sv_ShortCode :: string
  sv_RepoOwner :: string
  sv_RepoName :: string
  sv_CloneURL :: string
  sv_IsOfficial :: bool
  sv_OwnerSub :: "string option"
  sv_Description :: "string option"
  sv_Categories :: "string list"
  sv_Stars :: "int option"
  sv_InstallState :: InstallState
  sv_InstalledVer :: "string option"
  sv_LastAttemptedVer :: "string option"
  sv_InstallError :: "string option"
  sv_InstalledAt :: "string option"
  sv_Describe :: "Describe option"
  sv_Stats :: "StatsResult option"

text \<open>Bodies of responses, by the type of the Go value that is marshalled.\<close>

datatype body =
    ProblemBody string nat string
      \<comment> \<open>title, status and detail of an RFC 7807 problem; its \<open>instance\<close> is the request's path\<close>
  | ErrorBody string
  | ViewBody portfolioView
  | ViewsBody "portfolioView list"
  | RunBody BacktestRun
  | RunsBody "BacktestRun list"
  | RecalculatingBody string uuid string
      \<comment> \<open>portfolio slug, run id and run status; the poll URL and the message follow from them\<close>
  | DataBody string
  | UpgradedBody string string "uuid option" bool
      \<comment> \<open>from version, to version, run id, and whether the in-flight note is there\<close>
  | AlreadyLatestBody string
  | IncompatibleBody string string "string list" "string list" "ParameterRetype list" params rawjson
  | AlertProblemBody string string
      \<comment> \<open>title and detail, as the alert handlers write them\<close>
  | AlertViewBody alertView
  | AlertViewsBody "alertView list"
  | StrategyViewBody strategyView
  | StrategyViewsBody "strategyView list"
  | DescribeBody Describe
  | TextBody string
  | HtmlBody string
  | StreamBody string
  | LiveBody nat
      \<comment> \<open>the events of a subscriber's channel, written as they come\<close>
  | NoBody

record response =
  rs_status :: nat
  rs_body :: body

text \<open>What a database call may do: succeed, fail without effect, or take effect although the
  client sees an error (the connection is lost after the commit).\<close>

datatype db_outcome = DbOk | DbLost | DbUnacked

text \<open>A message accepted by the mail service.\<close>

record mail =
  mail_to :: "string list"
  mail_subject :: string
  mail_html :: string
  mail_text :: string

record world =
  w_portfolios :: "Portfolio list"
  w_runs :: "Run list"
  w_alerts :: "Alert list"
  w_strategies :: "Strategy list"
  w_next :: uuid
  w_now :: instant
  w_outcomes :: "db_outcome list"
  w_tasks :: "task list"
  w_cap :: nat
  w_closed :: bool
  w_started :: bool
  w_files :: "string \<Rightarrow> string option"
  w_hub :: hub
  w_mails :: "mail list"
  w_resp :: "response option"
  w_panic :: bool

type_synonym 'a io = "(world, 'a) state"

definition empty_world :: world where
  "empty_world = \<lparr>w_portfolios = [], w_runs = [], w_alerts = [], w_strategies = [], w_next = 1, w_now = 0,
     w_outcomes = [], w_tasks = [], w_cap = 4, w_closed = False, w_started = False, w_files = (\<lambda>_. None), w_hub = NewHub,
     w_mails = [], w_resp = None, w_panic = False\<rparr>"

subsection \<open>Database calls\<close>

text \<open>
  A database call runs its statement, or fails. The statements of one transaction are one call:
  Postgres applies all of them or none.
\<close>

definition db_error :: error where
  "db_error = Error [] ''database error''"

definition next_outcome :: "world \<Rightarrow> db_outcome \<times> world" where
  "next_outcome w = (case w_outcomes w of
      [] \<Rightarrow> (DbOk, w) | x # xs \<Rightarrow> (x, w\<lparr>w_outcomes := xs\<rparr>))"

definition dbop :: "(world \<Rightarrow> 'a result \<times> world) \<Rightarrow> 'a result io" where
  "dbop f = State (\<lambda>w. case next_outcome w of
      (DbOk, w1) \<Rightarrow> f w1
    | (DbLost, w1) \<Rightarrow> (Inl db_error, w1)
    | (DbUnacked, w1) \<Rightarrow> (Inl db_error, snd (f w1)))"

text \<open>A read only looks at the tables.\<close>

definition dbread :: "(world \<Rightarrow> 'a result) \<Rightarrow> 'a result io" where
  "dbread f = dbop (\<lambda>w. (f w, w))"

lemma run_dbop:
  "run_state (dbop f) w = (case next_outcome w of
      (DbOk, w1) \<Rightarrow> f w1
    | (DbLost, w1) \<Rightarrow> (Inl db_error, w1)
    | (DbUnacked, w1) \<Rightarrow> (Inl db_error, snd (f w1)))"
  by (simp add: dbop_def)

lemma run_dbop_ok [simp]: "w_outcomes w = [] \<Longrightarrow> run_state (dbop f) w = f w"
  by (simp add: run_dbop next_outcome_def)

lemma run_dbread_ok [simp]: "w_outcomes w = [] \<Longrightarrow> run_state (dbread f) w = (f w, w)"
  by (simp add: dbread_def)

lemma db_error_chain [simp]: "errors_Is db_error s \<longleftrightarrow> False"
  by (simp add: db_error_def)

text \<open>
  An invariant that does not look at the pending outcomes is kept by a call when its statement
  keeps it.
\<close>

definition outcome_free :: "(world \<Rightarrow> bool) \<Rightarrow> bool" where
  "outcome_free I \<longleftrightarrow> (\<forall>w xs. I (w\<lparr>w_outcomes := xs\<rparr>) = I w)"

lemma next_outcome_free: "outcome_free I \<Longrightarrow> I (snd (next_outcome w)) = I w"
  by (simp add: next_outcome_def outcome_free_def split: list.splits)

lemma preserves_dbop:
  assumes "outcome_free I" and "\<And>w. I w \<Longrightarrow> I (snd (f w))"
  shows "preserves I (dbop f)"
proof
  fix w assume "I w"
  obtain x w1 where x: "next_outcome w = (x, w1)" by fastforce
  with \<open>I w\<close> assms(1) have "I w1" by (metis next_outcome_free snd_conv)
  with x assms(2) show "I (snd (run_state (dbop f) w))" by (cases x) (simp_all add: run_dbop)
qed

lemma preserves_dbread: "outcome_free I \<Longrightarrow> preserves I (dbread f)"
  by (simp add: dbread_def preserves_dbop)

text \<open>A statement that leaves the outcomes alone keeps a working database working.\<close>

lemma preserves_no_faults: "(\<And>w. w_outcomes w = [] \<Longrightarrow> w_outcomes (snd (f w)) = []) \<Longrightarrow> preserves (\<lambda>w. w_outcomes w = []) (dbop f)"
  by (auto simp: preserves_def run_dbop next_outcome_def)

end
