(* ===== verification/Validate.thy ===== *)
theory Validate
  imports Schema
begin

text \<open>
  Validation of create requests and comparison of strategy describes
  (\<open>portfolio/validate.go\<close>), with the decoding of \<open>describe --json\<close> output into the structs of
  \<open>strategy/types.go\<close> by \<open>json.Unmarshal\<close>.

  A Go map built by a loop is a partial function; where the code ranges over a map, the order is
  given by an argument \<open>iter\<close>, which returns the keys in some order: the theorems hold for every
  order.
\<close>

subsection \<open>json.Unmarshal into a Describe\<close>

text \<open>
  A member of an object goes to the struct field whose name is equal to its key up to case (Go's
  \<open>foldName\<close>: ASCII letters fold, and so do the long s U+017F and the Kelvin sign U+212A). The
  value \<open>null\<close> leaves the field alone; a value of the wrong kind is an error.
\<close>

definition to_lower :: "char \<Rightarrow> char" where
  "to_lower c = (let n = (of_char c :: nat) in if 65 \<le> n \<and> n \<le> 90 then char_of (n + 32) else c)"

fun fold_name :: "string \<Rightarrow> string" where
  "fold_name [] = []"
| "fold_name (a # b # c # cs) =
     (if of_char a = (197::nat) \<and> of_char b = (191::nat) then CHR ''s'' # fold_name (c # cs)
      else if of_char a = (226::nat) \<and> of_char b = (132::nat) \<and> of_char c = (170::nat) then CHR ''k'' # fold_name cs
      else to_lower a # fold_name (b # c # cs))"
| "fold_name [a, b] =
     (if of_char a = (197::nat) \<and> of_char b = (191::nat) then ''s'' else [to_lower a, to_lower b])"
| "fold_name [a] = [to_lower a]"

fun set_string :: "(string \<Rightarrow> 's \<Rightarrow> 's) \<Rightarrow> json \<Rightarrow> 's \<Rightarrow> 's option" where
  "set_string upd (JStr s) r = Some (upd s r)"
| "set_string upd JNull r = Some r"
| "set_string upd _ r = None"

text \<open>The members are decoded in the order of the document.\<close>

fun decode_members :: "(string \<Rightarrow> json \<Rightarrow> 's \<Rightarrow> 's option) \<Rightarrow> (string \<times> json) list \<Rightarrow> 's \<Rightarrow> 's option" where
  "decode_members f [] r = Some r"
| "decode_members f ((k, v) # kvs) r =
     (case f (fold_name k) v r of None \<Rightarrow> None | Some r' \<Rightarrow> decode_members f kvs r')"

definition parameter_field :: "string \<Rightarrow> json \<Rightarrow> DescribeParameter \<Rightarrow> DescribeParameter option" where
  "parameter_field k v r =
     (if k = ''name'' then set_string (\<lambda>s. dp_Name_update (\<lambda>_. s)) v r
      else if k = ''type'' then set_string (\<lambda>s. dp_Type_update (\<lambda>_. s)) v r
      else if k = ''default'' then Some (r\<lparr>dp_Default := (if v = JNull then None else Some v)\<rparr>)
      else if k = ''description'' then set_string (\<lambda>s. dp_Description_update (\<lambda>_. s)) v r
      else Some r)"

definition preset_field :: "string \<Rightarrow> json \<Rightarrow> DescribePreset \<Rightarrow> DescribePreset option" where
  "preset_field k v r =
     (if k = ''name'' then set_string (\<lambda>s. ds_Name_update (\<lambda>_. s)) v r
      else if k = ''parameters'' then
        (case v of JObj kvs \<Rightarrow> Some (r\<lparr>ds_Parameters := kvs\<rparr>) | JNull \<Rightarrow> Some (r\<lparr>ds_Parameters := []\<rparr>) | _ \<Rightarrow> None)
      else Some r)"

definition zero_parameter :: DescribeParameter where
  "zero_parameter = \<lparr>dp_Name = [], dp_Type = [], dp_Default = None, dp_Description = []\<rparr>"

definition zero_preset :: DescribePreset where
  "zero_preset = \<lparr>ds_Name = [], ds_Parameters = []\<rparr>"

definition zero_describe :: Describe where
  "zero_describe = \<lparr>d_ShortCode = [], d_Name = [], d_Description = [], d_Parameters = [], d_Presets = [],
     d_Schedule = [], d_Benchmark = []\<rparr>"

definition decode_struct :: "(string \<Rightarrow> json \<Rightarrow> 's \<Rightarrow> 's option) \<Rightarrow> json \<Rightarrow> 's \<Rightarrow> 's option" where
  "decode_struct f v zero = (case v of JObj kvs \<Rightarrow> decode_members f kvs zero | JNull \<Rightarrow> Some zero | _ \<Rightarrow> None)"

definition decode_list :: "(json \<Rightarrow> 's option) \<Rightarrow> json \<Rightarrow> 's list option" where
  "decode_list f v = (case v of JArr xs \<Rightarrow> those (map f xs) | JNull \<Rightarrow> Some [] | _ \<Rightarrow> None)"

definition describe_field :: "string \<Rightarrow> json \<Rightarrow> Describe \<Rightarrow> Describe option" where
  "describe_field k v r =
     (if k = ''shortcode'' then set_string (\<lambda>s. d_ShortCode_update (\<lambda>_. s)) v r
      else if k = ''name'' then set_string (\<lambda>s. d_Name_update (\<lambda>_. s)) v r
      else if k = ''description'' then set_string (\<lambda>s. d_Description_update (\<lambda>_. s)) v r
      else if k = ''parameters'' then
        map_option (\<lambda>ps. r\<lparr>d_Parameters := ps\<rparr>) (decode_list (\<lambda>j. decode_struct parameter_field j zero_parameter) v)
      else if k = ''presets'' then
        map_option (\<lambda>ps. r\<lparr>d_Presets := ps\<rparr>) (decode_list (\<lambda>j. decode_struct preset_field j zero_preset) v)
      else if k = ''schedule'' then set_string (\<lambda>s. d_Schedule_update (\<lambda>_. s)) v r
      else if k = ''benchmark'' then set_string (\<lambda>s. d_Benchmark_update (\<lambda>_. s)) v r
      else Some r)"

definition json_error :: error where "json_error = Error [] ''json: cannot unmarshal''"

definition unmarshalDescribe :: "rawjson \<Rightarrow> Describe result" where
  "unmarshalDescribe raw =
     (case raw of
        RawDoc j \<Rightarrow> (case decode_struct describe_field j zero_describe of None \<Rightarrow> Inl json_error | Some d \<Rightarrow> Inr d)
      | _ \<Rightarrow> Inl json_error)"

subsection \<open>portfolio/validate.go\<close>

definition validateRunRetention :: "int option \<Rightarrow> unit result" where
  "validateRunRetention v =
     (case v of None \<Rightarrow> Inr ()
      | Some n \<Rightarrow> if n < 1 then Inl (Error [ErrInvalidRunRetention] ''run_retention must be >= 1'') else Inr ())"

definition validateDates :: "date option \<Rightarrow> date option \<Rightarrow> unit result" where
  "validateDates startD endD =
     (case (startD, endD) of
        (Some s, Some e) \<Rightarrow>
          if e < s then Inl (Error [ErrEndBeforeStart] ''endDate must be on or after startDate'') else Inr ()
      | _ \<Rightarrow> Inr ())"

definition declared :: "Describe \<Rightarrow> string list" where
  "declared d = map dp_Name (d_Parameters d)"

definition validateParameters :: "params \<Rightarrow> Describe \<Rightarrow> unit result" where
  "validateParameters ps d =
     (case List.find (\<lambda>(k, _). k \<notin> set (declared d)) ps of
        Some (k, _) \<Rightarrow> Inl (Error [ErrUnknownParameter] (''unknown parameter: '' @ k))
      | None \<Rightarrow>
          (case List.find (\<lambda>p. dp_Name p \<notin> fst ` set ps) (d_Parameters d) of
             Some p \<Rightarrow> Inl (Error [ErrMissingParameter] (''missing required parameter: '' @ dp_Name p))
           | None \<Rightarrow> Inr ()))"

definition default_benchmark :: "CreateRequest \<Rightarrow> Describe \<Rightarrow> CreateRequest" where
  "default_benchmark nrm d = (if cr_Benchmark nrm = [] then nrm\<lparr>cr_Benchmark := d_Benchmark d\<rparr> else nrm)"

text \<open>The checks that both kinds of create request share, after the describe is known.\<close>

definition ValidateCreateUnofficial :: "CreateRequest \<Rightarrow> Describe \<Rightarrow> CreateRequest result" where
  "ValidateCreateUnofficial req d =
     (case validateRunRetention (cr_RunRetention req) of
        Inl e \<Rightarrow> Inl e
      | Inr _ \<Rightarrow>
          (case validateParameters (cr_Parameters req) d of
             Inl e \<Rightarrow> Inl e
           | Inr _ \<Rightarrow>
               (let nrm = default_benchmark req d in
                case validateDates (cr_StartDate nrm) (cr_EndDate nrm) of
                  Inl e \<Rightarrow> Inl e
                | Inr _ \<Rightarrow> Inr nrm)))"

definition em_dash :: string where
  "em_dash = map char_of [226, 128, 148::nat]"

definition not_ready_text :: "string \<Rightarrow> string" where
  "not_ready_text code = ''strategy not installed: '' @ code @ '' is still installing '' @ em_dash @ '' try again shortly''"

definition ValidateCreate :: "CreateRequest \<Rightarrow> Strategy \<Rightarrow> CreateRequest result" where
  "ValidateCreate req s =
     (case validateRunRetention (cr_RunRetention req) of
        Inl e \<Rightarrow> Inl e
      | Inr _ \<Rightarrow>
          (case s_InstalledVer s of
             None \<Rightarrow> Inl (Error [ErrStrategyNotReady] (not_ready_text (s_ShortCode s)))
           | Some inst \<Rightarrow>
               if s_DescribeJSON s = RawEmpty
               then Inl (Error [ErrStrategyNotReady] (not_ready_text (s_ShortCode s)))
               else if cr_StrategyVer req \<noteq> [] \<and> cr_StrategyVer req \<noteq> inst
               then Inl (Error [ErrStrategyVersionMismatch]
                      (''strategy version not installed: want '' @ cr_StrategyVer req @ '', installed is '' @ inst))
               else
                 (let nrm = req\<lparr>cr_StrategyVer := inst\<rparr> in
                  case unmarshalDescribe (s_DescribeJSON s) of
                    Inl e \<Rightarrow> Inl (Error (ErrInvalidStrategyDescribe # err_chain e)
                               (''strategy describe JSON is malformed: '' @ err_text e))
                  | Inr d \<Rightarrow>
                      (case validateParameters (cr_Parameters nrm) d of
                         Inl e \<Rightarrow> Inl e
                       | Inr _ \<Rightarrow>
                           (let nrm2 = default_benchmark nrm d in
                            case validateDates (cr_StartDate nrm2) (cr_EndDate nrm2) of
                              Inl e \<Rightarrow> Inl e
                            | Inr _ \<Rightarrow> Inr nrm2)))))"

definition by_name :: "DescribeParameter list \<Rightarrow> string \<Rightarrow> DescribeParameter option" where
  "by_name ps = fold (\<lambda>p m. m(dp_Name p \<mapsto> p)) ps (\<lambda>_. None)"

definition Compatible :: "ParameterDiff \<Rightarrow> bool" where
  "Compatible d \<longleftrightarrow> length (pd_Removed d) = 0 \<and> length (pd_Retyped d) = 0 \<and> length (pd_AddedWithoutDefault d) = 0"

definition empty_diff :: ParameterDiff where
  "empty_diff = \<lparr>pd_Kept = [], pd_AddedWithDefault = [], pd_AddedWithoutDefault = [], pd_Removed = [], pd_Retyped = []\<rparr>"

definition diff_old :: "(string \<Rightarrow> DescribeParameter option) \<Rightarrow> (string \<Rightarrow> DescribeParameter option) \<Rightarrow>
    string \<Rightarrow> ParameterDiff \<Rightarrow> ParameterDiff" where
  "diff_old oldByName newByName name d =
     (case oldByName name of
        None \<Rightarrow> d
      | Some oldP \<Rightarrow>
          (case newByName name of
             None \<Rightarrow> d\<lparr>pd_Removed := pd_Removed d @ [name]\<rparr>
           | Some newP \<Rightarrow>
               if dp_Type oldP \<noteq> dp_Type newP
               then d\<lparr>pd_Retyped := pd_Retyped d @ [\<lparr>rt_Name = name, rt_From = dp_Type oldP, rt_To = dp_Type newP\<rparr>]\<rparr>
               else d\<lparr>pd_Kept := pd_Kept d @ [name]\<rparr>))"

definition diff_new :: "(string \<Rightarrow> DescribeParameter option) \<Rightarrow> (string \<Rightarrow> DescribeParameter option) \<Rightarrow>
    string \<Rightarrow> ParameterDiff \<Rightarrow> ParameterDiff" where
  "diff_new oldByName newByName name d =
     (case newByName name of
        None \<Rightarrow> d
      | Some newP \<Rightarrow>
          if oldByName name \<noteq> None then d
          else if dp_Default newP \<noteq> None
          then d\<lparr>pd_AddedWithDefault := pd_AddedWithDefault d @ [name]\<rparr>
          else d\<lparr>pd_AddedWithoutDefault := pd_AddedWithoutDefault d @ [name]\<rparr>)"

definition DiffParameters :: "(string list \<Rightarrow> string list) \<Rightarrow> Describe \<Rightarrow> Describe \<Rightarrow> ParameterDiff" where
  "DiffParameters iter oldDescribe newDescribe =
     (let oldByName = by_name (d_Parameters oldDescribe);
          newByName = by_name (d_Parameters newDescribe);
          d1 = fold (diff_old oldByName newByName) (iter (remdups (declared oldDescribe))) empty_diff
      in fold (diff_new oldByName newByName) (iter (remdups (declared newDescribe))) d1)"

text \<open>\<open>iter\<close> lists each key of a map once.\<close>

definition map_order :: "(string list \<Rightarrow> string list) \<Rightarrow> bool" where
  "map_order iter \<longleftrightarrow> (\<forall>ks. mset (iter ks) = mset ks)"

definition presetParametersEqual :: "params \<Rightarrow> params \<Rightarrow> bool" where
  "presetParametersEqual a b \<longleftrightarrow> canonicalJSON (JObj a) = canonicalJSON (JObj b)"

fun match_presets :: "params \<Rightarrow> DescribePreset list \<Rightarrow> string option" where
  "match_presets current [] = None"
| "match_presets current (p # ps) =
     (if presetParametersEqual (ds_Parameters p) current then Some (ds_Name p) else match_presets current ps)"

definition MatchPresetName :: "params \<Rightarrow> Describe \<Rightarrow> string option" where
  "MatchPresetName current newDescribe = match_presets current (d_Presets newDescribe)"

definition mergeKeptAndDefaults :: "params \<Rightarrow> Describe \<Rightarrow> ParameterDiff \<Rightarrow> params" where
  "mergeKeptAndDefaults current d diff =
     map (\<lambda>k. (k, case map_of current k of None \<Rightarrow> JNull | Some v \<Rightarrow> v)) (pd_Kept diff) @
     List.map_filter (\<lambda>name. map_option (\<lambda>p. (name, case dp_Default p of None \<Rightarrow> JNull | Some v \<Rightarrow> v))
         (List.find (\<lambda>p. dp_Name p = name) (d_Parameters d))) (pd_AddedWithDefault diff)"

section \<open>Validation accepts exactly the declared parameters\<close>

lemma validateParameters_ok_iff:
  "validateParameters ps d = Inr () \<longleftrightarrow> fst ` set ps = set (declared d)"
proof -
  have "validateParameters ps d = Inr () \<longleftrightarrow>
      (\<forall>kv \<in> set ps. fst kv \<in> set (declared d)) \<and> (\<forall>p \<in> set (d_Parameters d). dp_Name p \<in> fst ` set ps)"
    by (fastforce simp: validateParameters_def find_None_iff split: option.splits dest: find_Some_in)
  then show ?thesis by (auto simp: declared_def)
qed

definition retention_ok :: "int option \<Rightarrow> bool" where
  "retention_ok v \<longleftrightarrow> (case v of None \<Rightarrow> True | Some n \<Rightarrow> 1 \<le> n)"

definition dates_ordered :: "date option \<Rightarrow> date option \<Rightarrow> bool" where
  "dates_ordered s e \<longleftrightarrow> (case (s, e) of (Some a, Some b) \<Rightarrow> a \<le> b | _ \<Rightarrow> True)"

lemma validateRunRetention_ok_iff: "validateRunRetention v = Inr () \<longleftrightarrow> retention_ok v"
  by (auto simp: validateRunRetention_def retention_ok_def split: option.splits)

lemma validateDates_ok_iff: "validateDates s e = Inr () \<longleftrightarrow> dates_ordered s e"
  by (auto simp: validateDates_def dates_ordered_def not_less split: option.splits)

lemmas validate_iffs = validateParameters_ok_iff validateRunRetention_ok_iff validateDates_ok_iff

lemma case_unit_result:
  "(case r of Inl e \<Rightarrow> Inl e | Inr (_ :: unit) \<Rightarrow> x) = Inr y \<longleftrightarrow> r = Inr () \<and> x = Inr y"
  by (cases r) auto

lemma default_benchmark_simps [simp]:
  "cr_StartDate (default_benchmark r d) = cr_StartDate r" "cr_EndDate (default_benchmark r d) = cr_EndDate r"
  "cr_Parameters (default_benchmark r d) = cr_Parameters r" "cr_RunRetention (default_benchmark r d) = cr_RunRetention r"
  by (simp_all add: default_benchmark_def)

text \<open>
  C29. \<open>ValidateCreate\<close> accepts a request exactly when the strategy is installed with a readable
  describe, the request names no other version, its parameters are the declared ones, the dates
  are in order and the retention is at least one; the normalised request then carries the
  installed version and a benchmark, and nothing else changes.
\<close>

theorem ValidateCreate_iff:
  "ValidateCreate req s = Inr nrm \<longleftrightarrow>
     (\<exists>inst d. s_InstalledVer s = Some inst \<and> unmarshalDescribe (s_DescribeJSON s) = Inr d
       \<and> (cr_StrategyVer req = [] \<or> cr_StrategyVer req = inst)
       \<and> fst ` set (cr_Parameters req) = set (declared d)
       \<and> retention_ok (cr_RunRetention req)
       \<and> dates_ordered (cr_StartDate req) (cr_EndDate req)
       \<and> nrm = req\<lparr>cr_StrategyVer := inst,
                    cr_Benchmark := (if cr_Benchmark req = [] then d_Benchmark d else cr_Benchmark req)\<rparr>)"
proof (cases "s_InstalledVer s")
  case None
  then show ?thesis by (simp add: ValidateCreate_def case_unit_result)
next
  case (Some inst)
  show ?thesis
  proof (cases "unmarshalDescribe (s_DescribeJSON s)")
    case (Inl e)
    with Some show ?thesis by (simp add: ValidateCreate_def case_unit_result Let_def)
  next
    case (Inr d)
    then have "s_DescribeJSON s \<noteq> RawEmpty" by (auto simp: unmarshalDescribe_def)
    with Some Inr show ?thesis
      by (simp add: ValidateCreate_def Let_def case_unit_result validate_iffs default_benchmark_def)
        (cases "cr_Benchmark req"; auto)
  qed
qed

section \<open>Comparing two describes\<close>

lemma by_name_snoc: "by_name (ps @ [p]) = (by_name ps)(dp_Name p \<mapsto> p)"
  by (simp add: by_name_def)

lemma by_name_Some: "by_name ps k = Some p \<Longrightarrow> p \<in> set ps \<and> dp_Name p = k"
  by (induction ps arbitrary: k rule: rev_induct)
    (auto simp: by_name_snoc split: if_splits, simp add: by_name_def)

lemma by_name_None: "by_name ps k = None \<longleftrightarrow> k \<notin> dp_Name ` set ps"
  by (induction ps rule: rev_induct) (auto simp: by_name_snoc by_name_def)

text \<open>The two loops sort the keys they visit into the lists of the diff.\<close>

definition is_retyped :: "(string \<Rightarrow> DescribeParameter option) \<Rightarrow> (string \<Rightarrow> DescribeParameter option) \<Rightarrow> string \<Rightarrow> bool" where
  "is_retyped old new k \<longleftrightarrow> (\<exists>p q. old k = Some p \<and> new k = Some q \<and> dp_Type p \<noteq> dp_Type q)"

definition is_kept :: "(string \<Rightarrow> DescribeParameter option) \<Rightarrow> (string \<Rightarrow> DescribeParameter option) \<Rightarrow> string \<Rightarrow> bool" where
  "is_kept old new k \<longleftrightarrow> (\<exists>p q. old k = Some p \<and> new k = Some q \<and> dp_Type p = dp_Type q)"

lemma fold_diff_old:
  shows "pd_Removed (fold (diff_old old new) ks d) = pd_Removed d @ filter (\<lambda>k. old k \<noteq> None \<and> new k = None) ks"
    and "map rt_Name (pd_Retyped (fold (diff_old old new) ks d)) = map rt_Name (pd_Retyped d) @ filter (is_retyped old new) ks"
    and "pd_Kept (fold (diff_old old new) ks d) = pd_Kept d @ filter (is_kept old new) ks"
    and "pd_AddedWithDefault (fold (diff_old old new) ks d) = pd_AddedWithDefault d"
    and "pd_AddedWithoutDefault (fold (diff_old old new) ks d) = pd_AddedWithoutDefault d"
  by (induction ks arbitrary: d) (auto simp: diff_old_def is_retyped_def is_kept_def split: option.splits)

lemma fold_diff_new:
  shows "pd_AddedWithDefault (fold (diff_new old new) ks d) = pd_AddedWithDefault d @
        filter (\<lambda>k. old k = None \<and> (\<exists>q. new k = Some q \<and> dp_Default q \<noteq> None)) ks"
    and "pd_AddedWithoutDefault (fold (diff_new old new) ks d) = pd_AddedWithoutDefault d @
        filter (\<lambda>k. old k = None \<and> (\<exists>q. new k = Some q \<and> dp_Default q = None)) ks"
    and "pd_Removed (fold (diff_new old new) ks d) = pd_Removed d"
    and "pd_Retyped (fold (diff_new old new) ks d) = pd_Retyped d"
    and "pd_Kept (fold (diff_new old new) ks d) = pd_Kept d"
  by (induction ks arbitrary: d) (auto simp: diff_new_def split: option.splits)

lemma map_order_set: "map_order iter \<Longrightarrow> set (iter ks) = set ks"
  by (metis map_order_def set_mset_mset)

lemma diff_parts:
  fixes oldD newD iter
  defines "old \<equiv> by_name (d_Parameters oldD)" and "new \<equiv> by_name (d_Parameters newD)"
    and "ko \<equiv> iter (remdups (declared oldD))" and "kn \<equiv> iter (remdups (declared newD))"
    and "D \<equiv> DiffParameters iter oldD newD"
  shows "pd_Removed D = filter (\<lambda>k. old k \<noteq> None \<and> new k = None) ko"
    and "map rt_Name (pd_Retyped D) = filter (is_retyped old new) ko"
    and "pd_Kept D = filter (is_kept old new) ko"
    and "pd_AddedWithDefault D = filter (\<lambda>k. old k = None \<and> (\<exists>q. new k = Some q \<and> dp_Default q \<noteq> None)) kn"
    and "pd_AddedWithoutDefault D = filter (\<lambda>k. old k = None \<and> (\<exists>q. new k = Some q \<and> dp_Default q = None)) kn"
  unfolding old_def new_def ko_def kn_def D_def DiffParameters_def Let_def
  by (simp_all add: fold_diff_old fold_diff_new empty_diff_def)

definition diff_names :: "ParameterDiff \<Rightarrow> string list" where
  "diff_names D = pd_Kept D @ pd_AddedWithDefault D @ pd_AddedWithoutDefault D @ pd_Removed D @ map rt_Name (pd_Retyped D)"

lemma declared_iff: "k \<in> set (declared d) \<longleftrightarrow> (\<exists>p. by_name (d_Parameters d) k = Some p)"
  using by_name_None [of "d_Parameters d" k] by (auto simp: declared_def)

lemma diff_names_set:
  assumes "map_order iter"
  shows "set (diff_names (DiffParameters iter oldD newD)) = set (declared oldD) \<union> set (declared newD)"
proof -
  have "set (iter (remdups (declared oldD))) = set (declared oldD)"
    and "set (iter (remdups (declared newD))) = set (declared newD)"
    using map_order_set [OF assms] by simp_all
  then show ?thesis
    by (auto simp: diff_names_def diff_parts declared_iff is_retyped_def is_kept_def)
qed

text \<open>
  Whatever the order of the map iterations, every parameter declared by either describe is
  classified exactly once: kept, retyped, removed, or added with or without a default.
\<close>

lemma DiffParameters_partition:
  assumes "map_order iter"
  shows "distinct (diff_names (DiffParameters iter oldD newD))
    \<and> set (diff_names (DiffParameters iter oldD newD)) = set (declared oldD) \<union> set (declared newD)
    \<and> set (pd_Removed (DiffParameters iter oldD newD)) = set (declared oldD) - set (declared newD)"
proof -
  let ?D = "DiffParameters iter oldD newD"
  have o: "set (iter (remdups (declared oldD))) = set (declared oldD)"
    and n: "set (iter (remdups (declared newD))) = set (declared newD)"
    using map_order_set [OF assms] by simp_all
  have dist: "distinct (iter (remdups ks))" for ks
    using assms unfolding map_order_def by (metis distinct_remdups mset_eq_imp_distinct_iff)
  have "distinct (diff_names ?D)"
    using dist by (auto simp: diff_names_def diff_parts is_retyped_def is_kept_def)
  moreover have "set (diff_names ?D) = set (declared oldD) \<union> set (declared newD)"
    by (rule diff_names_set [OF assms])
  moreover have "set (pd_Removed ?D) = set (declared oldD) - set (declared newD)"
    by (auto simp: diff_parts o declared_iff)
  ultimately show ?thesis by blast
qed

text \<open>
  A compatible diff can be applied without asking the user: the parameters kept from the old map
  together with the defaults of the added ones are exactly the parameters the new describe declares.
\<close>

lemma compatible_merge_valid:
  assumes "map_order iter" and "Compatible (DiffParameters iter oldD newD)"
  shows "validateParameters (mergeKeptAndDefaults current newD (DiffParameters iter oldD newD)) newD = Inr ()"
proof -
  let ?D = "DiffParameters iter oldD newD"
  let ?m = "mergeKeptAndDefaults current newD ?D"
  have o: "set (iter (remdups (declared oldD))) = set (declared oldD)"
    and n: "set (iter (remdups (declared newD))) = set (declared newD)"
    using map_order_set [OF assms(1)] by simp_all
  have find: "{k \<in> ks. List.find (\<lambda>p. dp_Name p = k) (d_Parameters newD) \<noteq> None} = {k \<in> ks. k \<in> set (declared newD)}" for ks
    by (auto simp: declared_def find_None_iff simp del: not_None_eq)
  have "fst ` set ?m = set (pd_Kept ?D) \<union> {k \<in> set (pd_AddedWithDefault ?D). k \<in> set (declared newD)}"
    by (simp add: mergeKeptAndDefaults_def image_Un image_image keys_map_filter find del: not_None_eq)
  also have "{k \<in> set (pd_AddedWithDefault ?D). k \<in> set (declared newD)} = set (pd_AddedWithDefault ?D)"
    by (auto simp: diff_parts n)
  also have "set (pd_Kept ?D) \<union> set (pd_AddedWithDefault ?D) = set (declared newD)"
  proof -
    have "diff_names ?D = pd_Kept ?D @ pd_AddedWithDefault ?D"
      using assms(2) by (simp add: Compatible_def diff_names_def)
    with diff_names_set [OF assms(1), of oldD newD]
    have "set (pd_Kept ?D) \<union> set (pd_AddedWithDefault ?D) = set (declared oldD) \<union> set (declared newD)" by simp
    moreover have "set (pd_Kept ?D) \<subseteq> set (declared newD)"
      by (auto simp: diff_parts is_kept_def declared_iff)
    moreover have "set (pd_AddedWithDefault ?D) \<subseteq> set (declared newD)"
      by (auto simp: diff_parts n)
    ultimately show ?thesis by blast
  qed
  finally show ?thesis by (simp add: validateParameters_ok_iff)
qed

end
