(* ===== verification/Portfolio_Store.thy ===== *)
theory Portfolio_Store
  imports Validate
begin

text \<open>
  The Postgres store of portfolios and runs (\<open>portfolio/db.go\<close>, \<open>portfolio/runs.go\<close>,
  \<open>portfolio/store.go\<close>). Each Go function is one database call on the tables of \<open>world\<close>: the
  statement with the constraints of \<open>sql/migrations\<close> (primary keys, UNIQUE (owner_sub, slug),
  CHECK (run_retention >= 1), the foreign keys with ON DELETE CASCADE, and the partial unique
  index that allows one queued or running run per portfolio). A transaction is one call: it takes
  effect as a whole or not at all.
\<close>

subsection \<open>Constraint violations\<close>

fun is_prefix :: "string \<Rightarrow> string \<Rightarrow> bool" where
  "is_prefix [] s = True"
| "is_prefix (c # cs) [] = False"
| "is_prefix (c # cs) (d # ds) = (c = d \<and> is_prefix cs ds)"

fun contains :: "string \<Rightarrow> string \<Rightarrow> bool" where
  "contains [] sub = is_prefix sub []"
| "contains (c # cs) sub = (is_prefix sub (c # cs) \<or> contains cs sub)"

definition unique_error :: error where
  "unique_error = Error [] ''ERROR: duplicate key value violates unique constraint (SQLSTATE 23505)''"

definition check_error :: error where
  "check_error = Error [] ''ERROR: new row violates check constraint (SQLSTATE 23514)''"

definition fk_error :: error where
  "fk_error = Error [] ''ERROR: insert or update violates foreign key constraint (SQLSTATE 23503)''"

definition json_column_error :: error where
  "json_column_error = Error [] ''ERROR: invalid input syntax for type json (SQLSTATE 22P02)''"

definition uniqueViolation :: "error \<Rightarrow> bool" where
  "uniqueViolation e \<longleftrightarrow> contains (err_text e) ''SQLSTATE 23505''"

lemma uniqueViolation_simps [simp]:
  "uniqueViolation unique_error" "\<not> uniqueViolation check_error" "\<not> uniqueViolation fk_error"
  "\<not> uniqueViolation json_column_error" "\<not> uniqueViolation db_error"
  by (simp_all add: uniqueViolation_def unique_error_def check_error_def fk_error_def json_column_error_def db_error_def)

lemma constraint_chains [simp]:
  "err_chain unique_error = []" "err_chain check_error = []" "err_chain fk_error = []"
  "err_chain json_column_error = []" "err_chain db_error = []"
  by (simp_all add: unique_error_def check_error_def fk_error_def json_column_error_def db_error_def)

definition not_found :: error where "not_found = Error [ErrNotFound] ''portfolio not found''"
definition duplicate_slug :: error where "duplicate_slug = Error [ErrDuplicateSlug] ''duplicate portfolio slug''"
definition run_in_flight :: error where
  "run_in_flight = Error [ErrRunInFlight] ''a backtest run is already queued or running for this portfolio''"

lemma sentinel_simps [simp]:
  "errors_Is not_found s \<longleftrightarrow> s = ErrNotFound" "errors_Is duplicate_slug s \<longleftrightarrow> s = ErrDuplicateSlug"
  "errors_Is run_in_flight s \<longleftrightarrow> s = ErrRunInFlight"
  by (auto simp: not_found_def duplicate_slug_def run_in_flight_def)

text \<open>The partial unique index, as a check on the run table after a statement.\<close>

definition one_inflight :: "Run list \<Rightarrow> bool" where
  "one_inflight rs \<longleftrightarrow> distinct (map r_PortfolioID (filter in_flight rs))"

definition commit_runs :: "Run list \<Rightarrow> world \<Rightarrow> unit result \<times> world" where
  "commit_runs rs w = (if one_inflight rs then (Inr (), w\<lparr>w_runs := rs\<rparr>) else (Inl unique_error, w))"

definition owned :: "string \<Rightarrow> string \<Rightarrow> Portfolio \<Rightarrow> bool" where
  "owned ownerSub slug p \<longleftrightarrow> p_OwnerSub p = ownerSub \<and> p_Slug p = slug"

subsection \<open>portfolio/db.go: reads\<close>

definition List :: "string \<Rightarrow> Portfolio list result io" where
  "List ownerSub = dbread (\<lambda>w.
     Inr (sort_key (\<lambda>p. - p_CreatedAt p) (filter (\<lambda>p. p_OwnerSub p = ownerSub) (w_portfolios w))))"

definition ListByStrategyCode :: "string \<Rightarrow> Portfolio list result io" where
  "ListByStrategyCode shortCode = dbread (\<lambda>w. Inr (filter (\<lambda>p. p_StrategyCode p = shortCode) (w_portfolios w)))"

definition Get :: "string \<Rightarrow> string \<Rightarrow> Portfolio result io" where
  "Get ownerSub slug = dbread (\<lambda>w.
     case List.find (owned ownerSub slug) (w_portfolios w) of None \<Rightarrow> Inl not_found | Some p \<Rightarrow> Inr p)"

definition GetByID :: "uuid \<Rightarrow> Portfolio result io" where
  "GetByID pid = dbread (\<lambda>w.
     case List.find (\<lambda>p. p_ID p = pid) (w_portfolios w) of None \<Rightarrow> Inl not_found | Some p \<Rightarrow> Inr p)"

definition AllPortfolioIDs :: "uuid list result io" where
  "AllPortfolioIDs = dbread (\<lambda>w. Inr (map p_ID (w_portfolios w)))"

definition AllRunIDs :: "uuid list result io" where
  "AllRunIDs = dbread (\<lambda>w. Inr (map r_ID (w_runs w)))"

subsection \<open>portfolio/db.go: writes\<close>

definition json_document :: "rawjson \<Rightarrow> bool" where
  "json_document raw \<longleftrightarrow> (case raw of RawDoc _ \<Rightarrow> True | _ \<Rightarrow> False)"

definition insert_stmt :: "Portfolio \<Rightarrow> world \<Rightarrow> unit result \<times> world" where
  "insert_stmt p w =
     (if \<not> json_document (p_StrategyDescribeJSON p) then (Inl json_column_error, w)
      else if p_RunRetention p < 1 then (Inl check_error, w)
      else if affected (owned (p_OwnerSub p) (p_Slug p)) (w_portfolios w) \<noteq> 0 then (Inl unique_error, w)
      else (Inr (), w\<lparr>w_portfolios := w_portfolios w @
          [p\<lparr>p_ID := w_next w, p_LastRunAt := None, p_LastError := None, p_SnapshotPath := None,
             p_CurrentValue := None, p_YtdReturn := None, p_MaxDrawdown := None, p_Sharpe := None,
             p_CagrSinceInception := None, p_InceptionDate := None,
             p_CreatedAt := w_now w, p_UpdatedAt := w_now w\<rparr>],
          w_next := Suc (w_next w)\<rparr>))"

definition Insert :: "Portfolio \<Rightarrow> unit result io" where
  "Insert p = do {
     r \<leftarrow> dbop (insert_stmt p);
     State_Monad.return (case r of
         Inr _ \<Rightarrow> Inr ()
       | Inl e \<Rightarrow> if uniqueViolation e then Inl duplicate_slug else Inl (wrap ''inserting portfolio'' e))
   }"

text \<open>The shape of every \<open>UPDATE portfolios ... WHERE owner_sub = $1 AND slug = $2\<close>.\<close>

definition update_owned :: "string \<Rightarrow> string \<Rightarrow> (instant \<Rightarrow> Portfolio \<Rightarrow> Portfolio) \<Rightarrow> world \<Rightarrow> nat result \<times> world" where
  "update_owned ownerSub slug u w =
     (let c = owned ownerSub slug;
          ps = update_where c (u (w_now w)) (w_portfolios w) in
      if list_all (\<lambda>p. 1 \<le> p_RunRetention p) ps
      then (Inr (affected c (w_portfolios w)), w\<lparr>w_portfolios := ps\<rparr>)
      else (Inl check_error, w))"

definition affected_or_not_found :: "string \<Rightarrow> nat result \<Rightarrow> unit result" where
  "affected_or_not_found ctx r =
     (case r of Inl e \<Rightarrow> Inl (wrap ctx e) | Inr n \<Rightarrow> if n = 0 then Inl not_found else Inr ())"

definition UpdateName :: "string \<Rightarrow> string \<Rightarrow> string \<Rightarrow> unit result io" where
  "UpdateName ownerSub slug name = do {
     r \<leftarrow> dbop (update_owned ownerSub slug (\<lambda>now p. p\<lparr>p_Name := name, p_UpdatedAt := now\<rparr>));
     State_Monad.return (affected_or_not_found ''updating portfolio name'' r)
   }"

definition coalesce :: "'a option \<Rightarrow> 'a option \<Rightarrow> 'a option" where
  "coalesce a b = (case a of None \<Rightarrow> b | Some x \<Rightarrow> Some x)"

definition UpdateDates :: "string \<Rightarrow> string \<Rightarrow> date option \<Rightarrow> date option \<Rightarrow> unit result io" where
  "UpdateDates ownerSub slug startDate endDate = do {
     r \<leftarrow> dbop (update_owned ownerSub slug (\<lambda>now p.
            p\<lparr>p_StartDate := coalesce startDate (p_StartDate p), p_EndDate := coalesce endDate (p_EndDate p),
              p_UpdatedAt := now\<rparr>));
     State_Monad.return (affected_or_not_found ''updating portfolio dates'' r)
   }"

definition UpdateRunRetention :: "string \<Rightarrow> string \<Rightarrow> int \<Rightarrow> unit result io" where
  "UpdateRunRetention ownerSub slug v = do {
     r \<leftarrow> dbop (update_owned ownerSub slug (\<lambda>now p. p\<lparr>p_RunRetention := v, p_UpdatedAt := now\<rparr>));
     State_Monad.return (affected_or_not_found ''updating run_retention'' r)
   }"

text \<open>Deleting a portfolio deletes its runs and alerts: both tables cascade.\<close>

definition delete_stmt :: "string \<Rightarrow> string \<Rightarrow> world \<Rightarrow> nat result \<times> world" where
  "delete_stmt ownerSub slug w =
     (let c = owned ownerSub slug;
          gone = map p_ID (filter c (w_portfolios w)) in
      (Inr (affected c (w_portfolios w)),
       w\<lparr>w_portfolios := delete_where c (w_portfolios w),
         w_runs := delete_where (\<lambda>r. r_PortfolioID r \<in> set gone) (w_runs w),
         w_alerts := delete_where (\<lambda>a. a_PortfolioID a \<in> set gone) (w_alerts w)\<rparr>))"

definition Delete :: "string \<Rightarrow> string \<Rightarrow> unit result io" where
  "Delete ownerSub slug = do {
     r \<leftarrow> dbop (delete_stmt ownerSub slug);
     State_Monad.return (affected_or_not_found ''deleting portfolio'' r)
   }"

definition update_portfolio :: "uuid \<Rightarrow> (instant \<Rightarrow> Portfolio \<Rightarrow> Portfolio) \<Rightarrow> world \<Rightarrow> world" where
  "update_portfolio pid u w =
     w\<lparr>w_portfolios := update_where (\<lambda>p. p_ID p = pid) (u (w_now w)) (w_portfolios w)\<rparr>"

definition mark_running :: "instant \<Rightarrow> Portfolio \<Rightarrow> Portfolio" where
  "mark_running now p = p\<lparr>p_Status := StatusRunning, p_UpdatedAt := now\<rparr>"

definition mark_ready :: "string \<Rightarrow> Kpis \<Rightarrow> instant \<Rightarrow> Portfolio \<Rightarrow> Portfolio" where
  "mark_ready snapshotPath k now p =
     p\<lparr>p_Status := StatusReady, p_LastRunAt := Some now, p_LastError := None, p_SnapshotPath := Some snapshotPath,
       p_CurrentValue := Some (k_CurrentValue k), p_YtdReturn := k_YtdReturn k, p_MaxDrawdown := k_MaxDrawdown k,
       p_Sharpe := k_Sharpe k, p_CagrSinceInception := k_Cagr k,
       p_InceptionDate := coalesce (p_InceptionDate p) (Some (k_InceptionDate k)), p_UpdatedAt := now\<rparr>"

definition mark_failed :: "string \<Rightarrow> instant \<Rightarrow> Portfolio \<Rightarrow> Portfolio" where
  "mark_failed errMsg now p = p\<lparr>p_Status := StatusFailed, p_LastError := Some errMsg, p_UpdatedAt := now\<rparr>"

definition SetRunning :: "uuid \<Rightarrow> unit result io" where
  "SetRunning pid = dbop (\<lambda>w. (Inr (), update_portfolio pid mark_running w))"

definition SetReady :: "uuid \<Rightarrow> string \<Rightarrow> Kpis \<Rightarrow> unit result io" where
  "SetReady pid snapshotPath k = dbop (\<lambda>w. (Inr (), update_portfolio pid (mark_ready snapshotPath k) w))"

definition SetFailed :: "uuid \<Rightarrow> string \<Rightarrow> unit result io" where
  "SetFailed pid errMsg = dbop (\<lambda>w. (Inr (), update_portfolio pid (mark_failed errMsg) w))"

definition run_running :: "instant \<Rightarrow> Run \<Rightarrow> Run" where
  "run_running now r = r\<lparr>r_Status := RunRunning, r_StartedAt := Some now\<rparr>"

definition run_success :: "string \<Rightarrow> int \<Rightarrow> instant \<Rightarrow> Run \<Rightarrow> Run" where
  "run_success path ms now r = r\<lparr>r_Status := RunSuccess, r_FinishedAt := Some now,
     r_SnapshotPath := Some path, r_DurationMs := Some ms\<rparr>"

definition run_failed :: "string \<Rightarrow> int \<Rightarrow> instant \<Rightarrow> Run \<Rightarrow> Run" where
  "run_failed errMsg ms now r = r\<lparr>r_Status := RunFailed, r_FinishedAt := Some now,
     r_Error := Some errMsg, r_DurationMs := Some ms\<rparr>"

text \<open>\<open>UPDATE backtest_runs ... WHERE id = $1\<close>, alone or after an update of the portfolio in the
  same transaction.\<close>

definition update_run_stmt :: "uuid \<Rightarrow> (instant \<Rightarrow> Run \<Rightarrow> Run) \<Rightarrow> world \<Rightarrow> unit result \<times> world" where
  "update_run_stmt runID u w = commit_runs (update_where (\<lambda>r. r_ID r = runID) (u (w_now w)) (w_runs w)) w"

definition both_stmt :: "uuid \<Rightarrow> uuid \<Rightarrow> (instant \<Rightarrow> Portfolio \<Rightarrow> Portfolio) \<Rightarrow> (instant \<Rightarrow> Run \<Rightarrow> Run) \<Rightarrow>
    world \<Rightarrow> unit result \<times> world" where
  "both_stmt pid runID up ur w =
     (case update_run_stmt runID ur (update_portfolio pid up w) of
        (Inr _, w') \<Rightarrow> (Inr (), w') | (Inl e, _) \<Rightarrow> (Inl e, w))"

definition MarkRunningTx :: "uuid \<Rightarrow> uuid \<Rightarrow> unit result io" where
  "MarkRunningTx pid runID = dbop (both_stmt pid runID mark_running run_running)"

definition MarkReadyTx :: "uuid \<Rightarrow> uuid \<Rightarrow> string \<Rightarrow> Kpis \<Rightarrow> int \<Rightarrow> unit result io" where
  "MarkReadyTx pid runID snapshotPath k ms =
     dbop (both_stmt pid runID (mark_ready snapshotPath k) (run_success snapshotPath ms))"

definition MarkFailedTx :: "uuid \<Rightarrow> uuid \<Rightarrow> string \<Rightarrow> int \<Rightarrow> unit result io" where
  "MarkFailedTx pid runID errMsg ms = dbop (both_stmt pid runID (mark_failed errMsg) (run_failed errMsg ms))"

definition mark_all_failed_stmt :: "string \<Rightarrow> world \<Rightarrow> (nat \<times> nat) result \<times> world" where
  "mark_all_failed_stmt reason w =
     (let isR = (\<lambda>p. p_Status p = StatusRunning) in
      (Inr (affected isR (w_portfolios w), affected in_flight (w_runs w)),
       w\<lparr>w_portfolios := update_where isR (mark_failed reason (w_now w)) (w_portfolios w),
         w_runs := update_where in_flight (\<lambda>r. r\<lparr>r_Status := RunFailed, r_FinishedAt := Some (w_now w),
                      r_Error := Some reason\<rparr>) (w_runs w)\<rparr>))"

definition MarkAllRunningAsFailed :: "string \<Rightarrow> (nat \<times> nat) result io" where
  "MarkAllRunningAsFailed reason = dbop (mark_all_failed_stmt reason)"

text \<open>\<open>ROW_NUMBER() OVER (ORDER BY id DESC)\<close> of a run among the runs of its portfolio, from 1.\<close>

definition row_number :: "Run list \<Rightarrow> Run \<Rightarrow> nat" where
  "row_number rs r = Suc (length (filter (\<lambda>q. r_PortfolioID q = r_PortfolioID r \<and> r_ID r < r_ID q) rs))"

definition prunable :: "uuid \<Rightarrow> int \<Rightarrow> Run list \<Rightarrow> Run \<Rightarrow> bool" where
  "prunable pid retention rs r \<longleftrightarrow> r_PortfolioID r = pid \<and> retention < int (row_number rs r)"

definition snapshot_or_empty :: "Run \<Rightarrow> string" where
  "snapshot_or_empty r = (case r_SnapshotPath r of None \<Rightarrow> [] | Some p \<Rightarrow> p)"

definition prune_stmt :: "uuid \<Rightarrow> world \<Rightarrow> string list result \<times> world" where
  "prune_stmt pid w =
     (case List.find (\<lambda>p. p_ID p = pid) (w_portfolios w) of
        None \<Rightarrow> (Inl not_found, w)
      | Some p \<Rightarrow>
          (let dead = prunable pid (p_RunRetention p) (w_runs w) in
           (Inr (filter (\<lambda>s. s \<noteq> []) (map snapshot_or_empty (filter dead (w_runs w)))),
            w\<lparr>w_runs := delete_where dead (w_runs w)\<rparr>)))"

definition PruneRuns :: "uuid \<Rightarrow> string list result io" where
  "PruneRuns pid = dbop (prune_stmt pid)"

definition apply_upgrade :: "string \<Rightarrow> rawjson \<Rightarrow> params \<Rightarrow> string option \<Rightarrow> instant \<Rightarrow> Portfolio \<Rightarrow> Portfolio" where
  "apply_upgrade newVer newDescribe newParams newPresetName now p =
     p\<lparr>p_StrategyVer := Some newVer, p_StrategyDescribeJSON := newDescribe, p_Parameters := newParams,
       p_PresetName := newPresetName, p_Status := StatusPending, p_LastError := None, p_UpdatedAt := now\<rparr>"

definition upgrade_stmt :: "uuid \<Rightarrow> string \<Rightarrow> rawjson \<Rightarrow> params \<Rightarrow> string option \<Rightarrow> world \<Rightarrow> unit result \<times> world" where
  "upgrade_stmt pid newVer newDescribe newParams newPresetName w =
     (if \<not> json_document newDescribe then (Inl (wrap ''updating portfolio'' json_column_error), w)
      else if affected (\<lambda>p. p_ID p = pid) (w_portfolios w) = 0 then (Inl not_found, w)
      else (Inr (), update_portfolio pid (apply_upgrade newVer newDescribe newParams newPresetName) w))"

definition ApplyUpgrade :: "uuid \<Rightarrow> string \<Rightarrow> rawjson \<Rightarrow> params \<Rightarrow> string option \<Rightarrow> unit result io" where
  "ApplyUpgrade pid newVer newDescribe newParams newPresetName =
     dbop (upgrade_stmt pid newVer newDescribe newParams newPresetName)"

text \<open>
  \<open>ClaimDue\<close>: \<open>etDay\<close> is the calendar day of an instant in America/New_York. Portfolios that
  never ran come first, then the ones that ran longest ago.
\<close>

definition started_on :: "(instant \<Rightarrow> date) \<Rightarrow> instant \<Rightarrow> Run \<Rightarrow> bool" where
  "started_on etDay now r \<longleftrightarrow> (case r_StartedAt r of None \<Rightarrow> False | Some t \<Rightarrow> etDay t = etDay now)"

definition claimable :: "(instant \<Rightarrow> date) \<Rightarrow> world \<Rightarrow> Portfolio \<Rightarrow> bool" where
  "claimable etDay w p \<longleftrightarrow>
     p_EndDate p = None \<and> (p_Status p = StatusReady \<or> p_Status p = StatusFailed)
     \<and> \<not> list_ex (\<lambda>r. r_PortfolioID r = p_ID p \<and> r_TriggeredBy r = TriggerScheduled
          \<and> started_on etDay (w_now w) r) (w_runs w)
     \<and> \<not> list_ex (\<lambda>r. r_PortfolioID r = p_ID p \<and> in_flight r) (w_runs w)"

definition claim_before :: "Portfolio \<Rightarrow> Portfolio \<Rightarrow> bool" where
  "claim_before p q \<longleftrightarrow> (case (p_LastRunAt p, p_LastRunAt q) of
      (None, _) \<Rightarrow> True | (Some _, None) \<Rightarrow> False | (Some a, Some b) \<Rightarrow> a \<le> b)"

fun claim_insert :: "Portfolio \<Rightarrow> Portfolio list \<Rightarrow> Portfolio list" where
  "claim_insert p [] = [p]"
| "claim_insert p (q # qs) = (if claim_before p q then p # q # qs else q # claim_insert p qs)"

definition claim_sort :: "Portfolio list \<Rightarrow> Portfolio list" where
  "claim_sort ps = foldr claim_insert ps []"

definition ClaimDue :: "(instant \<Rightarrow> date) \<Rightarrow> int \<Rightarrow> uuid list result io" where
  "ClaimDue etDay batchSize = dbread (\<lambda>w.
     if batchSize < 0 then Inl (Error [] ''ERROR: LIMIT must not be negative (SQLSTATE 2201W)'')
     else Inr (take (nat batchSize) (map p_ID (claim_sort (filter (claimable etDay w) (w_portfolios w))))))"

subsection \<open>portfolio/runs.go\<close>

definition create_run_stmt :: "uuid \<Rightarrow> run_status \<Rightarrow> trigger \<Rightarrow> world \<Rightarrow> Run result \<times> world" where
  "create_run_stmt pid st trig w =
     (let r = \<lparr>r_ID = w_next w, r_PortfolioID = pid, r_Status = st, r_StartedAt = None, r_FinishedAt = None,
               r_DurationMs = None, r_Error = None, r_SnapshotPath = None, r_TriggeredBy = trig\<rparr> in
      if \<not> one_inflight (w_runs w @ [r]) then (Inl unique_error, w)
      else if affected (\<lambda>p. p_ID p = pid) (w_portfolios w) = 0 then (Inl fk_error, w)
      else (Inr r, w\<lparr>w_runs := w_runs w @ [r], w_next := Suc (w_next w)\<rparr>))"

definition CreateRun :: "uuid \<Rightarrow> run_status \<Rightarrow> trigger \<Rightarrow> Run result io" where
  "CreateRun pid st trig = do {
     r \<leftarrow> dbop (create_run_stmt pid st trig);
     State_Monad.return (case r of Inr x \<Rightarrow> Inr x | Inl e \<Rightarrow> if uniqueViolation e then Inl run_in_flight else Inl e)
   }"

definition UpdateRunRunning :: "uuid \<Rightarrow> unit result io" where
  "UpdateRunRunning runID = dbop (update_run_stmt runID run_running)"

definition UpdateRunSuccess :: "uuid \<Rightarrow> string \<Rightarrow> int \<Rightarrow> unit result io" where
  "UpdateRunSuccess runID snapshotPath ms = dbop (update_run_stmt runID (run_success snapshotPath ms))"

definition UpdateRunFailed :: "uuid \<Rightarrow> string \<Rightarrow> int \<Rightarrow> unit result io" where
  "UpdateRunFailed runID errMsg ms = dbop (update_run_stmt runID (run_failed errMsg ms))"

text \<open>\<open>ORDER BY COALESCE(started_at, '0001-01-01') DESC\<close>; year 1 in microseconds.\<close>

definition year_one :: instant where "year_one = -62135596800000000"

definition started_or_year_one :: "Run \<Rightarrow> instant" where
  "started_or_year_one r = (case r_StartedAt r of None \<Rightarrow> year_one | Some t \<Rightarrow> t)"

definition list_runs :: "uuid \<Rightarrow> Run list \<Rightarrow> Run list" where
  "list_runs pid rs = sort_key (\<lambda>r. - started_or_year_one r) (filter (\<lambda>r. r_PortfolioID r = pid) rs)"

definition ListRuns :: "uuid \<Rightarrow> Run list result io" where
  "ListRuns pid = dbread (\<lambda>w. Inr (list_runs pid (w_runs w)))"

definition GetRun :: "uuid \<Rightarrow> uuid \<Rightarrow> Run result io" where
  "GetRun pid runID = do {
     r \<leftarrow> dbread (\<lambda>w. case List.find (\<lambda>r. r_ID r = runID \<and> r_PortfolioID r = pid) (w_runs w) of
              None \<Rightarrow> Inl not_found | Some x \<Rightarrow> Inr x);
     State_Monad.return (case r of Inl _ \<Rightarrow> Inl not_found | Inr x \<Rightarrow> Inr x)
   }"

section \<open>The invariant of the tables\<close>

definition slug_key :: "Portfolio \<Rightarrow> string \<times> string" where
  "slug_key p = (p_OwnerSub p, p_Slug p)"

definition db_inv :: "world \<Rightarrow> bool" where
  "db_inv w \<longleftrightarrow> 0 < w_next w
     \<and> distinct (map p_ID (w_portfolios w)) \<and> distinct (map slug_key (w_portfolios w))
     \<and> distinct (map r_ID (w_runs w)) \<and> distinct (map a_ID (w_alerts w))
     \<and> (\<forall>p \<in> set (w_portfolios w). 0 < p_ID p \<and> p_ID p < w_next w \<and> 1 \<le> p_RunRetention p)
     \<and> (\<forall>r \<in> set (w_runs w). 0 < r_ID r \<and> r_ID r < w_next w \<and> r_PortfolioID r \<in> p_ID ` set (w_portfolios w))
     \<and> (\<forall>a \<in> set (w_alerts w). 0 < a_ID a \<and> a_ID a < w_next w \<and> a_PortfolioID a \<in> p_ID ` set (w_portfolios w))
     \<and> one_inflight (w_runs w)"

lemma outcome_free_db_inv [simp]: "outcome_free db_inv"
  by (simp add: outcome_free_def db_inv_def)

lemma db_inv_empty: "db_inv empty_world"
  by (simp add: db_inv_def empty_world_def one_inflight_def)

text \<open>Updates of rows that keep the keys keep the invariant.\<close>

lemma db_inv_update_portfolios:
  assumes "db_inv w" and "\<And>p. p_ID (u p) = p_ID p" and "\<And>p. slug_key (u p) = slug_key p"
    and "\<And>p. p \<in> set (update_where c u (w_portfolios w)) \<Longrightarrow> 1 \<le> p_RunRetention p"
  shows "db_inv (w\<lparr>w_portfolios := update_where c u (w_portfolios w)\<rparr>)"
proof -
  let ?ps = "update_where c u (w_portfolios w)"
  have ids: "map p_ID ?ps = map p_ID (w_portfolios w)" and keys: "map slug_key ?ps = map slug_key (w_portfolios w)"
    using assms(2,3) by simp_all
  have img: "p_ID ` set ?ps = p_ID ` set (w_portfolios w)" using ids by (metis set_map)
  have "0 < p_ID p \<and> p_ID p < w_next w \<and> 1 \<le> p_RunRetention p" if "p \<in> set ?ps" for p
  proof -
    from img that obtain q where "q \<in> set (w_portfolios w)" "p_ID q = p_ID p" by (metis image_iff)
    with assms(1) assms(4) [OF that] show ?thesis by (auto simp: db_inv_def)
  qed
  with assms(1) ids keys img show ?thesis by (auto simp: db_inv_def)
qed

lemma db_inv_update_runs:
  assumes "db_inv w" and "\<And>r. r_ID (u r) = r_ID r" and "\<And>r. r_PortfolioID (u r) = r_PortfolioID r"
    and "one_inflight (update_where c u (w_runs w))"
  shows "db_inv (w\<lparr>w_runs := update_where c u (w_runs w)\<rparr>)"
proof -
  have "map r_ID (update_where c u (w_runs w)) = map r_ID (w_runs w)" using assms(2) by simp
  moreover have "0 < r_ID r \<and> r_ID r < w_next w \<and> r_PortfolioID r \<in> p_ID ` set (w_portfolios w)"
    if "r \<in> set (update_where c u (w_runs w))" for r
    using that assms(1-3) by (auto simp: db_inv_def elim!: in_update_whereE)
  ultimately show ?thesis using assms(1,4) by (auto simp: db_inv_def)
qed

lemma one_inflight_delete: "one_inflight rs \<Longrightarrow> one_inflight (delete_where c rs)"
proof -
  assume "one_inflight rs"
  moreover have "filter in_flight (delete_where c rs) = filter (\<lambda>r. \<not> c r) (filter in_flight rs)"
    by (simp add: delete_where_def conj_commute)
  ultimately show ?thesis by (simp only: one_inflight_def distinct_map_filter)
qed

lemma db_inv_delete_runs: "db_inv w \<Longrightarrow> db_inv (w\<lparr>w_runs := delete_where c (w_runs w)\<rparr>)"
  by (auto simp: db_inv_def distinct_map_delete_where one_inflight_delete)

lemma slug_key_simps [simp]:
  "slug_key (p\<lparr>p_Name := x\<rparr>) = slug_key p" "slug_key (p\<lparr>p_UpdatedAt := t\<rparr>) = slug_key p"
  "slug_key (p\<lparr>p_StartDate := d\<rparr>) = slug_key p" "slug_key (p\<lparr>p_EndDate := d\<rparr>) = slug_key p"
  "slug_key (p\<lparr>p_RunRetention := n\<rparr>) = slug_key p"
  by (simp_all add: slug_key_def)

lemma mark_keys [simp]:
  "p_ID (mark_running n p) = p_ID p" "slug_key (mark_running n p) = slug_key p" "p_RunRetention (mark_running n p) = p_RunRetention p"
  "p_ID (mark_ready s k n p) = p_ID p" "slug_key (mark_ready s k n p) = slug_key p" "p_RunRetention (mark_ready s k n p) = p_RunRetention p"
  "p_ID (mark_failed e n p) = p_ID p" "slug_key (mark_failed e n p) = slug_key p" "p_RunRetention (mark_failed e n p) = p_RunRetention p"
  "p_ID (apply_upgrade v d ps pn n p) = p_ID p" "slug_key (apply_upgrade v d ps pn n p) = slug_key p"
  "p_RunRetention (apply_upgrade v d ps pn n p) = p_RunRetention p"
  by (simp_all add: mark_running_def mark_ready_def mark_failed_def apply_upgrade_def slug_key_def)

lemma run_update_keys [simp]:
  "r_ID (run_running n r) = r_ID r" "r_PortfolioID (run_running n r) = r_PortfolioID r"
  "r_ID (run_success s m n r) = r_ID r" "r_PortfolioID (run_success s m n r) = r_PortfolioID r"
  "r_ID (run_failed e m n r) = r_ID r" "r_PortfolioID (run_failed e m n r) = r_PortfolioID r"
  by (simp_all add: run_running_def run_success_def run_failed_def)

lemma db_inv_update_portfolio:
  assumes "db_inv w" and "\<And>n p. p_ID (u n p) = p_ID p" and "\<And>n p. slug_key (u n p) = slug_key p"
    and "\<And>n p. p_RunRetention (u n p) = p_RunRetention p"
  shows "db_inv (update_portfolio pid u w)"
  unfolding update_portfolio_def
  by (rule db_inv_update_portfolios)
    (use assms in \<open>auto simp: db_inv_def elim!: in_update_whereE\<close>)

lemma db_inv_update_run_stmt:
  assumes "db_inv w" and "\<And>n r. r_ID (u n r) = r_ID r" and "\<And>n r. r_PortfolioID (u n r) = r_PortfolioID r"
  shows "db_inv (snd (update_run_stmt runID u w))"
  using assms db_inv_update_runs [OF assms(1), of "u (w_now w)"]
  by (simp add: update_run_stmt_def commit_runs_def)

lemma db_inv_both_stmt:
  assumes "db_inv w" and "\<And>n p. p_ID (up n p) = p_ID p" and "\<And>n p. slug_key (up n p) = slug_key p"
    and "\<And>n p. p_RunRetention (up n p) = p_RunRetention p"
    and "\<And>n r. r_ID (ur n r) = r_ID r" and "\<And>n r. r_PortfolioID (ur n r) = r_PortfolioID r"
  shows "db_inv (snd (both_stmt pid runID up ur w))"
proof -
  have "db_inv (update_portfolio pid up w)" by (rule db_inv_update_portfolio) (use assms in auto)
  then have "db_inv (snd (update_run_stmt runID ur (update_portfolio pid up w)))"
    by (rule db_inv_update_run_stmt) (use assms in auto)
  with assms(1) show ?thesis by (auto simp: both_stmt_def split: prod.splits sum.splits)
qed

lemma db_inv_update_owned:
  assumes "db_inv w" and "\<And>n p. p_ID (u n p) = p_ID p" and "\<And>n p. slug_key (u n p) = slug_key p"
  shows "db_inv (snd (update_owned o' sl u w))"
proof (cases "list_all (\<lambda>p. 1 \<le> p_RunRetention p) (update_where (owned o' sl) (u (w_now w)) (w_portfolios w))")
  case True
  then show ?thesis
    using db_inv_update_portfolios [OF assms(1), of "u (w_now w)" "owned o' sl"] assms(2,3)
    by (simp add: update_owned_def Let_def list_all_iff)
qed (use assms(1) in \<open>simp add: update_owned_def Let_def\<close>)

lemma db_inv_insert_stmt: "db_inv w \<Longrightarrow> db_inv (snd (insert_stmt p w))"
  by (force simp: insert_stmt_def db_inv_def affected_eq_0 owned_def slug_key_def less_Suc_eq)

lemma one_inflight_update_failed: "one_inflight rs \<Longrightarrow> one_inflight (update_where in_flight u rs)"
  if "\<And>r. \<not> in_flight (u r)"
proof -
  from that have "filter in_flight (update_where in_flight u rs) = []"
    by (induction rs) (auto simp: update_where_def)
  then show ?thesis by (simp add: one_inflight_def)
qed

lemma db_inv_mark_all_failed: "db_inv w \<Longrightarrow> db_inv (snd (mark_all_failed_stmt reason w))"
proof -
  assume inv: "db_inv w"
  let ?w = "w\<lparr>w_portfolios := update_where (\<lambda>p. p_Status p = StatusRunning) (mark_failed reason (w_now w)) (w_portfolios w)\<rparr>"
  have "db_inv ?w"
    by (rule db_inv_update_portfolios) (use inv in \<open>auto simp: db_inv_def elim!: in_update_whereE\<close>)
  then have "db_inv (?w\<lparr>w_runs := update_where in_flight (\<lambda>r. r\<lparr>r_Status := RunFailed, r_FinishedAt := Some (w_now w),
                      r_Error := Some reason\<rparr>) (w_runs ?w)\<rparr>)"
    by (rule db_inv_update_runs)
      (use inv in \<open>auto simp: in_flight_def db_inv_def intro!: one_inflight_update_failed\<close>)
  then show ?thesis by (simp add: mark_all_failed_stmt_def Let_def)
qed

lemma db_inv_delete_stmt: "db_inv w \<Longrightarrow> db_inv (snd (delete_stmt o' sl w))"
  by (auto simp: delete_stmt_def Let_def db_inv_def distinct_map_delete_where one_inflight_delete image_iff)
    blast+

lemma db_inv_prune_stmt: "db_inv w \<Longrightarrow> db_inv (snd (prune_stmt pid w))"
  by (auto simp: prune_stmt_def Let_def db_inv_delete_runs split: option.splits)

lemma db_inv_create_run_stmt: "db_inv w \<Longrightarrow> db_inv (snd (create_run_stmt pid st t w))"
  by (force simp: create_run_stmt_def Let_def db_inv_def affected_eq_0 less_Suc_eq)

lemma db_inv_upgrade_stmt: "db_inv w \<Longrightarrow> db_inv (snd (upgrade_stmt pid v d ps pn w))"
  by (simp add: upgrade_stmt_def db_inv_update_portfolio)

text \<open>Every operation of the store keeps the invariant, whatever the database calls do.\<close>

lemma store_reads_preserve [preserve_rules]:
  assumes "outcome_free I"
  shows "preserves I (List o')" "preserves I (ListByStrategyCode c)" "preserves I (Get o' sl)" "preserves I (GetByID i)"
    "preserves I AllPortfolioIDs" "preserves I AllRunIDs" "preserves I (ClaimDue et n)" "preserves I (ListRuns i)"
    "preserves I (GetRun i j)"
  unfolding List_def ListByStrategyCode_def Get_def GetByID_def AllPortfolioIDs_def AllRunIDs_def ClaimDue_def
    ListRuns_def GetRun_def
  using assms by (auto intro!: preserves_dbread preserve_rules)

lemma store_writes_preserve [preserve_rules]:
  "preserves db_inv (Insert p)" "preserves db_inv (UpdateName o' sl n)" "preserves db_inv (UpdateDates o' sl a b)"
  "preserves db_inv (UpdateRunRetention o' sl rv)" "preserves db_inv (Delete o' sl)"
  "preserves db_inv (SetRunning i)" "preserves db_inv (SetReady i s k)" "preserves db_inv (SetFailed i e)"
  "preserves db_inv (MarkRunningTx i j)" "preserves db_inv (MarkReadyTx i j s k m)" "preserves db_inv (MarkFailedTx i j e m)"
  "preserves db_inv (MarkAllRunningAsFailed e)" "preserves db_inv (PruneRuns i)" "preserves db_inv (ApplyUpgrade i v d ps pn)"
  "preserves db_inv (CreateRun i st t)" "preserves db_inv (UpdateRunRunning j)" "preserves db_inv (UpdateRunSuccess j s m)"
  "preserves db_inv (UpdateRunFailed j e m)"
  unfolding Insert_def UpdateName_def UpdateDates_def UpdateRunRetention_def Delete_def SetRunning_def SetReady_def
    SetFailed_def MarkRunningTx_def MarkReadyTx_def MarkFailedTx_def MarkAllRunningAsFailed_def PruneRuns_def
    ApplyUpgrade_def CreateRun_def UpdateRunRunning_def UpdateRunSuccess_def UpdateRunFailed_def
  by (auto intro!: preserves_bind preserves_return preserves_dbop db_inv_insert_stmt db_inv_update_owned
      db_inv_delete_stmt db_inv_update_portfolio db_inv_both_stmt db_inv_mark_all_failed db_inv_prune_stmt
      db_inv_upgrade_stmt db_inv_create_run_stmt db_inv_update_run_stmt)

subsection \<open>Sequences of store calls\<close>

text \<open>
  Handlers, workers, the scheduler and the sweeps run concurrently; what they do to the tables is
  an interleaving of store calls. \<open>store_op\<close> names the calls, a history is a list of them.
\<close>

datatype store_op =
    OpInsert Portfolio | OpUpdateName string string string | OpUpdateDates string string "date option" "date option"
  | OpUpdateRunRetention string string int | OpDelete string string
  | OpSetRunning uuid | OpSetReady uuid string Kpis | OpSetFailed uuid string
  | OpMarkRunningTx uuid uuid | OpMarkReadyTx uuid uuid string Kpis int | OpMarkFailedTx uuid uuid string int
  | OpMarkAllRunningAsFailed string | OpPruneRuns uuid | OpApplyUpgrade uuid string rawjson params "string option"
  | OpCreateRun uuid run_status trigger | OpUpdateRunRunning uuid | OpUpdateRunSuccess uuid string int
  | OpUpdateRunFailed uuid string int | OpRead | OpTime nat

definition ignore :: "'a io \<Rightarrow> unit io" where
  "ignore m = do { _ \<leftarrow> m; State_Monad.return () }"

fun exec_op :: "store_op \<Rightarrow> unit io" where
  "exec_op (OpInsert p) = ignore (Insert p)"
| "exec_op (OpUpdateName o' sl n) = ignore (UpdateName o' sl n)"
| "exec_op (OpUpdateDates o' sl a b) = ignore (UpdateDates o' sl a b)"
| "exec_op (OpUpdateRunRetention o' sl v) = ignore (UpdateRunRetention o' sl v)"
| "exec_op (OpDelete o' sl) = ignore (Delete o' sl)"
| "exec_op (OpSetRunning i) = ignore (SetRunning i)"
| "exec_op (OpSetReady i s k) = ignore (SetReady i s k)"
| "exec_op (OpSetFailed i e) = ignore (SetFailed i e)"
| "exec_op (OpMarkRunningTx i j) = ignore (MarkRunningTx i j)"
| "exec_op (OpMarkReadyTx i j s k m) = ignore (MarkReadyTx i j s k m)"
| "exec_op (OpMarkFailedTx i j e m) = ignore (MarkFailedTx i j e m)"
| "exec_op (OpMarkAllRunningAsFailed e) = ignore (MarkAllRunningAsFailed e)"
| "exec_op (OpPruneRuns i) = ignore (PruneRuns i)"
| "exec_op (OpApplyUpgrade i v d ps pn) = ignore (ApplyUpgrade i v d ps pn)"
| "exec_op (OpCreateRun i st t) = ignore (CreateRun i st t)"
| "exec_op (OpUpdateRunRunning j) = ignore (UpdateRunRunning j)"
| "exec_op (OpUpdateRunSuccess j s m) = ignore (UpdateRunSuccess j s m)"
| "exec_op (OpUpdateRunFailed j e m) = ignore (UpdateRunFailed j e m)"
| "exec_op OpRead = ignore AllRunIDs"
| "exec_op (OpTime n) = State_Monad.update (\<lambda>w. w\<lparr>w_now := w_now w + int n\<rparr>)"

lemma preserves_ignore [preserve_rules]: "preserves I m \<Longrightarrow> preserves I (ignore m)"
  unfolding ignore_def by (intro preserve_rules)

lemma exec_op_preserves: "preserves db_inv (exec_op op)"
proof (cases op)
  case (OpTime n) then show ?thesis by (simp add: preserves_def db_inv_def)
qed (simp_all add: preserve_rules)

definition run_ops :: "store_op list \<Rightarrow> db_outcome list \<Rightarrow> world \<Rightarrow> world" where
  "run_ops ops outcomes w = snd (run_state (for_each ops exec_op) (w\<lparr>w_outcomes := outcomes\<rparr>))"

lemma run_ops_inv: "db_inv w \<Longrightarrow> db_inv (run_ops ops outcomes w)"
proof -
  assume "db_inv w"
  then have "db_inv (w\<lparr>w_outcomes := outcomes\<rparr>)" by (simp add: db_inv_def)
  moreover have "preserves db_inv (for_each ops exec_op)" by (intro preserves_for_each exec_op_preserves)
  ultimately show ?thesis by (simp add: run_ops_def preservesD)
qed

definition runs_of :: "uuid \<Rightarrow> Run list \<Rightarrow> Run list" where
  "runs_of pid rs = filter (\<lambda>r. r_PortfolioID r = pid) rs"

lemma one_inflight_count: "one_inflight rs \<Longrightarrow> length (filter in_flight (runs_of pid rs)) \<le> 1"
  using distinct_map_count [of r_PortfolioID "filter in_flight rs" pid]
  by (simp add: one_inflight_def runs_of_def conj_commute)


subsection \<open>Pruning keeps the newest runs\<close>

lemma prunable_iff:
  assumes "distinct (map r_ID rs)" and "r \<in> set rs" and "r_PortfolioID r = pid" and "0 \<le> k"
  shows "prunable pid k rs r \<longleftrightarrow> r_ID r \<notin> set (take (nat k) (rev (sort (map r_ID (runs_of pid rs)))))"
proof -
  have d: "distinct (map r_ID (runs_of pid rs))" using assms(1) by (simp add: runs_of_def distinct_map_filter)
  have "r_ID r \<in> set (map r_ID (runs_of pid rs))" using assms(2,3) by (auto simp: runs_of_def)
  from rank_take_sorted [OF d this, of "nat k"] assms(3,4) show ?thesis
    by (auto simp: prunable_def row_number_def runs_of_def filter_map o_def conj_commute)
qed

text \<open>
  C22. Pruning leaves a portfolio exactly its \<open>run_retention\<close> newest runs (largest ids), leaves
  the runs of other portfolios alone, and returns the snapshot paths of the deleted runs.
\<close>

theorem PruneRuns_keeps_newest:
  assumes "db_inv w" and "w_outcomes w = []" and "p \<in> set (w_portfolios w)"
  shows "\<exists>paths w'. run_state (PruneRuns (p_ID p)) w = (Inr paths, w')
    \<and> set (map r_ID (runs_of (p_ID p) (w_runs w')))
        = set (take (nat (p_RunRetention p)) (rev (sort (map r_ID (runs_of (p_ID p) (w_runs w))))))
    \<and> filter (\<lambda>r. r_PortfolioID r \<noteq> p_ID p) (w_runs w') = filter (\<lambda>r. r_PortfolioID r \<noteq> p_ID p) (w_runs w)
    \<and> set paths = {s. s \<noteq> [] \<and> (\<exists>r \<in> set (w_runs w) - set (w_runs w'). r_SnapshotPath r = Some s)}
    \<and> w_portfolios w' = w_portfolios w"
proof -
  have d: "distinct (map r_ID (w_runs w))" and ret: "0 \<le> p_RunRetention p" using assms(1,3) by (auto simp: db_inv_def)
  have find: "List.find (\<lambda>q. p_ID q = p_ID p) (w_portfolios w) = Some p"
    using assms by (subst find_Some_iff_key) (auto simp: db_inv_def)
  let ?dead = "prunable (p_ID p) (p_RunRetention p) (w_runs w)"
  let ?w = "w\<lparr>w_runs := delete_where ?dead (w_runs w)\<rparr>"
  have "run_state (PruneRuns (p_ID p)) w =
      (Inr (filter (\<lambda>s. s \<noteq> []) (map snapshot_or_empty (filter ?dead (w_runs w)))), ?w)"
    using assms(2) by (simp add: PruneRuns_def prune_stmt_def find Let_def)
  moreover have "set (map r_ID (runs_of (p_ID p) (w_runs ?w)))
      = set (take (nat (p_RunRetention p)) (rev (sort (map r_ID (runs_of (p_ID p) (w_runs w))))))" (is "?L = ?R")
  proof -
    have dead: "?dead r \<longleftrightarrow> r_ID r \<notin> ?R" if "r \<in> set (runs_of (p_ID p) (w_runs w))" for r
      using prunable_iff [OF d _ _ ret] that by (simp add: runs_of_def)
    have "?L = r_ID ` {r \<in> set (runs_of (p_ID p) (w_runs w)). \<not> ?dead r}" by (auto simp: runs_of_def)
    also have "{r \<in> set (runs_of (p_ID p) (w_runs w)). \<not> ?dead r} = {r \<in> set (runs_of (p_ID p) (w_runs w)). r_ID r \<in> ?R}"
      using dead by blast
    also have "r_ID ` \<dots> = {i \<in> set (map r_ID (runs_of (p_ID p) (w_runs w))). i \<in> ?R}" by auto
    also have "\<dots> = ?R" using set_take_subset by fastforce
    finally show ?thesis .
  qed
  moreover have "filter (\<lambda>r. r_PortfolioID r \<noteq> p_ID p) (w_runs ?w) = filter (\<lambda>r. r_PortfolioID r \<noteq> p_ID p) (w_runs w)"
    by (auto simp: delete_where_def prunable_def intro!: filter_cong)
  moreover have "set (filter (\<lambda>s. s \<noteq> []) (map snapshot_or_empty (filter ?dead (w_runs w)))) =
      {s. s \<noteq> [] \<and> (\<exists>r \<in> set (w_runs w) - set (w_runs ?w). r_SnapshotPath r = Some s)}"
    by (auto simp: snapshot_or_empty_def split: option.splits) force
  ultimately show ?thesis by auto
qed

text \<open>A small database: one portfolio with three finished runs.\<close>

definition demo_portfolio :: Portfolio where
  "demo_portfolio = \<lparr>p_ID = 1, p_OwnerSub = ''auth0|u'', p_Slug = ''adm-custom-aaaa'', p_Name = ''ADM'',
     p_StrategyCode = ''adm'', p_StrategyVer = Some ''v1.0.0'', p_StrategyCloneURL = ''https://github.com/x/adm'',
     p_StrategyDescribeJSON = RawDoc (JObj []), p_Parameters = [], p_PresetName = None, p_Benchmark = ''SPY'',
     p_StartDate = None, p_EndDate = None, p_Status = StatusReady, p_LastRunAt = Some 30, p_LastError = None,
     p_SnapshotPath = Some ''/snap/4'', p_CurrentValue = None, p_YtdReturn = None, p_MaxDrawdown = None,
     p_Sharpe = None, p_CagrSinceInception = None, p_InceptionDate = None, p_CreatedAt = 0, p_UpdatedAt = 0,
     p_RunRetention = 2\<rparr>"

definition demo_run :: "uuid \<Rightarrow> string \<Rightarrow> Run" where
  "demo_run i path = \<lparr>r_ID = i, r_PortfolioID = 1, r_Status = RunSuccess, r_StartedAt = Some (10 * int i), r_FinishedAt = Some (10 * int i + 5),
     r_DurationMs = Some 5, r_Error = None, r_SnapshotPath = Some path, r_TriggeredBy = TriggerManual\<rparr>"

definition demo_world :: world where
  "demo_world = empty_world\<lparr>w_portfolios := [demo_portfolio],
     w_runs := [demo_run 2 ''/snap/2'', demo_run 3 ''/snap/3'', demo_run 4 ''/snap/4''], w_next := 5, w_now := 100\<rparr>"

lemma demo_world_inv: "db_inv demo_world"
  by (simp add: db_inv_def demo_world_def empty_world_def demo_portfolio_def demo_run_def one_inflight_def in_flight_def)

lemma demo_world_simps [simp]:
  "w_outcomes demo_world = []" "w_portfolios demo_world = [demo_portfolio]" "p_ID demo_portfolio = 1"
  by (simp_all add: demo_world_def empty_world_def demo_portfolio_def)

lemma demo_idle: "filter in_flight (runs_of 1 (w_runs demo_world)) = []"
  by (simp add: runs_of_def demo_world_def demo_run_def in_flight_def)

theorem PruneRuns_keeps_newest_witness:
  "\<exists>paths w'. run_state (PruneRuns 1) demo_world = (Inr paths, w')
    \<and> set (map r_ID (runs_of 1 (w_runs w')))
        = set (take (nat (p_RunRetention demo_portfolio)) (rev (sort (map r_ID (runs_of 1 (w_runs demo_world))))))"
  using PruneRuns_keeps_newest [OF demo_world_inv, of demo_portfolio] by auto

subsection \<open>At most one run in flight\<close>

lemma one_inflight_snoc:
  "one_inflight (rs @ [r]) \<longleftrightarrow> one_inflight rs \<and> (in_flight r \<longrightarrow> filter in_flight (runs_of (r_PortfolioID r) rs) = [])"
  by (auto simp: one_inflight_def runs_of_def filter_empty_conv image_iff)

lemma run_CreateRun:
  assumes "w_outcomes w = []" and "one_inflight (w_runs w)" and "in_flight (\<lparr>r_ID = 0, r_PortfolioID = 0, r_Status = st,
      r_StartedAt = None, r_FinishedAt = None, r_DurationMs = None, r_Error = None, r_SnapshotPath = None, r_TriggeredBy = trig\<rparr>)"
  shows "run_state (CreateRun pid st trig) w =
    (let r = \<lparr>r_ID = w_next w, r_PortfolioID = pid, r_Status = st, r_StartedAt = None, r_FinishedAt = None,
               r_DurationMs = None, r_Error = None, r_SnapshotPath = None, r_TriggeredBy = trig\<rparr> in
     if filter in_flight (runs_of pid (w_runs w)) \<noteq> [] then (Inl run_in_flight, w)
     else if pid \<notin> p_ID ` set (w_portfolios w) then (Inl fk_error, w)
     else (Inr r, w\<lparr>w_runs := w_runs w @ [r], w_next := Suc (w_next w)\<rparr>))"
  using assms
  by (auto simp: CreateRun_def create_run_stmt_def Let_def one_inflight_snoc in_flight_def affected_eq_0 image_iff)

text \<open>
  \<open>CreateRun\<close> with status queued is refused with \<open>ErrRunInFlight\<close> exactly when the
  portfolio already has a queued or running run; otherwise it appends one queued run with the
  given trigger (or reports the missing portfolio), and nothing else changes.
\<close>

lemma CreateRun_queued:
  assumes "db_inv w" and "w_outcomes w = []"
  shows "run_state (CreateRun pid RunQueued trig) w =
    (let r = \<lparr>r_ID = w_next w, r_PortfolioID = pid, r_Status = RunQueued, r_StartedAt = None, r_FinishedAt = None,
               r_DurationMs = None, r_Error = None, r_SnapshotPath = None, r_TriggeredBy = trig\<rparr> in
     if filter in_flight (runs_of pid (w_runs w)) \<noteq> [] then (Inl run_in_flight, w)
     else if pid \<notin> p_ID ` set (w_portfolios w) then (Inl fk_error, w)
     else (Inr r, w\<lparr>w_runs := w_runs w @ [r], w_next := Suc (w_next w)\<rparr>))"
  by (rule run_CreateRun) (use assms in \<open>simp_all add: db_inv_def in_flight_def\<close>)

subsection \<open>Claiming due portfolios\<close>

lemma claim_before_trans: "claim_before p q \<Longrightarrow> claim_before q r \<Longrightarrow> claim_before p r"
  by (auto simp: claim_before_def split: option.splits)

lemma claim_before_total: "\<not> claim_before p q \<Longrightarrow> claim_before q p"
  by (auto simp: claim_before_def split: option.splits)

lemma mset_claim_insert: "mset (claim_insert p qs) = add_mset p (mset qs)"
  by (induction qs) auto

lemma sorted_claim_insert: "sorted_wrt claim_before qs \<Longrightarrow> sorted_wrt claim_before (claim_insert p qs)"
proof (induction qs)
  case (Cons q qs)
  have "set (claim_insert p qs) = insert p (set qs)" using mset_claim_insert by (metis set_mset_add_mset_insert set_mset_mset)
  with Cons show ?case by (auto intro: claim_before_trans dest: claim_before_total)
qed simp

lemma claim_sort_spec: "mset (claim_sort ps) = mset ps \<and> sorted_wrt claim_before (claim_sort ps)"
  by (induction ps) (simp_all add: claim_sort_def mset_claim_insert sorted_claim_insert)



subsection \<open>Start-up sweep and transactions\<close>

text \<open>
  After the start-up sweep no run is queued or running and no portfolio is running; rows in
  any other status are untouched, and the counts are the numbers of rows that were changed.
\<close>

lemma MarkAllRunningAsFailed_spec:
  assumes "w_outcomes w = []"
  shows "\<exists>w'. run_state (MarkAllRunningAsFailed reason) w =
      (Inr (length (filter (\<lambda>p. p_Status p = StatusRunning) (w_portfolios w)), length (filter in_flight (w_runs w))), w')
    \<and> filter in_flight (w_runs w') = [] \<and> filter (\<lambda>p. p_Status p = StatusRunning) (w_portfolios w') = []
    \<and> length (w_runs w') = length (w_runs w)
    \<and> set (filter (\<lambda>r. \<not> in_flight r) (w_runs w)) \<subseteq> set (w_runs w')
    \<and> set (filter (\<lambda>p. p_Status p \<noteq> StatusRunning) (w_portfolios w)) \<subseteq> set (w_portfolios w')"
  using assms
  by (auto simp: MarkAllRunningAsFailed_def mark_all_failed_stmt_def Let_def affected_def filter_empty_conv
      mark_failed_def in_flight_def update_where_def image_iff split: if_splits)

text \<open>
  Publishing a result is atomic: whatever the database call does, either neither row
  changes, or the portfolio is ready with the snapshot path and the run is a success with the
  same path.
\<close>

lemma MarkReadyTx_atomic:
  assumes "db_inv w" and "p \<in> set (w_portfolios w)" and "r \<in> set (w_runs w)"
  shows "(let w' = snd (run_state (MarkReadyTx (p_ID p) (r_ID r) path k ms) w) in
      w_portfolios w' = w_portfolios w \<and> w_runs w' = w_runs w
    \<or> (\<exists>p' \<in> set (w_portfolios w'). p_ID p' = p_ID p \<and> p_Status p' = StatusReady \<and> p_SnapshotPath p' = Some path)
      \<and> (\<exists>r' \<in> set (w_runs w'). r_ID r' = r_ID r \<and> r_Status r' = RunSuccess \<and> r_SnapshotPath r' = Some path))"
proof -
  have both: "(let w' = snd (both_stmt (p_ID p) (r_ID r) (mark_ready path k) (run_success path ms) v) in
      w_portfolios w' = w_portfolios w \<and> w_runs w' = w_runs w
    \<or> (\<exists>p' \<in> set (w_portfolios w'). p_ID p' = p_ID p \<and> p_Status p' = StatusReady \<and> p_SnapshotPath p' = Some path)
      \<and> (\<exists>r' \<in> set (w_runs w'). r_ID r' = r_ID r \<and> r_Status r' = RunSuccess \<and> r_SnapshotPath r' = Some path))"
    if "w_portfolios v = w_portfolios w" "w_runs v = w_runs w" for v
  proof (cases "one_inflight (update_where (\<lambda>q. r_ID q = r_ID r) (run_success path ms (w_now v)) (w_runs v))")
    case True
    have "mark_ready path k (w_now v) p \<in> set (update_where (\<lambda>q. p_ID q = p_ID p) (mark_ready path k (w_now v)) (w_portfolios w))"
      and "run_success path ms (w_now v) r \<in> set (update_where (\<lambda>q. r_ID q = r_ID r) (run_success path ms (w_now v)) (w_runs w))"
      using assms(2,3) by (auto intro: update_whereI)
    moreover have "p_Status (mark_ready path k (w_now v) p) = StatusReady" "p_SnapshotPath (mark_ready path k (w_now v) p) = Some path"
      "r_Status (run_success path ms (w_now v) r) = RunSuccess" "r_SnapshotPath (run_success path ms (w_now v) r) = Some path"
      by (simp_all add: mark_ready_def run_success_def)
    ultimately show ?thesis using True that
      by (simp add: both_stmt_def update_run_stmt_def commit_runs_def update_portfolio_def Let_def) (meson mark_keys(4) run_update_keys(3))
  next
    case False
    with that show ?thesis by (simp add: both_stmt_def update_run_stmt_def commit_runs_def update_portfolio_def Let_def)
  qed
  obtain x w1 where x: "next_outcome w = (x, w1)" by fastforce
  then have w1: "w_portfolios w1 = w_portfolios w" "w_runs w1 = w_runs w"
    by (auto simp: next_outcome_def split: list.splits)
  show ?thesis
  proof (cases x)
    case DbLost with x w1 show ?thesis by (simp add: MarkReadyTx_def run_dbop Let_def)
  qed (use x both [OF w1] in \<open>simp_all add: MarkReadyTx_def run_dbop\<close>)
qed

end
