(* ===== verification/Dispatcher.thy ===== *)
theory Dispatcher
  imports Portfolio_Store
begin

text \<open>
  The bounded worker pool (\<open>backtest/dispatcher.go\<close>, \<open>backtest/config.go\<close>) and the adapters of
  \<open>cmd/server.go\<close> that connect it to the portfolio store. The task channel is the list
  \<open>w_tasks\<close> with capacity \<open>w_cap\<close>; sending on it after it is closed, or closing it twice,
  panics in Go and sets \<open>w_panic\<close>. The interface \<open>backtest.RunStore\<close> is a record of operations
  with a locale of the laws the dispatcher relies on.
\<close>

subsection \<open>Configuration\<close>

record backtest_config =
  bc_SnapshotsDir :: string
  bc_MaxConcurrency :: int
  bc_Timeout :: int
  bc_RunnerMode :: string
  bc_OrphanGCInterval :: int

definition minute :: int where "minute = 60000000"
definition day_us :: int where "day_us = 24 * 60 * minute"

text \<open>\<open>numCPU\<close> is \<open>runtime.NumCPU()\<close>; durations are in microseconds.\<close>

definition ApplyDefaults :: "int \<Rightarrow> backtest_config \<Rightarrow> backtest_config" where
  "ApplyDefaults numCPU c =
     (let c1 = (if bc_MaxConcurrency c = 0 then c\<lparr>bc_MaxConcurrency := numCPU\<rparr> else c);
          c2 = (if bc_Timeout c1 = 0 then c1\<lparr>bc_Timeout := 15 * minute\<rparr> else c1)
      in if bc_OrphanGCInterval c2 = 0 then c2\<lparr>bc_OrphanGCInterval := 7 * day_us\<rparr> else c2)"

definition Config_Validate :: "backtest_config \<Rightarrow> unit result" where
  "Config_Validate c =
     (if bc_SnapshotsDir c = [] then Inl (Error [ErrSnapshotsDirRequired] ''backtest: snapshots_dir is required'')
      else if bc_MaxConcurrency c < 0 then Inl (Error [ErrInvalidConcurrency] ''backtest: max_concurrency must be >= 0'')
      else if bc_RunnerMode c = ''host'' \<or> bc_RunnerMode c = ''docker'' then Inr ()
      else Inl (Error [ErrUnsupportedRunnerMode] ''backtest: runner.mode must be host or docker''))"

subsection \<open>The RunStore interface\<close>

record RunStore =
  rs_CreateRun :: "uuid \<Rightarrow> run_status \<Rightarrow> trigger \<Rightarrow> Run result io"
  rs_UpdateRunRunning :: "uuid \<Rightarrow> unit result io"
  rs_UpdateRunSuccess :: "uuid \<Rightarrow> string \<Rightarrow> int \<Rightarrow> unit result io"
  rs_UpdateRunFailed :: "uuid \<Rightarrow> string \<Rightarrow> int \<Rightarrow> unit result io"

text \<open>\<open>backtestRunStoreAdapter\<close>: the pool store behind the interface.\<close>

definition pool_run_store :: RunStore where
  "pool_run_store = \<lparr>rs_CreateRun = CreateRun, rs_UpdateRunRunning = UpdateRunRunning,
     rs_UpdateRunSuccess = UpdateRunSuccess, rs_UpdateRunFailed = UpdateRunFailed\<rparr>"

subsection \<open>The dispatcher\<close>

text \<open>\<open>NewDispatcher\<close> makes the channel with room for four tasks per worker.\<close>

definition NewDispatcher :: "int \<Rightarrow> backtest_config \<Rightarrow> unit io" where
  "NewDispatcher numCPU cfg = State_Monad.update (\<lambda>w.
     w\<lparr>w_tasks := [], w_cap := nat (bc_MaxConcurrency (ApplyDefaults numCPU cfg) * 4), w_closed := False, w_started := False\<rparr>)"

definition Start :: "unit io" where
  "Start = State_Monad.update (\<lambda>w. w\<lparr>w_started := True\<rparr>)"

text \<open>The non-blocking send of the \<open>select\<close> with a default case.\<close>

definition send_task :: "task \<Rightarrow> bool io" where
  "send_task t = State (\<lambda>w.
     if w_closed w then (False, w\<lparr>w_panic := True\<rparr>)
     else if length (w_tasks w) < w_cap w then (True, w\<lparr>w_tasks := w_tasks w @ [t]\<rparr>)
     else (False, w))"

definition queue_full :: error where
  "queue_full = Error [BacktestErrQueueFull] ''backtest: dispatcher queue full''"

definition Submit :: "RunStore \<Rightarrow> uuid \<Rightarrow> trigger \<Rightarrow> uuid result io" where
  "Submit runs pid trig = do {
     r \<leftarrow> rs_CreateRun runs pid RunQueued trig;
     (case r of
        Inl e \<Rightarrow> State_Monad.return (Inl e)
      | Inr run \<Rightarrow> do {
          sent \<leftarrow> send_task \<lparr>t_portfolioID = pid, t_runID = r_ID run, t_scheduled = (trig = TriggerScheduled)\<rparr>;
          if sent then State_Monad.return (Inr (r_ID run))
          else do {
            _ \<leftarrow> rs_UpdateRunFailed runs (r_ID run) ''dispatcher queue full'' 0;
            State_Monad.return (Inl queue_full)
          }
        })
   }"

definition Shutdown :: "unit io" where
  "Shutdown = State_Monad.update (\<lambda>w.
     if \<not> w_started w then w else if w_closed w then w\<lparr>w_panic := True\<rparr> else w\<lparr>w_closed := True\<rparr>)"

text \<open>One turn of a worker: it takes the oldest task and runs it; the error is only logged.\<close>

definition worker :: "(uuid \<Rightarrow> uuid \<Rightarrow> bool \<Rightarrow> unit result io) \<Rightarrow> unit io" where
  "worker runFn = do {
     w \<leftarrow> State_Monad.get;
     (case w_tasks w of
        [] \<Rightarrow> State_Monad.return ()
      | t # ts \<Rightarrow> do {
          State_Monad.update (w_tasks_update (\<lambda>_. ts));
          _ \<leftarrow> runFn (t_portfolioID t) (t_runID t) (t_scheduled t);
          State_Monad.return ()
        })
   }"

text \<open>\<open>dispatcherAdapter\<close> for the handlers and \<open>schedulerDispatcherAdapter\<close> for the scheduler.\<close>

definition queue_full_portfolio :: error where
  "queue_full_portfolio = Error [ErrQueueFull] ''dispatcher queue full''"

definition dispatcherAdapter_Submit :: "RunStore \<Rightarrow> uuid \<Rightarrow> uuid result io" where
  "dispatcherAdapter_Submit runs pid = do {
     r \<leftarrow> Submit runs pid TriggerManual;
     State_Monad.return (case r of
        Inl e \<Rightarrow> if errors_Is e BacktestErrQueueFull then Inl queue_full_portfolio else Inl e
      | Inr i \<Rightarrow> Inr i)
   }"

definition schedulerDispatcherAdapter_Submit :: "RunStore \<Rightarrow> uuid \<Rightarrow> uuid result io" where
  "schedulerDispatcherAdapter_Submit runs pid = Submit runs pid TriggerScheduled"

section \<open>What the dispatcher needs of a run store\<close>

text \<open>
  The laws of \<open>RunStore\<close>: creating a run and failing it keep the store's invariant, the invariant
  does not look at the channel, and a run that was created and then failed is not in flight.
\<close>

locale run_store =
  fixes rs :: RunStore and I :: "world \<Rightarrow> bool"
  assumes create_keeps: "preserves I (rs_CreateRun rs pid st trig)"
    and fail_keeps: "preserves I (rs_UpdateRunFailed rs rid msg ms)"
    and tasks_frame: "I w \<Longrightarrow> I (w\<lparr>w_tasks := ts\<rparr>)"
    and panic_frame: "I w \<Longrightarrow> I (w\<lparr>w_panic := b\<rparr>)"
    and create_keeps_tasks: "preserves (\<lambda>w. (w_tasks w, w_cap w) = tc) (rs_CreateRun rs pid st trig)"
    and fail_keeps_tasks: "preserves (\<lambda>w. (w_tasks w, w_cap w) = tc) (rs_UpdateRunFailed rs rid msg ms)"
begin

lemma send_task_keeps: "preserves I (send_task t)"
  by (auto simp: preserves_def send_task_def intro: tasks_frame panic_frame)

lemma Submit_keeps: "preserves I (Submit rs pid trig)"
  unfolding Submit_def by (intro preserve_rules create_keeps send_task_keeps fail_keeps)

lemma Submit_within_capacity: "preserves (\<lambda>w. length (w_tasks w) \<le> w_cap w) (Submit rs pid trig)"
proof -
  let ?fit = "\<lambda>w. case (w_tasks w, w_cap w) of (ts, c) \<Rightarrow> length ts \<le> c"
  have "preserves ?fit (send_task t)" for t by (auto simp: preserves_def send_task_def)
  moreover have "preserves ?fit (rs_CreateRun rs pid RunQueued trig)"
    by (rule preserves_part [OF create_keeps_tasks])
  moreover have "preserves ?fit (rs_UpdateRunFailed rs rid msg ms)" for rid msg ms
    by (rule preserves_part [OF fail_keeps_tasks])
  ultimately have "preserves ?fit (Submit rs pid trig)"
    unfolding Submit_def by (intro preserve_rules)
  then show ?thesis by simp
qed

lemma worker_keeps:
  assumes "\<And>pid rid s. preserves I (runFn pid rid s)"
  shows "preserves I (worker runFn)"
  unfolding worker_def by (intro preserve_rules preserves_update assms tasks_frame)

end

lemma dbop_keeps_tasks:
  assumes "\<And>w. w_tasks (snd (f w)) = w_tasks w \<and> w_cap (snd (f w)) = w_cap w"
  shows "preserves (\<lambda>w. (w_tasks w, w_cap w) = tc) (dbop f)"
  by (rule preserves_dbop) (use assms in \<open>auto simp: outcome_free_def\<close>)

interpretation pool: run_store pool_run_store db_inv
proof
  show "db_inv w \<Longrightarrow> db_inv (w\<lparr>w_tasks := ts\<rparr>)" "db_inv w \<Longrightarrow> db_inv (w\<lparr>w_panic := b\<rparr>)" for w ts b
    by (simp_all add: db_inv_def)
  show "preserves (\<lambda>w. (w_tasks w, w_cap w) = tc) (rs_CreateRun pool_run_store pid st trig)" for tc pid st trig
    unfolding pool_run_store_def RunStore.simps CreateRun_def
    by (intro preserves_bind preserves_return dbop_keeps_tasks) (auto simp: create_run_stmt_def Let_def)
  show "preserves (\<lambda>w. (w_tasks w, w_cap w) = tc) (rs_UpdateRunFailed pool_run_store rid msg ms)" for tc rid msg ms
    unfolding pool_run_store_def RunStore.simps UpdateRunFailed_def
    by (intro dbop_keeps_tasks) (auto simp: update_run_stmt_def commit_runs_def)
qed (simp_all add: pool_run_store_def preserve_rules)

section \<open>Properties of Submit\<close>

definition new_run :: "uuid \<Rightarrow> trigger \<Rightarrow> world \<Rightarrow> Run" where
  "new_run pid trig w = \<lparr>r_ID = w_next w, r_PortfolioID = pid, r_Status = RunQueued, r_StartedAt = None, r_FinishedAt = None,
     r_DurationMs = None, r_Error = None, r_SnapshotPath = None, r_TriggeredBy = trig\<rparr>"

definition new_task :: "uuid \<Rightarrow> trigger \<Rightarrow> world \<Rightarrow> task" where
  "new_task pid trig w = \<lparr>t_portfolioID = pid, t_runID = w_next w, t_scheduled = (trig = TriggerScheduled)\<rparr>"

lemma run_CreateRun_queued:
  assumes "w_outcomes w = []" and "one_inflight (w_runs w)"
  shows "run_state (CreateRun pid RunQueued trig) w =
    (if filter in_flight (runs_of pid (w_runs w)) \<noteq> [] then (Inl run_in_flight, w)
     else if pid \<notin> p_ID ` set (w_portfolios w) then (Inl fk_error, w)
     else (Inr (new_run pid trig w), w\<lparr>w_runs := w_runs w @ [new_run pid trig w], w_next := Suc (w_next w)\<rparr>))"
  using assms by (subst run_CreateRun) (simp_all add: in_flight_def new_run_def Let_def)

lemma update_last_run:
  assumes "\<And>r. r \<in> set rs \<Longrightarrow> r_ID r \<noteq> r_ID r0"
  shows "update_where (\<lambda>r. r_ID r = r_ID r0) u (rs @ [r0]) = rs @ [u r0]"
  using assms by (auto simp: update_where_def intro: map_idI)

lemma run_Submit:
  assumes "db_inv w" and "w_outcomes w = []" and "\<not> w_closed w"
  shows "run_state (Submit pool_run_store pid trig) w =
    (if filter in_flight (runs_of pid (w_runs w)) \<noteq> [] then (Inl run_in_flight, w)
     else if pid \<notin> p_ID ` set (w_portfolios w) then (Inl fk_error, w)
     else if length (w_tasks w) < w_cap w
     then (Inr (w_next w), w\<lparr>w_runs := w_runs w @ [new_run pid trig w], w_next := Suc (w_next w), w_tasks := w_tasks w @ [new_task pid trig w]\<rparr>)
     else (Inl queue_full, w\<lparr>w_runs := w_runs w @ [run_failed ''dispatcher queue full'' 0 (w_now w) (new_run pid trig w)],
                             w_next := Suc (w_next w)\<rparr>))"
proof -
  let ?q = "new_run pid trig w"
  have oi: "one_inflight (w_runs w)" and fresh: "\<And>r. r \<in> set (w_runs w) \<Longrightarrow> r_ID r \<noteq> r_ID ?q"
    using assms(1) by (auto simp: db_inv_def new_run_def)
  have "\<not> in_flight (run_failed m d n ?q)" for m d n by (simp add: in_flight_def run_failed_def)
  then have oi': "one_inflight (w_runs w @ [run_failed m d n ?q])" for m d n
    using oi by (simp add: one_inflight_snoc)
  note upd = update_last_run [OF fresh]
  show ?thesis
    using assms(2,3) oi oi' upd
    by (auto simp: Submit_def pool_run_store_def run_CreateRun_queued send_task_def new_task_def
        UpdateRunFailed_def update_run_stmt_def commit_runs_def Let_def) (auto simp: new_run_def)
qed

text \<open>
  C5. \<open>Submit\<close> on an open channel, with a working database: a portfolio with a run in flight is
  refused with \<open>ErrRunInFlight\<close> and nothing changes; otherwise, if the queue has room, one
  queued run and exactly its task are added and the run's id is returned; if the queue is full,
  the new run is left failed, so that it does not block the next submission, and the queue is
  unchanged.
\<close>

theorem Submit_spec:
  assumes "db_inv w" and "w_outcomes w = []" and "\<not> w_closed w"
  shows "run_state (Submit pool_run_store pid trig) w =
    (let q = new_run pid trig w; t = new_task pid trig w in
     if filter in_flight (runs_of pid (w_runs w)) \<noteq> [] then (Inl run_in_flight, w)
     else if pid \<notin> p_ID ` set (w_portfolios w) then (Inl fk_error, w)
     else if length (w_tasks w) < w_cap w
     then (Inr (w_next w), w\<lparr>w_runs := w_runs w @ [q], w_next := Suc (w_next w), w_tasks := w_tasks w @ [t]\<rparr>)
     else (Inl queue_full, w\<lparr>w_runs := w_runs w @ [run_failed ''dispatcher queue full'' 0 (w_now w) q],
                             w_next := Suc (w_next w)\<rparr>))"
  unfolding Let_def by (rule run_Submit [OF assms])

theorem Submit_spec_witness:
  "fst (run_state (Submit pool_run_store 1 TriggerScheduled) demo_world) = Inr 5"
  using Submit_spec [OF demo_world_inv demo_world_simps(1), of 1 TriggerScheduled]
  by (simp add: demo_idle Let_def del: One_nat_def) (simp add: demo_world_def empty_world_def)

text \<open>
  Whatever the database does, \<open>Submit\<close> keeps the invariant of the tables and never puts
  more tasks into the queue than it has room for.
\<close>

lemma Submit_safe:
  assumes "db_inv w" and "length (w_tasks w) \<le> w_cap w"
  shows "db_inv (snd (run_state (Submit pool_run_store pid trig) w))
    \<and> length (w_tasks (snd (run_state (Submit pool_run_store pid trig) w)))
        \<le> w_cap (snd (run_state (Submit pool_run_store pid trig) w))"
  using preservesD [OF pool.Submit_keeps assms(1)] preservesD [OF pool.Submit_within_capacity assms(2)] by blast

definition queued_have_tasks :: "world \<Rightarrow> bool" where
  "queued_have_tasks w \<longleftrightarrow> (\<forall>r \<in> set (w_runs w). r_Status r = RunQueued \<longrightarrow> r_ID r \<in> t_runID ` set (w_tasks w))"

text \<open>
  No run is lost: if every queued run has its task in the channel, this still holds after
  \<open>Submit\<close>, on each of its outcomes.
\<close>

lemma Submit_no_lost_run:
  assumes "db_inv w" and "w_outcomes w = []" and "\<not> w_closed w" and "queued_have_tasks w"
  shows "queued_have_tasks (snd (run_state (Submit pool_run_store pid trig) w))"
  using assms(4)
  by (auto simp: run_Submit [OF assms(1-3)] queued_have_tasks_def new_run_def new_task_def run_failed_def)

text \<open>
  C26. After \<open>Shutdown\<close> of a started dispatcher, the next submission that reaches the channel
  sends on a closed channel: the process panics.
\<close>

theorem Submit_after_Shutdown_panics:
  assumes "db_inv w" and "w_outcomes w = []" and "w_started w" and "\<not> w_closed w"
    and "filter in_flight (runs_of pid (w_runs w)) = []" and "pid \<in> p_ID ` set (w_portfolios w)"
  shows "w_panic (snd (run_state (do { Shutdown; Submit pool_run_store pid trig }) w))"
proof -
  have "one_inflight (w_runs w)" using assms(1) by (simp add: db_inv_def)
  then show ?thesis using assms
    by (auto simp: Shutdown_def Submit_def pool_run_store_def run_CreateRun_queued send_task_def UpdateRunFailed_def
        update_run_stmt_def commit_runs_def)
qed

theorem Submit_after_Shutdown_panics_witness:
  "w_panic (snd (run_state (do { Shutdown; Submit pool_run_store 1 TriggerManual }) (demo_world\<lparr>w_started := True\<rparr>)))"
proof (rule Submit_after_Shutdown_panics)
  show "db_inv (demo_world\<lparr>w_started := True\<rparr>)" using demo_world_inv by (simp add: db_inv_def)
  show "filter in_flight (runs_of 1 (w_runs (demo_world\<lparr>w_started := True\<rparr>))) = []" using demo_idle by simp
qed (simp_all add: demo_world_def empty_world_def demo_portfolio_def)

end
