(* ===== verification/Scheduler.thy ===== *)
theory Scheduler
  imports Dispatcher
begin

text \<open>
  The nightly scheduler (\<open>scheduler/scheduler.go\<close>, \<open>scheduler/config.go\<close>). The market calendar
  of tradecron is the function \<open>next\<close> from an instant to the next fire; \<open>etDay\<close> is the New York
  calendar day of an instant. The loop of \<open>dispatchDue\<close> takes what other goroutines do between
  two rounds as an explicit list of interferences, which also bounds the number of rounds; that
  enough rounds always suffice on an idle server is a theorem.
\<close>

record scheduler_config =
  sc_TickInterval :: int
  sc_BatchSize :: int

definition Scheduler_ApplyDefaults :: "scheduler_config \<Rightarrow> scheduler_config" where
  "Scheduler_ApplyDefaults c =
     (let c1 = (if sc_TickInterval c = 0 then c\<lparr>sc_TickInterval := 60000000\<rparr> else c)
      in if sc_BatchSize c1 = 0 then c1\<lparr>sc_BatchSize := 32\<rparr> else c1)"

definition Scheduler_Validate :: "scheduler_config \<Rightarrow> unit result" where
  "Scheduler_Validate c =
     (if sc_TickInterval c < 0 then Inl (Error [ErrInvalidTickInterval] ''scheduler: tick_interval must be >= 0'')
      else if sc_BatchSize c < 0 then Inl (Error [ErrInvalidBatchSize] ''scheduler: batch_size must be >= 0'')
      else Inr ())"

text \<open>The interfaces \<open>PortfolioStore\<close> and \<open>Dispatcher\<close> of the scheduler.\<close>

record Scheduler =
  sch_ClaimDue :: "int \<Rightarrow> uuid list result io"
  sch_Submit :: "uuid \<Rightarrow> uuid result io"
  sch_cfg :: scheduler_config

definition scheduler_New :: "(instant \<Rightarrow> date) \<Rightarrow> scheduler_config \<Rightarrow> Scheduler" where
  "scheduler_New etDay cfg = \<lparr>sch_ClaimDue = ClaimDue etDay,
     sch_Submit = schedulerDispatcherAdapter_Submit pool_run_store, sch_cfg = Scheduler_ApplyDefaults cfg\<rparr>"

subsection \<open>One round of dispatchDue\<close>

text \<open>The loop over the claimed ids: the number dispatched, and whether the queue was full.\<close>

fun submit_all :: "(uuid \<Rightarrow> uuid result io) \<Rightarrow> uuid list \<Rightarrow> nat \<Rightarrow> bool \<Rightarrow> (nat \<times> bool) io" where
  "submit_all submit [] dispatched queueFull = State_Monad.return (dispatched, queueFull)"
| "submit_all submit (i # is) dispatched queueFull = do {
     r \<leftarrow> submit i;
     (case r of
        Inl e \<Rightarrow> if errors_Is e BacktestErrQueueFull then submit_all submit is dispatched True
                 else submit_all submit is dispatched queueFull
      | Inr _ \<Rightarrow> submit_all submit is (Suc dispatched) queueFull)
   }"

datatype round = Stop | WaitRetry | Again

definition dispatch_round :: "Scheduler \<Rightarrow> round io" where
  "dispatch_round s = do {
     r \<leftarrow> sch_ClaimDue s (sc_BatchSize (sch_cfg s));
     (case r of
        Inl _ \<Rightarrow> State_Monad.return Stop
      | Inr ids \<Rightarrow>
          if ids = [] then State_Monad.return Stop
          else do {
            res \<leftarrow> submit_all (sch_Submit s) ids 0 False;
            State_Monad.return (if snd res then WaitRetry else if fst res = 0 then Stop else Again)
          })
   }"

text \<open>
  What may happen between two rounds: other goroutines change the state; while the scheduler
  waits for the queue, the context may be cancelled.
\<close>

datatype interference = Env "world \<Rightarrow> world" | CtxDone

text \<open>
  \<open>dispatchDue\<close> until the next fire. \<open>None\<close>: the interferences were used up before the loop
  ended.
\<close>

fun dispatchDue :: "Scheduler \<Rightarrow> instant \<Rightarrow> interference list \<Rightarrow> world \<Rightarrow> world option" where
  "dispatchDue s until [] w = None"
| "dispatchDue s until (e # es) w =
     (case run_state (dispatch_round s) w of
        (Stop, w1) \<Rightarrow> Some w1
      | (Again, w1) \<Rightarrow> dispatchDue s until es (case e of Env f \<Rightarrow> f w1 | CtxDone \<Rightarrow> w1)
      | (WaitRetry, w1) \<Rightarrow>
          (case e of
             CtxDone \<Rightarrow> Some w1
           | Env f \<Rightarrow>
               (let w2 = (f w1)\<lparr>w_now := w_now (f w1) + sc_TickInterval (sch_cfg s)\<rparr> in
                if \<not> w_now w2 < until then Some w2 else dispatchDue s until es w2)))"

subsection \<open>The most recent fire\<close>

text \<open>
  The probing loop of \<open>mostRecentFire\<close>: from \<open>start\<close>, ten calendar days before now, it steps from
  fire to fire until the next one is after now. \<open>nxt t\<close> is later than \<open>t\<close>, so the loop ends; the
  fuel is the length of the window.
\<close>

fun probe_fires :: "nat \<Rightarrow> (instant \<Rightarrow> instant) \<Rightarrow> instant \<Rightarrow> instant \<Rightarrow> instant option \<Rightarrow> instant option option" where
  "probe_fires 0 nxt now probe found = None"
| "probe_fires (Suc n) nxt now probe found =
     (if now < nxt probe then Some found else probe_fires n nxt now (nxt probe) (Some (nxt probe)))"

definition mostRecentFire :: "(instant \<Rightarrow> instant) \<Rightarrow> instant \<Rightarrow> instant \<Rightarrow> instant option option" where
  "mostRecentFire nxt start now = probe_fires (Suc (nat (now - start))) nxt now start None"

definition sameDay :: "(instant \<Rightarrow> date) \<Rightarrow> instant \<Rightarrow> instant \<Rightarrow> bool" where
  "sameDay day a b \<longleftrightarrow> day a = day b"

text \<open>The start of \<open>Scheduler.Run\<close>: a fire of today that was slept through is caught up.\<close>

definition catch_up :: "Scheduler \<Rightarrow> (instant \<Rightarrow> instant) \<Rightarrow> (instant \<Rightarrow> instant) \<Rightarrow> (instant \<Rightarrow> date) \<Rightarrow>
    interference list \<Rightarrow> world \<Rightarrow> world option" where
  "catch_up s nxt tenDaysAgo etDay es w =
     (case mostRecentFire nxt (tenDaysAgo (w_now w)) (w_now w) of
        Some (Some t) \<Rightarrow> if sameDay etDay t (w_now w) then dispatchDue s (nxt (w_now w)) es w else Some w
      | Some None \<Rightarrow> Some w
      | None \<Rightarrow> None)"

text \<open>
  The main loop: sleep until the next fire, dispatch until the one after. The list has, for each fire
  before the context is cancelled, what other goroutines do while the scheduler sleeps and then
  during the dispatch.
\<close>

fun fire_loop :: "Scheduler \<Rightarrow> (instant \<Rightarrow> instant) \<Rightarrow> ((world \<Rightarrow> world) \<times> interference list) list \<Rightarrow> world \<Rightarrow> world option" where
  "fire_loop s nxt [] w = Some w"
| "fire_loop s nxt ((f, es) # fires) w =
     (let fire = nxt (w_now w); w1 = f w in
      case dispatchDue s (nxt fire) es (w1\<lparr>w_now := max (w_now w1) fire\<rparr>) of
        None \<Rightarrow> None
      | Some w2 \<Rightarrow> fire_loop s nxt fires w2)"

text \<open>\<open>sched\<close> is the result of \<open>tradecron.New\<close>.\<close>

definition Scheduler_Run :: "Scheduler \<Rightarrow> (instant \<Rightarrow> instant) result \<Rightarrow> (instant \<Rightarrow> instant) \<Rightarrow> (instant \<Rightarrow> date) \<Rightarrow>
    interference list \<Rightarrow> ((world \<Rightarrow> world) \<times> interference list) list \<Rightarrow> world \<Rightarrow> (error \<times> world) option" where
  "Scheduler_Run s sched tenDaysAgo etDay es fires w =
     (case sched of
        Inl e \<Rightarrow> Some (wrap ''scheduler: build schedule'' e, w)
      | Inr nxt \<Rightarrow>
          (case catch_up s nxt tenDaysAgo etDay es w of
             None \<Rightarrow> None
           | Some w1 \<Rightarrow> (case fire_loop s nxt fires w1 of None \<Rightarrow> None | Some w2 \<Rightarrow> Some (Error [Canceled] ''context canceled'', w2))))"

section \<open>The most recent fire is the latest one\<close>

lemma probe_fires_spec:
  assumes inc: "\<And>t. t < nxt t" and "nat (now - probe) < n" and "probe \<le> now"
    and "found = None \<and> probe = start \<or> found = Some probe \<and> start < probe \<and> probe \<in> range nxt"
  shows "(\<exists>t. probe_fires n nxt now probe found = Some (Some t) \<and> start < t \<and> t \<le> now \<and> now < nxt t \<and> t \<in> range nxt)
    \<or> probe_fires n nxt now probe found = Some None \<and> now < nxt start"
  using assms(2-)
proof (induction n arbitrary: probe found)
  case (Suc n)
  show ?case
  proof (cases "now < nxt probe")
    case True with Suc.prems show ?thesis by auto
  next
    case False
    have "nat (now - nxt probe) < n" using inc [of probe] Suc.prems(1) False by linarith
    moreover have "start < nxt probe" using Suc.prems(3) inc [of probe] by auto
    ultimately show ?thesis using Suc.IH [of "nxt probe" "Some (nxt probe)"] False by auto
  qed
qed simp

text \<open>
  C32. The search for a missed fire always ends, and finds the latest one: the result is a fire
  in the window, not after now, with the next fire after now; if there is none, the first fire
  after the start of the window is still to come.
\<close>

theorem mostRecentFire_latest:
  assumes "\<And>t. t < nxt t" and "start \<le> now"
  shows "(\<exists>t. mostRecentFire nxt start now = Some (Some t) \<and> start < t \<and> t \<le> now \<and> now < nxt t \<and> t \<in> range nxt)
    \<or> mostRecentFire nxt start now = Some None \<and> now < nxt start"
  unfolding mostRecentFire_def by (rule probe_fires_spec) (use assms in auto)

theorem mostRecentFire_latest_witness:
  "\<exists>t. mostRecentFire (\<lambda>t. 10 * (t div 10) + 10) 0 35 = Some (Some t) \<and> 0 < t \<and> t \<le> 35"
proof -
  have "t < 10 * (t div 10) + 10" for t :: int using pos_mod_bound [of 10 t] div_mult_mod_eq [of t 10] by linarith
  from mostRecentFire_latest [OF this, of 0 35] show ?thesis by auto
qed

section \<open>An idle server dispatches every due portfolio once\<close>

definition claims :: "(instant \<Rightarrow> date) \<Rightarrow> world \<Rightarrow> Portfolio list" where
  "claims etDay w = filter (claimable etDay w) (w_portfolios w)"

definition idle :: "uuid \<Rightarrow> world \<Rightarrow> bool" where
  "idle i w \<longleftrightarrow> filter in_flight (runs_of i (w_runs w)) = []"

definition open_db :: "world \<Rightarrow> bool" where
  "open_db w \<longleftrightarrow> db_inv w \<and> w_outcomes w = [] \<and> \<not> w_closed w"

lemma claimable_idle: "claimable etDay w p \<Longrightarrow> idle (p_ID p) w"
  by (auto simp: claimable_def idle_def runs_of_def filter_empty_conv list_ex_iff)

definition appended :: "Run list \<Rightarrow> task list \<Rightarrow> world \<Rightarrow> world" where
  "appended rs ts w = w\<lparr>w_runs := w_runs w @ rs, w_next := w_next w + length rs, w_tasks := w_tasks w @ ts\<rparr>"

lemma appended_simps [simp]:
  "w_now (appended rs ts w) = w_now w" "w_portfolios (appended rs ts w) = w_portfolios w"
  "w_runs (appended rs ts w) = w_runs w @ rs" "w_tasks (appended rs ts w) = w_tasks w @ ts" "w_cap (appended rs ts w) = w_cap w"
  by (simp_all add: appended_def)

definition fresh_batch :: "uuid list \<Rightarrow> Run list \<Rightarrow> task list \<Rightarrow> bool" where
  "fresh_batch ids rs ts \<longleftrightarrow> map r_PortfolioID rs = ids \<and> map t_runID ts = map r_ID rs \<and> map t_portfolioID ts = ids
     \<and> list_all (\<lambda>r. r_Status r = RunQueued \<and> r_TriggeredBy r = TriggerScheduled \<and> r_StartedAt r = None) rs
     \<and> list_all t_scheduled ts"

lemma submit_step:
  assumes "open_db w" and "idle i w" and "i \<in> p_ID ` set (w_portfolios w)" and "length (w_tasks w) < w_cap w"
  shows "run_state (Submit pool_run_store i TriggerScheduled) w =
    (Inr (w_next w), appended [new_run i TriggerScheduled w] [new_task i TriggerScheduled w] w)"
  using assms by (simp add: open_db_def idle_def appended_def run_Submit)

lemma open_db_Submit: "open_db w \<Longrightarrow> open_db (snd (run_state (Submit pool_run_store i t) w))"
  using preservesD [OF pool.Submit_keeps, of w i t]
  by (auto simp: open_db_def run_Submit)

lemma submit_all_ok:
  assumes "open_db w" and "distinct ids" and "\<forall>i \<in> set ids. idle i w \<and> i \<in> p_ID ` set (w_portfolios w)"
    and "length (w_tasks w) + length ids \<le> w_cap w"
  shows "\<exists>rs ts. run_state (submit_all (schedulerDispatcherAdapter_Submit pool_run_store) ids n q) w =
      ((n + length ids, q), appended rs ts w) \<and> fresh_batch ids rs ts \<and> open_db (appended rs ts w)"
  using assms
proof (induction ids arbitrary: w n)
  case Nil
  then show ?case by (intro exI [of _ "[]"]) (simp add: appended_def fresh_batch_def)
next
  case (Cons i ids)
  let ?r = "new_run i TriggerScheduled w" and ?t = "new_task i TriggerScheduled w"
  let ?w = "appended [?r] [?t] w"
  have step: "run_state (Submit pool_run_store i TriggerScheduled) w = (Inr (w_next w), ?w)"
    using Cons.prems by (intro submit_step) auto
  have "open_db ?w" using open_db_Submit [OF Cons.prems(1), of i TriggerScheduled] step by simp
  moreover have "\<forall>j \<in> set ids. idle j ?w \<and> j \<in> p_ID ` set (w_portfolios ?w)"
    using Cons.prems(2,3) by (auto simp: idle_def runs_of_def appended_def new_run_def)
  moreover have "length (w_tasks ?w) + length ids \<le> w_cap ?w" using Cons.prems(4) by (simp add: appended_def)
  ultimately obtain rs ts where ih: "run_state (submit_all (schedulerDispatcherAdapter_Submit pool_run_store) ids (Suc n) q) ?w =
      ((Suc n + length ids, q), appended rs ts ?w)" "fresh_batch ids rs ts" "open_db (appended rs ts ?w)"
    using Cons.IH [of ?w "Suc n"] Cons.prems(2) by auto
  have app: "appended rs ts ?w = appended (?r # rs) (?t # ts) w" by (simp add: appended_def)
  have "fresh_batch (i # ids) (?r # rs) (?t # ts)" using ih(2) by (simp add: fresh_batch_def new_run_def new_task_def)
  moreover have "run_state (submit_all (schedulerDispatcherAdapter_Submit pool_run_store) (i # ids) n q) w =
      ((n + length (i # ids), q), appended (?r # rs) (?t # ts) w)"
    using step ih(1) by (simp add: schedulerDispatcherAdapter_Submit_def app)
  moreover have "open_db (appended (?r # rs) (?t # ts) w)" using ih(3) by (simp only: app)
  ultimately show ?case by blast
qed

text \<open>Submitting a batch takes exactly these portfolios out of the due ones.\<close>

lemma claims_appended:
  assumes "fresh_batch ids rs ts"
  shows "claims etDay (appended rs ts w) = filter (\<lambda>p. p_ID p \<notin> set ids) (claims etDay w)"
proof -
  have f: "r_Status r = RunQueued" "r_StartedAt r = None" if "r \<in> set rs" for r
    using assms that by (auto simp: fresh_batch_def list_all_iff)
  have ids: "set ids = r_PortfolioID ` set rs" using assms by (metis fresh_batch_def set_map)
  have "claimable etDay (appended rs ts w) p \<longleftrightarrow> claimable etDay w p \<and> p_ID p \<notin> set ids" for p
    unfolding claimable_def ids using f by (auto simp: list_ex_iff in_flight_def image_iff started_on_def)
  then show ?thesis by (auto simp: claims_def intro!: filter_cong)
qed

lemma claims_of_db:
  assumes "open_db w"
  shows "distinct (map p_ID (claims etDay w))" and "p \<in> set (claims etDay w) \<Longrightarrow> idle (p_ID p) w \<and> p_ID p \<in> p_ID ` set (w_portfolios w)"
  using assms claimable_idle by (auto simp: claims_def open_db_def db_inv_def distinct_map_filter)

text \<open>A round on an idle server with room in the queue: a batch of due portfolios is submitted.\<close>

lemma dispatch_round_ok:
  assumes "open_db w" and "0 < sc_BatchSize cfg" and "length (w_tasks w) + length (claims etDay w) \<le> w_cap w"
    and "claims etDay w \<noteq> []"
  shows "\<exists>chosen rest rs ts. run_state (dispatch_round (scheduler_New etDay cfg)) w = (Again, appended rs ts w)
    \<and> mset (chosen @ rest) = mset (claims etDay w) \<and> chosen \<noteq> [] \<and> fresh_batch (map p_ID chosen) rs ts
    \<and> open_db (appended rs ts w)"
proof -
  let ?n = "nat (sc_BatchSize (Scheduler_ApplyDefaults cfg))"
  have n: "sc_BatchSize (Scheduler_ApplyDefaults cfg) = sc_BatchSize cfg"
    using assms(2) by (simp add: Scheduler_ApplyDefaults_def Let_def)
  define srt where "srt = claim_sort (claims etDay w)"
  have m: "mset srt = mset (claims etDay w)" using claim_sort_spec by (simp add: srt_def)
  let ?chosen = "take ?n srt" and ?rest = "drop ?n srt"
  have claim: "run_state (ClaimDue etDay (sc_BatchSize (Scheduler_ApplyDefaults cfg))) w = (Inr (map p_ID ?chosen), w)"
    using assms(1,2) n by (simp add: ClaimDue_def open_db_def srt_def claims_def take_map)
  have "srt \<noteq> []" using m assms(4) by auto
  then have ne: "?chosen \<noteq> []" using assms(2) n by simp
  have mm: "mset (?chosen @ ?rest) = mset (claims etDay w)" using m by simp
  have sub: "set ?chosen \<subseteq> set (claims etDay w)" using mm by (metis set_append set_mset_mset Un_upper1)
  have "distinct (map p_ID srt)" using m claims_of_db(1) [OF assms(1), of etDay]
    by (metis mset_eq_imp_distinct_iff mset_map)
  then have d: "distinct (map p_ID ?chosen)" by (simp add: take_map distinct_take flip: take_map)
  have "length ?chosen \<le> length (claims etDay w)" using m by (metis length_take min.cobounded1 size_mset)
  then have room: "length (w_tasks w) + length (map p_ID ?chosen) \<le> w_cap w" using assms(3) by simp
  have "\<forall>i \<in> set (map p_ID ?chosen). idle i w \<and> i \<in> p_ID ` set (w_portfolios w)"
    using sub claims_of_db(2) [OF assms(1)] by auto
  from submit_all_ok [OF assms(1) d this room, of 0 False]
  obtain rs ts where s: "run_state (submit_all (schedulerDispatcherAdapter_Submit pool_run_store) (map p_ID ?chosen) 0 False) w =
      ((length (map p_ID ?chosen), False), appended rs ts w)" "fresh_batch (map p_ID ?chosen) rs ts" "open_db (appended rs ts w)"
    by auto
  have "run_state (dispatch_round (scheduler_New etDay cfg)) w = (Again, appended rs ts w)"
    using claim s(1) ne by (simp add: dispatch_round_def scheduler_New_def)
  with mm ne s show ?thesis by blast
qed

lemma dispatch_round_done: "open_db w \<Longrightarrow> 0 \<le> sc_BatchSize cfg \<Longrightarrow> claims etDay w = [] \<Longrightarrow>
    run_state (dispatch_round (scheduler_New etDay cfg)) w = (Stop, w)"
proof -
  assume "open_db w" "claims etDay w = []" "0 \<le> sc_BatchSize cfg"
  moreover from this have "\<not> sc_BatchSize (Scheduler_ApplyDefaults cfg) < 0" by (simp add: Scheduler_ApplyDefaults_def Let_def)
  ultimately show ?thesis
    by (simp add: dispatch_round_def scheduler_New_def ClaimDue_def open_db_def claims_def claim_sort_def)
qed

lemma dispatchDue_ok:
  assumes "open_db w" and "0 < sc_BatchSize cfg" and "length (w_tasks w) + length (claims etDay w) \<le> w_cap w"
    and "length (claims etDay w) < n"
  shows "\<exists>ids rs ts. dispatchDue (scheduler_New etDay cfg) until (replicate n (Env (\<lambda>w. w))) w = Some (appended rs ts w)
    \<and> mset ids = mset (map p_ID (claims etDay w)) \<and> fresh_batch ids rs ts \<and> claims etDay (appended rs ts w) = []"
  using assms
proof (induction n arbitrary: w)
  case (Suc n)
  show ?case
  proof (cases "claims etDay w = []")
    case True
    have "appended [] [] w = w" by (simp add: appended_def)
    with True dispatch_round_done [OF Suc.prems(1) _ True, of cfg] Suc.prems(2) show ?thesis
      by (intro exI [of _ "[]"]) (simp add: fresh_batch_def)
  next
    case False
    from dispatch_round_ok [OF Suc.prems(1-3) False]
    obtain chosen rest rs ts where r: "run_state (dispatch_round (scheduler_New etDay cfg)) w = (Again, appended rs ts w)"
        "mset (chosen @ rest) = mset (claims etDay w)" "chosen \<noteq> []" "fresh_batch (map p_ID chosen) rs ts" "open_db (appended rs ts w)"
      by blast
    let ?w = "appended rs ts w"
    have cl: "claims etDay ?w = filter (\<lambda>p. p_ID p \<notin> p_ID ` set chosen) (claims etDay w)"
      using claims_appended [OF r(4), of etDay w] by simp
    have d: "distinct (map p_ID (chosen @ rest))" using claims_of_db(1) [OF Suc.prems(1), of etDay] r(2)
      by (metis mset_eq_imp_distinct_iff mset_map)
    have "mset (claims etDay ?w) = filter_mset (\<lambda>p. p_ID p \<notin> p_ID ` set chosen) (mset (chosen @ rest))"
      by (simp only: cl mset_filter r(2))
    also have "\<dots> = mset (filter (\<lambda>p. p_ID p \<notin> p_ID ` set chosen) (chosen @ rest))" by (simp only: mset_filter)
    also have "filter (\<lambda>p. p_ID p \<notin> p_ID ` set chosen) (chosen @ rest) = rest"
      using d by (auto simp: filter_id_conv filter_empty_conv)
    finally have rest: "mset (claims etDay ?w) = mset rest" .
    have len: "length (claims etDay ?w) + length chosen = length (claims etDay w)"
      using rest r(2) by (metis add.commute length_append size_mset)
    have "length ts = length chosen" using r(4) by (metis fresh_batch_def length_map)
    then have "length (w_tasks ?w) + length (claims etDay ?w) \<le> w_cap ?w" using Suc.prems(3) len by simp
    moreover have "length (claims etDay ?w) < n" using len r(3) Suc.prems(4) by (cases chosen) auto
    ultimately obtain ids rs' ts' where ih: "dispatchDue (scheduler_New etDay cfg) until (replicate n (Env (\<lambda>w. w))) ?w = Some (appended rs' ts' ?w)"
        "mset ids = mset (map p_ID (claims etDay ?w))" "fresh_batch ids rs' ts'" "claims etDay (appended rs' ts' ?w) = []"
      using Suc.IH [OF r(5) Suc.prems(2)] by blast
    have app: "appended rs' ts' ?w = appended (rs @ rs') (ts @ ts') w" by (simp add: appended_def)
    have "mset (map p_ID chosen @ ids) = mset (map p_ID (claims etDay w))"
      using ih(2) rest r(2) by (metis map_append mset_append mset_map)
    moreover have "fresh_batch (map p_ID chosen @ ids) (rs @ rs') (ts @ ts')" using r(4) ih(3) by (simp add: fresh_batch_def)
    moreover have "dispatchDue (scheduler_New etDay cfg) until (replicate (Suc n) (Env (\<lambda>w. w))) w = Some (appended (rs @ rs') (ts @ ts') w)"
      using ih(1) r(1) by (simp add: app)
    moreover have "claims etDay (appended (rs @ rs') (ts @ ts') w) = []" using ih(4) by (simp only: app)
    ultimately show ?thesis by blast
  qed
qed simp

text \<open>
  A scheduler that starts after today's fire on an idle server with room in the queue: the catch-up
  dispatches every portfolio that is due, and nothing is due when the loop begins.
\<close>

lemma catch_up_dispatches_all:
  assumes "open_db w" and "0 < sc_BatchSize cfg" and "length (w_tasks w) + length (claims etDay w) \<le> w_cap w" and "length (claims etDay w) < n"
    and "mostRecentFire nxt (tenDaysAgo (w_now w)) (w_now w) = Some (Some t)" and "sameDay etDay t (w_now w)"
  shows "\<exists>w'. catch_up (scheduler_New etDay cfg) nxt tenDaysAgo etDay (replicate n (Env (\<lambda>w. w))) w = Some w' \<and> claims etDay w' = []
    \<and> Scheduler_Run (scheduler_New etDay cfg) (Inr nxt) tenDaysAgo etDay (replicate n (Env (\<lambda>w. w))) [] w = Some (Error [Canceled] ''context canceled'', w')"
  using dispatchDue_ok [OF assms(1-4), of "nxt (w_now w)"] assms(5,6) by (auto simp: catch_up_def Scheduler_Run_def)

text \<open>
  C19. The nightly pass on a server with room in the queue: \<open>dispatchDue\<close> ends after at most one
  round more than there are due portfolios, whatever the batch size; every due portfolio gets
  exactly one queued, scheduled run and one task for it, no other portfolio gets any, and nothing
  is due afterwards.
\<close>

theorem dispatchDue_dispatches_all:
  assumes "db_inv w" and "w_outcomes w = []" and "\<not> w_closed w" and "0 < sc_BatchSize cfg"
    and "length (w_tasks w) + length (filter (claimable etDay w) (w_portfolios w)) \<le> w_cap w"
    and "length (filter (claimable etDay w) (w_portfolios w)) < n"
  shows "\<exists>w' rs ts. dispatchDue (scheduler_New etDay cfg) until (replicate n (Env (\<lambda>w. w))) w = Some w'
    \<and> w_runs w' = w_runs w @ rs \<and> w_tasks w' = w_tasks w @ ts
    \<and> mset (map r_PortfolioID rs) = mset (map p_ID (filter (claimable etDay w) (w_portfolios w)))
    \<and> list_all (\<lambda>r. r_Status r = RunQueued \<and> r_TriggeredBy r = TriggerScheduled) rs
    \<and> map t_runID ts = map r_ID rs
    \<and> filter (claimable etDay w') (w_portfolios w') = []"
proof -
  have "open_db w" using assms(1-3) by (simp add: open_db_def)
  from dispatchDue_ok [OF this assms(4), of etDay n until] assms(5,6)
  obtain ids rs ts where "dispatchDue (scheduler_New etDay cfg) until (replicate n (Env (\<lambda>w. w))) w = Some (appended rs ts w)"
      "mset ids = mset (map p_ID (claims etDay w))" "fresh_batch ids rs ts" "claims etDay (appended rs ts w) = []"
    unfolding claims_def by blast
  then show ?thesis
    by (intro exI [of _ "appended rs ts w"] exI [of _ rs] exI [of _ ts])
      (auto simp: fresh_batch_def claims_def list_all_iff)
qed

theorem dispatchDue_dispatches_all_witness:
  "\<exists>w'. dispatchDue (scheduler_New (\<lambda>_. Date 2026 1 2) \<lparr>sc_TickInterval = 1, sc_BatchSize = 1\<rparr>) 500 (replicate 2 (Env (\<lambda>w. w))) demo_world = Some w'
    \<and> filter (claimable (\<lambda>_. Date 2026 1 2) w') (w_portfolios w') = []"
proof -
  let ?cfg = "\<lparr>sc_TickInterval = 1, sc_BatchSize = 1\<rparr>"
  have "\<not> w_closed demo_world" "0 < sc_BatchSize ?cfg"
    "length (w_tasks demo_world) + length (filter (claimable (\<lambda>_. Date 2026 1 2) demo_world) (w_portfolios demo_world)) \<le> w_cap demo_world"
    "length (filter (claimable (\<lambda>_. Date 2026 1 2) demo_world) (w_portfolios demo_world)) < 2"
    by (simp_all add: demo_world_def empty_world_def)
  from dispatchDue_dispatches_all [OF demo_world_inv demo_world_simps(1) this, of 500]
  show ?thesis by blast
qed

end
