(* ===== verification/Sweep.thy ===== *)
theory Sweep
  imports Dispatcher
begin

text \<open>
  The sweeps of the snapshots directory (\<open>backtest/sweep.go\<close>, \<open>backtest/orphan_sweep.go\<close>). The
  directory is a tree of the depth the code looks at: top-level entries, and the entries of the
  per-portfolio directories; a file has its modification time. \<open>parse\<close> is \<open>uuid.Parse\<close>. The
  record \<open>osys\<close> says which calls the operating system refuses: listing the root, listing a
  directory, and stating or removing a path (given as its components below the root). A removal
  that the system refuses is taken to leave the entry as it is.
\<close>

datatype sub = SubFile instant | SubDir
datatype top = TopFile instant | TopDir "(string \<times> sub) list"

type_synonym tree = "(string \<times> top) list"

record osys =
  root_ok :: bool
  dir_ok :: "string \<Rightarrow> bool"
  path_ok :: "string list \<Rightarrow> bool"

definition os_healthy :: osys where
  "os_healthy = \<lparr>root_ok = True, dir_ok = (\<lambda>_. True), path_ok = (\<lambda>_. True)\<rparr>"

definition os_error :: error where "os_error = Error [] ''open snapshots directory''"

subsection \<open>sweep.go\<close>

definition removeIfStaleTmp :: "osys \<Rightarrow> string list \<Rightarrow> string \<Rightarrow> instant \<Rightarrow> instant \<Rightarrow> bool" where
  "removeIfStaleTmp os path name cutoff modTime \<longleftrightarrow>
     has_suffix name ''.sqlite.tmp'' \<and> modTime < cutoff \<and> path_ok os path"

definition stale_entry :: "osys \<Rightarrow> string \<Rightarrow> instant \<Rightarrow> string \<times> sub \<Rightarrow> bool" where
  "stale_entry os dir cutoff f =
     (case f of (n, SubDir) \<Rightarrow> False | (n, SubFile m) \<Rightarrow> removeIfStaleTmp os [dir, n] n cutoff m)"

definition sweepStaleTmps :: "osys \<Rightarrow> string \<Rightarrow> instant \<Rightarrow> (string \<times> sub) list \<Rightarrow> nat \<times> (string \<times> sub) list" where
  "sweepStaleTmps os dir cutoff es =
     (if dir_ok os dir then (affected (stale_entry os dir cutoff) es, delete_where (stale_entry os dir cutoff) es)
      else (0, es))"

fun sweep_top :: "osys \<Rightarrow> instant \<Rightarrow> tree \<Rightarrow> nat \<times> tree" where
  "sweep_top os cutoff [] = (0, [])"
| "sweep_top os cutoff ((n, TopDir es) # t) =
     (let (k, es') = sweepStaleTmps os n cutoff es; (removed, t') = sweep_top os cutoff t
      in (k + removed, (n, TopDir es') # t'))"
| "sweep_top os cutoff ((n, TopFile m) # t) =
     (let (removed, t') = sweep_top os cutoff t
      in if removeIfStaleTmp os [n] n cutoff m then (Suc removed, t') else (removed, (n, TopFile m) # t'))"

definition hour :: int where "hour = 3600000000"

text \<open>The sweeper is the interface value \<open>ps\<close>, which may be nil.\<close>

definition StartupSweep :: "osys \<Rightarrow> (string \<Rightarrow> (nat \<times> nat) result io) option \<Rightarrow> tree \<Rightarrow> (unit result \<times> tree) io" where
  "StartupSweep os ps t = do {
     w \<leftarrow> State_Monad.get;
     if \<not> root_ok os then State_Monad.return (Inl os_error, t)
     else do {
       let t' = snd (sweep_top os (w_now w - hour) t);
       (case ps of
          None \<Rightarrow> State_Monad.return (Inr (), t')
        | Some MarkAll \<Rightarrow> do {
            r \<leftarrow> MarkAll ''server restarted mid-run'';
            State_Monad.return (case r of Inl e \<Rightarrow> Inl e | Inr _ \<Rightarrow> Inr (), t')
          })
     }
   }"

subsection \<open>orphan_sweep.go\<close>

datatype orphanCandidate = WholeDir string uuid | RunFile string string uuid

fun candidate_path :: "orphanCandidate \<Rightarrow> string list" where
  "candidate_path (WholeDir d _) = [d]"
| "candidate_path (RunFile d f _) = [d, f]"

definition file_candidates :: "(string \<Rightarrow> uuid option) \<Rightarrow> string \<Rightarrow> string \<times> sub \<Rightarrow> orphanCandidate list" where
  "file_candidates parse dir f =
     (case f of
        (name, SubDir) \<Rightarrow> []
      | (name, SubFile _) \<Rightarrow>
          if \<not> has_suffix name ''.sqlite'' then []
          else (case parse (trim_suffix name ''.sqlite'') of None \<Rightarrow> [] | Some rid \<Rightarrow> [RunFile dir name rid]))"

definition dir_candidates :: "osys \<Rightarrow> (string \<Rightarrow> uuid option) \<Rightarrow> string \<times> top \<Rightarrow> orphanCandidate list" where
  "dir_candidates os parse e =
     (case e of
        (name, TopFile _) \<Rightarrow> []
      | (name, TopDir files) \<Rightarrow>
          (case parse name of
             None \<Rightarrow> []
           | Some pid \<Rightarrow> WholeDir name pid # (if dir_ok os name then concat (map (file_candidates parse name) files) else [])))"

definition walk_candidates :: "osys \<Rightarrow> (string \<Rightarrow> uuid option) \<Rightarrow> tree \<Rightarrow> orphanCandidate list" where
  "walk_candidates os parse t = concat (map (dir_candidates os parse) t)"

definition collectOrphanCandidates :: "osys \<Rightarrow> (string \<Rightarrow> uuid option) \<Rightarrow> tree \<Rightarrow> orphanCandidate list result" where
  "collectOrphanCandidates os parse t =
     (if root_ok os then Inr (walk_candidates os parse t) else Inl os_error)"

definition remove_dir :: "string \<Rightarrow> tree \<Rightarrow> tree" where
  "remove_dir d t = filter (\<lambda>(n, e). n \<noteq> d) t"

definition remove_sub :: "string \<Rightarrow> string \<Rightarrow> tree \<Rightarrow> tree" where
  "remove_sub d f t = map (\<lambda>(n, e). case e of
       TopFile m \<Rightarrow> (n, TopFile m)
     | TopDir es \<Rightarrow> (n, TopDir (if n = d then filter (\<lambda>(g, x). g \<noteq> f) es else es))) t"

text \<open>One candidate of the loop. A file that is already gone counts as removed, as in the code.\<close>

definition sweep_candidate :: "osys \<Rightarrow> uuid list \<Rightarrow> uuid list \<Rightarrow> orphanCandidate \<Rightarrow> nat \<times> tree \<Rightarrow> nat \<times> tree" where
  "sweep_candidate os portfolios runs c st =
     (case c of
        WholeDir d pid \<Rightarrow>
          if pid \<in> set portfolios \<or> \<not> path_ok os (candidate_path c) then st else (Suc (fst st), remove_dir d (snd st))
      | RunFile d f rid \<Rightarrow>
          if rid \<in> set runs \<or> \<not> path_ok os (candidate_path c) then st else (Suc (fst st), remove_sub d f (snd st)))"

text \<open>
  The walk sees the tree \<open>walked\<close>; the rows are read after it, and the removals act on the tree
  \<open>t\<close> of that moment.
\<close>

definition SweepOrphans :: "osys \<Rightarrow> (string \<Rightarrow> uuid option) \<Rightarrow> tree \<Rightarrow> tree \<Rightarrow> (nat result \<times> tree) io" where
  "SweepOrphans os parse walked t =
     (case collectOrphanCandidates os parse walked of
        Inl e \<Rightarrow> State_Monad.return (Inl e, t)
      | Inr candidates \<Rightarrow> do {
          ps \<leftarrow> AllPortfolioIDs;
          (case ps of
             Inl e \<Rightarrow> State_Monad.return (Inl e, t)
           | Inr portfolios \<Rightarrow> do {
               rs \<leftarrow> AllRunIDs;
               (case rs of
                  Inl e \<Rightarrow> State_Monad.return (Inl e, t)
                | Inr runs \<Rightarrow>
                    (let (removed, t') = fold (sweep_candidate os portfolios runs) candidates (0, t)
                     in State_Monad.return (Inr removed, t')))
             })
        })"

section \<open>What the orphan sweep removes\<close>

definition dir_killed :: "osys \<Rightarrow> uuid list \<Rightarrow> orphanCandidate list \<Rightarrow> string \<Rightarrow> bool" where
  "dir_killed os ps cs d \<longleftrightarrow> path_ok os [d] \<and> (\<exists>pid. WholeDir d pid \<in> set cs \<and> pid \<notin> set ps)"

definition file_killed :: "osys \<Rightarrow> uuid list \<Rightarrow> orphanCandidate list \<Rightarrow> string \<Rightarrow> string \<Rightarrow> bool" where
  "file_killed os rs cs d f \<longleftrightarrow> path_ok os [d, f] \<and> (\<exists>rid. RunFile d f rid \<in> set cs \<and> rid \<notin> set rs)"

fun surviving_top :: "(string \<Rightarrow> string \<Rightarrow> bool) \<Rightarrow> string \<times> top \<Rightarrow> string \<times> top" where
  "surviving_top killed (n, TopFile m) = (n, TopFile m)"
| "surviving_top killed (n, TopDir es) = (n, TopDir (filter (\<lambda>(f, x). \<not> killed n f) es))"

definition survivors :: "(string \<Rightarrow> bool) \<Rightarrow> (string \<Rightarrow> string \<Rightarrow> bool) \<Rightarrow> tree \<Rightarrow> tree" where
  "survivors dk fk t = map (surviving_top fk) (filter (\<lambda>(n, e). \<not> dk n) t)"

lemma survivors_remove_dir: "survivors dk fk (remove_dir d t) = survivors (\<lambda>n. n = d \<or> dk n) fk t"
  unfolding survivors_def remove_dir_def filter_filter by (intro arg_cong2 [where f = map] filter_cong) auto

lemma survivors_remove_sub:
  "survivors dk fk (remove_sub d f t) = survivors dk (\<lambda>n g. n = d \<and> g = f \<or> fk n g) t"
proof (induction t)
  case (Cons e t)
  obtain n x where e: "e = (n, x)" by fastforce
  from Cons show ?case
    by (cases x) (auto simp: e survivors_def remove_sub_def intro!: filter_cong)
qed (simp add: survivors_def remove_sub_def)

lemma survivors_none: "survivors (\<lambda>_. False) (\<lambda>_ _. False) t = t"
proof -
  have "surviving_top (\<lambda>_ _. False) (n, e) = (n, e)" for n e
    by (cases e) (auto intro: filter_True)
  then show ?thesis by (simp add: survivors_def case_prod_beta' map_idI split_paired_all)
qed

lemma killed_Cons:
  "dir_killed os ps (c # cs) = (\<lambda>n. (\<exists>pid. c = WholeDir n pid \<and> pid \<notin> set ps \<and> path_ok os [n]) \<or> dir_killed os ps cs n)"
  "file_killed os rs (c # cs) = (\<lambda>n g. (\<exists>rid. c = RunFile n g rid \<and> rid \<notin> set rs \<and> path_ok os [n, g]) \<or> file_killed os rs cs n g)"
  by (auto simp: fun_eq_iff dir_killed_def file_killed_def)

lemma fold_sweep:
  "snd (fold (sweep_candidate os ps rs) cs st) = survivors (dir_killed os ps cs) (file_killed os rs cs) (snd st)"
proof (induction cs arbitrary: st)
  case Nil
  have "dir_killed os ps [] = (\<lambda>_. False)" "file_killed os rs [] = (\<lambda>_ _. False)"
    by (simp_all add: fun_eq_iff dir_killed_def file_killed_def)
  then show ?case by (simp add: survivors_none)
next
  case (Cons c cs)
  then show ?case
    by (cases c) (auto simp: killed_Cons sweep_candidate_def survivors_remove_dir survivors_remove_sub
        intro!: arg_cong [where f = "\<lambda>x. survivors x _ _"] arg_cong [where f = "\<lambda>x. survivors _ x _"])
qed


subsection \<open>Candidates\<close>

definition orphan_dir :: "(string \<Rightarrow> uuid option) \<Rightarrow> uuid list \<Rightarrow> string \<times> top \<Rightarrow> bool" where
  "orphan_dir parse ps e =
     (case e of (n, TopFile _) \<Rightarrow> False | (n, TopDir _) \<Rightarrow> (case parse n of None \<Rightarrow> False | Some pid \<Rightarrow> pid \<notin> set ps))"

definition orphan_file :: "(string \<Rightarrow> uuid option) \<Rightarrow> uuid list \<Rightarrow> string \<times> sub \<Rightarrow> bool" where
  "orphan_file parse rs f =
     (case f of (n, SubDir) \<Rightarrow> False
      | (n, SubFile _) \<Rightarrow> has_suffix n ''.sqlite''
          \<and> (case parse (trim_suffix n ''.sqlite'') of None \<Rightarrow> False | Some rid \<Rightarrow> rid \<notin> set rs))"

fun reaped_top :: "(string \<Rightarrow> uuid option) \<Rightarrow> uuid list \<Rightarrow> string \<times> top \<Rightarrow> string \<times> top" where
  "reaped_top parse rs (n, TopFile m) = (n, TopFile m)"
| "reaped_top parse rs (n, TopDir es) =
     (n, TopDir (if parse n = None then es else filter (\<lambda>f. \<not> orphan_file parse rs f) es))"

lemma file_candidate_iff:
  "c \<in> set (file_candidates parse d x) \<longleftrightarrow> (\<exists>f m rid. c = RunFile d f rid \<and> x = (f, SubFile m)
     \<and> has_suffix f ''.sqlite'' \<and> parse (trim_suffix f ''.sqlite'') = Some rid)"
  by (cases x) (auto simp: file_candidates_def split: sub.splits option.splits)

lemma dir_candidate_iff:
  "c \<in> set (dir_candidates os parse e) \<longleftrightarrow> (\<exists>d es pid. e = (d, TopDir es) \<and> parse d = Some pid
     \<and> (c = WholeDir d pid \<or> dir_ok os d \<and> (\<exists>x \<in> set es. c \<in> set (file_candidates parse d x))))"
  by (cases e; cases "snd e"; cases "parse (fst e)") (auto simp: dir_candidates_def)

lemma candidate_iff:
  "c \<in> set (walk_candidates os parse t) \<longleftrightarrow> (\<exists>d es pid. (d, TopDir es) \<in> set t \<and> parse d = Some pid
     \<and> (c = WholeDir d pid \<or> dir_ok os d \<and> (\<exists>x \<in> set es. c \<in> set (file_candidates parse d x))))"
  by (simp add: walk_candidates_def dir_candidate_iff del: split_paired_Ex) blast

lemma WholeDir_candidate:
  "WholeDir d pid \<in> set (walk_candidates os parse t) \<longleftrightarrow> parse d = Some pid \<and> (\<exists>es. (d, TopDir es) \<in> set t)"
  unfolding candidate_iff file_candidate_iff by auto

lemma RunFile_candidate:
  "RunFile d f rid \<in> set (walk_candidates os parse t) \<longleftrightarrow>
     parse d \<noteq> None \<and> dir_ok os d \<and> has_suffix f ''.sqlite'' \<and> parse (trim_suffix f ''.sqlite'') = Some rid
     \<and> (\<exists>es m. (d, TopDir es) \<in> set t \<and> (f, SubFile m) \<in> set es)"
  unfolding candidate_iff file_candidate_iff by auto

lemma run_SweepOrphans:
  "\<exists>dead gone. snd (fst (run_state (SweepOrphans os parse walked t) w)) = survivors dead gone t
     \<and> (\<forall>d. dead d \<longrightarrow> (\<exists>pid es. parse d = Some pid \<and> pid \<notin> p_ID ` set (w_portfolios w) \<and> (d, TopDir es) \<in> set walked))
     \<and> (\<forall>d f. gone d f \<longrightarrow> has_suffix f ''.sqlite'' \<and> (\<exists>rid es m. parse (trim_suffix f ''.sqlite'') = Some rid
          \<and> rid \<notin> r_ID ` set (w_runs w) \<and> (d, TopDir es) \<in> set walked \<and> (f, SubFile m) \<in> set es))"
proof (cases "\<exists>k t' w'. run_state (SweepOrphans os parse walked t) w = ((Inr k, t'), w')")
  case True
  define cs where "cs = walk_candidates os parse walked"
  from True obtain k t' w' where run: "run_state (SweepOrphans os parse walked t) w = ((Inr k, t'), w')" by blast
  then have "t' = snd (fold (sweep_candidate os (map p_ID (w_portfolios w)) (map r_ID (w_runs w))) cs (0, t))"
    by (auto simp: SweepOrphans_def collectOrphanCandidates_def AllPortfolioIDs_def AllRunIDs_def dbread_def run_dbop
        next_outcome_def cs_def split: if_splits list.splits db_outcome.splits prod.splits)
  then have "snd (fst (run_state (SweepOrphans os parse walked t) w)) =
      survivors (dir_killed os (map p_ID (w_portfolios w)) cs) (file_killed os (map r_ID (w_runs w)) cs) t"
    by (simp add: run fold_sweep)
  then show ?thesis
    by (intro exI conjI) (assumption, auto simp: dir_killed_def file_killed_def cs_def WholeDir_candidate RunFile_candidate)
next
  case False
  obtain r t' w' where run: "run_state (SweepOrphans os parse walked t) w = ((r, t'), w')" by (metis prod.exhaust)
  with False obtain e where "r = Inl e" by (cases r) auto
  with run have "t' = t"
    by (auto simp: SweepOrphans_def collectOrphanCandidates_def AllPortfolioIDs_def AllRunIDs_def dbread_def run_dbop
        next_outcome_def split: if_splits list.splits db_outcome.splits prod.splits)
  with run show ?thesis by (intro exI [of _ "\<lambda>_. False"] exI [of _ "\<lambda>_ _. False"]) (simp add: survivors_none)
qed


text \<open>
  C20. The orphan sweep never removes what a row refers to or what it did not see: whatever the
  database calls return, whichever removals fail and however the directory changed since the walk,
  a directory is kept when its name is no uuid, when a portfolio row has its id, or when the walk
  did not see it; in a kept directory an entry is kept when it is no \<open>.sqlite\<close> file (so every
  \<open>.sqlite.tmp\<close>), when its name is no uuid, when a run row has its id, or when the walk did not see
  it there; a top-level file is kept unless the walk saw a directory of that name.
\<close>

theorem SweepOrphans_safe:
  fixes os parse walked t w
  defines "t' \<equiv> snd (fst (run_state (SweepOrphans os parse walked t) w))"
  shows "(\<forall>n m. (n, TopFile m) \<in> set t \<and> (\<nexists>es. (n, TopDir es) \<in> set walked) \<longrightarrow> (n, TopFile m) \<in> set t')
    \<and> (\<forall>n es. (n, TopDir es) \<in> set t
         \<and> (parse n = None \<or> (\<exists>p \<in> set (w_portfolios w). parse n = Some (p_ID p)) \<or> (\<nexists>fs. (n, TopDir fs) \<in> set walked))
       \<longrightarrow> (\<exists>es'. (n, TopDir es') \<in> set t' \<and> set es' \<subseteq> set es
             \<and> (\<forall>f x. (f, x) \<in> set es \<and> (\<not> has_suffix f ''.sqlite'' \<or> parse (trim_suffix f ''.sqlite'') = None
                   \<or> (\<exists>r \<in> set (w_runs w). parse (trim_suffix f ''.sqlite'') = Some (r_ID r))
                   \<or> (\<nexists>fs m. (n, TopDir fs) \<in> set walked \<and> (f, SubFile m) \<in> set fs)) \<longrightarrow> (f, x) \<in> set es')))"
proof -
  obtain dead gone where t': "t' = survivors dead gone t"
    and dead: "\<And>d. dead d \<Longrightarrow> (\<exists>pid es. parse d = Some pid \<and> pid \<notin> p_ID ` set (w_portfolios w) \<and> (d, TopDir es) \<in> set walked)"
    and gone: "\<And>d f. gone d f \<Longrightarrow> has_suffix f ''.sqlite'' \<and> (\<exists>rid es m. parse (trim_suffix f ''.sqlite'') = Some rid
          \<and> rid \<notin> r_ID ` set (w_runs w) \<and> (d, TopDir es) \<in> set walked \<and> (f, SubFile m) \<in> set es)"
    using run_SweepOrphans [of os parse walked t w] unfolding t'_def by blast
  have keep: "surviving_top gone (n, e) \<in> set t'" if "(n, e) \<in> set t" "\<not> dead n" for n e
    unfolding t' survivors_def using that by force
  show ?thesis
  proof (intro conjI allI impI)
    fix n m assume "(n, TopFile m) \<in> set t \<and> (\<nexists>es. (n, TopDir es) \<in> set walked)"
    then show "(n, TopFile m) \<in> set t'" using keep [of n "TopFile m"] dead by auto
  next
    fix n es
    assume dir: "(n, TopDir es) \<in> set t \<and> (parse n = None \<or> (\<exists>p \<in> set (w_portfolios w). parse n = Some (p_ID p))
      \<or> (\<nexists>fs. (n, TopDir fs) \<in> set walked))"
    then have "\<not> dead n" using dead [of n] by auto
    with dir keep [of n "TopDir es"] have "(n, TopDir (filter (\<lambda>(f, x). \<not> gone n f) es)) \<in> set t'" by simp
    then show "\<exists>es'. (n, TopDir es') \<in> set t' \<and> set es' \<subseteq> set es
             \<and> (\<forall>f x. (f, x) \<in> set es \<and> (\<not> has_suffix f ''.sqlite'' \<or> parse (trim_suffix f ''.sqlite'') = None
                   \<or> (\<exists>r \<in> set (w_runs w). parse (trim_suffix f ''.sqlite'') = Some (r_ID r))
                   \<or> (\<nexists>fs m. (n, TopDir fs) \<in> set walked \<and> (f, SubFile m) \<in> set fs)) \<longrightarrow> (f, x) \<in> set es')"
      by (rule exI [THEN exE], intro exI conjI) (assumption, auto dest!: gone)
  qed
qed

definition demo_parse :: "string \<Rightarrow> uuid option" where
  "demo_parse s = (if s = ''p1'' then Some 1 else if s = ''p9'' then Some 9 else if s = ''r4'' then Some 4
     else if s = ''r77'' then Some 77 else None)"

definition demo_tree :: tree where
  "demo_tree = [(''old.sqlite'', TopFile 0), (''p1'', TopDir [(''r4.sqlite'', SubFile 0), (''r77.sqlite'', SubFile 0)]),
     (''p9'', TopDir [(''r77.sqlite.tmp'', SubFile 0)]), (''notes'', TopDir [(''a'', SubFile 0)])]"


theorem SweepOrphans_safe_witness:
  "\<exists>es'. (''p1'', TopDir es') \<in> set (snd (fst (run_state (SweepOrphans os_healthy demo_parse demo_tree demo_tree) demo_world)))
     \<and> (''r4.sqlite'', SubFile 0) \<in> set es'"
proof -
  have "(''p1'', TopDir [(''r4.sqlite'', SubFile 0), (''r77.sqlite'', SubFile 0)]) \<in> set demo_tree" by (simp add: demo_tree_def)
  moreover have "\<exists>p \<in> set (w_portfolios demo_world). demo_parse ''p1'' = Some (p_ID p)" by (simp add: demo_parse_def)
  moreover have "\<exists>r \<in> set (w_runs demo_world). demo_parse (trim_suffix ''r4.sqlite'' ''.sqlite'') = Some (r_ID r)"
    by (simp add: demo_parse_def demo_world_def demo_run_def trim_suffix_def has_suffix_def)
  moreover have "(''r4.sqlite'', SubFile 0) \<in> set [(''r4.sqlite'', SubFile 0), (''r77.sqlite'', SubFile 0)]" by simp
  ultimately show ?thesis
    using SweepOrphans_safe [where os = os_healthy and parse = demo_parse and walked = demo_tree and t = demo_tree and w = demo_world] by meson
qed

lemma healthy_killed:
  assumes "distinct (map fst t)" and "\<forall>n es. (n, TopDir es) \<in> set t \<longrightarrow> distinct (map fst es)" and "(n, e) \<in> set t"
  shows "dir_killed os_healthy ps (walk_candidates os_healthy parse t) n = orphan_dir parse ps (n, e)" (is ?d)
    and "surviving_top (file_killed os_healthy rs (walk_candidates os_healthy parse t)) (n, e) = reaped_top parse rs (n, e)" (is ?f)
proof -
  have u: "e' = e" if "(n, e') \<in> set t" for e' using that assms(1,3) by (metis eq_key_imp_eq_value)
  with assms(3) have ex: "(\<exists>es. (n, TopDir es) \<in> set t) \<longleftrightarrow> (\<exists>es. e = TopDir es)" by blast
  show ?d
    by (cases e; cases "parse n") (simp_all add: dir_killed_def WholeDir_candidate os_healthy_def orphan_dir_def ex)
  show ?f
  proof (cases e)
    case (TopDir es)
    with assms(2,3) have dist: "distinct (map fst es)" by blast
    have "file_killed os_healthy rs (walk_candidates os_healthy parse t) n f \<longleftrightarrow> parse n \<noteq> None \<and> orphan_file parse rs (f, x)"
      if fx: "(f, x) \<in> set es" for f x
    proof -
      have v: "x' = x" if "(f, x') \<in> set es" for x' using that fx dist by (metis eq_key_imp_eq_value)
      have ex: "(\<exists>fs. (n, TopDir fs) \<in> set t \<and> (\<exists>m. (f, SubFile m) \<in> set fs)) \<longleftrightarrow> (\<exists>m. x = SubFile m)"
        using u v TopDir assms(3) fx by blast
      show ?thesis
        by (cases x; cases "parse n"; cases "parse (trim_suffix f ''.sqlite'')")
          (simp_all add: file_killed_def RunFile_candidate os_healthy_def orphan_file_def ex)
    qed
    then show ?thesis by (auto simp: TopDir intro!: filter_cong filter_True)
  qed simp
qed

text \<open>
  C21. With a working file system and database the orphan sweep removes exactly the orphans: the
  directories named by a uuid that is no portfolio, and in the remaining uuid directories the
  \<open>.sqlite\<close> files named by a uuid that is no run. The database is left as it is.
\<close>

theorem SweepOrphans_removes_orphans:
  assumes "w_outcomes w = []" and "distinct (map fst t)" and "\<forall>n es. (n, TopDir es) \<in> set t \<longrightarrow> distinct (map fst es)"
  shows "\<exists>k. run_state (SweepOrphans os_healthy parse t t) w =
    ((Inr k, map (reaped_top parse (map r_ID (w_runs w)))
       (filter (\<lambda>e. \<not> orphan_dir parse (map p_ID (w_portfolios w)) e) t)), w)"
proof -
  let ?ps = "map p_ID (w_portfolios w)" and ?rs = "map r_ID (w_runs w)" and ?cs = "walk_candidates os_healthy parse t"
  have "survivors (dir_killed os_healthy ?ps ?cs) (file_killed os_healthy ?rs ?cs) t =
      map (reaped_top parse ?rs) (filter (\<lambda>e. \<not> orphan_dir parse ?ps e) t)"
    unfolding survivors_def using healthy_killed [OF assms(2,3)]
    by (intro map_cong filter_cong) auto
  moreover obtain k t' where "fold (sweep_candidate os_healthy ?ps ?rs) ?cs (0, t) = (k, t')" by fastforce
  ultimately show ?thesis using assms(1) fold_sweep [of os_healthy ?ps ?rs ?cs "(0, t)"]
    by (simp add: SweepOrphans_def collectOrphanCandidates_def AllPortfolioIDs_def AllRunIDs_def os_healthy_def)
qed

theorem SweepOrphans_removes_orphans_witness:
  "\<exists>k. run_state (SweepOrphans os_healthy demo_parse demo_tree demo_tree) demo_world =
    ((Inr k, [(''old.sqlite'', TopFile 0), (''p1'', TopDir [(''r4.sqlite'', SubFile 0)]), (''notes'', TopDir [(''a'', SubFile 0)])]), demo_world)"
proof -
  have "map (reaped_top demo_parse (map r_ID (w_runs demo_world)))
       (filter (\<lambda>e. \<not> orphan_dir demo_parse (map p_ID (w_portfolios demo_world)) e) demo_tree) =
     [(''old.sqlite'', TopFile 0), (''p1'', TopDir [(''r4.sqlite'', SubFile 0)]), (''notes'', TopDir [(''a'', SubFile 0)])]"
    by (simp add: demo_tree_def orphan_dir_def orphan_file_def demo_parse_def demo_world_def demo_run_def trim_suffix_def
        has_suffix_def demo_portfolio_def)
  moreover have "distinct (map fst demo_tree)" "\<forall>n es. (n, TopDir es) \<in> set demo_tree \<longrightarrow> distinct (map fst es)"
    by (auto simp: demo_tree_def)
  ultimately show ?thesis
    using SweepOrphans_removes_orphans [of demo_world demo_tree demo_parse] by simp
qed

subsection \<open>The start-up sweep\<close>

lemma sweep_top_keeps:
  "(n, TopFile m) \<in> set t \<Longrightarrow> \<not> removeIfStaleTmp os [n] n cutoff m \<Longrightarrow> (n, TopFile m) \<in> set (snd (sweep_top os cutoff t))"
  "(n, TopDir es) \<in> set t \<Longrightarrow> (n, TopDir (snd (sweepStaleTmps os n cutoff es))) \<in> set (snd (sweep_top os cutoff t))"
proof (induction t)
  case (Cons e t)
  have "(\<exists>d es. e = (d, TopDir es)) \<or> (\<exists>d m. e = (d, TopFile m))" by (metis prod.exhaust top.exhaust)
  { case 1 with Cons.IH \<open>_ \<or> _\<close> show ?case by (auto simp: case_prod_beta Let_def) }
  { case 2 with Cons.IH \<open>_ \<or> _\<close> show ?case by (auto simp: case_prod_beta Let_def) }
qed simp_all

text \<open>
  After a successful start-up sweep no run is queued or running and no portfolio is running;
  of the snapshots directory only \<open>.sqlite.tmp\<close> files more than an hour old are gone: every other
  top-level file and every other entry of a directory is still there.
\<close>

lemma StartupSweep_spec:
  assumes "run_state (StartupSweep os (Some MarkAllRunningAsFailed) t) w = ((Inr (), t'), w')"
  shows "filter in_flight (w_runs w') = [] \<and> filter (\<lambda>p. p_Status p = StatusRunning) (w_portfolios w') = []
    \<and> (\<forall>n m. (n, TopFile m) \<in> set t \<and> \<not> (has_suffix n ''.sqlite.tmp'' \<and> m < w_now w - hour) \<longrightarrow> (n, TopFile m) \<in> set t')
    \<and> (\<forall>n es. (n, TopDir es) \<in> set t \<longrightarrow> (\<exists>es'. (n, TopDir es') \<in> set t' \<and> (\<forall>f x. (f, x) \<in> set es
          \<and> \<not> (has_suffix f ''.sqlite.tmp'' \<and> (\<exists>m < w_now w - hour. x = SubFile m)) \<longrightarrow> (f, x) \<in> set es')))"
proof (intro conjI allI impI)
  let ?t = "snd (sweep_top os (w_now w - hour) t)"
  from assms have ok: "root_ok os" by (auto simp: StartupSweep_def split: if_splits)
  with assms have t': "t' = ?t" by (auto simp: StartupSweep_def case_prod_beta Let_def)
  have all: "filter in_flight (w_runs w') = [] \<and> filter (\<lambda>p. p_Status p = StatusRunning) (w_portfolios w') = []"
    using assms ok
    by (auto simp: StartupSweep_def MarkAllRunningAsFailed_def run_dbop next_outcome_def mark_all_failed_stmt_def Let_def
        filter_empty_conv mark_failed_def in_flight_def update_where_def split: if_splits list.splits db_outcome.splits sum.splits prod.splits)
  then show "filter in_flight (w_runs w') = []" "filter (\<lambda>p. p_Status p = StatusRunning) (w_portfolios w') = []" by simp_all
  fix n
  show "(n, TopFile m) \<in> set t'" if "(n, TopFile m) \<in> set t \<and> \<not> (has_suffix n ''.sqlite.tmp'' \<and> m < w_now w - hour)" for m
    using that sweep_top_keeps(1) [of n m t] unfolding t' removeIfStaleTmp_def by blast
  fix es assume "(n, TopDir es) \<in> set t"
  then show "\<exists>es'. (n, TopDir es') \<in> set t' \<and> (\<forall>f x. (f, x) \<in> set es
          \<and> \<not> (has_suffix f ''.sqlite.tmp'' \<and> (\<exists>m < w_now w - hour. x = SubFile m)) \<longrightarrow> (f, x) \<in> set es')"
    unfolding t' by (intro exI conjI, rule sweep_top_keeps(2))
      (auto simp: sweepStaleTmps_def delete_where_def stale_entry_def removeIfStaleTmp_def split: sub.splits)
qed


definition busy_world :: world where
  "busy_world = demo_world\<lparr>w_portfolios := [demo_portfolio\<lparr>p_Status := StatusRunning\<rparr>],
     w_runs := [demo_run 2 []\<lparr>r_Status := RunRunning\<rparr>]\<rparr>"

end
