(* ===== verification/Slug.thy ===== *)
theory Slug
  imports Validate
begin

text \<open>
  Slugs (\<open>portfolio/slug.go\<close>): the FNV-1a hash on 32-bit words, the base-32 suffix, and
  \<open>kebabCase\<close> on the runes of a UTF-8 string. The Unicode tables behind \<open>unicode.IsLetter\<close>,
  \<open>unicode.IsDigit\<close>, \<open>unicode.IsUpper\<close> and \<open>unicode.ToLower\<close> are a record of functions.
\<close>

unbundle bit_operations_syntax

subsection \<open>Runes\<close>

definition byte :: "string \<Rightarrow> nat \<Rightarrow> nat" where
  "byte s i = (if i < length s then of_char (s ! i) else 0)"

definition cont :: "nat \<Rightarrow> bool" where "cont b \<longleftrightarrow> 128 \<le> b \<and> b \<le> 191"

text \<open>Go's \<open>utf8.DecodeRuneInString\<close>: the rune and its width; an invalid byte is U+FFFD.\<close>

definition decode_rune :: "string \<Rightarrow> nat \<times> nat" where
  "decode_rune s =
     (let b0 = byte s 0; b1 = byte s 1; b2 = byte s 2; b3 = byte s 3 in
      if b0 < 128 then (b0, 1)
      else if 194 \<le> b0 \<and> b0 \<le> 223 \<and> cont b1 then ((b0 - 192) * 64 + (b1 - 128), 2)
      else if 224 \<le> b0 \<and> b0 \<le> 239 \<and> cont b1 \<and> cont b2 \<and> (b0 = 224 \<longrightarrow> 160 \<le> b1) \<and> (b0 = 237 \<longrightarrow> b1 \<le> 159)
      then ((b0 - 224) * 4096 + (b1 - 128) * 64 + (b2 - 128), 3)
      else if 240 \<le> b0 \<and> b0 \<le> 244 \<and> cont b1 \<and> cont b2 \<and> cont b3 \<and> (b0 = 240 \<longrightarrow> 144 \<le> b1) \<and> (b0 = 244 \<longrightarrow> b1 \<le> 143)
      then ((b0 - 240) * 262144 + (b1 - 128) * 4096 + (b2 - 128) * 64 + (b3 - 128), 4)
      else (65533, 1))"

definition encode_rune :: "nat \<Rightarrow> string" where
  "encode_rune r =
     (let q = (if 55296 \<le> r \<and> r \<le> 57343 \<or> 1114111 < r then 65533 else r) in
      if q < 128 then [char_of q]
      else if q < 2048 then [char_of (192 + q div 64), char_of (128 + q mod 64)]
      else if q < 65536 then [char_of (224 + q div 4096), char_of (128 + q div 64 mod 64), char_of (128 + q mod 64)]
      else [char_of (240 + q div 262144), char_of (128 + q div 4096 mod 64),
            char_of (128 + q div 64 mod 64), char_of (128 + q mod 64)])"

lemma decode_rune_width: "1 \<le> snd (decode_rune s)"
  by (simp add: decode_rune_def Let_def)

function runes :: "string \<Rightarrow> nat list" where
  "runes [] = []"
| "runes (c # cs) = fst (decode_rune (c # cs)) # runes (drop (snd (decode_rune (c # cs))) (c # cs))"
  by pat_completeness auto
termination
  by (relation "measure length") (use decode_rune_width in \<open>auto simp: Suc_le_eq\<close>)

subsection \<open>kebabCase\<close>

record unicode =
  isLetter :: "nat \<Rightarrow> bool"
  isDigit :: "nat \<Rightarrow> bool"
  isUpper :: "nat \<Rightarrow> bool"
  toLower :: "nat \<Rightarrow> nat"

fun kebab_runes :: "unicode \<Rightarrow> bool \<Rightarrow> nat list \<Rightarrow> string" where
  "kebab_runes u lastHyphen [] = []"
| "kebab_runes u lastHyphen (r # rs) =
     (if isLetter u r \<or> isDigit u r then encode_rune (toLower u r) @ kebab_runes u False rs
      else if \<not> lastHyphen then CHR ''-'' # kebab_runes u True rs
      else kebab_runes u lastHyphen rs)"

definition kebabCase :: "unicode \<Rightarrow> string \<Rightarrow> string" where
  "kebabCase u s = trim_suffix (kebab_runes u True (runes s)) ''-''"

subsection \<open>The hash and the suffix\<close>

definition fnv_step :: "32 word \<Rightarrow> char \<Rightarrow> 32 word" where
  "fnv_step h c = (h XOR word_of_nat (of_char c)) * 16777619"

definition fnv32a :: "string \<Rightarrow> 32 word" where
  "fnv32a bs = foldl fnv_step 2166136261 bs"

definition base32Alphabet :: string where
  "base32Alphabet = ''abcdefghijklmnopqrstuvwxyz234567''"

text \<open>The loop from index 3 down to 0: the last character is the lowest five bits.\<close>

fun base32_loop :: "nat \<Rightarrow> 32 word \<Rightarrow> string \<Rightarrow> string" where
  "base32_loop 0 s suffix = suffix"
| "base32_loop (Suc n) s suffix =
     base32_loop n (drop_bit 5 s) (base32Alphabet ! unat (s AND 31) # suffix)"

definition slug_suffix :: "32 word \<Rightarrow> string" where
  "slug_suffix h = base32_loop 4 (h AND 0xFFFFF) []"

definition slug_preset :: "unicode \<Rightarrow> params \<Rightarrow> Describe \<Rightarrow> string" where
  "slug_preset u ps d = (case match_presets ps (d_Presets d) of None \<Rightarrow> ''custom'' | Some n \<Rightarrow> kebabCase u n)"

definition nul :: string where "nul = [char_of (0::nat)]"

definition slug_bytes :: "CreateRequest \<Rightarrow> string" where
  "slug_bytes req = cr_Name req @ nul @ canonicalJSON (JObj (cr_Parameters req)) @ nul @ cr_Benchmark req @ nul @
     (case cr_StartDate req of None \<Rightarrow> [] | Some d \<Rightarrow> time_Format d)"

definition Slug :: "unicode \<Rightarrow> CreateRequest \<Rightarrow> Describe \<Rightarrow> string" where
  "Slug u req d = cr_StrategyCode req @ ''-'' @ slug_preset u (cr_Parameters req) d @ ''-'' @ slug_suffix (fnv32a (slug_bytes req))"

section \<open>Properties\<close>

definition no_double_hyphen :: "string \<Rightarrow> bool" where
  "no_double_hyphen s \<longleftrightarrow> (\<forall>i. Suc i < length s \<longrightarrow> \<not> (s ! i = CHR ''-'' \<and> s ! Suc i = CHR ''-''))"

text \<open>What kebab output looks like: words without hyphens, joined by single hyphens.\<close>

fun kebab_ok :: "bool \<Rightarrow> string \<Rightarrow> bool" where
  "kebab_ok lastHyphen [] = True"
| "kebab_ok lastHyphen (c # cs) = ((c = CHR ''-'' \<longrightarrow> \<not> lastHyphen) \<and> kebab_ok (c = CHR ''-'') cs)"

lemma kebab_ok_weaken: "kebab_ok True s \<Longrightarrow> kebab_ok False s"
  by (cases s) auto

lemma kebab_ok_append:
  "(\<forall>c \<in> set w. c \<noteq> CHR ''-'') \<Longrightarrow> w \<noteq> [] \<Longrightarrow> kebab_ok b (w @ s) = kebab_ok False s"
proof (induction w arbitrary: b)
  case (Cons c w)
  then show ?case by (cases w) auto
qed simp

lemma char_of_hyphenD: "char_of (n :: nat) = CHR ''-'' \<Longrightarrow> n mod 256 = 45"
proof -
  assume eq: "char_of n = CHR ''-''"
  have "(of_char (char_of n) :: nat) = of_char (CHR ''-'')" by (simp only: eq)
  then show ?thesis by simp
qed

lemma encode_rune_no_hyphen: "r \<noteq> 45 \<Longrightarrow> encode_rune r \<noteq> [] \<and> (\<forall>c \<in> set (encode_rune r). c \<noteq> CHR ''-'')"
proof -
  assume r: "r \<noteq> 45"
  define q where "q = (if 55296 \<le> r \<and> r \<le> 57343 \<or> 1114111 < r then 65533 else r)"
  have q: "q \<noteq> 45" "q \<le> 1114111" using r by (auto simp: q_def)
  have b: "q < 2048 \<Longrightarrow> 192 + q div 64 < 256" "q < 65536 \<Longrightarrow> 224 + q div 4096 < 256" "240 + q div 262144 < 256"
    using q(2) by auto
  show ?thesis using q(1) b
    by (auto simp: encode_rune_def q_def [symmetric] Let_def dest!: char_of_hyphenD)
qed

definition unicode_ok :: "unicode \<Rightarrow> bool" where
  "unicode_ok u \<longleftrightarrow> (\<forall>r. isLetter u r \<or> isDigit u r \<longrightarrow> toLower u r \<noteq> 45)"

lemma kebab_runes_ok: "unicode_ok u \<Longrightarrow> kebab_ok lastHyphen (kebab_runes u lastHyphen rs)"
proof (induction rs arbitrary: lastHyphen)
  case (Cons r rs)
  show ?case
  proof (cases "isLetter u r \<or> isDigit u r")
    case True
    with Cons.prems have "toLower u r \<noteq> 45" by (auto simp: unicode_ok_def)
    from encode_rune_no_hyphen [OF this] True Cons.IH [OF Cons.prems, of False] show ?thesis
      by (auto simp: kebab_ok_append)
  qed (use Cons in simp)
qed simp

lemma kebab_ok_nth: "kebab_ok b s \<Longrightarrow> no_double_hyphen s \<and> (b \<longrightarrow> s \<noteq> [] \<longrightarrow> hd s \<noteq> CHR ''-'')"
proof (induction b s rule: kebab_ok.induct)
  case (2 b c cs)
  then have "no_double_hyphen cs" and h: "c = CHR ''-'' \<longrightarrow> cs \<noteq> [] \<longrightarrow> hd cs \<noteq> CHR ''-''" by auto
  then have "no_double_hyphen (c # cs)"
    unfolding no_double_hyphen_def by (auto simp: nth_Cons hd_conv_nth split: nat.splits)
  with 2 show ?case by auto
qed (simp add: no_double_hyphen_def)

text \<open>
  C31. Whatever the preset name, \<open>kebabCase\<close> gives a text that neither starts nor ends with a
  hyphen and has no two hyphens in a row. (Hyphen is not the lower case of a letter or digit.)
\<close>

theorem kebabCase_shape:
  assumes "unicode_ok u"
  shows "no_double_hyphen (kebabCase u s)
    \<and> (kebabCase u s = [] \<or> hd (kebabCase u s) \<noteq> CHR ''-'' \<and> last (kebabCase u s) \<noteq> CHR ''-'')"
proof -
  define t where "t = kebab_runes u True (runes s)"
  have t: "no_double_hyphen t" "t \<noteq> [] \<Longrightarrow> hd t \<noteq> CHR ''-''"
    using kebab_ok_nth [OF kebab_runes_ok [OF assms, of True]] by (auto simp: t_def)
  show ?thesis
  proof (cases "has_suffix t ''-''")
    case True
    then obtain p where p: "t = p @ ''-''" by (auto simp: has_suffix_iff)
    then have k: "kebabCase u s = p" by (simp add: kebabCase_def t_def [symmetric])
    have "no_double_hyphen p" using t(1) unfolding no_double_hyphen_def p
      by (auto simp: nth_append) (metis Suc_lessD less_SucI)
    moreover have "last p \<noteq> CHR ''-''" if "p \<noteq> []"
    proof
      assume "last p = CHR ''-''"
      with that have "t ! (length p - 1) = CHR ''-'' \<and> t ! Suc (length p - 1) = CHR ''-''"
        by (simp add: p nth_append last_conv_nth)
      moreover have "Suc (length p - 1) < length t" using that by (simp add: p)
      ultimately show False using t(1) unfolding no_double_hyphen_def by blast
    qed
    ultimately show ?thesis using t(2) by (auto simp: k p)
  next
    case False
    then have k: "kebabCase u s = t" by (simp add: kebabCase_def trim_suffix_def t_def [symmetric])
    have "last t \<noteq> CHR ''-''" if "t \<noteq> []"
      using False that by (metis append_butlast_last_id has_suffix_append)
    with t show ?thesis by (auto simp: k)
  qed
qed

definition ascii :: unicode where
  "ascii = \<lparr>isLetter = (\<lambda>r. 65 \<le> r \<and> r \<le> 90 \<or> 97 \<le> r \<and> r \<le> 122), isDigit = (\<lambda>r. 48 \<le> r \<and> r \<le> 57),
     isUpper = (\<lambda>r. 65 \<le> r \<and> r \<le> 90), toLower = (\<lambda>r. if 65 \<le> r \<and> r \<le> 90 then r + 32 else r)\<rparr>"

theorem kebabCase_shape_witness: "no_double_hyphen (kebabCase ascii ''  Risk -- On! '')"
proof -
  have "unicode_ok ascii" by (auto simp: unicode_ok_def ascii_def)
  from kebabCase_shape [OF this] show ?thesis by blast
qed

lemma unat_and_31: "unat (w AND 31 :: 32 word) = unat w mod 32"
proof -
  have "w AND 31 = take_bit 5 w" by (simp add: take_bit_eq_mask mask_numeral)
  then show ?thesis by (simp add: unsigned_take_bit_eq take_bit_eq_mod unat_mod)
qed

lemma unat_and_20: "unat (w AND 0xFFFFF :: 32 word) = unat w mod 2 ^ 20"
proof -
  have "w AND 0xFFFFF = take_bit 20 w" by (simp add: take_bit_eq_mask mask_eq_exp_minus_1)
  then show ?thesis by (simp add: unsigned_take_bit_eq take_bit_eq_mod unat_mod)
qed

lemma unat_drop_5: "unat (drop_bit 5 w :: 32 word) = unat w div 32"
  by (simp add: drop_bit_eq_div unat_div)

lemma base32_loop_digits:
  "base32_loop n s suf = map (\<lambda>i. base32Alphabet ! (unat s div 32 ^ i mod 32)) (rev [0..<n]) @ suf"
proof (induction n arbitrary: s suf)
  case (Suc n)
  have "[0..<Suc n] = 0 # map Suc [0..<n]" by (simp only: map_Suc_upt upt_conv_Cons zero_less_Suc)
  then have "rev [0..<Suc n] = map Suc (rev [0..<n]) @ [0]" by (simp only: rev.simps rev_map)
  then show ?case
    by (simp add: Suc.IH unat_and_31 unat_drop_5 div_mult2_eq [symmetric] del: upt_Suc)
qed simp

lemma slug_suffix_digits:
  "slug_suffix h = map (\<lambda>i. base32Alphabet ! (unat h mod 2 ^ 20 div 32 ^ i mod 32)) [3, 2, 1, 0]"
  by (simp add: slug_suffix_def base32_loop_digits unat_and_20 upt_rec)

lemma alphabet_inj: "i < 32 \<Longrightarrow> j < 32 \<Longrightarrow> base32Alphabet ! i = base32Alphabet ! j \<longleftrightarrow> i = j"
  by (rule nth_eq_iff_index_eq) (simp_all add: base32Alphabet_def)

lemma four_digits:
  fixes n :: nat
  assumes "n < 2 ^ 20"
  shows "n = n div 32 ^ 3 mod 32 * 32768 + n div 32 ^ 2 mod 32 * 1024 + n div 32 ^ 1 mod 32 * 32 + n div 32 ^ 0 mod 32"
proof -
  have "n div 32768 mod 32 = n div 32768" using assms by simp
  moreover have "n div 1024 = n div 32768 * 32 + n div 1024 mod 32"
    using div_mult_mod_eq [of "n div 1024" 32] by (simp add: div_mult2_eq [symmetric])
  moreover have "n div 32 = n div 1024 * 32 + n div 32 mod 32"
    using div_mult_mod_eq [of "n div 32" 32] by (simp add: div_mult2_eq [symmetric])
  moreover have "n = n div 32 * 32 + n mod 32" by simp
  ultimately have "n = n div 32768 mod 32 * 32768 + n div 1024 mod 32 * 1024 + n div 32 mod 32 * 32 + n mod 32"
    by linarith
  moreover have "(32 :: nat) ^ 3 = 32768" "(32 :: nat) ^ 2 = 1024" "(32 :: nat) ^ 1 = 32" "(32 :: nat) ^ 0 = 1"
    by simp_all
  ultimately show ?thesis by (simp only: div_by_1)
qed

text \<open>
  The suffix encodes the low twenty bits of the hash and nothing else: two hashes have the
  same suffix exactly when these bits agree.
\<close>

lemma slug_suffix_iff: "slug_suffix a = slug_suffix b \<longleftrightarrow> unat a mod 2 ^ 20 = unat b mod 2 ^ 20"
proof
  let ?a = "unat a mod 2 ^ 20" and ?b = "unat b mod 2 ^ 20"
  assume "slug_suffix a = slug_suffix b"
  then have "?a div 32 ^ 3 mod 32 = ?b div 32 ^ 3 mod 32" "?a div 32 ^ 2 mod 32 = ?b div 32 ^ 2 mod 32"
    "?a div 32 ^ 1 mod 32 = ?b div 32 ^ 1 mod 32" "?a div 32 ^ 0 mod 32 = ?b div 32 ^ 0 mod 32"
    by (simp_all only: slug_suffix_digits list.map list.inject alphabet_inj mod_less_divisor zero_less_numeral)
  then show "?a = ?b"
    using four_digits [of ?a] four_digits [of ?b] by (simp only: mod_less_divisor zero_less_power zero_less_numeral)
qed (simp add: slug_suffix_digits)

text \<open>
  C30. The slug does not depend on the iteration order of the parameter map, nor on the end
  date, the version or the retention: it is the strategy code, the preset segment and four
  characters of the alphabet.
\<close>

theorem Slug_stable:
  assumes "mset (cr_Parameters req) = mset (cr_Parameters req')" and "distinct (map fst (cr_Parameters req))"
    and "cr_Name req = cr_Name req'" "cr_StrategyCode req = cr_StrategyCode req'"
    and "cr_Benchmark req = cr_Benchmark req'" "cr_StartDate req = cr_StartDate req'"
  shows "Slug u req d = Slug u req' d"
proof -
  have c: "canonicalJSON (JObj (cr_Parameters req)) = canonicalJSON (JObj (cr_Parameters req'))"
    using assms(1,2) by (rule canonicalJSON_perm)
  then have "match_presets (cr_Parameters req) ps = match_presets (cr_Parameters req') ps" for ps
    by (induction ps) (simp_all add: presetParametersEqual_def)
  with c assms show ?thesis by (simp add: Slug_def slug_preset_def slug_bytes_def)
qed

theorem Slug_stable_witness:
  "Slug ascii \<lparr>cr_Name = ''n'', cr_StrategyCode = ''adm'', cr_StrategyVer = ''v1'', cr_StrategyCloneURL = [],
      cr_Parameters = [(''a'', JBool True), (''b'', JNum ''1'')], cr_Benchmark = ''SPY'', cr_StartDate = None,
      cr_EndDate = None, cr_RunRetention = None\<rparr> zero_describe =
   Slug ascii \<lparr>cr_Name = ''n'', cr_StrategyCode = ''adm'', cr_StrategyVer = ''v2'', cr_StrategyCloneURL = [],
      cr_Parameters = [(''b'', JNum ''1''), (''a'', JBool True)], cr_Benchmark = ''SPY'', cr_StartDate = None,
      cr_EndDate = Some (Date 2030 1 1), cr_RunRetention = Some 5\<rparr> zero_describe"
  by (rule Slug_stable) simp_all

end
