(* ===== verification/Strategy_Store.thy ===== *)
theory Strategy_Store
  imports Portfolio_Store
begin

text \<open>
  The strategy registry in Postgres (\<open>strategy/db.go\<close>, reached through \<open>PoolStore\<close> of
  \<open>strategy/store.go\<close>). The operations that share a name with one of the portfolio store carry
  the prefix \<open>Strategy_\<close>. A query with \<open>LIMIT 1\<close> and no \<open>ORDER BY\<close> sees the rows in the order
  \<open>plan\<close> the planner chooses. The table's constraints are its primary key, the check on
  \<open>is_official\<close> and \<open>owner_sub\<close>, the enumeration \<open>artifact_kind\<close> and the JSON column.
\<close>

definition strategy_not_found :: error where
  "strategy_not_found = Error [StrategyErrNotFound] ''strategy not found''"

lemma strategy_not_found_Is [simp]: "errors_Is strategy_not_found s \<longleftrightarrow> s = StrategyErrNotFound"
  by (simp add: strategy_not_found_def)

definition artifactKindBinary :: string where "artifactKindBinary = ''binary''"
definition artifactKindImage :: string where "artifactKindImage = ''image''"

subsection \<open>Reads\<close>

definition Strategy_List :: "Strategy list result io" where
  "Strategy_List = dbread (\<lambda>w. Inr (sort_key s_ShortCode (w_strategies w)))"

definition Strategy_Get :: "string \<Rightarrow> Strategy result io" where
  "Strategy_Get shortCode = dbread (\<lambda>w.
     case List.find (\<lambda>s. s_ShortCode s = shortCode) (w_strategies w) of None \<Rightarrow> Inl strategy_not_found | Some s \<Rightarrow> Inr s)"

definition GetByCloneURL :: "(Strategy list \<Rightarrow> Strategy list) \<Rightarrow> string \<Rightarrow> Strategy result io" where
  "GetByCloneURL plan cloneURL = dbread (\<lambda>w.
     case List.find (\<lambda>s. s_CloneURL s = cloneURL) (plan (w_strategies w)) of None \<Rightarrow> Inl strategy_not_found | Some s \<Rightarrow> Inr s)"

definition ListInstalled :: "Strategy list result io" where
  "ListInstalled = dbread (\<lambda>w. Inr (sort_key s_ShortCode (filter (\<lambda>s. s_ArtifactRef s \<noteq> None) (w_strategies w))))"

text \<open>\<open>Scan\<close> of a NULL \<open>artifact_ref\<close> into a Go string is an error.\<close>

definition LookupArtifact :: "(Strategy list \<Rightarrow> Strategy list) \<Rightarrow> string \<Rightarrow> string \<Rightarrow> string result io" where
  "LookupArtifact plan cloneURL installedVer = dbread (\<lambda>w.
     case List.find (\<lambda>s. s_CloneURL s = cloneURL \<and> s_InstalledVer s = Some installedVer \<and> s_InstallError s = None)
            (plan (w_strategies w)) of
       None \<Rightarrow> Inl strategy_not_found
     | Some s \<Rightarrow> (case s_ArtifactRef s of
           None \<Rightarrow> Inl (Error [] ''looking up artifact: cannot scan NULL into *string'')
         | Some ref \<Rightarrow> Inr ref))"

subsection \<open>Writes\<close>

definition owner_check :: "Strategy \<Rightarrow> bool" where
  "owner_check s \<longleftrightarrow> (s_IsOfficial s \<and> s_OwnerSub s = None) \<or> (\<not> s_IsOfficial s \<and> s_OwnerSub s \<noteq> None)"

definition fresh_row :: "instant \<Rightarrow> Strategy \<Rightarrow> Strategy" where
  "fresh_row now s = s\<lparr>s_InstalledVer := None, s_InstalledAt := None, s_LastAttemptedVer := None, s_InstallError := None,
     s_ArtifactKind := None, s_ArtifactRef := None, s_DescribeJSON := RawEmpty, s_Stats := None, s_StatsError := None,
     s_DiscoveredAt := now, s_UpdatedAt := now\<rparr>"

definition upsert_conflict :: "instant \<Rightarrow> Strategy \<Rightarrow> Strategy \<Rightarrow> Strategy" where
  "upsert_conflict now s old = old\<lparr>s_RepoOwner := s_RepoOwner s, s_RepoName := s_RepoName s, s_CloneURL := s_CloneURL s,
     s_Description := s_Description s, s_Categories := s_Categories s, s_Stars := s_Stars s, s_UpdatedAt := now\<rparr>"

definition upsert_stmt :: "Strategy \<Rightarrow> world \<Rightarrow> unit result \<times> world" where
  "upsert_stmt s w =
     (let same = (\<lambda>o'. s_ShortCode o' = s_ShortCode s) in
      if \<not> owner_check s then (Inl check_error, w)
      else if affected same (w_strategies w) = 0
      then (Inr (), w\<lparr>w_strategies := w_strategies w @ [fresh_row (w_now w) s]\<rparr>)
      else (Inr (), w\<lparr>w_strategies := update_where same (upsert_conflict (w_now w) s) (w_strategies w)\<rparr>))"

definition wrap_unit :: "string \<Rightarrow> unit result \<Rightarrow> unit result" where
  "wrap_unit ctx r = (case r of Inl e \<Rightarrow> Inl (wrap ctx e) | Inr _ \<Rightarrow> Inr ())"

definition Upsert :: "Strategy \<Rightarrow> unit result io" where
  "Upsert s = do {
     r \<leftarrow> dbop (upsert_stmt s);
     State_Monad.return (wrap_unit (''upsert strategy '' @ s_ShortCode s) r)
   }"

text \<open>The shape of every \<open>UPDATE strategies ... WHERE short_code = $1\<close>; \<open>valid\<close> is the column check.\<close>

definition update_strategy :: "string \<Rightarrow> (Strategy \<Rightarrow> Strategy) \<Rightarrow> world \<Rightarrow> world" where
  "update_strategy code u w = w\<lparr>w_strategies := update_where (\<lambda>s. s_ShortCode s = code) u (w_strategies w)\<rparr>"

definition attempt_row :: "string \<Rightarrow> instant \<Rightarrow> Strategy \<Rightarrow> Strategy" where
  "attempt_row version now s = s\<lparr>s_LastAttemptedVer := Some version, s_InstallError := None, s_UpdatedAt := now\<rparr>"

definition MarkAttempt :: "string \<Rightarrow> string \<Rightarrow> unit result io" where
  "MarkAttempt shortCode version = do {
     r \<leftarrow> dbop (\<lambda>w. (Inr (), update_strategy shortCode (attempt_row version (w_now w)) w));
     State_Monad.return (wrap_unit (''mark attempt '' @ shortCode @ ''@'' @ version) r)
   }"

definition success_row :: "string \<Rightarrow> string \<Rightarrow> string \<Rightarrow> rawjson \<Rightarrow> instant \<Rightarrow> Strategy \<Rightarrow> Strategy" where
  "success_row version kind ref describe now s =
     s\<lparr>s_InstalledVer := Some version, s_InstalledAt := Some now, s_LastAttemptedVer := Some version,
       s_ArtifactKind := Some kind, s_ArtifactRef := Some ref, s_DescribeJSON := describe, s_InstallError := None, s_UpdatedAt := now\<rparr>"

definition success_stmt :: "string \<Rightarrow> string \<Rightarrow> string \<Rightarrow> string \<Rightarrow> rawjson \<Rightarrow> world \<Rightarrow> unit result \<times> world" where
  "success_stmt shortCode version kind ref describe w =
     (if \<not> json_document describe \<or> kind \<notin> {artifactKindBinary, artifactKindImage} then (Inl json_column_error, w)
      else (Inr (), update_strategy shortCode (success_row version kind ref describe (w_now w)) w))"

definition MarkSuccess :: "string \<Rightarrow> string \<Rightarrow> string \<Rightarrow> string \<Rightarrow> rawjson \<Rightarrow> unit result io" where
  "MarkSuccess shortCode version artifactKind artifactRef describeJSON = do {
     r \<leftarrow> dbop (success_stmt shortCode version artifactKind artifactRef describeJSON);
     State_Monad.return (wrap_unit (''mark success '' @ shortCode @ ''@'' @ version) r)
   }"

definition failure_row :: "string \<Rightarrow> string \<Rightarrow> instant \<Rightarrow> Strategy \<Rightarrow> Strategy" where
  "failure_row version errText now s =
     s\<lparr>s_LastAttemptedVer := Some version, s_InstallError := Some errText, s_UpdatedAt := now\<rparr>"

definition MarkFailure :: "string \<Rightarrow> string \<Rightarrow> string \<Rightarrow> unit result io" where
  "MarkFailure shortCode version errText = do {
     r \<leftarrow> dbop (\<lambda>w. (Inr (), update_strategy shortCode (failure_row version errText (w_now w)) w));
     State_Monad.return (wrap_unit (''mark failure '' @ shortCode @ ''@'' @ version) r)
   }"

definition UpdateStats :: "string \<Rightarrow> StatsResult \<Rightarrow> unit result io" where
  "UpdateStats shortCode r = do {
     x \<leftarrow> dbop (\<lambda>w. (Inr (), update_strategy shortCode (\<lambda>s. s\<lparr>s_Stats := Some r, s_StatsError := None, s_UpdatedAt := w_now w\<rparr>) w));
     State_Monad.return (wrap_unit (''update stats '' @ shortCode) x)
   }"

definition MarkStatsError :: "string \<Rightarrow> string \<Rightarrow> unit result io" where
  "MarkStatsError shortCode errText = do {
     x \<leftarrow> dbop (\<lambda>w. (Inr (), update_strategy shortCode (\<lambda>s. s\<lparr>s_StatsError := Some errText, s_UpdatedAt := w_now w\<rparr>) w));
     State_Monad.return (wrap_unit (''mark stats error '' @ shortCode) x)
   }"

section \<open>The registry's invariant\<close>

text \<open>Short codes are unique, the owner check holds, and an installed row has an artifact and a
  describe document.\<close>

definition installed_complete :: "Strategy \<Rightarrow> bool" where
  "installed_complete s \<longleftrightarrow> (s_InstalledVer s \<noteq> None \<longrightarrow>
     s_InstalledAt s \<noteq> None \<and> s_LastAttemptedVer s \<noteq> None \<and> s_ArtifactRef s \<noteq> None \<and> json_document (s_DescribeJSON s)
     \<and> s_ArtifactKind s \<in> {Some artifactKindBinary, Some artifactKindImage})"

definition registry_inv :: "world \<Rightarrow> bool" where
  "registry_inv w \<longleftrightarrow> distinct (map s_ShortCode (w_strategies w)) \<and> list_all owner_check (w_strategies w)
     \<and> list_all installed_complete (w_strategies w)"

lemma registry_frame [simp]: "outcome_free registry_inv"
  by (simp add: outcome_free_def registry_inv_def)

lemma update_strategy_inv:
  assumes "registry_inv w" and "\<And>s. s_ShortCode (u s) = s_ShortCode s" and "\<And>s. owner_check s \<Longrightarrow> owner_check (u s)"
    and "\<And>s. installed_complete s \<Longrightarrow> installed_complete (u s)"
  shows "registry_inv (update_strategy code u w)"
  using assms by (auto simp: registry_inv_def update_strategy_def list_all_iff elim!: in_update_whereE)

lemma upsert_inv: "registry_inv w \<Longrightarrow> registry_inv (snd (upsert_stmt s w))"
proof -
  assume inv: "registry_inv w"
  let ?same = "\<lambda>o'. s_ShortCode o' = s_ShortCode s"
  show ?thesis
  proof (cases "owner_check s")
    case True
    show ?thesis
    proof (cases "affected ?same (w_strategies w) = 0")
      case new: True
      then show ?thesis using inv True
        by (auto simp: upsert_stmt_def registry_inv_def affected_eq_0 fresh_row_def owner_check_def installed_complete_def)
    next
      case False
      have "registry_inv (update_strategy (s_ShortCode s) (upsert_conflict (w_now w) s) w)"
        by (rule update_strategy_inv [OF inv]) (simp_all add: upsert_conflict_def owner_check_def installed_complete_def)
      then show ?thesis using True False by (simp add: upsert_stmt_def update_strategy_def)
    qed
  qed (simp add: upsert_stmt_def inv)
qed

lemma registry_writes_preserve [preserve_rules]:
  "preserves registry_inv (Upsert s)" "preserves registry_inv (MarkAttempt code v)"
  "preserves registry_inv (MarkSuccess code v k ref d)" "preserves registry_inv (MarkFailure code v e)"
  "preserves registry_inv (UpdateStats code r)" "preserves registry_inv (MarkStatsError code e)"
  unfolding Upsert_def MarkAttempt_def MarkSuccess_def MarkFailure_def UpdateStats_def MarkStatsError_def
  by (intro preserves_bind preserves_return preserves_dbop registry_frame;
      auto intro!: upsert_inv update_strategy_inv simp: success_stmt_def attempt_row_def success_row_def failure_row_def
        owner_check_def installed_complete_def)+

lemma registry_reads_preserve [preserve_rules]:
  assumes "outcome_free I"
  shows "preserves I Strategy_List" "preserves I (Strategy_Get c)" "preserves I (GetByCloneURL plan c)"
    "preserves I ListInstalled" "preserves I (LookupArtifact plan c v)"
  unfolding Strategy_List_def Strategy_Get_def GetByCloneURL_def ListInstalled_def LookupArtifact_def
  by (intro preserves_dbread assms)+


section \<open>Which version a runner finds\<close>

text \<open>\<open>plan\<close> only chooses the order of the rows.\<close>

definition row_order :: "(Strategy list \<Rightarrow> Strategy list) \<Rightarrow> bool" where
  "row_order plan \<longleftrightarrow> (\<forall>rs. mset (plan rs) = mset rs)"

lemma row_order_set: "row_order plan \<Longrightarrow> set (plan rs) = set rs"
  unfolding row_order_def by (metis set_mset_mset)

lemma row_order_rev: "row_order rev" and row_order_id: "row_order (\<lambda>rs. rs)"
  by (simp_all add: row_order_def)

text \<open>
  A strategy whose row is complete is found at its installed version exactly when the row
  has no install error: \<open>LookupArtifact\<close> returns the row's artifact when it is ready. Recording the
  failure of a newer version (\<open>MarkFailure\<close>) hides the working one, although the comment at
  \<open>MarkFailure\<close> says that it stays live: with no other row for the clone URL the same lookup now
  answers not-found and the derived state is failed.
\<close>

lemma MarkFailure_hides_working_version:
  assumes "registry_inv w" and "w_outcomes w = []" and "row_order plan" and "s \<in> set (w_strategies w)"
    and "filter (\<lambda>o'. s_CloneURL o' = s_CloneURL s) (w_strategies w) = [s]"
    and "s_InstalledVer s = Some v" and "s_InstallError s = None"
  shows "\<exists>ref w'. run_state (LookupArtifact plan (s_CloneURL s) v) w = (Inr ref, w)
    \<and> s_ArtifactRef s = Some ref
    \<and> run_state (MarkFailure (s_ShortCode s) newer err) w = (Inr (), w')
    \<and> run_state (LookupArtifact plan (s_CloneURL s) v) w' = (Inl strategy_not_found, w')
    \<and> (\<exists>s' \<in> set (w_strategies w'). s_ShortCode s' = s_ShortCode s \<and> s_InstalledVer s' = Some v
          \<and> DeriveInstallState s' = InstallStateFailed)"
proof -
  let ?w = "update_strategy (s_ShortCode s) (failure_row newer err (w_now w)) w"
  let ?c = "\<lambda>s'. s_CloneURL s' = s_CloneURL s \<and> s_InstalledVer s' = Some v \<and> s_InstallError s' = None"
  from assms(1,4,6) obtain ref where ref: "s_ArtifactRef s = Some ref"
    by (auto simp: registry_inv_def list_all_iff installed_complete_def)
  have only: "s' = s" if "s' \<in> set (w_strategies w)" "s_CloneURL s' = s_CloneURL s" for s'
    using that arg_cong [OF assms(5), of set] by auto
  have "List.find ?c (plan (w_strategies w)) = Some s"
  proof -
    have "List.find ?c (plan (w_strategies w)) \<noteq> None"
      using assms(4,6,7) row_order_set [OF assms(3)] by (auto simp: find_None_iff)
    then obtain s' where "List.find ?c (plan (w_strategies w)) = Some s'" by blast
    moreover from this have "s' = s"
      using find_Some_in [of ?c "plan (w_strategies w)" s'] only [of s'] row_order_set [OF assms(3)] by simp
    ultimately show ?thesis by simp
  qed
  moreover have "List.find ?c (plan (w_strategies ?w)) = None"
  proof -
    have "\<not> ?c s'" if in': "s' \<in> set (w_strategies ?w)" for s'
    proof -
      from in' obtain r where r: "r \<in> set (w_strategies w)"
          "s' = (if s_ShortCode r = s_ShortCode s then failure_row newer err (w_now w) r else r)"
        unfolding update_strategy_def by (auto elim: in_update_whereE)
      then show ?thesis using only [of r] by (auto simp: failure_row_def split: if_splits)
    qed
    then show ?thesis by (simp add: find_None_iff row_order_set [OF assms(3)])
  qed
  moreover have "failure_row newer err (w_now w) s \<in> set (w_strategies ?w)"
    using assms(4) by (auto simp: update_strategy_def intro: update_whereI)
  moreover have "w_outcomes ?w = []" using assms(2) by (simp add: update_strategy_def)
  ultimately show ?thesis using assms(2,6) ref
    by (auto simp: LookupArtifact_def MarkFailure_def wrap_unit_def failure_row_def DeriveInstallState_def
        intro!: bexI [of _ "failure_row newer err (w_now w) s"])
qed

definition demo_strategy :: Strategy where
  "demo_strategy = \<lparr>s_ShortCode = ''adm'', s_RepoOwner = ''penny-vault'', s_RepoName = ''adm'', s_CloneURL = ''https://github.com/x/adm'',
     s_IsOfficial = True, s_OwnerSub = None, s_Description = None, s_Categories = [], s_Stars = Some 3,
     s_InstalledVer = Some ''v1.0.0'', s_InstalledAt = Some 7, s_LastAttemptedVer = Some ''v1.0.0'', s_InstallError = None,
     s_ArtifactKind = Some ''binary'', s_ArtifactRef = Some ''/opt/adm.bin'', s_DescribeJSON = RawDoc (JObj []), s_Stats = None,
     s_StatsError = None, s_DiscoveredAt = 0, s_UpdatedAt = 0\<rparr>"

definition demo_registry :: world where
  "demo_registry = empty_world\<lparr>w_strategies := [demo_strategy]\<rparr>"

lemma demo_registry_inv: "registry_inv demo_registry" and demo_registry_ok: "w_outcomes demo_registry = []"
  by (simp_all add: registry_inv_def demo_registry_def demo_strategy_def owner_check_def installed_complete_def json_document_def
      artifactKindBinary_def empty_world_def)

end
