(* ===== verification/Paths.thy ===== *)
theory Paths
  imports Json
begin

text \<open>
  Unix paths: \<open>filepath.Clean\<close> and \<open>filepath.Join\<close> of Go's standard library, as
  \<open>backtest/run.go\<close> uses them. A path is cut at its slashes; empty and dot components are
  dropped and a dot-dot component removes the component before it.
\<close>

definition slash :: char where "slash = CHR ''/''"

fun split_slash :: "string \<Rightarrow> string list" where
  "split_slash [] = [[]]"
| "split_slash (c # cs) =
     (if c = slash then [] # split_slash cs
      else case split_slash cs of [] \<Rightarrow> [[c]] | p # ps \<Rightarrow> (c # p) # ps)"

text \<open>\<open>stack\<close> holds the components kept so far, the last one first.\<close>

fun clean_comps :: "bool \<Rightarrow> string list \<Rightarrow> string list \<Rightarrow> string list" where
  "clean_comps rooted stack [] = rev stack"
| "clean_comps rooted stack (p # ps) =
     (if p = [] \<or> p = ''.'' then clean_comps rooted stack ps
      else if p = ''..'' then
        (case stack of
           [] \<Rightarrow> if rooted then clean_comps rooted [] ps else clean_comps rooted [''..''] ps
         | q # qs \<Rightarrow> if q = ''..'' then clean_comps rooted (''..'' # stack) ps else clean_comps rooted qs ps)
      else clean_comps rooted (p # stack) ps)"

definition is_rooted :: "string \<Rightarrow> bool" where
  "is_rooted s \<longleftrightarrow> s \<noteq> [] \<and> hd s = slash"

definition filepath_Clean :: "string \<Rightarrow> string" where
  "filepath_Clean s =
     (let rooted = is_rooted s; ps = clean_comps rooted [] (split_slash s) in
      if rooted then ''/'' @ join ''/'' ps
      else if ps = [] then ''.'' else join ''/'' ps)"

definition filepath_Join :: "string list \<Rightarrow> string" where
  "filepath_Join es =
     (let ne = filter (\<lambda>e. e \<noteq> []) es in if ne = [] then [] else filepath_Clean (join ''/'' ne))"

section \<open>Clean is idempotent\<close>

text \<open>The components of a clean path: names, after some dot-dots when the path is relative.\<close>

definition is_name :: "string \<Rightarrow> bool" where
  "is_name p \<longleftrightarrow> p \<noteq> [] \<and> p \<noteq> ''.'' \<and> p \<noteq> ''..'' \<and> slash \<notin> set p"

definition clean_list :: "bool \<Rightarrow> string list \<Rightarrow> bool" where
  "clean_list rooted ps \<longleftrightarrow>
     (\<exists>n names. ps = replicate n ''..'' @ names \<and> list_all is_name names \<and> (rooted \<longrightarrow> n = 0))"

lemma split_slash_no_slash: "p \<in> set (split_slash s) \<Longrightarrow> slash \<notin> set p"
  by (induction s arbitrary: p) (auto split: if_splits list.splits)

lemma split_slash_nonempty: "split_slash s \<noteq> []"
  by (cases s) (auto split: list.splits)

lemma clean_list_snoc: "clean_list rooted ps \<Longrightarrow> is_name p \<Longrightarrow> clean_list rooted (ps @ [p])"
  by (fastforce simp: clean_list_def)

lemma clean_list_butlast: "clean_list rooted (ps @ [p]) \<Longrightarrow> p \<noteq> ''..'' \<Longrightarrow> clean_list rooted ps"
proof -
  assume "clean_list rooted (ps @ [p])" and p: "p \<noteq> ''..''"
  then obtain n names where n: "ps @ [p] = replicate n ''..'' @ names" "list_all is_name names" "rooted \<longrightarrow> n = 0"
    by (auto simp: clean_list_def)
  show ?thesis
  proof (cases names rule: rev_cases)
    case Nil
    with n(1) have "p \<in> set (replicate n ''..'')" by (metis append_Nil2 in_set_conv_decomp)
    with p show ?thesis by simp
  next
    case (snoc ns q)
    with n have "ps = replicate n ''..'' @ ns" "list_all is_name ns" by auto
    with n(3) show ?thesis by (auto simp: clean_list_def)
  qed
qed

lemma clean_list_dots: "clean_list False (ps @ [''..'']) \<Longrightarrow> clean_list False (ps @ [''..'', ''..''])"
proof -
  assume "clean_list False (ps @ [''..''])"
  then obtain n names where n: "ps @ [''..''] = replicate n ''..'' @ names" "list_all is_name names"
    by (auto simp: clean_list_def)
  have "names = []"
  proof (rule ccontr)
    assume "names \<noteq> []"
    with n(1) have "last names = ''..''" by (metis last_appendR last_snoc)
    moreover have "is_name (last names)" using n(2) \<open>names \<noteq> []\<close> by (simp add: list_all_iff)
    ultimately show False by (simp add: is_name_def)
  qed
  with n have "ps @ [''..'', ''..''] = replicate (Suc n) ''..'' @ []"
    by (metis append.assoc append_Cons append_Nil append_Nil2 replicate_Suc replicate_append_same)
  then show ?thesis unfolding clean_list_def by (intro exI [of _ "Suc n"] exI [of _ "[]"]) simp
qed

lemma clean_list_rooted: "clean_list True ps \<Longrightarrow> list_all is_name ps"
  by (auto simp: clean_list_def)

lemma clean_comps_clean:
  assumes "clean_list rooted (rev stack)" and "\<forall>p \<in> set ps. slash \<notin> set p"
  shows "clean_list rooted (clean_comps rooted stack ps)"
  using assms
proof (induction rooted stack ps rule: clean_comps.induct)
  case (2 rooted stack p ps)
  consider "p = [] \<or> p = ''.''" | "p = ''..''" "stack = []" | q qs where "p = ''..''" "stack = q # qs" | "is_name p"
    using 2(8) by (cases stack) (auto simp: is_name_def)
  then show ?case
  proof cases
    case 1 with 2 show ?thesis by auto
  next
    case (2)
    have "clean_list False [''..'']" unfolding clean_list_def by (rule exI [of _ 1], rule exI [of _ "[]"]) simp
    with 2 "2.IH" "2.prems" show ?thesis by (cases rooted) auto
  next
    case (3 q qs)
    show ?thesis
    proof (cases "q = ''..''")
      case True
      have "\<not> rooted"
      proof
        assume rooted
        with "2.prems"(1) have "clean_list True (rev stack)" by simp
        from clean_list_rooted [OF this] 3 True show False by (simp add: is_name_def)
      qed
      with clean_list_dots [of "rev qs"] "2.IH" "2.prems" 3 True show ?thesis by auto
    next
      case False
      with clean_list_butlast [of rooted "rev qs" q] "2.IH" "2.prems" 3 show ?thesis by auto
    qed
  next
    case 4
    with clean_list_snoc "2.IH" "2.prems" show ?thesis by (auto simp: is_name_def)
  qed
qed simp

lemma clean_comps_dots: "clean_comps False (replicate m ''..'') (replicate n ''..'' @ ps) = clean_comps False (replicate (m + n) ''..'') ps"
proof (induction n arbitrary: m)
  case (Suc n)
  then show ?case using Suc [of "Suc m"] by (cases m) auto
qed simp

lemma clean_comps_names: "list_all is_name names \<Longrightarrow> clean_comps rooted stack names = rev stack @ names"
  by (induction names arbitrary: stack) (auto simp: is_name_def)

lemma clean_comps_fix: "clean_list rooted ps \<Longrightarrow> clean_comps rooted [] ps = ps"
proof -
  assume "clean_list rooted ps"
  then obtain n names where n: "ps = replicate n ''..'' @ names" "list_all is_name names" "rooted \<longrightarrow> n = 0"
    by (auto simp: clean_list_def)
  show ?thesis
  proof (cases rooted)
    case True with n show ?thesis by (simp add: clean_comps_names)
  next
    case False
    with clean_comps_dots [of 0 n names] n show ?thesis by (simp add: clean_comps_names)
  qed
qed

lemma split_slash_append: "slash \<notin> set p \<Longrightarrow> split_slash (p @ slash # s) = p # split_slash s"
  by (induction p) auto

lemma split_slash_single: "slash \<notin> set p \<Longrightarrow> split_slash p = [p]"
  by (induction p) auto

lemma split_slash_join:
  "ps \<noteq> [] \<Longrightarrow> \<forall>p \<in> set ps. slash \<notin> set p \<Longrightarrow> split_slash (join ''/'' ps) = ps"
proof (induction "''/''" ps rule: join.induct)
  case (3 s s' ss)
  then show ?case using split_slash_append [of s "join ''/'' (s' # ss)"] by (simp add: slash_def)
qed (auto simp: split_slash_single)

lemma clean_list_no_slash: "clean_list rooted ps \<Longrightarrow> p \<in> set ps \<Longrightarrow> slash \<notin> set p \<and> p \<noteq> []"
proof -
  assume "clean_list rooted ps" "p \<in> set ps"
  then have "p = ''..'' \<or> is_name p" unfolding clean_list_def list_all_iff by (metis UnE in_set_replicate set_append)
  then show ?thesis by (auto simp: is_name_def slash_def)
qed

lemma join_not_rooted: "clean_list rooted ps \<Longrightarrow> ps \<noteq> [] \<Longrightarrow> \<not> is_rooted (join ''/'' ps)"
proof -
  assume c: "clean_list rooted ps" and "ps \<noteq> []"
  then obtain p rest where ps: "ps = p # rest" by (cases ps) auto
  with clean_list_no_slash [OF c, of p] obtain c' cs where "p = c' # cs" "c' \<noteq> slash" by (cases p) auto
  with ps show ?thesis by (cases rest) (auto simp: is_rooted_def)
qed

lemma filepath_Clean_idem: "filepath_Clean (filepath_Clean s) = filepath_Clean s"
proof -
  define r where "r = is_rooted s"
  define ps where "ps = clean_comps r [] (split_slash s)"
  have ne: "clean_list b []" for b unfolding clean_list_def by (rule exI [of _ 0]) simp
  have c: "clean_list r ps"
    unfolding ps_def by (rule clean_comps_clean) (auto simp: ne dest: split_slash_no_slash)
  have ns: "\<forall>p \<in> set ps. slash \<notin> set p" using clean_list_no_slash [OF c] by blast
  show ?thesis
  proof (cases r)
    case True
    have R: "filepath_Clean s = slash # join ''/'' ps" using True by (simp add: filepath_Clean_def r_def ps_def slash_def Let_def)
    have "split_slash (slash # join ''/'' ps) = [] # (if ps = [] then [[]] else ps)"
      using split_slash_join [OF _ ns] by simp
    then have "clean_comps True [] (split_slash (slash # join ''/'' ps)) = ps"
      using clean_comps_fix [OF c] True by simp
    then show ?thesis unfolding R by (simp add: filepath_Clean_def is_rooted_def Let_def) (simp add: slash_def)
  next
    case False
    show ?thesis
    proof (cases "ps = []")
      case True
      then have "filepath_Clean s = ''.''" using False by (simp add: filepath_Clean_def r_def ps_def Let_def)
      then show ?thesis by (simp add: filepath_Clean_def is_rooted_def slash_def)
    next
      case ne: False
      have R: "filepath_Clean s = join ''/'' ps" using False ne by (simp add: filepath_Clean_def r_def ps_def Let_def)
      have "filepath_Clean (join ''/'' ps) = join ''/'' ps"
        using join_not_rooted [OF c ne] split_slash_join [OF ne ns] clean_comps_fix [OF c] False ne
        by (simp add: filepath_Clean_def Let_def)
      then show ?thesis by (simp only: R)
    qed
  qed
qed

lemma filepath_Clean_Join: "filepath_Join es \<noteq> [] \<Longrightarrow> filepath_Clean (filepath_Join es) = filepath_Join es"
  by (auto simp: filepath_Join_def Let_def filepath_Clean_idem split: if_splits)

lemma join_nonempty: "ps \<noteq> [] \<Longrightarrow> \<forall>p \<in> set ps. p \<noteq> [] \<Longrightarrow> join sep ps \<noteq> []"
  by (induction sep ps rule: join.induct) auto

lemma filepath_Clean_nonempty: "filepath_Clean s \<noteq> []"
proof -
  define ps where "ps = clean_comps (is_rooted s) [] (split_slash s)"
  have "clean_list (is_rooted s) []" unfolding clean_list_def by (rule exI [of _ 0]) simp
  then have c: "clean_list (is_rooted s) ps"
    unfolding ps_def by (intro clean_comps_clean) (auto dest: split_slash_no_slash)
  have "ps \<noteq> [] \<Longrightarrow> join ''/'' ps \<noteq> []" by (rule join_nonempty) (use clean_list_no_slash [OF c] in auto)
  then show ?thesis by (auto simp: filepath_Clean_def ps_def Let_def)
qed

lemma filepath_Join_nonempty: "x \<noteq> [] \<Longrightarrow> filepath_Join [d, x] \<noteq> []"
  by (simp add: filepath_Join_def Let_def filepath_Clean_nonempty)

end
