(* ===== verification/Handler.thy ===== *)
theory Handler
  imports Dispatcher Slug Strategy_Store Paths
begin

text \<open>
  The HTTP handlers of \<open>/portfolios\<close> (\<open>portfolio/handler.go\<close>, \<open>portfolio/holdings_impact.go\<close>,
  \<open>portfolio/progress_handler.go\<close>). A handler runs on the request \<open>c\<close>; what it sends is the
  last response written, \<open>w_resp\<close>. \<open>writeProblem\<close> and \<open>writeJSON\<close> return the error of \<open>Send\<close>,
  which is nil, so a handler that has sent a problem returns \<open>Inr ()\<close>: this is what the callers
  of \<open>applyStoreUpdate\<close>, \<open>submitFreshRun\<close> and their like test.

  Arguments of the model: the JSON decoder and encoder \<open>sonic\<close>, \<open>uuid.Parse\<close>, the iteration
  order of Go maps, the Unicode tables, the builder of unofficial strategies and the reader of
  snapshot files. Handlers that share a name with a store operation carry the prefix \<open>Handler_\<close>.
\<close>

subsection \<open>Requests and services\<close>

record createBody =
  cb_Name :: string
  cb_StrategyCode :: string
  cb_StrategyCloneURL :: string
  cb_StrategyVer :: string
  cb_Parameters :: params
  cb_Benchmark :: string
  cb_StartDate :: string
  cb_EndDate :: string
  cb_RunRetention :: "int option"

record patchBody =
  pb_Name :: string
  pb_StartDate :: string
  pb_EndDate :: string
  pb_RunRetention :: "int option"

record lib =
  lib_Marshal :: "body \<Rightarrow> bool"
    \<comment> \<open>whether sonic can encode the value\<close>
  lib_Create :: "string \<Rightarrow> createBody result"
  lib_Keys :: "string \<Rightarrow> string list result"
    \<comment> \<open>the members of a JSON object, as \<open>map[string]json.RawMessage\<close> has them\<close>
  lib_Patch :: "string \<Rightarrow> patchBody result"
  lib_Upgrade :: "string \<Rightarrow> params option result"
  lib_uuid_Parse :: "string \<Rightarrow> uuid option"
  lib_uuid_String :: "uuid \<Rightarrow> string"
  lib_Quote :: "string \<Rightarrow> string"
    \<comment> \<open>the verb \<open>%q\<close>, which depends on Unicode's table of printable characters\<close>
  lib_iter :: "string list \<Rightarrow> string list"
  lib_unicode :: unicode

text \<open>The subject in fiber's locals, the path and query parameters and the body.\<close>

record request =
  c_Subject :: "string option"
  c_Params :: "string \<Rightarrow> string"
  c_Query :: "string \<Rightarrow> string"
  c_Body :: string

text \<open>\<open>SnapshotReader\<close>: what each method returns for an open snapshot, as the JSON text it is
  sent as.\<close>

record SnapshotTxFilter =
  tf_From :: "date option"
  tf_To :: "date option"
  tf_Types :: "string list"

record SnapshotReader =
  rd_Summary :: "string result"
  rd_Drawdowns :: "string result"
  rd_Statistics :: "string result"
  rd_TrailingReturns :: "string result"
  rd_CurrentHoldings :: "string result"
  rd_HoldingsAsOf :: "date \<Rightarrow> string result"
  rd_HoldingsHistory :: "date option \<Rightarrow> date option \<Rightarrow> string result"
  rd_HoldingsImpact :: "string \<Rightarrow> int \<Rightarrow> string result"
  rd_Performance :: "string \<Rightarrow> date option \<Rightarrow> date option \<Rightarrow> string result"
  rd_Transactions :: "SnapshotTxFilter \<Rightarrow> string result"
  rd_Metrics :: "string list \<Rightarrow> string list \<Rightarrow> string result"
  rd_Prediction :: "string result"

record handler =
  h_opener :: "string \<Rightarrow> SnapshotReader result io"
  h_dispatcher :: "(uuid \<Rightarrow> uuid result io) option"
  h_hub :: bool
    \<comment> \<open>whether the handler was given a hub\<close>
  h_snapshotsDir :: string
  h_ephemeralBuilder :: "string \<Rightarrow> string result io"
  h_RunDescribe :: "string \<Rightarrow> rawjson result io"
  h_urlValidator :: "string \<Rightarrow> unit result"
  h_RemoveAll :: "string \<Rightarrow> unit io"

definition no_subject :: error where "no_subject = Error [ErrNoSubject] ''missing authenticated subject''"

definition subject :: "request \<Rightarrow> string result" where
  "subject c = (case c_Subject c of None \<Rightarrow> Inl no_subject | Some sub \<Rightarrow> if sub = [] then Inl no_subject else Inr sub)"

definition send :: "nat \<Rightarrow> body \<Rightarrow> unit result io" where
  "send status b = do {
     State_Monad.update (\<lambda>w. w\<lparr>w_resp := Some \<lparr>rs_status = status, rs_body = b\<rparr>\<rparr>);
     State_Monad.return (Inr ())
   }"

definition writeProblem :: "nat \<Rightarrow> string \<Rightarrow> string \<Rightarrow> unit result io" where
  "writeProblem status title detail = send status (ProblemBody title status detail)"

definition ise :: "string \<Rightarrow> unit result io" where
  "ise detail = writeProblem 500 ''Internal Server Error'' detail"

definition unauthorized :: "error \<Rightarrow> unit result io" where
  "unauthorized e = writeProblem 401 ''Unauthorized'' (err_text e)"

definition unprocessable :: "string \<Rightarrow> unit result io" where
  "unprocessable detail = writeProblem 422 ''Unprocessable Entity'' detail"

definition portfolio_404 :: "string \<Rightarrow> unit result io" where
  "portfolio_404 slug = writeProblem 404 ''Not Found'' (''portfolio not found: '' @ slug)"

definition writeJSON :: "lib \<Rightarrow> nat \<Rightarrow> body \<Rightarrow> unit result io" where
  "writeJSON lb status v =
     (if lib_Marshal lb v then send status v else ise ''sonic: unsupported value'')"

text \<open>fiber's \<open>c.JSON\<close>: an encoding error is returned, the status is the one set before (200).\<close>

definition ctx_JSON :: "lib \<Rightarrow> nat \<Rightarrow> body \<Rightarrow> unit result io" where
  "ctx_JSON lb status v =
     (if lib_Marshal lb v then send status v else State_Monad.return (Inl (Error [] ''json: unsupported value'')))"

subsection \<open>Views\<close>

text \<open>Days since the epoch to a civil date, and the layout \<open>2006-01-02T15:04:05Z\<close>.\<close>

definition civil :: "int \<Rightarrow> date" where
  "civil n =
     (let z = n + 719468; era = z div 146097; doe = z mod 146097;
          yoe = (doe - doe div 1460 + doe div 36524 - doe div 146096) div 365;
          doy = doe - (365 * yoe + yoe div 4 - yoe div 100);
          mp = (5 * doy + 2) div 153;
          d = doy - (153 * mp + 2) div 5 + 1;
          m = (if mp < 10 then mp + 3 else mp - 9);
          y = yoe + era * 400 + (if m \<le> 2 then 1 else 0)
      in Date (nat y) (nat m) (nat d))"

definition utc_Format :: "instant \<Rightarrow> string" where
  "utc_Format t =
     (let s = t div 1000000; tod = nat (s mod 86400) in
      time_Format (civil (s div 86400)) @ ''T'' @ append_int 2 (tod div 3600) @ '':'' @ append_int 2 (tod div 60 mod 60)
        @ '':'' @ append_int 2 (tod mod 60) @ ''Z'')"

definition toView :: "Portfolio \<Rightarrow> portfolioView" where
  "toView p = \<lparr>v_Slug = p_Slug p, v_Name = p_Name p, v_Status = status_string (p_Status p), v_RunID = None,
     v_StrategyCode = p_StrategyCode p, v_StrategyVer = p_StrategyVer p, v_StrategyCloneURL = p_StrategyCloneURL p,
     v_Parameters = p_Parameters p, v_PresetName = p_PresetName p, v_Benchmark = p_Benchmark p,
     v_StartDate = map_option time_Format (p_StartDate p), v_EndDate = map_option time_Format (p_EndDate p),
     v_CreatedAt = utc_Format (p_CreatedAt p), v_UpdatedAt = utc_Format (p_UpdatedAt p),
     v_LastRunAt = map_option utc_Format (p_LastRunAt p), v_LastError = p_LastError p, v_RunRetention = p_RunRetention p,
     v_CurrentValue = p_CurrentValue p, v_YtdReturn = p_YtdReturn p, v_MaxDrawDown = p_MaxDrawdown p, v_Sharpe = p_Sharpe p,
     v_CagrSinceInception = p_CagrSinceInception p, v_InceptionDate = map_option time_Format (p_InceptionDate p)\<rparr>"

definition parse_opt :: "string \<Rightarrow> date option" where
  "parse_opt s = (if s = [] then None else time_Parse s)"

definition nonzero :: "int \<Rightarrow> int option" where
  "nonzero n = (if n = 0 then None else Some n)"

definition toAPIProgress :: "ProgressMessage \<Rightarrow> RunProgress" where
  "toAPIProgress msg = \<lparr>rp_Step = m_Step msg, rp_TotalSteps = m_TotalSteps msg, rp_Pct = m_Pct msg,
     rp_ElapsedMs = nonzero (m_ElapsedMS msg), rp_EtaMs = nonzero (m_EtaMS msg), rp_Measurements = nonzero (m_Measurements msg),
     rp_CurrentDate = parse_opt (m_CurrentDate msg), rp_TargetDate = parse_opt (m_TargetDate msg)\<rparr>"

definition toAPIRun :: "Run \<Rightarrow> string \<Rightarrow> hub option \<Rightarrow> BacktestRun" where
  "toAPIRun r slug hb = \<lparr>br_Id = r_ID r, br_PortfolioSlug = slug, br_Status = r_Status r, br_StartedAt = r_StartedAt r,
     br_FinishedAt = r_FinishedAt r, br_DurationMs = r_DurationMs r, br_Error = r_Error r,
     br_Progress = (case hb of None \<Rightarrow> None | Some x \<Rightarrow> map_option toAPIProgress (Latest (r_ID r) x))\<rparr>"


subsection \<open>Helpers of the handlers\<close>

definition parseDate :: "lib \<Rightarrow> string \<Rightarrow> date option result" where
  "parseDate lb s =
     (if s = [] then Inr None
      else case time_Parse s of
             None \<Rightarrow> Inl (Error [ErrInvalidDate] (lib_Quote lb s @ '': invalid date''))
           | Some d \<Rightarrow> Inr (Some d))"

definition toRequest :: "createBody \<Rightarrow> date option \<Rightarrow> date option \<Rightarrow> CreateRequest" where
  "toRequest b startDate endDate = \<lparr>cr_Name = cb_Name b, cr_StrategyCode = cb_StrategyCode b, cr_StrategyVer = cb_StrategyVer b,
     cr_StrategyCloneURL = cb_StrategyCloneURL b, cr_Parameters = cb_Parameters b, cr_Benchmark = cb_Benchmark b,
     cr_StartDate = startDate, cr_EndDate = endDate, cr_RunRetention = cb_RunRetention b\<rparr>"

definition presetMatch :: "params \<Rightarrow> Describe \<Rightarrow> string option" where
  "presetMatch ps d = map_option ds_Name (List.find (\<lambda>p. presetParametersEqual (ds_Parameters p) ps) (d_Presets d))"

fun pickInflight :: "Run list \<Rightarrow> (uuid \<times> string) option" where
  "pickInflight [] = None"
| "pickInflight (r # rs) =
     (if r_Status r = RunQueued \<or> r_Status r = RunRunning then Some (r_ID r, run_status_string (r_Status r)) else pickInflight rs)"

fun consecutiveFailedRuns :: "Run list \<Rightarrow> nat" where
  "consecutiveFailedRuns [] = 0"
| "consecutiveFailedRuns (r # rs) = (if r_Status r \<noteq> RunFailed then 0 else Suc (consecutiveFailedRuns rs))"

text \<open>\<open>strings.Split\<close> at commas; \<open>splitParam\<close> returns nil, here \<open>[]\<close>, when there is nothing.\<close>

fun split_comma :: "string \<Rightarrow> string list" where
  "split_comma [] = [[]]"
| "split_comma (ch # s) = (if ch = CHR '','' then [] # split_comma s
     else (case split_comma s of [] \<Rightarrow> [[ch]] | x # xs \<Rightarrow> (ch # x) # xs))"

definition splitParam :: "string \<Rightarrow> string \<Rightarrow> string list" where
  "splitParam val defaultVal =
     (if val = [] then (if defaultVal = [] then [] else [defaultVal]) else split_comma val)"

text \<open>\<open>strconv.Atoi\<close> for a 64-bit int.\<close>

definition strconv_Atoi :: "string \<Rightarrow> int option" where
  "strconv_Atoi s =
     (let neg = (s \<noteq> [] \<and> hd s = CHR ''-'');
          ds = (if s \<noteq> [] \<and> (hd s = CHR ''-'' \<or> hd s = CHR ''+'') then tl s else s) in
      if ds = [] \<or> \<not> list_all is_digit ds then None
      else (let n = (if neg then - int (atoi_acc 0 ds) else int (atoi_acc 0 ds)) in
            if - (2 ^ 63) \<le> n \<and> n < 2 ^ 63 then Some n else None))"

definition parseTopN :: "string \<Rightarrow> int" where
  "parseTopN raw =
     (if raw = [] then 10
      else case strconv_Atoi raw of None \<Rightarrow> 10 | Some n \<Rightarrow> if n < 1 then 10 else if n > 50 then 50 else n)"

definition parseFromTo :: "request \<Rightarrow> (date option \<times> date option) result" where
  "parseFromTo c =
     (let f = c_Query c ''from''; t = c_Query c ''to'' in
      if f \<noteq> [] \<and> time_Parse f = None then Inl (Error [] ''from must be YYYY-MM-DD'')
      else if t \<noteq> [] \<and> time_Parse t = None then Inl (Error [] ''to must be YYYY-MM-DD'')
      else Inr (parse_opt f, parse_opt t))"

subsection \<open>Reading\<close>

definition Handler_List :: "lib \<Rightarrow> request \<Rightarrow> unit result io" where
  "Handler_List lb c =
     (case subject c of
        Inl e \<Rightarrow> unauthorized e
      | Inr ownerSub \<Rightarrow> do {
          rows \<leftarrow> List ownerSub;
          (case rows of
             Inl e \<Rightarrow> ise (err_text e)
           | Inr ps \<Rightarrow> writeJSON lb 200 (ViewsBody (map toView ps)))
        })"

text \<open>The start that the handlers of one portfolio share: subject, lookup, 404 or 500.\<close>

definition with_portfolio :: "request \<Rightarrow> (string \<Rightarrow> Portfolio \<Rightarrow> unit result io) \<Rightarrow> unit result io" where
  "with_portfolio c k =
     (case subject c of
        Inl e \<Rightarrow> unauthorized e
      | Inr sub \<Rightarrow> do {
          let slug = c_Params c ''slug'';
          r \<leftarrow> Get sub slug;
          (case r of
             Inl e \<Rightarrow> if errors_Is e ErrNotFound then portfolio_404 slug else ise (err_text e)
           | Inr p \<Rightarrow> k slug p)
        })"

definition Handler_Get :: "lib \<Rightarrow> request \<Rightarrow> unit result io" where
  "Handler_Get lb c = with_portfolio c (\<lambda>slug p. writeJSON lb 200 (ViewBody (toView p)))"

subsection \<open>Creating\<close>

definition buildPortfolio :: "lib \<Rightarrow> string \<Rightarrow> CreateRequest \<Rightarrow> Describe \<Rightarrow> string \<Rightarrow> rawjson \<Rightarrow> Portfolio" where
  "buildPortfolio lb ownerSub nreq describe cloneURL describeJSON =
     \<lparr>p_ID = 0, p_OwnerSub = ownerSub, p_Slug = Slug (lib_unicode lb) nreq describe, p_Name = cr_Name nreq,
      p_StrategyCode = cr_StrategyCode nreq,
      p_StrategyVer = (if cr_StrategyVer nreq \<noteq> [] then Some (cr_StrategyVer nreq) else None),
      p_StrategyCloneURL = cloneURL, p_StrategyDescribeJSON = describeJSON, p_Parameters = cr_Parameters nreq,
      p_PresetName = presetMatch (cr_Parameters nreq) describe, p_Benchmark = cr_Benchmark nreq,
      p_StartDate = cr_StartDate nreq, p_EndDate = cr_EndDate nreq, p_Status = StatusPending, p_LastRunAt = None,
      p_LastError = None, p_SnapshotPath = None, p_CurrentValue = None, p_YtdReturn = None, p_MaxDrawdown = None,
      p_Sharpe = None, p_CagrSinceInception = None, p_InceptionDate = None, p_CreatedAt = 0, p_UpdatedAt = 0,
      p_RunRetention = (case cr_RunRetention nreq of None \<Rightarrow> 2 | Some n \<Rightarrow> n)\<rparr>"

text \<open>\<open>Inl (status, title, detail)\<close> is the problem the Go code returns as a non-zero status.\<close>

definition autoTriggerOrProblem :: "handler \<Rightarrow> Portfolio \<Rightarrow> ((nat \<times> string \<times> string) + uuid) io" where
  "autoTriggerOrProblem h created =
     (case h_dispatcher h of
        None \<Rightarrow> State_Monad.return (Inr 0)
      | Some submit \<Rightarrow> do {
          r \<leftarrow> submit (p_ID created);
          State_Monad.return (case r of
             Inl e \<Rightarrow> if errors_Is e ErrQueueFull
                      then Inl (503, ''Service Unavailable'', ''backtest queue is full, try again later'')
                      else Inl (500, ''Internal Server Error'', err_text e)
           | Inr runID \<Rightarrow> Inr runID)
        })"

text \<open>The second half of \<open>insertAndDispatch\<close>: queue the first run, or roll the row back.\<close>

definition dispatch_created :: "lib \<Rightarrow> handler \<Rightarrow> string \<Rightarrow> Portfolio \<Rightarrow> unit result io" where
  "dispatch_created lb h ownerSub created = do {
     t \<leftarrow> autoTriggerOrProblem h created;
     (case t of
        Inl (status, title, detail) \<Rightarrow> do {
          _ \<leftarrow> Delete ownerSub (p_Slug created);
          writeProblem status title detail
        }
      | Inr runID \<Rightarrow>
          writeJSON lb 201 (ViewBody (if runID = 0 then toView created else (toView created)\<lparr>v_RunID := Some runID\<rparr>)))
   }"

definition insertAndDispatch :: "lib \<Rightarrow> handler \<Rightarrow> string \<Rightarrow> CreateRequest \<Rightarrow> Describe \<Rightarrow> string \<Rightarrow> rawjson \<Rightarrow> unit result io" where
  "insertAndDispatch lb h ownerSub nreq describe cloneURL describeJSON = do {
     let p = buildPortfolio lb ownerSub nreq describe cloneURL describeJSON;
     ins \<leftarrow> Insert p;
     (case ins of
        Inl e \<Rightarrow>
          if errors_Is e ErrDuplicateSlug
          then writeProblem 409 ''Conflict'' (''portfolio with slug '' @ p_Slug p @ '' already exists for this user'')
          else ise (err_text e)
      | Inr _ \<Rightarrow> do {
          stored \<leftarrow> Get ownerSub (p_Slug p);
          dispatch_created lb h ownerSub (case stored of Inl _ \<Rightarrow> p | Inr q \<Rightarrow> q)
        })
   }"

definition createOfficial :: "lib \<Rightarrow> handler \<Rightarrow> string \<Rightarrow> CreateRequest \<Rightarrow> unit result io" where
  "createOfficial lb h ownerSub req = do {
     sr \<leftarrow> Strategy_Get (cr_StrategyCode req);
     (case sr of
        Inl e \<Rightarrow>
          if errors_Is e StrategyErrNotFound
          then writeProblem 422 ''Unknown strategy'' (''no registered strategy with short_code='' @ cr_StrategyCode req)
          else ise (err_text e)
      | Inr s \<Rightarrow>
          (case ValidateCreate req s of
             Inl e \<Rightarrow> writeProblem 422 ''Invalid portfolio'' (err_text e)
           | Inr nreq \<Rightarrow>
               (case unmarshalDescribe (s_DescribeJSON s) of
                  Inl _ \<Rightarrow> ise ''strategy describe is malformed''
                | Inr describe \<Rightarrow> insertAndDispatch lb h ownerSub nreq describe (s_CloneURL s) (s_DescribeJSON s))))
   }"

definition createUnofficial :: "lib \<Rightarrow> handler \<Rightarrow> string \<Rightarrow> CreateRequest \<Rightarrow> unit result io" where
  "createUnofficial lb h ownerSub req =
     (case h_urlValidator h (cr_StrategyCloneURL req) of
        Inl e \<Rightarrow> writeProblem 422 ''Invalid clone URL'' (err_text e)
      | Inr _ \<Rightarrow> do {
          b \<leftarrow> h_ephemeralBuilder h (cr_StrategyCloneURL req);
          (case b of
             Inl e \<Rightarrow> writeProblem 422 ''Build failed'' (err_text e)
           | Inr binPath \<Rightarrow> do {
               d \<leftarrow> h_RunDescribe h binPath;
               (case d of
                  Inl e \<Rightarrow> writeProblem 422 ''Describe failed'' (err_text e)
                | Inr raw \<Rightarrow>
                    (case unmarshalDescribe raw of
                       Inl e \<Rightarrow> writeProblem 422 ''Describe JSON malformed'' (err_text e)
                     | Inr describe \<Rightarrow>
                         (case ValidateCreateUnofficial req describe of
                            Inl e \<Rightarrow> writeProblem 422 ''Invalid portfolio'' (err_text e)
                          | Inr nreq \<Rightarrow>
                              insertAndDispatch lb h ownerSub (nreq\<lparr>cr_StrategyCode := d_ShortCode describe\<rparr>) describe
                                (cr_StrategyCloneURL req) raw)))
             })
        })"

definition Create :: "lib \<Rightarrow> handler \<Rightarrow> request \<Rightarrow> unit result io" where
  "Create lb h c =
     (case subject c of
        Inl e \<Rightarrow> unauthorized e
      | Inr ownerSub \<Rightarrow>
          (case lib_Create lb (c_Body c) of
             Inl e \<Rightarrow> unprocessable (''body is not valid JSON: '' @ err_text e)
           | Inr body \<Rightarrow>
               (case parseDate lb (cb_StartDate body) of
                  Inl e \<Rightarrow> unprocessable (err_text e)
                | Inr startDate \<Rightarrow>
                    (case parseDate lb (cb_EndDate body) of
                       Inl e \<Rightarrow> unprocessable (err_text e)
                     | Inr endDate \<Rightarrow>
                         (let req = toRequest body startDate endDate in
                          if cr_StrategyCode req \<noteq> [] \<and> cr_StrategyCloneURL req \<noteq> []
                          then unprocessable ''exactly one of strategyCode or strategyCloneUrl is required''
                          else if cr_StrategyCode req = [] \<and> cr_StrategyCloneURL req = []
                          then unprocessable ''one of strategyCode or strategyCloneUrl is required''
                          else if cr_StrategyCloneURL req \<noteq> [] then createUnofficial lb h ownerSub req
                          else createOfficial lb h ownerSub req)))))"


subsection \<open>Updating and deleting\<close>

definition patch_fields :: "string list" where
  "patch_fields = [''name'', ''startDate'', ''endDate'', ''runRetention'']"

definition parsePatchBody :: "lib \<Rightarrow> string \<Rightarrow> (patchBody \<times> date option \<times> date option) result" where
  "parsePatchBody lb data =
     (case lib_Keys lb data of
        Inl e \<Rightarrow> Inl (wrap ''body is not valid JSON'' e)
      | Inr raw \<Rightarrow>
          (case List.find (\<lambda>k. k \<notin> set patch_fields) (lib_iter lb raw) of
             Some k \<Rightarrow> Inl (Error [ErrImmutableField] (''rejected field '' @ lib_Quote lb k @
                 '': field is not updatable; only `name`, `startDate`, `endDate`, `runRetention` may be patched''))
           | None \<Rightarrow>
               (case lib_Patch lb data of
                  Inl e \<Rightarrow> Inl (wrap ''body is not valid JSON'' e)
                | Inr body \<Rightarrow>
                    (case parseDate lb (pb_StartDate body) of
                       Inl e \<Rightarrow> Inl e
                     | Inr startDate \<Rightarrow>
                         (case parseDate lb (pb_EndDate body) of
                            Inl e \<Rightarrow> Inl e
                          | Inr endDate \<Rightarrow>
                              (case validateDates startDate endDate of
                                 Inl e \<Rightarrow> Inl e
                               | Inr _ \<Rightarrow>
                                   (case validateRunRetention (pb_RunRetention body) of
                                      Inl e \<Rightarrow> Inl e
                                    | Inr _ \<Rightarrow> Inr (body, startDate, endDate))))))))"

definition applyStoreUpdate :: "string \<Rightarrow> unit result io \<Rightarrow> unit result io" where
  "applyStoreUpdate slug fn = do {
     r \<leftarrow> fn;
     (case r of
        Inl e \<Rightarrow> if errors_Is e ErrNotFound then portfolio_404 slug else ise (err_text e)
      | Inr _ \<Rightarrow> State_Monad.return (Inr ()))
   }"

text \<open>\<open>if err := m; err != nil { return err }\<close> before the rest of the handler.\<close>

definition and_then :: "unit result io \<Rightarrow> unit result io \<Rightarrow> unit result io" where
  "and_then m k = do { r \<leftarrow> m; (case r of Inl e \<Rightarrow> State_Monad.return (Inl e) | Inr _ \<Rightarrow> k) }"

definition patch_name :: "string \<Rightarrow> string \<Rightarrow> patchBody \<Rightarrow> unit result io" where
  "patch_name sub slug body =
     (if pb_Name body \<noteq> [] then applyStoreUpdate slug (UpdateName sub slug (pb_Name body)) else State_Monad.return (Inr ()))"

definition patch_dates :: "string \<Rightarrow> string \<Rightarrow> date option \<Rightarrow> date option \<Rightarrow> unit result io" where
  "patch_dates sub slug startDate endDate =
     (if startDate \<noteq> None \<or> endDate \<noteq> None then applyStoreUpdate slug (UpdateDates sub slug startDate endDate)
      else State_Monad.return (Inr ()))"

definition patch_retention :: "string \<Rightarrow> string \<Rightarrow> patchBody \<Rightarrow> unit result io" where
  "patch_retention sub slug body =
     (case pb_RunRetention body of
        None \<Rightarrow> State_Monad.return (Inr ())
      | Some v \<Rightarrow> applyStoreUpdate slug (UpdateRunRetention sub slug v))"

definition patch_reply :: "lib \<Rightarrow> string \<Rightarrow> string \<Rightarrow> unit result io" where
  "patch_reply lb sub slug = do {
     r \<leftarrow> Get sub slug;
     (case r of Inl e \<Rightarrow> ise (err_text e) | Inr p \<Rightarrow> writeJSON lb 200 (ViewBody (toView p)))
   }"

definition Patch :: "lib \<Rightarrow> request \<Rightarrow> unit result io" where
  "Patch lb c =
     (case subject c of
        Inl e \<Rightarrow> unauthorized e
      | Inr ownerSub \<Rightarrow>
          (let slug = c_Params c ''slug'' in
           case parsePatchBody lb (c_Body c) of
             Inl e \<Rightarrow> unprocessable (err_text e)
           | Inr (body, startDate, endDate) \<Rightarrow>
               and_then (patch_name ownerSub slug body)
                 (and_then (patch_dates ownerSub slug startDate endDate)
                   (and_then (patch_retention ownerSub slug body) (patch_reply lb ownerSub slug)))))"

definition Handler_Delete :: "lib \<Rightarrow> handler \<Rightarrow> request \<Rightarrow> unit result io" where
  "Handler_Delete lb h c =
     (case subject c of
        Inl e \<Rightarrow> unauthorized e
      | Inr ownerSub \<Rightarrow> do {
          let slug = c_Params c ''slug'';
          lookup \<leftarrow> Get ownerSub slug;
          d \<leftarrow> Delete ownerSub slug;
          (case d of
             Inl e \<Rightarrow> if errors_Is e ErrNotFound then portfolio_404 slug else ise (err_text e)
           | Inr _ \<Rightarrow> do {
               (case lookup of
                  Inl _ \<Rightarrow> State_Monad.return ()
                | Inr p \<Rightarrow> if h_snapshotsDir h \<noteq> [] then h_RemoveAll h (filepath_Join [h_snapshotsDir h, lib_uuid_String lb (p_ID p)])
                           else State_Monad.return ());
               send 204 NoBody
             })
        })"

subsection \<open>Derived data\<close>

definition writeRecalculating :: "lib \<Rightarrow> string \<Rightarrow> uuid \<Rightarrow> string \<Rightarrow> unit result io" where
  "writeRecalculating lb slug runID runStatus = writeJSON lb 202 (RecalculatingBody slug runID runStatus)"

text \<open>The Go function returns an id, a status and an error; the error of a problem that was
  written is nil.\<close>

definition problem_result :: "unit result io \<Rightarrow> (uuid \<times> string) result io" where
  "problem_result m = do { r \<leftarrow> m; State_Monad.return (case r of Inl e \<Rightarrow> Inl e | Inr _ \<Rightarrow> Inr (0, [])) }"

definition submitFreshRun :: "(uuid \<Rightarrow> uuid result io) \<Rightarrow> uuid \<Rightarrow> (uuid \<times> string) result io" where
  "submitFreshRun submit portfolioID = do {
     r \<leftarrow> submit portfolioID;
     (case r of
        Inl e \<Rightarrow>
          if errors_Is e ErrRunInFlight then do {
            runs \<leftarrow> ListRuns portfolioID;
            (case runs of
               Inl re \<Rightarrow> problem_result (ise (err_text re))
             | Inr rs \<Rightarrow>
                 (case pickInflight rs of
                    Some (i, status) \<Rightarrow> State_Monad.return (Inr (i, status))
                  | None \<Rightarrow> problem_result (ise ''in-flight run vanished after duplicate-submit rejection'')))
          }
          else if errors_Is e ErrQueueFull
          then problem_result (writeProblem 503 ''Service Unavailable'' ''backtest queue is full, try again later'')
          else problem_result (ise (err_text e))
      | Inr i \<Rightarrow> State_Monad.return (Inr (i, ''queued'')))
   }"

definition unavailable_detail :: "string \<Rightarrow> Portfolio \<Rightarrow> string" where
  "unavailable_detail slug p =
     ''two consecutive backtest runs failed; retry via POST /portfolios/'' @ slug @ ''/runs'' @
     (case p_LastError p of None \<Rightarrow> [] | Some e \<Rightarrow> if e = [] then [] else '': '' @ e)"

definition respondRecalculating :: "lib \<Rightarrow> handler \<Rightarrow> Portfolio \<Rightarrow> string \<Rightarrow> unit result io" where
  "respondRecalculating lb h p slug =
     (case h_dispatcher h of
        None \<Rightarrow> writeProblem 501 ''Not Implemented'' ''backtest dispatcher not configured''
      | Some submit \<Rightarrow> do {
          runs \<leftarrow> ListRuns (p_ID p);
          (case runs of
             Inl e \<Rightarrow> ise (err_text e)
           | Inr rs \<Rightarrow>
               (case pickInflight rs of
                  Some (i, status) \<Rightarrow> writeRecalculating lb slug i status
                | None \<Rightarrow>
                    if p_Status p = StatusFailed \<and> consecutiveFailedRuns rs \<ge> 2
                    then writeProblem 503 ''Snapshot Unavailable'' (unavailable_detail slug p)
                    else do {
                      f \<leftarrow> submitFreshRun submit (p_ID p);
                      (case f of
                         Inl e \<Rightarrow> State_Monad.return (Inl e)
                       | Inr (i, status) \<Rightarrow> writeRecalculating lb slug i status)
                    }))
        })"

definition readSnapshot :: "lib \<Rightarrow> handler \<Rightarrow> request \<Rightarrow> (SnapshotReader \<Rightarrow> string result) \<Rightarrow> unit result io" where
  "readSnapshot lb h c fn = with_portfolio c (\<lambda>slug p.
     if p_Status p \<noteq> StatusReady \<or> p_SnapshotPath p = None \<or> p_SnapshotPath p = Some []
     then respondRecalculating lb h p slug
     else do {
       reader \<leftarrow> h_opener h (the (p_SnapshotPath p));
       (case reader of
          Inl _ \<Rightarrow> respondRecalculating lb h p slug
        | Inr rd \<Rightarrow>
            (case fn rd of
               Inl e \<Rightarrow> if errors_Is e NotFoundSentinel then writeProblem 404 ''Not Found'' ''not found'' else ise (err_text e)
             | Inr out \<Rightarrow> ctx_JSON lb 200 (DataBody out)))
     })"

text \<open>The closures translate the snapshot package's not-found to the handler's own sentinel.\<close>

definition not_found_sentinel :: error where "not_found_sentinel = Error [NotFoundSentinel] ''not found''"

definition or_404 :: "string result \<Rightarrow> string result" where
  "or_404 r = (case r of Inl e \<Rightarrow> if errors_Is e ErrSnapshotNotFound then Inl not_found_sentinel else Inl e | Inr x \<Rightarrow> Inr x)"

definition Summary :: "lib \<Rightarrow> handler \<Rightarrow> request \<Rightarrow> unit result io" where
  "Summary lb h c = readSnapshot lb h c rd_Summary"

definition Drawdowns :: "lib \<Rightarrow> handler \<Rightarrow> request \<Rightarrow> unit result io" where
  "Drawdowns lb h c = readSnapshot lb h c rd_Drawdowns"

definition Statistics :: "lib \<Rightarrow> handler \<Rightarrow> request \<Rightarrow> unit result io" where
  "Statistics lb h c = readSnapshot lb h c rd_Statistics"

definition Metrics :: "lib \<Rightarrow> handler \<Rightarrow> request \<Rightarrow> unit result io" where
  "Metrics lb h c = readSnapshot lb h c (\<lambda>r.
     rd_Metrics r (splitParam (c_Query c ''window'') ''since_inception'') (splitParam (c_Query c ''metric'') []))"

definition TrailingReturns :: "lib \<Rightarrow> handler \<Rightarrow> request \<Rightarrow> unit result io" where
  "TrailingReturns lb h c = readSnapshot lb h c rd_TrailingReturns"

definition Holdings :: "lib \<Rightarrow> handler \<Rightarrow> request \<Rightarrow> unit result io" where
  "Holdings lb h c = readSnapshot lb h c rd_CurrentHoldings"

definition HoldingsAsOf :: "lib \<Rightarrow> handler \<Rightarrow> request \<Rightarrow> unit result io" where
  "HoldingsAsOf lb h c =
     (case time_Parse (c_Params c ''date'') of
        None \<Rightarrow> unprocessable ''date must be YYYY-MM-DD''
      | Some d \<Rightarrow> readSnapshot lb h c (\<lambda>r. or_404 (rd_HoldingsAsOf r d)))"

definition HoldingsHistory :: "lib \<Rightarrow> handler \<Rightarrow> request \<Rightarrow> unit result io" where
  "HoldingsHistory lb h c =
     (case parseFromTo c of
        Inl e \<Rightarrow> unprocessable (err_text e)
      | Inr (from, to) \<Rightarrow> readSnapshot lb h c (\<lambda>r. rd_HoldingsHistory r from to))"

definition HoldingsImpact :: "lib \<Rightarrow> handler \<Rightarrow> request \<Rightarrow> unit result io" where
  "HoldingsImpact lb h c =
     readSnapshot lb h c (\<lambda>r. or_404 (rd_HoldingsImpact r (c_Params c ''slug'') (parseTopN (c_Query c ''top''))))"

definition Prediction :: "lib \<Rightarrow> handler \<Rightarrow> request \<Rightarrow> unit result io" where
  "Prediction lb h c = readSnapshot lb h c (\<lambda>r. or_404 (rd_Prediction r))"

definition Performance :: "lib \<Rightarrow> handler \<Rightarrow> request \<Rightarrow> unit result io" where
  "Performance lb h c =
     (case parseFromTo c of
        Inl e \<Rightarrow> unprocessable (err_text e)
      | Inr (from, to) \<Rightarrow> readSnapshot lb h c (\<lambda>r. rd_Performance r (c_Params c ''slug'') from to))"

definition Transactions :: "lib \<Rightarrow> handler \<Rightarrow> request \<Rightarrow> unit result io" where
  "Transactions lb h c =
     (case parseFromTo c of
        Inl e \<Rightarrow> unprocessable (err_text e)
      | Inr (from, to) \<Rightarrow> readSnapshot lb h c (\<lambda>r. rd_Transactions r \<lparr>tf_From = from, tf_To = to,
          tf_Types = (if c_Query c ''type'' \<noteq> [] then split_comma (c_Query c ''type'') else [])\<rparr>))"


subsection \<open>Runs\<close>

definition hub_of :: "handler \<Rightarrow> world \<Rightarrow> hub option" where
  "hub_of h w = (if h_hub h then Some (w_hub w) else None)"

definition Handler_ListRuns :: "lib \<Rightarrow> handler \<Rightarrow> request \<Rightarrow> unit result io" where
  "Handler_ListRuns lb h c = with_portfolio c (\<lambda>slug p. do {
     runs \<leftarrow> ListRuns (p_ID p);
     (case runs of
        Inl e \<Rightarrow> ise (err_text e)
      | Inr rs \<Rightarrow> do {
          w \<leftarrow> State_Monad.get;
          ctx_JSON lb 200 (RunsBody (map (\<lambda>r. toAPIRun r slug (hub_of h w)) rs))
        })
   })"

definition Handler_GetRun :: "lib \<Rightarrow> handler \<Rightarrow> request \<Rightarrow> unit result io" where
  "Handler_GetRun lb h c = with_portfolio c (\<lambda>slug p.
     case lib_uuid_Parse lb (c_Params c ''runId'') of
       None \<Rightarrow> unprocessable ''runId must be a uuid''
     | Some runID \<Rightarrow> do {
         r \<leftarrow> GetRun (p_ID p) runID;
         (case r of
            Inl e \<Rightarrow> if errors_Is e ErrNotFound then writeProblem 404 ''Not Found'' ''run not found'' else ise (err_text e)
          | Inr run \<Rightarrow> do {
              w \<leftarrow> State_Monad.get;
              ctx_JSON lb 200 (RunBody (toAPIRun run slug (hub_of h w)))
            })
       })"

definition queued_run :: "uuid \<Rightarrow> string \<Rightarrow> BacktestRun" where
  "queued_run runID slug = \<lparr>br_Id = runID, br_PortfolioSlug = slug, br_Status = RunQueued, br_StartedAt = None,
     br_FinishedAt = None, br_DurationMs = None, br_Error = None, br_Progress = None\<rparr>"

definition Handler_CreateRun :: "lib \<Rightarrow> handler \<Rightarrow> request \<Rightarrow> unit result io" where
  "Handler_CreateRun lb h c = with_portfolio c (\<lambda>slug p.
     if p_Status p = StatusRunning then writeProblem 409 ''Conflict'' ''portfolio is already running''
     else case h_dispatcher h of
       None \<Rightarrow> writeProblem 501 ''Not Implemented'' ''backtest dispatcher not configured''
     | Some submit \<Rightarrow> do {
         r \<leftarrow> submit (p_ID p);
         (case r of
            Inl e \<Rightarrow>
              if errors_Is e ErrRunInFlight
              then writeProblem 409 ''Conflict'' ''a backtest run is already queued or running for this portfolio''
              else if errors_Is e ErrQueueFull
              then writeProblem 503 ''Service Unavailable'' ''backtest queue is full, try again later''
              else ise (err_text e)
          | Inr runID \<Rightarrow> ctx_JSON lb 202 (RunBody (queued_run runID slug)))
       })"

subsection \<open>Progress streams (progress_handler.go)\<close>

definition newline :: string where "newline = [char_of (10::nat)]"

definition int_string :: "int \<Rightarrow> string" where
  "int_string n = (if n < 0 then ''-'' @ dec_string (nat (- n)) else dec_string (nat n))"

definition member_text :: "string \<Rightarrow> string \<Rightarrow> string" where
  "member_text k v = quote_string k @ '':'' @ v"

definition object_text :: "string list \<Rightarrow> string" where
  "object_text ms = ''{'' @ join '','' ms @ ''}''"

definition sse_event :: "string \<Rightarrow> string \<Rightarrow> string" where
  "sse_event name data = ''event: '' @ name @ newline @ ''data: '' @ data @ newline @ newline"

definition writeSSEProgress :: "ProgressMessage \<Rightarrow> string" where
  "writeSSEProgress msg = sse_event ''progress'' (object_text
     [member_text ''step'' (int_string (m_Step msg)), member_text ''total_steps'' (int_string (m_TotalSteps msg)),
      member_text ''current_date'' (quote_string (m_CurrentDate msg)), member_text ''target_date'' (quote_string (m_TargetDate msg)),
      member_text ''pct'' (m_Pct msg), member_text ''elapsed_ms'' (int_string (m_ElapsedMS msg)),
      member_text ''eta_ms'' (int_string (m_EtaMS msg)), member_text ''measurements'' (int_string (m_Measurements msg))])"

definition writeSSETerminal :: "string \<Rightarrow> string \<Rightarrow> string" where
  "writeSSETerminal status errMsg = sse_event (if status = ''failed'' then ''error'' else ''done'') (object_text
     (member_text ''status'' (quote_string status) # (if errMsg = [] then [] else [member_text ''error'' (quote_string errMsg)])))"

text \<open>
  \<open>streamProgressEvents\<close> on the events received before the channel is closed or the request is
  cancelled: progress is written as it comes, and the first terminal event ends the stream.
\<close>

fun streamProgressEvents :: "event list \<Rightarrow> string" where
  "streamProgressEvents [] = []"
| "streamProgressEvents (Progress m # es) = writeSSEProgress m @ streamProgressEvents es"
| "streamProgressEvents (Terminal t # es) = writeSSETerminal (t_Status t) (t_Error t)"

definition StreamRunProgress :: "lib \<Rightarrow> handler \<Rightarrow> request \<Rightarrow> unit result io" where
  "StreamRunProgress lb h c =
     (if \<not> h_hub h then writeProblem 501 ''Not Implemented'' ''progress streaming not configured''
      else with_portfolio c (\<lambda>slug p.
        case lib_uuid_Parse lb (c_Params c ''runId'') of
          None \<Rightarrow> writeProblem 400 ''Bad Request'' ''invalid run ID''
        | Some runID \<Rightarrow> do {
            r \<leftarrow> GetRun (p_ID p) runID;
            (case r of
               Inl e \<Rightarrow> if errors_Is e ErrNotFound then writeProblem 404 ''Not Found'' ''run not found'' else ise (err_text e)
             | Inr run \<Rightarrow>
                 if r_Status run = RunSuccess \<or> r_Status run = RunFailed
                 then send 200 (StreamBody (writeSSETerminal (run_status_string (r_Status run))
                        (case r_Error run of None \<Rightarrow> [] | Some e \<Rightarrow> e)))
                 else do {
                   w \<leftarrow> State_Monad.get;
                   (case Subscribe runID (w_hub w) of
                      None \<Rightarrow> State_Monad.return (Inr ())
                    | Some ((ch, unsub), hb) \<Rightarrow> do {
                        State_Monad.update (\<lambda>w. w\<lparr>w_hub := hb\<rparr>);
                        send 200 (LiveBody ch)
                      })
                 })
          }))"

end
