(* ===== verification/Upgrade.thy ===== *)
theory Upgrade
  imports Handler
begin

text \<open>
  Upgrading portfolios to a newer version of their strategy: the core of \<open>portfolio/upgrade_core.go\<close>,
  the endpoint of \<open>portfolio/upgrade.go\<close> and the automatic upgrade after an install of
  \<open>portfolio/auto_upgrade.go\<close>. The library \<open>semver\<close> is an argument. \<open>json.Marshal\<close> of parameters
  that came from JSON does not fail. A nil \<open>InstalledVer\<close> that is dereferenced is a panic.
\<close>

datatype UpgradeOutcome =
    UpgradeOutcomeUnknown | UpgradeOutcomeAlreadyAtLatest | UpgradeOutcomeApplied
  | UpgradeOutcomeIncompatibleParams | UpgradeOutcomeInvalidParams

record UpgradeResult =
  ur_Outcome :: UpgradeOutcome
  ur_FromVersion :: string
  ur_ToVersion :: string
  ur_RunID :: "uuid option"
  ur_RunErr :: "error option"
  ur_Diff :: ParameterDiff
  ur_NewDescribe :: rawjson
  ur_ValidateErr :: "error option"

definition deref :: "string option \<Rightarrow> string" where
  "deref s = (case s of None \<Rightarrow> [] | Some x \<Rightarrow> x)"

definition new_result :: "Portfolio \<Rightarrow> Strategy \<Rightarrow> UpgradeResult" where
  "new_result p s = \<lparr>ur_Outcome = UpgradeOutcomeUnknown, ur_FromVersion = deref (p_StrategyVer p), ur_ToVersion = deref (s_InstalledVer s),
     ur_RunID = None, ur_RunErr = None, ur_Diff = empty_diff, ur_NewDescribe = RawEmpty, ur_ValidateErr = None\<rparr>"

definition decodeDescribes :: "Portfolio \<Rightarrow> Strategy \<Rightarrow> (Describe \<times> Describe) result" where
  "decodeDescribes p s =
     (case (if p_StrategyDescribeJSON p = RawEmpty then Inr zero_describe else unmarshalDescribe (p_StrategyDescribeJSON p)) of
        Inl e \<Rightarrow> Inl (wrap ''stored describe is invalid'' e)
      | Inr oldDescribe \<Rightarrow>
          (case unmarshalDescribe (s_DescribeJSON s) of
             Inl e \<Rightarrow> Inl (wrap ''registry describe is invalid'' e)
           | Inr newDescribe \<Rightarrow> Inr (oldDescribe, newDescribe)))"

text \<open>The \<open>switch\<close> that chooses the new parameters, or ends with an outcome.\<close>

definition next_params :: "params option \<Rightarrow> params \<Rightarrow> Describe \<Rightarrow> ParameterDiff \<Rightarrow> (UpgradeOutcome \<times> error option) + params" where
  "next_params bodyParams current newDescribe diff =
     (case bodyParams of
        Some ps \<Rightarrow>
          (case validateParameters ps newDescribe of
             Inl e \<Rightarrow> Inl (UpgradeOutcomeInvalidParams, Some e)
           | Inr _ \<Rightarrow> Inr ps)
      | None \<Rightarrow>
          if Compatible diff then Inr (mergeKeptAndDefaults current newDescribe diff)
          else Inl (UpgradeOutcomeIncompatibleParams, None))"

definition apply_and_run :: "handler \<Rightarrow> Portfolio \<Rightarrow> Strategy \<Rightarrow> Describe \<Rightarrow> params \<Rightarrow> UpgradeResult \<Rightarrow> UpgradeResult result io" where
  "apply_and_run h p s newDescribe nextParams res =
     (case s_InstalledVer s of
        None \<Rightarrow> do {
          State_Monad.update (\<lambda>w. w\<lparr>w_panic := True\<rparr>);
          State_Monad.return (Inl (Error [] ''nil pointer dereference''))
        }
      | Some ver \<Rightarrow> do {
          a \<leftarrow> ApplyUpgrade (p_ID p) ver (s_DescribeJSON s) nextParams (MatchPresetName nextParams newDescribe);
          (case a of
             Inl e \<Rightarrow> State_Monad.return (Inl e)
           | Inr _ \<Rightarrow>
               (case h_dispatcher h of
                  None \<Rightarrow> State_Monad.return (Inr (res\<lparr>ur_Outcome := UpgradeOutcomeApplied\<rparr>))
                | Some submit \<Rightarrow> do {
                    r \<leftarrow> submit (p_ID p);
                    State_Monad.return (Inr (case r of
                       Inl e \<Rightarrow> res\<lparr>ur_Outcome := UpgradeOutcomeApplied, ur_RunErr := Some e\<rparr>
                     | Inr runID \<Rightarrow> res\<lparr>ur_Outcome := UpgradeOutcomeApplied, ur_RunID := Some runID\<rparr>))
                  }))
        })"

definition doUpgrade :: "lib \<Rightarrow> handler \<Rightarrow> Portfolio \<Rightarrow> Strategy \<Rightarrow> params option \<Rightarrow> UpgradeResult result io" where
  "doUpgrade lb h p s bodyParams =
     (if p_StrategyVer p \<noteq> None \<and> s_InstalledVer s \<noteq> None \<and> p_StrategyVer p = s_InstalledVer s
      then State_Monad.return (Inr ((new_result p s)\<lparr>ur_Outcome := UpgradeOutcomeAlreadyAtLatest\<rparr>))
      else
        (case decodeDescribes p s of
           Inl e \<Rightarrow> State_Monad.return (Inl e)
         | Inr (oldDescribe, newDescribe) \<Rightarrow>
             (let diff = DiffParameters (lib_iter lb) oldDescribe newDescribe;
                  res = (new_result p s)\<lparr>ur_Diff := diff, ur_NewDescribe := s_DescribeJSON s\<rparr> in
              case next_params bodyParams (p_Parameters p) newDescribe diff of
                Inl (out, ve) \<Rightarrow> State_Monad.return (Inr (res\<lparr>ur_Outcome := out, ur_ValidateErr := ve\<rparr>))
              | Inr nextParams \<Rightarrow> apply_and_run h p s newDescribe nextParams res)))"

subsection \<open>The endpoint (upgrade.go)\<close>

definition writeIncompatibleParametersResponse :: "lib \<Rightarrow> Portfolio \<Rightarrow> Strategy \<Rightarrow> ParameterDiff \<Rightarrow> unit result io" where
  "writeIncompatibleParametersResponse lb p s diff =
     writeJSON lb 409 (IncompatibleBody (deref (p_StrategyVer p)) (deref (s_InstalledVer s)) (pd_Removed diff)
       (pd_AddedWithoutDefault diff) (pd_Retyped diff) (p_Parameters p) (s_DescribeJSON s))"

definition writeUpgradeResponse :: "lib \<Rightarrow> Portfolio \<Rightarrow> Strategy \<Rightarrow> UpgradeResult \<Rightarrow> unit result io" where
  "writeUpgradeResponse lb p s res =
     (case ur_Outcome res of
        UpgradeOutcomeAlreadyAtLatest \<Rightarrow> writeJSON lb 200 (AlreadyLatestBody (deref (s_InstalledVer s)))
      | UpgradeOutcomeInvalidParams \<Rightarrow>
          writeProblem 400 ''Bad Request'' (case ur_ValidateErr res of None \<Rightarrow> [] | Some e \<Rightarrow> err_text e)
      | UpgradeOutcomeIncompatibleParams \<Rightarrow> writeIncompatibleParametersResponse lb p s (ur_Diff res)
      | UpgradeOutcomeApplied \<Rightarrow>
          (case ur_RunErr res of
             Some e \<Rightarrow>
               if errors_Is e ErrRunInFlight
               then writeJSON lb 200 (UpgradedBody (ur_FromVersion res) (ur_ToVersion res) None True)
               else if errors_Is e ErrQueueFull
               then writeProblem 503 ''Service Unavailable''
                      ''backtest queue is full; the upgrade was committed but no run was queued. Retry by calling POST /portfolios/{slug}/runs''
               else ise (err_text e)
           | None \<Rightarrow> writeJSON lb 200 (UpgradedBody (ur_FromVersion res) (ur_ToVersion res) (ur_RunID res) False))
      | UpgradeOutcomeUnknown \<Rightarrow> ise ''unknown upgrade outcome'')"

definition parseUpgradeBody :: "lib \<Rightarrow> string \<Rightarrow> params option result" where
  "parseUpgradeBody lb raw = (if raw = [] then Inr None else lib_Upgrade lb raw)"

definition Handler_Upgrade :: "lib \<Rightarrow> handler \<Rightarrow> request \<Rightarrow> unit result io" where
  "Handler_Upgrade lb h c = with_portfolio c (\<lambda>slug p.
     if p_Status p = StatusRunning then writeJSON lb 409 (ErrorBody ''run_in_progress'')
     else do {
       sr \<leftarrow> Strategy_Get (p_StrategyCode p);
       (case sr of
          Inl _ \<Rightarrow> writeJSON lb 422 (ErrorBody ''strategy_not_installable'')
        | Inr s \<Rightarrow>
            if s_InstalledVer s = None \<or> s_InstallError s \<noteq> None then writeJSON lb 422 (ErrorBody ''strategy_not_installable'')
            else
              (case parseUpgradeBody lb (c_Body c) of
                 Inl _ \<Rightarrow> writeProblem 400 ''Bad Request'' ''body is not valid JSON''
               | Inr bodyParams \<Rightarrow> do {
                   r \<leftarrow> doUpgrade lb h p s bodyParams;
                   (case r of Inl e \<Rightarrow> ise (err_text e) | Inr res \<Rightarrow> writeUpgradeResponse lb p s res)
                 }))
     })"

subsection \<open>After an install (auto_upgrade.go)\<close>

record 'v semver =
  sv_NewVersion :: "string \<Rightarrow> 'v option"
  sv_Major :: "'v \<Rightarrow> nat"
  sv_Minor :: "'v \<Rightarrow> nat"
  sv_GreaterThan :: "'v \<Rightarrow> 'v \<Rightarrow> bool"

definition isPatchBump :: "'v semver \<Rightarrow> 'v \<Rightarrow> 'v \<Rightarrow> bool" where
  "isPatchBump sv curVer newVer \<longleftrightarrow>
     (if sv_Major sv curVer \<noteq> sv_Major sv newVer then False
      else if sv_Minor sv curVer \<noteq> sv_Minor sv newVer then False
      else sv_GreaterThan sv newVer curVer)"

definition eligible :: "'v semver \<Rightarrow> 'v \<Rightarrow> Portfolio \<Rightarrow> bool" where
  "eligible sv newVer p \<longleftrightarrow>
     (if p_Status p = StatusRunning then False
      else case p_StrategyVer p of
             None \<Rightarrow> False
           | Some cur \<Rightarrow> (case sv_NewVersion sv cur of None \<Rightarrow> False | Some curVer \<Rightarrow> isPatchBump sv curVer newVer))"

definition tryUpgradeOne :: "'v semver \<Rightarrow> lib \<Rightarrow> handler \<Rightarrow> Strategy \<Rightarrow> 'v \<Rightarrow> Portfolio \<Rightarrow> unit io" where
  "tryUpgradeOne sv lb h s newVer p =
     (if \<not> eligible sv newVer p then State_Monad.return ()
      else do { _ \<leftarrow> doUpgrade lb h p s None; State_Monad.return () })"

definition AutoUpgradeAfterInstall :: "'v semver \<Rightarrow> lib \<Rightarrow> handler \<Rightarrow> string \<Rightarrow> string \<Rightarrow> unit io" where
  "AutoUpgradeAfterInstall sv lb h shortCode newVer = do {
     sr \<leftarrow> Strategy_Get shortCode;
     (case sr of
        Inl _ \<Rightarrow> State_Monad.return ()
      | Inr s \<Rightarrow>
          if s_InstalledVer s = None \<or> s_InstallError s \<noteq> None then State_Monad.return ()
          else
            (case sv_NewVersion sv newVer of
               None \<Rightarrow> State_Monad.return ()
             | Some newParsed \<Rightarrow> do {
                 ps \<leftarrow> ListByStrategyCode shortCode;
                 (case ps of
                    Inl _ \<Rightarrow> State_Monad.return ()
                  | Inr portfolios \<Rightarrow> for_each portfolios (tryUpgradeOne sv lb h s newParsed))
               }))
   }"

end
