(* ===== verification/Routes.thy ===== *)
theory Routes
  imports Upgrade
begin

text \<open>
  The routes of \<open>api/portfolios.go\<close> over the handlers, the handler that \<open>cmd/server.go\<close> builds, and
  the contract \<open>tenant\<close> between the handlers and the services they call: every endpoint keeps each
  invariant that the services keep.
\<close>

subsection \<open>Routes (api/portfolios.go)\<close>

datatype route =
    RList | RCreate | RGet | RPatch | RDelete | RSummary | RDrawdowns | RStatistics | RMetrics | RTrailingReturns
  | RHoldings | RHoldingsHistory | RHoldingsAsOf | RHoldingsImpact | RPrediction | RPerformance | RTransactions
  | RUpgrade | RCreateRun | RListRuns | RGetRun | RStream

fun serve :: "lib \<Rightarrow> handler \<Rightarrow> route \<Rightarrow> request \<Rightarrow> unit result io" where
  "serve lb h RList c = Handler_List lb c"
| "serve lb h RCreate c = Create lb h c"
| "serve lb h RGet c = Handler_Get lb c"
| "serve lb h RPatch c = Patch lb c"
| "serve lb h RDelete c = Handler_Delete lb h c"
| "serve lb h RSummary c = Summary lb h c"
| "serve lb h RDrawdowns c = Drawdowns lb h c"
| "serve lb h RStatistics c = Statistics lb h c"
| "serve lb h RMetrics c = Metrics lb h c"
| "serve lb h RTrailingReturns c = TrailingReturns lb h c"
| "serve lb h RHoldings c = Holdings lb h c"
| "serve lb h RHoldingsHistory c = HoldingsHistory lb h c"
| "serve lb h RHoldingsAsOf c = HoldingsAsOf lb h c"
| "serve lb h RHoldingsImpact c = HoldingsImpact lb h c"
| "serve lb h RPrediction c = Prediction lb h c"
| "serve lb h RPerformance c = Performance lb h c"
| "serve lb h RTransactions c = Transactions lb h c"
| "serve lb h RUpgrade c = Handler_Upgrade lb h c"
| "serve lb h RCreateRun c = Handler_CreateRun lb h c"
| "serve lb h RListRuns c = Handler_ListRuns lb h c"
| "serve lb h RGetRun c = Handler_GetRun lb h c"
| "serve lb h RStream c = StreamRunProgress lb h c"


subsection \<open>The handler of the server (cmd/server.go)\<close>

text \<open>
  The handler is built on the pool store, the dispatcher's adapter and the hub. A snapshot is
  opened by reading its file with \<open>openfn\<close>; \<open>inside\<close> says which paths lie in a directory, and a
  build and a describe are the pure functions \<open>build\<close> and \<open>describe\<close>.
\<close>

definition pool_handler :: "(string \<Rightarrow> SnapshotReader result) \<Rightarrow> (string \<Rightarrow> string result) \<Rightarrow> (string \<Rightarrow> rawjson result) \<Rightarrow>
    (string \<Rightarrow> unit result) \<Rightarrow> (string \<Rightarrow> string \<Rightarrow> bool) \<Rightarrow> string \<Rightarrow> handler" where
  "pool_handler openfn build describe validator inside dir =
     \<lparr>h_opener = (\<lambda>path. do {
        w \<leftarrow> State_Monad.get;
        State_Monad.return (case w_files w path of None \<Rightarrow> Inl (Error [] ''snapshot: open'') | Some content \<Rightarrow> openfn content)
      }),
      h_dispatcher = Some (dispatcherAdapter_Submit pool_run_store), h_hub = True, h_snapshotsDir = dir,
      h_ephemeralBuilder = (\<lambda>url. State_Monad.return (build url)),
      h_RunDescribe = (\<lambda>bin. State_Monad.return (describe bin)), h_urlValidator = validator,
      h_RemoveAll = (\<lambda>d. State_Monad.update (\<lambda>w. w\<lparr>w_files := (\<lambda>path. if inside d path then None else w_files w path)\<rparr>))\<rparr>"

section \<open>What a handler keeps\<close>

text \<open>
  The contract between the handlers and their services, for the requests of one subject: \<open>I\<close> is
  an invariant and \<open>mine\<close> says that a portfolio id is the subject's. The laws are: a lookup under
  the subject finds only the subject's portfolios, the subject's updates keep \<open>I\<close>, and a run
  submitted for one of the subject's portfolios keeps \<open>I\<close>.
\<close>

locale tenant =
  fixes h :: handler and sub :: string and I :: "world \<Rightarrow> bool" and mine :: "uuid \<Rightarrow> world \<Rightarrow> bool"
  assumes I_free: "outcome_free I" and mine_free: "outcome_free (mine pid)"
    and resp_frame: "I w \<Longrightarrow> I (w\<lparr>w_resp := r\<rparr>)"
    and hub_frame: "I w \<Longrightarrow> I (w\<lparr>w_hub := hb\<rparr>)"
    and get_mine: "valid I (Get sub slug) (\<lambda>r w. I w \<and> (\<forall>p. r = Inr p \<longrightarrow> mine (p_ID p) w))"
    and nil_mine: "I w \<Longrightarrow> mine 0 w"
    and insert_keeps: "p_OwnerSub p = sub \<Longrightarrow> preserves I (Insert p)"
    and name_keeps: "preserves I (UpdateName sub slug n)"
    and dates_keeps: "preserves I (UpdateDates sub slug a b)"
    and retention_keeps: "preserves I (UpdateRunRetention sub slug v)"
    and delete_keeps: "preserves I (Delete sub slug)"
    and submit_keeps: "h_dispatcher h = Some d \<Longrightarrow> preserves (\<lambda>w. I w \<and> mine pid w) (d pid)"
    and upgrade_keeps: "preserves (\<lambda>w. I w \<and> mine pid w) (ApplyUpgrade pid ver raw ps preset)"
    and panic_frame: "I w \<Longrightarrow> I (w\<lparr>w_panic := True\<rparr>)"
    and opener_keeps: "preserves (\<lambda>w. I w \<and> mine pid w) (h_opener h path)"
    and builder_keeps: "preserves I (h_ephemeralBuilder h url)"
    and describe_keeps: "preserves I (h_RunDescribe h bin)"
    and remove_keeps: "preserves I (h_RemoveAll h dir)"
begin

abbreviation J :: "uuid \<Rightarrow> world \<Rightarrow> bool" where
  "J pid w \<equiv> I w \<and> mine pid w"

lemma send_keeps: "preserves I (send s b)"
  unfolding send_def by (intro preserve_rules preserves_update resp_frame)

lemma replies_keep:
  "preserves I (writeProblem s t d)" "preserves I (ise d)" "preserves I (unauthorized e)" "preserves I (unprocessable d)"
  "preserves I (portfolio_404 sl)" "preserves I (writeJSON lb s b)" "preserves I (ctx_JSON lb s b)" "preserves I (writeRecalculating lb sl i st)"
  unfolding writeProblem_def ise_def unauthorized_def unprocessable_def portfolio_404_def writeJSON_def ctx_JSON_def writeRecalculating_def
  by (auto intro!: send_keeps preserve_rules)

lemma reads_keep:
  "preserves (J pid) (ListRuns i)" "preserves (J pid) (GetRun i j)" "preserves I (Get o' sl)" "preserves I (List o')" "preserves I (Strategy_Get code)"
  "preserves (J pid) (Strategy_Get code)"
  by (intro preserve_rules; simp add: I_free mine_free [unfolded outcome_free_def] outcome_free_def I_free [unfolded outcome_free_def])+

lemma from_I: "preserves I m \<Longrightarrow> valid (J pid) m (\<lambda>_. I)"
  by (simp add: valid_def preserves_def)

lemma bind_J: "preserves (J pid) m \<Longrightarrow> (\<And>a. valid (J pid) (f a) (\<lambda>_. I)) \<Longrightarrow> valid (J pid) (State_Monad.bind m f) (\<lambda>_. I)"
  by (rule valid_bind [OF valid_preserves])

lemma get_bind_J: "(\<And>w. valid (J pid) (f w) (\<lambda>_. I)) \<Longrightarrow> valid (J pid) (State_Monad.bind State_Monad.get f) (\<lambda>_. I)"
  by (simp add: valid_def)

lemmas J_rules = valid_case_sum valid_case_option valid_if bind_J get_bind_J from_I replies_keep reads_keep

lemma problem_result_keeps: "preserves I m \<Longrightarrow> preserves I (problem_result m)"
  unfolding problem_result_def by (intro preserve_rules)

lemma submitFreshRun_keeps:
  assumes "h_dispatcher h = Some d"
  shows "preserves (J pid) (d pid) \<Longrightarrow> valid (J pid) (submitFreshRun d pid) (\<lambda>_. I)"
  unfolding submitFreshRun_def
  by (intro J_rules problem_result_keeps) (auto intro!: J_rules problem_result_keeps preserve_rules split: option.split)

lemma respondRecalculating_keeps: "valid (J (p_ID p)) (respondRecalculating lb h p slug) (\<lambda>_. I)"
proof (cases "h_dispatcher h")
  case None
  then show ?thesis by (simp add: respondRecalculating_def from_I replies_keep)
next
  case (Some d)
  have "valid (J (p_ID p)) (submitFreshRun d (p_ID p)) (\<lambda>_. I)"
    by (rule submitFreshRun_keeps [OF Some submit_keeps [OF Some]])
  moreover have "valid I (case f of Inl e \<Rightarrow> State_Monad.return (Inl e) | Inr (i, st) \<Rightarrow> writeRecalculating lb slug i st) (\<lambda>_. I)" for f
    by (rule valid_preserves) (intro preserve_rules replies_keep)
  ultimately have fresh: "valid (J (p_ID p)) (State_Monad.bind (submitFreshRun d (p_ID p))
      (\<lambda>f. case f of Inl e \<Rightarrow> State_Monad.return (Inl e) | Inr (i, st) \<Rightarrow> writeRecalculating lb slug i st)) (\<lambda>_. I)"
    by (rule valid_bind)
  show ?thesis unfolding respondRecalculating_def Some option.case
    by (rule bind_J [OF reads_keep(1)]) (auto split: sum.splits option.splits intro!: from_I replies_keep fresh)
qed

lemma with_portfolio_keeps:
  assumes "\<And>s. subject c = Inr s \<Longrightarrow> s = sub" and "\<And>slug p. valid (J (p_ID p)) (k slug p) (\<lambda>_. I)"
  shows "preserves I (with_portfolio c k)"
proof (cases "subject c")
  case (Inl e)
  then show ?thesis by (simp add: with_portfolio_def replies_keep)
next
  case (Inr s)
  with assms(1) have [simp]: "subject c = Inr sub" by simp
  have "valid (\<lambda>w. I w \<and> (\<forall>p. r = Inr p \<longrightarrow> mine (p_ID p) w))
      (case r of Inl e \<Rightarrow> if errors_Is e ErrNotFound then portfolio_404 slug else ise (err_text e) | Inr p \<Rightarrow> k slug p) (\<lambda>_. I)" for r slug
  proof (cases r)
    case (Inl e)
    have "preserves I (if errors_Is e ErrNotFound then portfolio_404 slug else ise (err_text e))" by (intro preserve_rules replies_keep)
    then show ?thesis by (simp add: Inl valid_def preserves_def)
  next
    case (Inr p)
    then show ?thesis using assms(2) [of p slug] by (simp add: valid_def)
  qed
  from valid_bind [OF get_mine this] show ?thesis by (simp add: with_portfolio_def Let_def valid_def preserves_def)
qed

lemma readSnapshot_keeps:
  assumes "\<And>s. subject c = Inr s \<Longrightarrow> s = sub"
  shows "preserves I (readSnapshot lb h c fn)"
  unfolding readSnapshot_def
  by (intro with_portfolio_keeps [OF assms] valid_if bind_J opener_keeps valid_case_sum respondRecalculating_keeps from_I preserve_rules replies_keep)

lemma autoTrigger_keeps: "valid (J (p_ID p)) (autoTriggerOrProblem h p) (\<lambda>_. I)"
proof (cases "h_dispatcher h")
  case None
  then show ?thesis by (simp add: autoTriggerOrProblem_def valid_def)
next
  case (Some d)
  show ?thesis unfolding autoTriggerOrProblem_def Some option.case
    by (intro bind_J submit_keeps [OF Some] from_I preserve_rules)
qed

lemma dispatch_created_keeps: "valid (J (p_ID p)) (dispatch_created lb h sub p) (\<lambda>_. I)"
  unfolding dispatch_created_def
  by (rule valid_bind [OF autoTrigger_keeps]) (intro valid_preserves preserve_rules replies_keep delete_keeps)

lemma insertAndDispatch_keeps: "preserves I (insertAndDispatch lb h sub req d url raw)"
proof -
  let ?p = "buildPortfolio lb sub req d url raw"
  have p: "p_OwnerSub ?p = sub" "p_ID ?p = 0" by (simp_all add: buildPortfolio_def)
  have "valid (\<lambda>w. I w \<and> (\<forall>p. r = Inr p \<longrightarrow> mine (p_ID p) w))
      (dispatch_created lb h sub (case r of Inl _ \<Rightarrow> ?p | Inr q \<Rightarrow> q)) (\<lambda>_. I)" for r
    by (rule valid_pre [OF dispatch_created_keeps]) (auto simp: p nil_mine split: sum.split)
  from valid_bind [OF get_mine this, of "p_Slug ?p"]
  have tail: "preserves I (do { stored \<leftarrow> Get sub (p_Slug ?p); dispatch_created lb h sub (case stored of Inl _ \<Rightarrow> ?p | Inr q \<Rightarrow> q) })"
    by (simp add: valid_def preserves_def)
  show ?thesis unfolding insertAndDispatch_def Let_def
    by (intro preserves_bind insert_keeps p preserves_case_sum preserves_if replies_keep tail)
qed

lemma and_then_keeps: "preserves I m \<Longrightarrow> preserves I k \<Longrightarrow> preserves I (and_then m k)"
  unfolding and_then_def by (intro preserve_rules)

lemma applyStoreUpdate_keeps: "preserves I fn \<Longrightarrow> preserves I (applyStoreUpdate slug fn)"
  unfolding applyStoreUpdate_def by (intro preserve_rules replies_keep)

lemma patch_steps_keep:
  "preserves I (patch_name sub slug body)" "preserves I (patch_dates sub slug a b)" "preserves I (patch_retention sub slug body)"
  "preserves I (patch_reply lb sub slug)"
  unfolding patch_name_def patch_dates_def patch_retention_def patch_reply_def
  by (intro preserve_rules applyStoreUpdate_keeps name_keeps dates_keeps retention_keeps reads_keep replies_keep I_free)+

lemma Create_keeps:
  assumes "\<And>s. subject c = Inr s \<Longrightarrow> s = sub"
  shows "preserves I (Create lb h c)"
proof -
  have "preserves I (createOfficial lb h sub req)" for req
    unfolding createOfficial_def
    by (intro preserves_bind reads_keep(5) preserves_case_sum preserves_if replies_keep insertAndDispatch_keeps)
  moreover have "preserves I (createUnofficial lb h sub req)" for req
    unfolding createUnofficial_def
    by (intro preserves_bind preserves_case_sum replies_keep builder_keeps describe_keeps insertAndDispatch_keeps)
  ultimately show ?thesis unfolding Create_def Let_def
    using assms by (intro preserves_case_sum preserves_if replies_keep) auto
qed

lemma Patch_keeps:
  assumes "\<And>s. subject c = Inr s \<Longrightarrow> s = sub"
  shows "preserves I (Patch lb c)"
  unfolding Patch_def Let_def
  by (intro preserves_case_sum preserves_case_prod replies_keep) (auto dest: assms intro!: and_then_keeps patch_steps_keep)

lemma Delete_keeps:
  assumes "\<And>s. subject c = Inr s \<Longrightarrow> s = sub"
  shows "preserves I (Handler_Delete lb h c)"
  unfolding Handler_Delete_def Let_def
  using assms by (auto split: sum.split intro!: preserves_bind preserves_case_sum preserves_if preserves_return replies_keep
      reads_keep(3) delete_keeps send_keeps remove_keeps)

lemma runs_keep:
  assumes "\<And>s. subject c = Inr s \<Longrightarrow> s = sub"
  shows "preserves I (Handler_ListRuns lb h c)" "preserves I (Handler_GetRun lb h c)" "preserves I (Handler_CreateRun lb h c)"
proof -
  show "preserves I (Handler_ListRuns lb h c)"
    unfolding Handler_ListRuns_def
    by (intro with_portfolio_keeps [OF assms] bind_J reads_keep(1) valid_case_sum from_I replies_keep get_bind_J)
  show "preserves I (Handler_GetRun lb h c)"
    unfolding Handler_GetRun_def
    by (intro with_portfolio_keeps [OF assms] bind_J reads_keep(2) valid_case_sum valid_case_option valid_if from_I replies_keep get_bind_J)
  have "valid (J (p_ID p)) (d (p_ID p) \<bind> (\<lambda>r. case r of
            Inl e \<Rightarrow>
              if errors_Is e ErrRunInFlight
              then writeProblem 409 ''Conflict'' ''a backtest run is already queued or running for this portfolio''
              else if errors_Is e ErrQueueFull
              then writeProblem 503 ''Service Unavailable'' ''backtest queue is full, try again later''
              else ise (err_text e)
          | Inr runID \<Rightarrow> ctx_JSON lb 202 (RunBody (queued_run runID slug)))) (\<lambda>_. I)" if "h_dispatcher h = Some d" for d p slug
    by (intro bind_J submit_keeps [OF that] from_I preserve_rules replies_keep)
  then show "preserves I (Handler_CreateRun lb h c)"
    unfolding Handler_CreateRun_def
    by (intro with_portfolio_keeps [OF assms] valid_if valid_case_option from_I [OF replies_keep(1)]) auto
qed

lemma Stream_keeps:
  assumes "\<And>s. subject c = Inr s \<Longrightarrow> s = sub"
  shows "preserves I (StreamRunProgress lb h c)"
proof -
  have sub: "preserves I (case x of None \<Rightarrow> State_Monad.return (Inr ())
      | Some ((ch, unsub), hb) \<Rightarrow> do { State_Monad.update (\<lambda>w. w\<lparr>w_hub := hb\<rparr>); send 200 (LiveBody ch) })"
    for x :: "((nat \<times> unsub) \<times> hub) option"
    by (intro preserve_rules preserves_update hub_frame send_keeps)
  show ?thesis unfolding StreamRunProgress_def
    by (intro preserves_if with_portfolio_keeps [OF assms] valid_case_option valid_if bind_J reads_keep(2) valid_case_sum get_bind_J
        from_I [OF sub] from_I replies_keep send_keeps)
qed

lemma doUpgrade_keeps: "valid (J (p_ID p)) (doUpgrade lb h p s bp) (\<lambda>_. I)"
proof -
  have submit: "preserves (J (p_ID p)) (case h_dispatcher h of None \<Rightarrow> State_Monad.return x | Some d \<Rightarrow> State_Monad.bind (d (p_ID p)) (\<lambda>r. State_Monad.return (f r)))"
    for x and f :: "uuid result \<Rightarrow> UpgradeResult result"
    by (auto intro!: preserve_rules submit_keeps split: option.split)
  have "valid (J (p_ID p)) (apply_and_run h p s nd ps res) (\<lambda>_. I)" for nd ps res
    unfolding apply_and_run_def
    by (intro valid_case_option bind_J upgrade_keeps valid_case_sum from_I [OF preserves_bind] preserves_update panic_frame preserve_rules
        from_I [OF preserves_return] valid_post [OF valid_preserves [OF submit]]) auto
  then show ?thesis unfolding doUpgrade_def Let_def
    by (intro valid_if valid_case_sum from_I [OF preserves_return]) (auto split: prod.splits sum.splits intro!: from_I preserve_rules)
qed

lemma Upgrade_keeps:
  assumes "\<And>s. subject c = Inr s \<Longrightarrow> s = sub"
  shows "preserves I (Handler_Upgrade lb h c)"
proof -
  have reply: "valid I (case r of Inl e \<Rightarrow> ise (err_text e) | Inr res \<Rightarrow> writeUpgradeResponse lb p s res) (\<lambda>_. I)" for r p s
    unfolding writeUpgradeResponse_def writeIncompatibleParametersResponse_def
    by (rule valid_preserves) (auto intro!: preserve_rules replies_keep split: UpgradeOutcome.split)
  show ?thesis unfolding Handler_Upgrade_def
    by (intro with_portfolio_keeps [OF assms] valid_if bind_J reads_keep(6) valid_case_sum from_I [OF replies_keep(1)] from_I [OF replies_keep(6)]
        valid_bind [OF doUpgrade_keeps reply])
qed

lemma serve_keeps:
  assumes "\<And>s. subject c = Inr s \<Longrightarrow> s = sub"
  shows "preserves I (serve lb h r c)"
proof -
  note snap = readSnapshot_keeps [OF assms]
  have "preserves I (Handler_List lb c)" unfolding Handler_List_def
    by (intro preserves_case_sum preserves_bind replies_keep reads_keep(4))
  moreover have "preserves I (Handler_Get lb c)" unfolding Handler_Get_def
    by (intro with_portfolio_keeps [OF assms] from_I replies_keep)
  ultimately show ?thesis
    by (cases r) (auto simp: Summary_def Drawdowns_def Statistics_def Metrics_def TrailingReturns_def Holdings_def HoldingsAsOf_def
        HoldingsHistory_def HoldingsImpact_def Prediction_def Performance_def Transactions_def
        intro!: Create_keeps [OF assms] Patch_keeps [OF assms] Delete_keeps [OF assms] runs_keep [OF assms] Stream_keeps [OF assms] Upgrade_keeps [OF assms] snap
          preserves_case_option preserves_case_sum preserves_case_prod replies_keep)
qed

end

subsection \<open>The tables' invariant\<close>

lemma db_inv_frames [simp]:
  "db_inv (w\<lparr>w_resp := r\<rparr>) = db_inv w" "db_inv (w\<lparr>w_hub := hb\<rparr>) = db_inv w" "db_inv (w\<lparr>w_files := f\<rparr>) = db_inv w"
  "db_inv (w\<lparr>w_panic := b\<rparr>) = db_inv w"
  by (simp_all add: db_inv_def)

lemma adapter_keeps: "preserves db_inv (dispatcherAdapter_Submit pool_run_store pid)"
  unfolding dispatcherAdapter_Submit_def by (intro preserves_bind preserves_return pool.Submit_keeps)

interpretation safe: tenant "pool_handler openfn build describe validator inside dir" sub db_inv "\<lambda>_ _. True"
proof
  show "valid db_inv (Get sub slug) (\<lambda>r w. db_inv w \<and> (\<forall>p. r = Inr p \<longrightarrow> True))" for slug
    using store_reads_preserve(3) [of db_inv sub slug] by (simp add: valid_def preserves_def)
  show "preserves (\<lambda>w. db_inv w \<and> True) (d pid)"
    if "h_dispatcher (pool_handler openfn build describe validator inside dir) = Some d" for d pid
    using that adapter_keeps by (simp add: pool_handler_def)
  show "outcome_free db_inv" by simp
  show "outcome_free (\<lambda>_. True)" by (simp add: outcome_free_def)
qed (auto simp: pool_handler_def preserve_rules intro!: preserve_rules preserves_update)

end
