(* ===== verification/Isolation.thy ===== *)
theory Isolation
  imports Routes
begin

text \<open>
  Tenants are isolated: whatever a subject requests, the rows of the other subjects are the same
  before and after. The view of the others is the part of the tables that belongs to portfolios
  with another \<open>owner_sub\<close>; the locale \<open>tenant\<close> of the handlers is interpreted with the invariant
  that this view does not change.
\<close>

definition foreign_ids :: "string \<Rightarrow> world \<Rightarrow> uuid set" where
  "foreign_ids sub w = p_ID ` {p \<in> set (w_portfolios w). p_OwnerSub p \<noteq> sub}"

definition foreign :: "string \<Rightarrow> world \<Rightarrow> Portfolio list \<times> Run list \<times> Alert list" where
  "foreign sub w = (filter (\<lambda>p. p_OwnerSub p \<noteq> sub) (w_portfolios w),
     filter (\<lambda>r. r_PortfolioID r \<in> foreign_ids sub w) (w_runs w),
     filter (\<lambda>a. a_PortfolioID a \<in> foreign_ids sub w) (w_alerts w))"

definition others_same :: "string \<Rightarrow> (Portfolio list \<times> Run list \<times> Alert list) \<Rightarrow> world \<Rightarrow> bool" where
  "others_same sub X w \<longleftrightarrow> db_inv w \<and> foreign sub w = X"

definition own_id :: "string \<Rightarrow> uuid \<Rightarrow> world \<Rightarrow> bool" where
  "own_id sub pid w \<longleftrightarrow> pid \<notin> foreign_ids sub w"

lemma isolation_frames [simp]:
  "foreign_ids sub (w\<lparr>w_resp := r\<rparr>) = foreign_ids sub w" "foreign_ids sub (w\<lparr>w_hub := hb\<rparr>) = foreign_ids sub w"
  "foreign_ids sub (w\<lparr>w_files := f\<rparr>) = foreign_ids sub w" "foreign_ids sub (w\<lparr>w_outcomes := xs\<rparr>) = foreign_ids sub w"
  "foreign_ids sub (w\<lparr>w_tasks := ts\<rparr>) = foreign_ids sub w" "foreign_ids sub (w\<lparr>w_panic := b\<rparr>) = foreign_ids sub w"
  "foreign_ids sub (w\<lparr>w_next := n\<rparr>) = foreign_ids sub w" "foreign_ids sub (w\<lparr>w_runs := rs\<rparr>) = foreign_ids sub w"
  by (simp_all add: foreign_ids_def)

lemma foreign_frames [simp]:
  "foreign sub (w\<lparr>w_resp := r\<rparr>) = foreign sub w" "foreign sub (w\<lparr>w_hub := hb\<rparr>) = foreign sub w"
  "foreign sub (w\<lparr>w_files := f\<rparr>) = foreign sub w" "foreign sub (w\<lparr>w_outcomes := xs\<rparr>) = foreign sub w"
  "foreign sub (w\<lparr>w_tasks := ts\<rparr>) = foreign sub w" "foreign sub (w\<lparr>w_panic := b\<rparr>) = foreign sub w"
  "foreign sub (w\<lparr>w_next := n\<rparr>) = foreign sub w"
  by (simp_all add: foreign_def)

lemma outcome_free_isolation [simp]: "outcome_free (others_same sub X)" "outcome_free (own_id sub pid)"
  by (simp_all add: outcome_free_def others_same_def own_id_def db_inv_def)

lemma outcome_free_conj [simp]: "outcome_free P \<Longrightarrow> outcome_free Q \<Longrightarrow> outcome_free (\<lambda>w. P w \<and> Q w)"
  by (simp add: outcome_free_def)

lemma foreign_ids_filter: "foreign_ids sub w = p_ID ` set (filter (\<lambda>p. p_OwnerSub p \<noteq> sub) (w_portfolios w))"
  by (simp add: foreign_ids_def)

text \<open>A statement that leaves the other portfolios alone, and the runs and alerts of theirs.\<close>

lemma foreignI:
  assumes "filter (\<lambda>p. p_OwnerSub p \<noteq> sub) (w_portfolios w') = filter (\<lambda>p. p_OwnerSub p \<noteq> sub) (w_portfolios w)"
    and "filter (\<lambda>r. r_PortfolioID r \<in> foreign_ids sub w) (w_runs w') = filter (\<lambda>r. r_PortfolioID r \<in> foreign_ids sub w) (w_runs w)"
    and "filter (\<lambda>a. a_PortfolioID a \<in> foreign_ids sub w) (w_alerts w') = filter (\<lambda>a. a_PortfolioID a \<in> foreign_ids sub w) (w_alerts w)"
  shows "foreign sub w' = foreign sub w \<and> foreign_ids sub w' = foreign_ids sub w"
proof -
  have "foreign_ids sub w' = foreign_ids sub w" using assms(1) by (simp add: foreign_ids_filter)
  with assms show ?thesis by (simp add: foreign_def)
qed

lemma foreign_insert: "p_OwnerSub p = sub \<Longrightarrow> foreign sub (snd (insert_stmt p w)) = foreign sub w"
  by (rule foreignI [THEN conjunct1]) (simp_all add: insert_stmt_def)

lemma foreign_update_owned:
  assumes "\<And>n p. p_OwnerSub (u n p) = p_OwnerSub p"
  shows "foreign sub (snd (update_owned sub slug u w)) = foreign sub w"
proof (rule foreignI [THEN conjunct1])
  have "filter (\<lambda>p. p_OwnerSub p \<noteq> sub) (update_where (owned sub slug) (u n) ps) = filter (\<lambda>p. p_OwnerSub p \<noteq> sub) ps" for ps n
    by (induction ps) (auto simp: update_where_def owned_def assms)
  then show "filter (\<lambda>p. p_OwnerSub p \<noteq> sub) (w_portfolios (snd (update_owned sub slug u w))) =
      filter (\<lambda>p. p_OwnerSub p \<noteq> sub) (w_portfolios w)" by (simp add: update_owned_def Let_def)
qed (simp_all add: update_owned_def Let_def)

lemma owned_not_foreign:
  assumes "db_inv w" and "p \<in> set (w_portfolios w)" and "p_OwnerSub p = sub"
  shows "p_ID p \<notin> foreign_ids sub w"
proof
  assume "p_ID p \<in> foreign_ids sub w"
  then obtain q where "q \<in> set (w_portfolios w)" "p_OwnerSub q \<noteq> sub" "p_ID q = p_ID p" by (auto simp: foreign_ids_def)
  with assms show False by (metis db_inv_def distinct_map inj_onD)
qed

lemma foreign_delete:
  assumes "db_inv w"
  shows "foreign sub (snd (delete_stmt sub slug w)) = foreign sub w"
proof (rule foreignI [THEN conjunct1])
  have own: "p_ID p \<notin> foreign_ids sub w" if "p \<in> set (w_portfolios w)" "owned sub slug p" for p
    using that owned_not_foreign [OF assms] by (simp add: owned_def)
  show "filter (\<lambda>p. p_OwnerSub p \<noteq> sub) (w_portfolios (snd (delete_stmt sub slug w))) = filter (\<lambda>p. p_OwnerSub p \<noteq> sub) (w_portfolios w)"
    by (auto simp: delete_stmt_def Let_def delete_where_def owned_def intro!: filter_cong)
  show "filter (\<lambda>r. r_PortfolioID r \<in> foreign_ids sub w) (w_runs (snd (delete_stmt sub slug w))) =
      filter (\<lambda>r. r_PortfolioID r \<in> foreign_ids sub w) (w_runs w)"
    using own by (auto simp: delete_stmt_def Let_def delete_where_def intro!: filter_cong)
  show "filter (\<lambda>a. a_PortfolioID a \<in> foreign_ids sub w) (w_alerts (snd (delete_stmt sub slug w))) =
      filter (\<lambda>a. a_PortfolioID a \<in> foreign_ids sub w) (w_alerts w)"
    using own by (auto simp: delete_stmt_def Let_def delete_where_def intro!: filter_cong)
qed

lemma foreign_create_run:
  assumes "own_id sub pid w"
  shows "foreign sub (snd (create_run_stmt pid st trig w)) = foreign sub w \<and> foreign_ids sub (snd (create_run_stmt pid st trig w)) = foreign_ids sub w"
  using assms by (intro foreignI) (auto simp: create_run_stmt_def Let_def own_id_def)

lemma foreign_update_run:
  assumes "\<And>n r. r_PortfolioID (u n r) = r_PortfolioID r"
    and "\<And>r. r \<in> set (w_runs w) \<Longrightarrow> r_ID r = rid \<Longrightarrow> r_PortfolioID r \<notin> foreign_ids sub w"
  shows "foreign sub (snd (update_run_stmt rid u w)) = foreign sub w \<and> foreign_ids sub (snd (update_run_stmt rid u w)) = foreign_ids sub w"
proof (rule foreignI)
  have "filter (\<lambda>r. r_PortfolioID r \<in> F) (update_where (\<lambda>r. r_ID r = rid) (u n) rs) = filter (\<lambda>r. r_PortfolioID r \<in> F) rs"
    if "\<And>r. r \<in> set rs \<Longrightarrow> r_ID r = rid \<Longrightarrow> r_PortfolioID r \<notin> F" for rs F n
    using that by (induction rs) (auto simp: update_where_def assms(1))
  then show "filter (\<lambda>r. r_PortfolioID r \<in> foreign_ids sub w) (w_runs (snd (update_run_stmt rid u w))) =
      filter (\<lambda>r. r_PortfolioID r \<in> foreign_ids sub w) (w_runs w)"
    using assms(2) by (simp add: update_run_stmt_def commit_runs_def)
qed (simp_all add: update_run_stmt_def commit_runs_def)

subsection \<open>Submitting a run\<close>

text \<open>A database call between a pre- and a postcondition that do not look at the outcomes.\<close>

lemma valid_dbop:
  assumes "outcome_free P" and "\<And>w. P w \<Longrightarrow> Q (fst (f w)) (snd (f w))" and "\<And>w. P w \<Longrightarrow> Q (Inl db_error) (snd (f w))"
    and "\<And>w. P w \<Longrightarrow> Q (Inl db_error) w"
  shows "valid P (dbop f) Q"
  unfolding valid_def
proof (intro allI impI)
  fix w assume "P w"
  obtain x w1 where x: "next_outcome w = (x, w1)" by fastforce
  with \<open>P w\<close> assms(1) have "P w1" by (metis next_outcome_free snd_conv)
  with x assms(2-) show "Q (fst (run_state (dbop f) w)) (snd (run_state (dbop f) w))"
    by (cases x) (simp_all add: run_dbop)
qed

definition run_of_mine :: "string \<Rightarrow> uuid \<Rightarrow> world \<Rightarrow> bool" where
  "run_of_mine sub rid w \<longleftrightarrow> (\<forall>r \<in> set (w_runs w). r_ID r = rid \<longrightarrow> r_PortfolioID r \<notin> foreign_ids sub w)"

abbreviation K :: "string \<Rightarrow> (Portfolio list \<times> Run list \<times> Alert list) \<Rightarrow> uuid \<Rightarrow> world \<Rightarrow> bool" where
  "K sub X pid w \<equiv> others_same sub X w \<and> own_id sub pid w"

lemma outcome_free_run [simp]: "outcome_free (run_of_mine sub rid)"
  by (simp add: outcome_free_def run_of_mine_def)

lemma CreateRun_isolated:
  "valid (K sub X pid) (CreateRun pid st trig) (\<lambda>r w. K sub X pid w \<and> (\<forall>run. r = Inr run \<longrightarrow> run_of_mine sub (r_ID run) w))"
proof -
  have step: "K sub X pid (snd (create_run_stmt pid st trig w))" if "K sub X pid w" for w
    using that foreign_create_run [of sub pid w st trig] db_inv_create_run_stmt [of w pid st trig]
    by (simp add: others_same_def own_id_def)
  have mine: "run_of_mine sub (r_ID run) (snd (create_run_stmt pid st trig w))"
    if "K sub X pid w" and run: "fst (create_run_stmt pid st trig w) = Inr run" for w run
    using that by (auto simp: create_run_stmt_def Let_def run_of_mine_def others_same_def own_id_def db_inv_def split: if_splits)
  have "valid (K sub X pid) (dbop (create_run_stmt pid st trig))
      (\<lambda>r w. K sub X pid w \<and> (\<forall>run. r = Inr run \<longrightarrow> run_of_mine sub (r_ID run) w))"
    by (rule valid_dbop) (use step mine in \<open>auto\<close>)
  then show ?thesis unfolding CreateRun_def
    by (rule valid_bind) (auto simp: valid_def split: sum.splits)
qed

lemma UpdateRunFailed_isolated:
  "preserves (\<lambda>w. K sub X pid w \<and> run_of_mine sub rid w) (UpdateRunFailed rid msg ms)"
  unfolding UpdateRunFailed_def
proof (rule preserves_dbop)
  show "outcome_free (\<lambda>w. K sub X pid w \<and> run_of_mine sub rid w)"
    by simp
  fix w assume w: "K sub X pid w \<and> run_of_mine sub rid w"
  have keys: "r_PortfolioID (run_failed msg ms n r) = r_PortfolioID r" "r_ID (run_failed msg ms n r) = r_ID r" for n r
    by (simp_all add: run_failed_def)
  have "foreign sub (snd (update_run_stmt rid (run_failed msg ms) w)) = foreign sub w
      \<and> foreign_ids sub (snd (update_run_stmt rid (run_failed msg ms) w)) = foreign_ids sub w"
    using w keys by (intro foreign_update_run) (auto simp: run_of_mine_def)
  moreover have "db_inv (snd (update_run_stmt rid (run_failed msg ms) w))"
    using w keys by (intro db_inv_update_run_stmt) (auto simp: others_same_def)
  moreover have "\<forall>r \<in> set (w_runs (snd (update_run_stmt rid (run_failed msg ms) w))). r_ID r = rid \<longrightarrow> r_PortfolioID r \<notin> foreign_ids sub w"
    using w keys by (auto simp: update_run_stmt_def commit_runs_def run_of_mine_def elim!: in_update_whereE split: if_splits)
  ultimately show "K sub X pid (snd (update_run_stmt rid (run_failed msg ms) w))
      \<and> run_of_mine sub rid (snd (update_run_stmt rid (run_failed msg ms) w))"
    using w by (simp add: others_same_def own_id_def run_of_mine_def)
qed


lemma send_task_isolated: "preserves (\<lambda>w. K sub X pid w \<and> run_of_mine sub rid w) (send_task t)"
  by (auto simp: preserves_def send_task_def others_same_def own_id_def run_of_mine_def db_inv_def)

lemma Submit_isolated: "preserves (K sub X pid) (dispatcherAdapter_Submit pool_run_store pid)"
proof -
  have "valid (\<lambda>w. K sub X pid w \<and> (\<forall>run. r = Inr run \<longrightarrow> run_of_mine sub (r_ID run) w))
      (case r of Inl e \<Rightarrow> State_Monad.return (Inl e)
       | Inr run \<Rightarrow> do {
          sent \<leftarrow> send_task \<lparr>t_portfolioID = pid, t_runID = r_ID run, t_scheduled = s\<rparr>;
          if sent then State_Monad.return (Inr (r_ID run))
          else do { _ \<leftarrow> UpdateRunFailed (r_ID run) ''dispatcher queue full'' 0; State_Monad.return (Inl queue_full) } })
      (\<lambda>_. K sub X pid)" for r s
  proof (cases r)
    case (Inl e)
    then show ?thesis by (simp add: valid_def)
  next
    case (Inr run)
    have "preserves (\<lambda>w. K sub X pid w \<and> run_of_mine sub (r_ID run) w) (do {
        sent \<leftarrow> send_task \<lparr>t_portfolioID = pid, t_runID = r_ID run, t_scheduled = s\<rparr>;
        if sent then State_Monad.return (Inr (r_ID run))
        else do { _ \<leftarrow> UpdateRunFailed (r_ID run) ''dispatcher queue full'' 0; State_Monad.return (Inl queue_full) } })"
      by (intro preserves_bind preserves_if preserves_return send_task_isolated UpdateRunFailed_isolated)
    then show ?thesis by (simp add: Inr valid_def preserves_def)
  qed
  note step = valid_bind [OF CreateRun_isolated this]
  have "valid (K sub X pid) (Submit pool_run_store pid trig) (\<lambda>_. K sub X pid)" for trig
    unfolding Submit_def pool_run_store_def RunStore.simps by (rule step)
  then have "preserves (K sub X pid) (Submit pool_run_store pid trig)" for trig
    by (simp add: valid_def preserves_def)
  then show ?thesis unfolding dispatcherAdapter_Submit_def by (intro preserves_bind preserves_return)
qed

section \<open>Every request respects the other tenants\<close>

lemma ApplyUpgrade_isolated: "preserves (K sub X pid) (ApplyUpgrade pid ver raw ps preset)"
  unfolding ApplyUpgrade_def
proof (rule preserves_dbop)
  fix w assume w: "K sub X pid w"
  let ?w = "snd (upgrade_stmt pid ver raw ps preset w)"
  have "filter (\<lambda>p. p_OwnerSub p \<noteq> sub) (update_where (\<lambda>p. p_ID p = pid) (apply_upgrade ver raw ps preset n) qs) = filter (\<lambda>p. p_OwnerSub p \<noteq> sub) qs"
    if "\<forall>q \<in> set qs. p_ID q = pid \<longrightarrow> p_OwnerSub q = sub" for qs n
    using that by (induction qs) (simp_all add: update_where_def apply_upgrade_def)
  then have "foreign sub ?w = foreign sub w \<and> foreign_ids sub ?w = foreign_ids sub w"
    using w by (intro foreignI) (auto simp: upgrade_stmt_def update_portfolio_def own_id_def foreign_ids_def)
  with w db_inv_upgrade_stmt show "K sub X pid ?w" by (auto simp: others_same_def own_id_def)
qed simp

lemma owner_updates_isolated:
  "preserves (others_same sub X) (UpdateName sub slug n)" "preserves (others_same sub X) (UpdateDates sub slug a b)"
  "preserves (others_same sub X) (UpdateRunRetention sub slug v)" "preserves (others_same sub X) (Delete sub slug)"
  "p_OwnerSub p = sub \<Longrightarrow> preserves (others_same sub X) (Insert p)"
  unfolding UpdateName_def UpdateDates_def UpdateRunRetention_def Delete_def Insert_def
  by (intro preserves_bind preserves_return preserves_dbop outcome_free_isolation;
      simp add: others_same_def foreign_update_owned db_inv_update_owned foreign_delete db_inv_delete_stmt foreign_insert db_inv_insert_stmt)+

lemma Get_isolated:
  "valid (others_same sub X) (Get sub slug) (\<lambda>r w. others_same sub X w \<and> (\<forall>p. r = Inr p \<longrightarrow> own_id sub (p_ID p) w))"
  unfolding Get_def dbread_def
  by (rule valid_dbop)
    (auto simp: own_id_def others_same_def owned_def split: option.splits dest!: find_Some_in intro: owned_not_foreign [THEN notE])

interpretation isolated: tenant "pool_handler openfn build describe validator inside dir" sub "others_same sub X" "own_id sub"
proof
  show "others_same sub X w \<Longrightarrow> own_id sub 0 w" for w
    by (auto simp: others_same_def own_id_def foreign_ids_def db_inv_def)
  show "valid (others_same sub X) (Get sub slug) (\<lambda>r w. others_same sub X w \<and> (\<forall>p. r = Inr p \<longrightarrow> own_id sub (p_ID p) w))" for slug
    by (rule Get_isolated)
  show "preserves (K sub X pid) (d pid)"
    if "h_dispatcher (pool_handler openfn build describe validator inside dir) = Some d" for d pid
    using that Submit_isolated by (simp add: pool_handler_def)
  show "preserves (K sub X pid) (ApplyUpgrade pid ver raw ps preset)" for pid ver raw ps preset by (rule ApplyUpgrade_isolated)
qed (auto simp: pool_handler_def others_same_def own_id_def
    intro!: owner_updates_isolated preserve_rules preserves_update)

text \<open>
  Tenants are isolated. Whatever a subject sends to any of the portfolio endpoints, whatever
  the database, the builder and the snapshot files answer, the portfolios of the other subjects and
  their runs and alerts are the same before and after the request, and the tables' invariant is
  kept.
\<close>

lemma serve_isolated:
  assumes "db_inv w" and "subject c = Inr sub"
    and "run_state (serve lb (pool_handler openfn build describe validator inside dir) r c) w = (res, w')"
  shows "foreign sub w' = foreign sub w \<and> db_inv w'"
  using isolated.serve_keeps [of c sub "foreign sub w" lb openfn build describe validator inside dir r] assms
  by (auto simp: preserves_def others_same_def)


definition demo_lib :: lib where
  "demo_lib = \<lparr>lib_Marshal = (\<lambda>_. True), lib_Create = (\<lambda>_. Inl (Error [] ''eof'')), lib_Keys = (\<lambda>_. Inr [''name'', ''endDate'']),
     lib_Patch = (\<lambda>_. Inr \<lparr>pb_Name = ''New'', pb_StartDate = [], pb_EndDate = ''2020-01-01'', pb_RunRetention = None\<rparr>),
     lib_Upgrade = (\<lambda>_. Inr None), lib_uuid_Parse = (\<lambda>_. None), lib_uuid_String = (\<lambda>_. ''u''),
     lib_Quote = (\<lambda>s. s), lib_iter = (\<lambda>ks. ks), lib_unicode = ascii\<rparr>"

definition demo_request :: "string \<Rightarrow> string \<Rightarrow> request" where
  "demo_request sub slug = \<lparr>c_Subject = Some sub, c_Params = (\<lambda>k. if k = ''slug'' then slug else []), c_Query = (\<lambda>_. []), c_Body = []\<rparr>"

definition demo_handler :: handler where
  "demo_handler = pool_handler (\<lambda>_. Inl (Error [] ''x'')) (\<lambda>_. Inl (Error [] ''x'')) (\<lambda>_. Inl (Error [] ''x'')) (\<lambda>_. Inr ())
     (\<lambda>_ _. False) ''/snap''"

end
