(* ===== verification/Handler_Behaviour.thy ===== *)
theory Handler_Behaviour
  imports Isolation
begin

text \<open>
  What the handlers do on a working database: creating a portfolio queues its first run or leaves
  nothing behind, reading derived data falls back to a recompute, and the places where a problem
  that was already written does not end the handler.
\<close>

section \<open>Creating a portfolio\<close>

definition stored_row :: "Portfolio \<Rightarrow> world \<Rightarrow> Portfolio" where
  "stored_row p w = p\<lparr>p_ID := w_next w, p_LastRunAt := None, p_LastError := None, p_SnapshotPath := None,
     p_CurrentValue := None, p_YtdReturn := None, p_MaxDrawdown := None, p_Sharpe := None,
     p_CagrSinceInception := None, p_InceptionDate := None, p_CreatedAt := w_now w, p_UpdatedAt := w_now w\<rparr>"

lemma stored_row_simps [simp]:
  "p_ID (stored_row p w) = w_next w" "owned sub slug (stored_row p w) = owned sub slug p" "p_Slug (stored_row p w) = p_Slug p"
  by (simp_all add: stored_row_def owned_def)

definition slug_free :: "string \<Rightarrow> string \<Rightarrow> world \<Rightarrow> bool" where
  "slug_free sub slug w \<longleftrightarrow> list_all (\<lambda>p. \<not> owned sub slug p) (w_portfolios w)"

lemma run_Insert_new:
  assumes "w_outcomes w = []" and "json_document (p_StrategyDescribeJSON p)" and "1 \<le> p_RunRetention p"
    and "slug_free (p_OwnerSub p) (p_Slug p) w"
  shows "run_state (Insert p) w = (Inr (), w\<lparr>w_portfolios := w_portfolios w @ [stored_row p w], w_next := Suc (w_next w)\<rparr>)"
proof -
  have "affected (owned (p_OwnerSub p) (p_Slug p)) (w_portfolios w) = 0"
    using assms(4) by (simp add: affected_eq_0 slug_free_def list_all_iff)
  with assms show ?thesis by (simp add: Insert_def insert_stmt_def stored_row_def)
qed

lemma find_snoc_new: "list_all (\<lambda>p. \<not> c p) ps \<Longrightarrow> c q \<Longrightarrow> List.find c (ps @ [q]) = Some q"
  by (induction ps) auto

text \<open>The table after the insert: the new portfolio is found and has no run.\<close>

definition with_row :: "Portfolio \<Rightarrow> world \<Rightarrow> world" where
  "with_row p w = w\<lparr>w_portfolios := w_portfolios w @ [stored_row p w], w_next := Suc (w_next w)\<rparr>"

lemma with_row_simps [simp]:
  "w_outcomes (with_row p w) = w_outcomes w" "w_closed (with_row p w) = w_closed w" "w_runs (with_row p w) = w_runs w"
  "w_tasks (with_row p w) = w_tasks w" "w_cap (with_row p w) = w_cap w" "w_next (with_row p w) = Suc (w_next w)"
  "w_portfolios (with_row p w) = w_portfolios w @ [stored_row p w]" "w_now (with_row p w) = w_now w"
  by (simp_all add: with_row_def)

lemma fresh_id:
  assumes "db_inv w"
  shows "r \<in> set (w_runs w) \<Longrightarrow> r_PortfolioID r \<noteq> w_next w" "a \<in> set (w_alerts w) \<Longrightarrow> a_PortfolioID a \<noteq> w_next w"
    "filter in_flight (runs_of (w_next w) (w_runs w)) = []"
  using assms by (fastforce simp: db_inv_def runs_of_def filter_empty_conv)+

lemma db_inv_with_row:
  assumes "db_inv w" and "w_outcomes w = []" and "json_document (p_StrategyDescribeJSON p)" and "1 \<le> p_RunRetention p"
    and "slug_free (p_OwnerSub p) (p_Slug p) w"
  shows "db_inv (with_row p w)"
  using preservesD [OF store_writes_preserve(1) [of p] assms(1)] run_Insert_new [OF assms(2-)] by (simp add: with_row_def)

lemma run_Submit_new:
  assumes "db_inv w" and "db_inv (with_row p w)" and "w_outcomes w = []" and "\<not> w_closed w"
  shows "run_state (dispatcherAdapter_Submit pool_run_store (w_next w)) (with_row p w) =
    (if length (w_tasks w) < w_cap w
     then (Inr (Suc (w_next w)), (with_row p w)\<lparr>w_runs := w_runs w @ [new_run (w_next w) TriggerManual (with_row p w)],
            w_next := Suc (Suc (w_next w)), w_tasks := w_tasks w @ [new_task (w_next w) TriggerManual (with_row p w)]\<rparr>)
     else (Inl queue_full_portfolio, (with_row p w)\<lparr>w_runs := w_runs w @
            [run_failed ''dispatcher queue full'' 0 (w_now w) (new_run (w_next w) TriggerManual (with_row p w))],
            w_next := Suc (Suc (w_next w))\<rparr>))"
  using run_Submit [OF assms(2), of "w_next w" TriggerManual] assms(3,4) fresh_id(3) [OF assms(1)]
  by (simp add: dispatcherAdapter_Submit_def queue_full_def)

lemma run_rollback:
  assumes "db_inv w" and "w_outcomes w = []" and "slug_free (p_OwnerSub p) (p_Slug p) w" and "r_PortfolioID r = w_next w"
  shows "run_state (Delete (p_OwnerSub p) (p_Slug p)) ((with_row p w)\<lparr>w_runs := w_runs w @ [r], w_next := n\<rparr>) = (Inr (), w\<lparr>w_next := n\<rparr>)"
proof -
  let ?c = "owned (p_OwnerSub p) (p_Slug p)"
  have c: "?c p" by (simp add: owned_def)
  have none: "filter ?c (w_portfolios w) = []" "delete_where ?c (w_portfolios w) = w_portfolios w"
    using assms(3) by (auto simp: slug_free_def list_all_iff filter_empty_conv delete_where_def intro: filter_True)
  have "delete_where (\<lambda>r. r_PortfolioID r = w_next w) (w_runs w) = w_runs w"
    "delete_where (\<lambda>a. a_PortfolioID a = w_next w) (w_alerts w) = w_alerts w"
    using fresh_id(1,2) [OF assms(1)] by (auto simp: delete_where_def intro!: filter_True)
  moreover have empty: "{x \<in> set (w_portfolios w). ?c x} = {}" using none(1) by (auto simp: filter_empty_conv)
  ultimately show ?thesis using none c assms(2,4)
    by (simp add: empty Let_def Delete_def delete_stmt_def affected_or_not_found_def affected_def delete_where_def with_row_def)
qed

text \<open>The normalised request of a valid create, as the portfolio it becomes.\<close>

lemma created_ok:
  assumes "ValidateCreate req s = Inr nreq"
  shows "\<exists>d. unmarshalDescribe (s_DescribeJSON s) = Inr d \<and> json_document (s_DescribeJSON s)
    \<and> 1 \<le> p_RunRetention (buildPortfolio lb sub nreq d url raw)"
proof -
  from assms obtain d where d: "unmarshalDescribe (s_DescribeJSON s) = Inr d" and ret: "retention_ok (cr_RunRetention nreq)"
    by (auto simp: ValidateCreate_iff)
  from d have "json_document (s_DescribeJSON s)" by (auto simp: unmarshalDescribe_def json_document_def split: rawjson.splits)
  with d ret show ?thesis by (auto simp: buildPortfolio_def retention_ok_def split: option.splits)
qed


lemma run_dispatch_created:
  assumes "db_inv w" and "db_inv (with_row p w)" and "w_outcomes w = []" and "\<not> w_closed w"
    and "slug_free (p_OwnerSub p) (p_Slug p) w" and "\<And>b. lib_Marshal lb b" and "h_dispatcher h = Some (dispatcherAdapter_Submit pool_run_store)"
  shows "run_state (dispatch_created lb h (p_OwnerSub p) (stored_row p w)) (with_row p w) =
    (Inr (), if length (w_tasks w) < w_cap w
     then (with_row p w)\<lparr>w_runs := w_runs w @ [new_run (w_next w) TriggerManual (with_row p w)],
            w_next := Suc (Suc (w_next w)), w_tasks := w_tasks w @ [new_task (w_next w) TriggerManual (with_row p w)],
            w_resp := Some \<lparr>rs_status = 201, rs_body = ViewBody ((toView (stored_row p w))\<lparr>v_RunID := Some (Suc (w_next w))\<rparr>)\<rparr>\<rparr>
     else w\<lparr>w_next := Suc (Suc (w_next w)), w_resp := Some \<lparr>rs_status = 503,
            rs_body = ProblemBody ''Service Unavailable'' 503 ''backtest queue is full, try again later''\<rparr>\<rparr>)"
proof -
  have pid: "r_PortfolioID (run_failed m d t (new_run (w_next w) TriggerManual v)) = w_next w" for m d t v
    by (simp add: run_failed_def new_run_def)
  show ?thesis using assms(6,7)
    by (simp add: dispatch_created_def autoTriggerOrProblem_def run_Submit_new [OF assms(1-4)] queue_full_portfolio_def
        run_rollback [OF assms(1,3,5) pid] writeProblem_def writeJSON_def send_def)
qed

lemma run_insertAndDispatch:
  fixes lb h sub nreq d url raw
  defines "p \<equiv> buildPortfolio lb sub nreq d url raw"
  assumes "db_inv w" and "w_outcomes w = []" and "json_document raw" and "1 \<le> p_RunRetention p" and "slug_free sub (p_Slug p) w"
  shows "run_state (insertAndDispatch lb h sub nreq d url raw) w =
    run_state (dispatch_created lb h sub (stored_row p w)) (with_row p w) \<and> db_inv (with_row p w)"
proof -
  have p: "p_OwnerSub p = sub" "p_StrategyDescribeJSON p = raw" by (simp_all add: p_def buildPortfolio_def)
  note ins = assms(3) assms(4) [folded p(2)] assms(5) assms(6) [folded p(1)]
  have "List.find (owned sub (p_Slug p)) (w_portfolios (with_row p w)) = Some (stored_row p w)"
    using ins(4) p find_snoc_new [of "owned sub (p_Slug p)" "w_portfolios w" "stored_row p w"]
    by (simp add: slug_free_def) (simp add: owned_def)
  then have "run_state (Get sub (p_Slug p)) (with_row p w) = (Inr (stored_row p w), with_row p w)"
    using assms(3) by (simp add: Get_def)
  then show ?thesis using run_Insert_new [OF ins, folded with_row_def] db_inv_with_row [OF assms(2) ins]
    by (simp add: insertAndDispatch_def Let_def p_def [symmetric])
qed



definition demo_create :: CreateRequest where
  "demo_create = \<lparr>cr_Name = ''Mine'', cr_StrategyCode = ''adm'', cr_StrategyVer = [], cr_StrategyCloneURL = [], cr_Parameters = [],
     cr_Benchmark = [], cr_StartDate = None, cr_EndDate = None, cr_RunRetention = None\<rparr>"

definition demo_shop :: "nat \<Rightarrow> world" where
  "demo_shop n = demo_registry\<lparr>w_cap := n\<rparr>"

lemma demo_shop_ok: "db_inv (demo_shop n)" "w_outcomes (demo_shop n) = []" "\<not> w_closed (demo_shop n)"
  "w_tasks (demo_shop n) = []" "w_cap (demo_shop n) = n" "w_portfolios (demo_shop n) = []" "w_strategies (demo_shop n) = [demo_strategy]"
  by (simp_all add: demo_shop_def demo_registry_def empty_world_def db_inv_def one_inflight_def)

lemma demo_validate:
  "ValidateCreate demo_create demo_strategy = Inr (demo_create\<lparr>cr_StrategyVer := ''v1.0.0'', cr_Benchmark := []\<rparr>)"
  "unmarshalDescribe (s_DescribeJSON demo_strategy) = Inr zero_describe"
proof -
  show d: "unmarshalDescribe (s_DescribeJSON demo_strategy) = Inr zero_describe"
    by (simp add: unmarshalDescribe_def demo_strategy_def decode_struct_def)
  show "ValidateCreate demo_create demo_strategy = Inr (demo_create\<lparr>cr_StrategyVer := ''v1.0.0'', cr_Benchmark := []\<rparr>)"
    unfolding ValidateCreate_iff using d
    by (auto simp: demo_create_def demo_strategy_def declared_def zero_describe_def retention_ok_def dates_ordered_def)
qed


section \<open>Updating a portfolio\<close>

lemma find_update_where:
  assumes "\<And>r. c (u r) = c r"
  shows "List.find c (update_where c u rs) = map_option u (List.find c rs)"
  using assms by (induction rs) (auto simp: update_where_def)

lemma missing_updates:
  assumes "w_outcomes w = []" and "slug_free sub slug w" and "db_inv w"
  shows "run_state (UpdateName sub slug n) w = (Inl not_found, w)" "run_state (UpdateDates sub slug a b) w = (Inl not_found, w)"
    "run_state (UpdateRunRetention sub slug v) w = (Inl not_found, w)" "run_state (Get sub slug) w = (Inl not_found, w)"
proof -
  have none: "affected (owned sub slug) (w_portfolios w) = 0" "List.find (owned sub slug) (w_portfolios w) = None"
    using assms(2) by (auto simp: slug_free_def list_all_iff affected_eq_0 find_None_iff)
  have same: "update_owned sub slug u w = (Inr 0, w)" for u
    using assms(3) none(1) update_where_none [OF none(1)] by (simp add: update_owned_def Let_def list_all_iff db_inv_def)
  show "run_state (UpdateName sub slug n) w = (Inl not_found, w)" "run_state (UpdateDates sub slug a b) w = (Inl not_found, w)"
    "run_state (UpdateRunRetention sub slug v) w = (Inl not_found, w)" "run_state (Get sub slug) w = (Inl not_found, w)"
    using assms(1) none(2) same by (simp_all add: UpdateName_def UpdateDates_def UpdateRunRetention_def affected_or_not_found_def Get_def)
qed

lemma missing_frame: "slug_free sub slug (w\<lparr>w_resp := r\<rparr>) = slug_free sub slug w"
  by (simp add: slug_free_def)

text \<open>
  A PATCH of a portfolio that does not exist is answered with 500, never with 404: the 404
  that \<open>applyStoreUpdate\<close> writes returns a nil error, so the handler goes on and the final lookup
  overwrites it. The tables do not change.
\<close>

lemma Patch_missing_is_500:
  assumes "db_inv w" and "w_outcomes w = []" and "subject c = Inr sub" and "parsePatchBody lb (c_Body c) = Inr (body, a, b)"
    and "slug_free sub (c_Params c ''slug'') w"
  shows "run_state (Patch lb c) w = (Inr (), w\<lparr>w_resp := Some \<lparr>rs_status = 500,
     rs_body = ProblemBody ''Internal Server Error'' 500 ''portfolio not found''\<rparr>\<rparr>)"
proof -
  let ?sl = "c_Params c ''slug''"
  have upd: "\<exists>r. run_state (applyStoreUpdate ?sl fn) v = (Inr (), v\<lparr>w_resp := r\<rparr>)" if "run_state fn v = (Inl not_found, v)" for fn v
    using that by (auto simp: applyStoreUpdate_def portfolio_404_def writeProblem_def send_def not_found_def)
  have skip: "\<exists>r. run_state (State_Monad.return (Inr ())) v = (Inr (), v\<lparr>w_resp := r\<rparr>)" for v :: world
    by (intro exI [of _ "w_resp v"]) simp
  have frame: "db_inv (w\<lparr>w_resp := r\<rparr>)" "w_outcomes (w\<lparr>w_resp := r\<rparr>) = []" "slug_free sub ?sl (w\<lparr>w_resp := r\<rparr>)" for r
    using assms(1,2,5) by (simp_all add: missing_frame)
  note miss = missing_updates [OF frame(2,3,1)]
  have steps: "\<exists>r'. run_state (patch_name sub ?sl body) (w\<lparr>w_resp := r\<rparr>) = (Inr (), w\<lparr>w_resp := r'\<rparr>)"
    "\<exists>r'. run_state (patch_dates sub ?sl a b) (w\<lparr>w_resp := r\<rparr>) = (Inr (), w\<lparr>w_resp := r'\<rparr>)"
    "\<exists>r'. run_state (patch_retention sub ?sl body) (w\<lparr>w_resp := r\<rparr>) = (Inr (), w\<lparr>w_resp := r'\<rparr>)" for r
    using upd [OF miss(1)] upd [OF miss(2)] upd [OF miss(3)] skip [of "w\<lparr>w_resp := r\<rparr>"]
    by (fastforce simp: patch_name_def patch_dates_def patch_retention_def split: option.splits)+
  have reply: "run_state (patch_reply lb sub ?sl) (w\<lparr>w_resp := r\<rparr>) = (Inr (), w\<lparr>w_resp := Some \<lparr>rs_status = 500,
     rs_body = ProblemBody ''Internal Server Error'' 500 ''portfolio not found''\<rparr>\<rparr>)" for r
    by (simp add: patch_reply_def miss(4) ise_def writeProblem_def send_def not_found_def)
  obtain r1 where r1: "run_state (patch_name sub ?sl body) w = (Inr (), w\<lparr>w_resp := r1\<rparr>)"
    using steps(1) [of "w_resp w"] by auto
  obtain r2 where r2: "run_state (patch_dates sub ?sl a b) (w\<lparr>w_resp := r1\<rparr>) = (Inr (), w\<lparr>w_resp := r2\<rparr>)" using steps(2) by blast
  obtain r3 where r3: "run_state (patch_retention sub ?sl body) (w\<lparr>w_resp := r2\<rparr>) = (Inr (), w\<lparr>w_resp := r3\<rparr>)" using steps(3) by blast
  show ?thesis using assms(3,4) by (simp add: Patch_def and_then_def Let_def r1 r2 r3 reply)
qed


lemma demo_parse_patch: "parsePatchBody demo_lib [] =
    Inr (\<lparr>pb_Name = ''New'', pb_StartDate = [], pb_EndDate = ''2020-01-01'', pb_RunRetention = None\<rparr>, None, Some (Date 2020 1 1))"
proof -
  have "time_Parse ''2020-01-01'' = Some (Date 2020 1 1)"
    by (simp add: time_Parse_def atoi_def is_digit_def digit_val_def valid_date_def daysIn_def)
  then show ?thesis by (simp add: parsePatchBody_def demo_lib_def patch_fields_def parseDate_def validateDates_def validateRunRetention_def)
qed

text \<open>
  A PATCH checks the two dates of its own body against each other, not against the stored
  row: a body with only an end date stores it although it lies before the portfolio's start date,
  and the answer is 200.
\<close>

lemma Patch_can_store_end_before_start:
  assumes "db_inv w" and "w_outcomes w = []" and "subject c = Inr sub" and "lib_Marshal lb = (\<lambda>_. True)"
    and "parsePatchBody lb (c_Body c) = Inr (body, None, Some e)" and "pb_Name body = []" and "pb_RunRetention body = None"
    and "List.find (owned sub (c_Params c ''slug'')) (w_portfolios w) = Some p" and "p_StartDate p = Some d" and "e < d"
  shows "\<exists>w' p'. run_state (Patch lb c) w = (Inr (), w') \<and> p' \<in> set (w_portfolios w') \<and> p_ID p' = p_ID p
    \<and> p_StartDate p' = Some d \<and> p_EndDate p' = Some e
    \<and> w_resp w' = Some \<lparr>rs_status = 200, rs_body = ViewBody (toView p')\<rparr>"
proof -
  let ?sl = "c_Params c ''slug''"
  let ?u = "\<lambda>now q. q\<lparr>p_StartDate := coalesce None (p_StartDate q), p_EndDate := coalesce (Some e) (p_EndDate q), p_UpdatedAt := now\<rparr>"
  let ?ps = "update_where (owned sub ?sl) (?u (w_now w)) (w_portfolios w)"
  let ?p = "?u (w_now w) p" and ?w = "w\<lparr>w_portfolios := ?ps\<rparr>"
  have p: "p \<in> set (w_portfolios w)" "owned sub ?sl p" using find_Some_in [OF assms(8)] by auto
  have "\<forall>q \<in> set (w_portfolios w). 1 \<le> p_RunRetention q" using assms(1) by (simp add: db_inv_def)
  then have ret: "list_all (\<lambda>q. 1 \<le> p_RunRetention q) ?ps"
    by (auto simp: list_all_iff elim!: in_update_whereE)
  have "affected (owned sub ?sl) (w_portfolios w) \<noteq> 0" using p by (auto simp: affected_eq_0)
  then have upd: "run_state (UpdateDates sub ?sl None (Some e)) w = (Inr (), ?w)"
    using assms(2) ret by (simp add: UpdateDates_def update_owned_def affected_or_not_found_def Let_def)
  have "List.find (owned sub ?sl) ?ps = Some ?p"
    using assms(8) by (subst find_update_where) (auto simp: owned_def)
  then have get: "run_state (Get sub ?sl) ?w = (Inr ?p, ?w)" using assms(2) by (simp add: Get_def)
  have "run_state (Patch lb c) w = (Inr (), ?w\<lparr>w_resp := Some \<lparr>rs_status = 200, rs_body = ViewBody (toView ?p)\<rparr>\<rparr>)"
    using assms(3-7) upd get
    by (simp add: Patch_def Let_def and_then_def patch_name_def patch_dates_def applyStoreUpdate_def patch_retention_def patch_reply_def
        writeJSON_def send_def)
  moreover have "?p \<in> set ?ps" using p by (auto intro: update_whereI)
  ultimately show ?thesis using assms(9)
    by (intro exI [of _ "?w\<lparr>w_resp := Some \<lparr>rs_status = 200, rs_body = ViewBody (toView ?p)\<rparr>\<rparr>"] exI [of _ "?p"]) (simp add: coalesce_def)
qed


definition demo_dated :: world where
  "demo_dated = demo_world\<lparr>w_portfolios := [demo_portfolio\<lparr>p_StartDate := Some (Date 2021 1 1)\<rparr>]\<rparr>"

definition demo_lib_end :: lib where
  "demo_lib_end = demo_lib\<lparr>lib_Keys := (\<lambda>_. Inr [''endDate'']),
     lib_Patch := (\<lambda>_. Inr \<lparr>pb_Name = [], pb_StartDate = [], pb_EndDate = ''2020-01-01'', pb_RunRetention = None\<rparr>)\<rparr>"

section \<open>Recomputing a snapshot\<close>

lemma pickInflight_None: "pickInflight rs = None \<longleftrightarrow> filter in_flight rs = []"
  by (induction rs) (auto simp: in_flight_def)

lemma pickInflight_list_runs: "pickInflight (list_runs pid rs) = None \<longleftrightarrow> filter in_flight (runs_of pid rs) = []"
  by (auto simp: pickInflight_None list_runs_def runs_of_def filter_empty_conv)

text \<open>
  C25. A read of a portfolio without a usable snapshot, on a working database: a run in flight is
  reported with 202 and nothing changes; after two failed runs in a row a failed portfolio answers
  503 and no run is queued; otherwise one run and its task are queued and reported with 202. When
  the queue is full the 503 written by \<open>submitFreshRun\<close> is overwritten: the client sees 202 with
  the nil run id and an empty status, and the failed run stays in the table.
\<close>

theorem respondRecalculating_spec:
  fixes p w
  defines "rs \<equiv> list_runs (p_ID p) (w_runs w)" and "q \<equiv> new_run (p_ID p) TriggerManual w"
  assumes "db_inv w" and "w_outcomes w = []" and "\<not> w_closed w" and "p_ID p \<in> p_ID ` set (w_portfolios w)" and "lib_Marshal lb = (\<lambda>_. True)"
  shows "run_state (respondRecalculating lb (pool_handler openfn build describe validator inside dir) p slug) w = (Inr (),
    (case pickInflight rs of
       Some (i, st) \<Rightarrow> w\<lparr>w_resp := Some \<lparr>rs_status = 202, rs_body = RecalculatingBody slug i st\<rparr>\<rparr>
     | None \<Rightarrow>
         if p_Status p = StatusFailed \<and> 2 \<le> consecutiveFailedRuns rs
         then w\<lparr>w_resp := Some \<lparr>rs_status = 503, rs_body = ProblemBody ''Snapshot Unavailable'' 503 (unavailable_detail slug p)\<rparr>\<rparr>
         else if length (w_tasks w) < w_cap w
         then w\<lparr>w_runs := w_runs w @ [q], w_next := Suc (w_next w), w_tasks := w_tasks w @ [new_task (p_ID p) TriggerManual w],
                w_resp := Some \<lparr>rs_status = 202, rs_body = RecalculatingBody slug (w_next w) ''queued''\<rparr>\<rparr>
         else w\<lparr>w_runs := w_runs w @ [run_failed ''dispatcher queue full'' 0 (w_now w) q], w_next := Suc (w_next w),
                w_resp := Some \<lparr>rs_status = 202, rs_body = RecalculatingBody slug 0 []\<rparr>\<rparr>))"
proof -
  have list: "run_state (ListRuns (p_ID p)) w = (Inr rs, w)" using assms(4) by (simp add: ListRuns_def rs_def)
  have h: "h_dispatcher (pool_handler openfn build describe validator inside dir) = Some (dispatcherAdapter_Submit pool_run_store)"
    by (simp add: pool_handler_def)
  show ?thesis
  proof (cases "pickInflight rs")
    case None
    then have "filter in_flight (runs_of (p_ID p) (w_runs w)) = []" by (simp add: rs_def pickInflight_list_runs)
    then have sub: "run_state (Submit pool_run_store (p_ID p) TriggerManual) w =
      (if length (w_tasks w) < w_cap w
       then (Inr (w_next w), w\<lparr>w_runs := w_runs w @ [q], w_next := Suc (w_next w), w_tasks := w_tasks w @ [new_task (p_ID p) TriggerManual w]\<rparr>)
       else (Inl queue_full, w\<lparr>w_runs := w_runs w @ [run_failed ''dispatcher queue full'' 0 (w_now w) q], w_next := Suc (w_next w)\<rparr>))"
      using assms(6) by (simp add: run_Submit [OF assms(3-5)] q_def)
    show ?thesis using None assms(7)
      by (simp add: respondRecalculating_def h list submitFreshRun_def dispatcherAdapter_Submit_def sub queue_full_def queue_full_portfolio_def
          problem_result_def writeProblem_def writeRecalculating_def writeJSON_def send_def)
  next
    case (Some x)
    then show ?thesis using assms(7)
      by (cases x) (simp add: respondRecalculating_def h list writeRecalculating_def writeJSON_def send_def)
  qed
qed

theorem respondRecalculating_spec_witness:
  "w_resp (snd (run_state (respondRecalculating demo_lib demo_handler demo_portfolio ''x'') (demo_world\<lparr>w_cap := 0\<rparr>)))
     = Some \<lparr>rs_status = 202, rs_body = RecalculatingBody ''x'' 0 []\<rparr>"
proof -
  let ?w = "demo_world\<lparr>w_cap := 0\<rparr>"
  have "pickInflight (list_runs (p_ID demo_portfolio) (w_runs ?w)) = None"
    using demo_idle by (simp add: pickInflight_list_runs)
  moreover have "p_Status demo_portfolio \<noteq> StatusFailed" by (simp add: demo_portfolio_def)
  moreover have "db_inv ?w" "w_outcomes ?w = []" "\<not> w_closed ?w" "p_ID demo_portfolio \<in> p_ID ` set (w_portfolios ?w)" "lib_Marshal demo_lib = (\<lambda>_. True)"
    using demo_world_inv by (simp_all add: db_inv_def demo_lib_def) (simp add: demo_world_def empty_world_def)
  ultimately show ?thesis unfolding demo_handler_def by (simp add: respondRecalculating_spec)
qed

end
