(* ===== verification/Sync.thy ===== *)
theory Sync
  imports Strategy_Store Paths
begin

text \<open>
  The strategy syncer (\<open>strategy/sync.go\<close>): one \<open>Tick\<close> lists the repositories, skips those whose
  latest version was already attempted, and installs the others. Discovery (GitHub), the remote
  version (git) and the installers (git, go, docker) are arguments. The installs of a tick run in
  goroutines, at most \<open>Concurrency\<close> at a time; the model runs them one after the other, the order
  that \<open>Concurrency = 1\<close> gives. The statistics run and the auto-upgrade that an install starts run
  where they are started.
\<close>

record Listing =
  l_Name :: string
  l_Owner :: string
  l_Description :: string
  l_Categories :: "string list"
  l_CloneURL :: string
  l_Stars :: int
  l_UpdatedAt :: instant

record InstallRequest =
  iq_ShortCode :: string
  iq_CloneURL :: string
  iq_Version :: string
  iq_DestDir :: string

record InstallResult =
  ir_BinPath :: string
  ir_ArtifactRef :: string
  ir_DescribeJSON :: rawjson
  ir_ShortCode :: string

record SyncerOptions =
  so_Discovery :: "Listing list result io"
  so_ResolveVer :: "string \<Rightarrow> string result io"
  so_Installer :: "(InstallRequest \<Rightarrow> InstallResult result io) option"
  so_DockerInstaller :: "(InstallRequest \<Rightarrow> InstallResult result io) option"
  so_RunnerMode :: string
  so_OfficialDir :: string
  so_Concurrency :: int
  so_Interval :: int
  so_Stats :: "(string \<Rightarrow> unit result io) option"
  so_AutoUpgrader :: "(string \<Rightarrow> string \<Rightarrow> unit io) option"

definition expectedArtifactKind :: "string \<Rightarrow> string" where
  "expectedArtifactKind mode = (if mode = ''docker'' then artifactKindImage else artifactKindBinary)"

definition NewSyncer :: "SyncerOptions \<Rightarrow> SyncerOptions" where
  "NewSyncer opts = (if so_Concurrency opts < 1 then opts\<lparr>so_Concurrency := 1\<rparr> else opts)"

definition strPtr :: "string \<Rightarrow> string option" where
  "strPtr s = (if s = [] then None else Some s)"

text \<open>The row built of a listing; the fields it does not set have Go's zero values.\<close>

definition listing_row :: "string \<Rightarrow> Listing \<Rightarrow> Strategy" where
  "listing_row shortCode l = \<lparr>s_ShortCode = shortCode, s_RepoOwner = l_Owner l, s_RepoName = l_Name l, s_CloneURL = l_CloneURL l,
     s_IsOfficial = True, s_OwnerSub = None, s_Description = strPtr (l_Description l), s_Categories = l_Categories l,
     s_Stars = Some (l_Stars l), s_InstalledVer = None, s_InstalledAt = None, s_LastAttemptedVer = None, s_InstallError = None,
     s_ArtifactKind = None, s_ArtifactRef = None, s_DescribeJSON = RawEmpty, s_Stats = None, s_StatsError = None,
     s_DiscoveredAt = 0, s_UpdatedAt = 0\<rparr>"

definition recordFailure :: "Listing \<Rightarrow> string \<Rightarrow> string \<Rightarrow> unit io" where
  "recordFailure l version errText = do {
     _ \<leftarrow> Upsert (listing_row (l_Name l) l);
     _ \<leftarrow> MarkFailure (l_Name l) version errText;
     State_Monad.return ()
   }"

definition post_install :: "SyncerOptions \<Rightarrow> string \<Rightarrow> string \<Rightarrow> unit io" where
  "post_install opts shortCode version = do {
     _ \<leftarrow> (case so_Stats opts of None \<Rightarrow> State_Monad.return (Inr ()) | Some RunOne \<Rightarrow> RunOne shortCode);
     (case so_AutoUpgrader opts of None \<Rightarrow> State_Monad.return () | Some auto_upgrade \<Rightarrow> auto_upgrade shortCode version)
   }"

definition runInstall :: "SyncerOptions \<Rightarrow> Listing \<Rightarrow> string \<Rightarrow> string \<Rightarrow> unit io" where
  "runInstall opts l version dest =
     (let docker = (so_RunnerMode opts = ''docker'');
          installer = (if docker then so_DockerInstaller opts else so_Installer opts);
          kind = (if docker then artifactKindImage else artifactKindBinary) in
      case installer of
        None \<Rightarrow> recordFailure l version (''no installer wired for runner mode '' @ so_RunnerMode opts)
      | Some install \<Rightarrow> do {
          result \<leftarrow> install \<lparr>iq_ShortCode = [], iq_CloneURL = l_CloneURL l, iq_Version = version, iq_DestDir = dest\<rparr>;
          (case result of
             Inl e \<Rightarrow> recordFailure l version (err_text e)
           | Inr res \<Rightarrow> do {
               let shortCode = (if ir_ShortCode res = [] then l_Name l else ir_ShortCode res);
               u \<leftarrow> Upsert (listing_row shortCode l);
               (case u of
                  Inl _ \<Rightarrow> State_Monad.return ()
                | Inr _ \<Rightarrow> do {
                    m \<leftarrow> MarkSuccess shortCode version kind (ir_ArtifactRef res) (ir_DescribeJSON res);
                    (case m of
                       Inl _ \<Rightarrow> State_Monad.return ()
                     | Inr _ \<Rightarrow> post_install opts shortCode version)
                  })
             })
        })"

record job =
  j_listing :: Listing
  j_version :: string
  j_dest :: string

text \<open>The test of \<open>Tick\<close> whether a row is up to date; a row without a kind matches every kind.\<close>

definition up_to_date :: "SyncerOptions \<Rightarrow> string \<Rightarrow> Strategy \<Rightarrow> bool" where
  "up_to_date opts remote existing \<longleftrightarrow> s_LastAttemptedVer existing = Some remote
     \<and> (s_ArtifactKind existing = None \<or> s_ArtifactKind existing = Some (expectedArtifactKind (so_RunnerMode opts)))"

definition consider_listing :: "(Strategy list \<Rightarrow> Strategy list) \<Rightarrow> SyncerOptions \<Rightarrow> Listing \<Rightarrow> job option io" where
  "consider_listing plan opts l = do {
     existing \<leftarrow> GetByCloneURL plan (l_CloneURL l);
     (case existing of
        Inl e \<Rightarrow>
          if \<not> errors_Is e StrategyErrNotFound then State_Monad.return None
          else do {
            r \<leftarrow> so_ResolveVer opts (l_CloneURL l);
            State_Monad.return (case r of Inl _ \<Rightarrow> None
              | Inr remote \<Rightarrow> Some \<lparr>j_listing = l, j_version = remote, j_dest = filepath_Join [so_OfficialDir opts, l_Owner l, l_Name l, remote]\<rparr>)
          }
      | Inr s \<Rightarrow> do {
          r \<leftarrow> so_ResolveVer opts (l_CloneURL l);
          State_Monad.return (case r of Inl _ \<Rightarrow> None
            | Inr remote \<Rightarrow> if up_to_date opts remote s then None
                else Some \<lparr>j_listing = l, j_version = remote, j_dest = filepath_Join [so_OfficialDir opts, l_Owner l, l_Name l, remote]\<rparr>)
        })
   }"

fun collect_jobs :: "(Strategy list \<Rightarrow> Strategy list) \<Rightarrow> SyncerOptions \<Rightarrow> Listing list \<Rightarrow> job list io" where
  "collect_jobs plan opts [] = State_Monad.return []"
| "collect_jobs plan opts (l # ls) = do {
     j \<leftarrow> consider_listing plan opts l;
     js \<leftarrow> collect_jobs plan opts ls;
     State_Monad.return (case j of None \<Rightarrow> js | Some x \<Rightarrow> x # js)
   }"

definition Tick :: "(Strategy list \<Rightarrow> Strategy list) \<Rightarrow> SyncerOptions \<Rightarrow> unit result io" where
  "Tick plan opts = do {
     d \<leftarrow> so_Discovery opts;
     (case d of
        Inl e \<Rightarrow> State_Monad.return (Inl (wrap ''discovery'' e))
      | Inr listings \<Rightarrow> do {
          jobs \<leftarrow> collect_jobs plan opts listings;
          for_each jobs (\<lambda>j. runInstall opts (j_listing j) (j_version j) (j_dest j));
          State_Monad.return (Inr ())
        })
   }"

text \<open>\<open>Run\<close> until the context is cancelled after \<open>n\<close> ticks of the timer.\<close>

definition Syncer_Run :: "(Strategy list \<Rightarrow> Strategy list) \<Rightarrow> SyncerOptions \<Rightarrow> nat \<Rightarrow> unit result io" where
  "Syncer_Run plan opts n =
     (if so_Interval opts \<le> 0 then State_Monad.return (Inl (Error [] ''Syncer.Run requires SyncerOptions.Interval > 0''))
      else do {
        for_each (replicate (Suc n) ()) (\<lambda>_. do { _ \<leftarrow> Tick plan opts; State_Monad.return () });
        State_Monad.return (Inr ())
      })"


section \<open>Properties of a tick\<close>

text \<open>The tools a tick calls, by what they must leave alone.\<close>

definition tools_keep :: "(world \<Rightarrow> bool) \<Rightarrow> SyncerOptions \<Rightarrow> bool" where
  "tools_keep I opts \<longleftrightarrow> preserves I (so_Discovery opts) \<and> (\<forall>u. preserves I (so_ResolveVer opts u))
     \<and> (\<forall>f q. so_Installer opts = Some f \<longrightarrow> preserves I (f q)) \<and> (\<forall>f q. so_DockerInstaller opts = Some f \<longrightarrow> preserves I (f q))
     \<and> (\<forall>f c. so_Stats opts = Some f \<longrightarrow> preserves I (f c)) \<and> (\<forall>f c v. so_AutoUpgrader opts = Some f \<longrightarrow> preserves I (f c v))"

lemma recordFailure_keeps [preserve_rules]: "preserves registry_inv (recordFailure l v e)"
  unfolding recordFailure_def by (intro preserve_rules)

lemma post_install_keeps: "tools_keep I opts \<Longrightarrow> preserves I (post_install opts c v)"
  unfolding post_install_def tools_keep_def by (intro preserve_rules) auto

lemma runInstall_keeps: "tools_keep registry_inv opts \<Longrightarrow> preserves registry_inv (runInstall opts l v d)"
  unfolding runInstall_def Let_def
  by (intro preserve_rules post_install_keeps) (auto simp: tools_keep_def split: if_splits)

lemma consider_keeps: "outcome_free I \<Longrightarrow> tools_keep I opts \<Longrightarrow> preserves I (consider_listing plan opts l)"
  unfolding consider_listing_def by (intro preserve_rules) (auto simp: tools_keep_def)

lemma collect_keeps: "outcome_free I \<Longrightarrow> tools_keep I opts \<Longrightarrow> preserves I (collect_jobs plan opts ls)"
  by (induction ls) (auto intro!: preserve_rules consider_keeps)

lemma Tick_keeps: "tools_keep registry_inv opts \<Longrightarrow> preserves registry_inv (Tick plan opts)"
  unfolding Tick_def
  by (intro preserve_rules collect_keeps registry_frame runInstall_keeps) (auto simp: tools_keep_def)

definition ready_at :: "string \<Rightarrow> string \<Rightarrow> string \<Rightarrow> world \<Rightarrow> bool" where
  "ready_at code v ref w \<longleftrightarrow> (\<exists>s \<in> set (w_strategies w). s_ShortCode s = code \<and> s_InstalledVer s = Some v
     \<and> s_ArtifactRef s = Some ref \<and> DeriveInstallState s = InstallStateReady)"

lemma run_Upsert_listing:
  assumes "w_outcomes w = []"
  shows "\<exists>w'. run_state (Upsert (listing_row code l)) w = (Inr (), w') \<and> w_outcomes w' = [] \<and> w_now w' = w_now w
    \<and> (\<exists>s \<in> set (w_strategies w'). s_ShortCode s = code)"
proof (cases "affected (\<lambda>o'. s_ShortCode o' = code) (w_strategies w) = 0")
  case True
  then show ?thesis using assms
    by (simp add: Upsert_def upsert_stmt_def owner_check_def listing_row_def wrap_unit_def fresh_row_def)
next
  case False
  then obtain s where "s \<in> set (w_strategies w)" "s_ShortCode s = code" by (auto simp: affected_eq_0)
  then have "upsert_conflict (w_now w) (listing_row code l) s \<in>
      set (update_where (\<lambda>o'. s_ShortCode o' = code) (upsert_conflict (w_now w) (listing_row code l)) (w_strategies w))"
    by (auto intro: update_whereI)
  moreover have "s_ShortCode (upsert_conflict (w_now w) (listing_row code l) s) = code"
    using \<open>s_ShortCode s = code\<close> by (simp add: upsert_conflict_def)
  moreover have "s_ShortCode (listing_row code l) = code" "owner_check (listing_row code l)"
    by (simp_all add: listing_row_def owner_check_def)
  ultimately show ?thesis using assms False by (auto simp: Upsert_def upsert_stmt_def wrap_unit_def Let_def)
qed

text \<open>
  A successful build ends as an installed strategy: after \<open>runInstall\<close> the registry has a row
  under the short code the binary reported (the repository name if it reported none), ready, at
  the version and with the artifact of this install, as long as the hooks that follow leave such a
  row alone; the registry's invariant is kept.
\<close>

lemma runInstall_ready:
  assumes "registry_inv w" and "w_outcomes w = []" and "tools_keep registry_inv opts"
    and "(if so_RunnerMode opts = ''docker'' then so_DockerInstaller opts else so_Installer opts) = Some install"
    and "run_state (install \<lparr>iq_ShortCode = [], iq_CloneURL = l_CloneURL l, iq_Version = v, iq_DestDir = dest\<rparr>) w = (Inr res, w)"
    and "json_document (ir_DescribeJSON res)" and "code = (if ir_ShortCode res = [] then l_Name l else ir_ShortCode res)"
    and "preserves (ready_at code v (ir_ArtifactRef res)) (post_install opts code v)"
  shows "ready_at code v (ir_ArtifactRef res) (snd (run_state (runInstall opts l v dest) w))
    \<and> registry_inv (snd (run_state (runInstall opts l v dest) w))"
proof
  obtain w1 s where w1: "run_state (Upsert (listing_row code l)) w = (Inr (), w1)" "w_outcomes w1 = []"
    and s: "s \<in> set (w_strategies w1)" "s_ShortCode s = code" using run_Upsert_listing [OF assms(2)] by blast
  let ?kind = "if so_RunnerMode opts = ''docker'' then artifactKindImage else artifactKindBinary"
  let ?u = "success_row v ?kind (ir_ArtifactRef res) (ir_DescribeJSON res) (w_now w1)"
  let ?w2 = "update_strategy code ?u w1"
  have "run_state (MarkSuccess code v ?kind (ir_ArtifactRef res) (ir_DescribeJSON res)) w1 = (Inr (), ?w2)"
    using w1(2) assms(6) by (simp add: MarkSuccess_def success_stmt_def wrap_unit_def)
  with w1 assms(4,5,7) have run: "run_state (runInstall opts l v dest) w = run_state (post_install opts code v) ?w2"
    by (simp add: runInstall_def Let_def)
  have "?u s \<in> set (w_strategies ?w2)" using s by (auto simp: update_strategy_def intro: update_whereI)
  then have "ready_at code v (ir_ArtifactRef res) ?w2"
    using s(2) by (auto simp: ready_at_def success_row_def DeriveInstallState_def intro!: bexI [of _ "?u s"])
  then show "ready_at code v (ir_ArtifactRef res) (snd (run_state (runInstall opts l v dest) w))"
    using assms(8) by (simp add: run preserves_def)
  show "registry_inv (snd (run_state (runInstall opts l v dest) w))"
    using runInstall_keeps [OF assms(3)] assms(1) by (simp add: preserves_def)
qed


definition demo_listing :: Listing where
  "demo_listing = \<lparr>l_Name = ''adm-strategy'', l_Owner = ''penny-vault'', l_Description = ''momentum'', l_Categories = [],
     l_CloneURL = ''https://github.com/x/adm'', l_Stars = 3, l_UpdatedAt = 0\<rparr>"

definition demo_result :: InstallResult where
  "demo_result = \<lparr>ir_BinPath = ''/opt/adm.bin'', ir_ArtifactRef = ''/opt/adm.bin'', ir_DescribeJSON = RawDoc (JObj []), ir_ShortCode = ''adm''\<rparr>"

definition demo_opts :: "InstallResult result \<Rightarrow> SyncerOptions" where
  "demo_opts r = \<lparr>so_Discovery = State_Monad.return (Inr [demo_listing]), so_ResolveVer = (\<lambda>_. State_Monad.return (Inr ''v1.1.0'')),
     so_Installer = Some (\<lambda>_. State_Monad.return r), so_DockerInstaller = None, so_RunnerMode = ''host'',
     so_OfficialDir = ''/opt'', so_Concurrency = 1, so_Interval = 1, so_Stats = None, so_AutoUpgrader = None\<rparr>"

lemma run_recordFailure_new:
  assumes "w_outcomes w = []" and "affected (\<lambda>o'. s_ShortCode o' = l_Name l) (w_strategies w) = 0"
  shows "run_state (recordFailure l v err) w = ((), w\<lparr>w_strategies := w_strategies w @
     [failure_row v err (w_now w) (fresh_row (w_now w) (listing_row (l_Name l) l))]\<rparr>)"
proof -
  let ?row = "fresh_row (w_now w) (listing_row (l_Name l) l)"
  have code: "s_ShortCode ?row = l_Name l" "s_ShortCode (listing_row (l_Name l) l) = l_Name l" "owner_check (listing_row (l_Name l) l)"
    by (simp_all add: listing_row_def owner_check_def fresh_row_def)
  have "run_state (Upsert (listing_row (l_Name l) l)) w = (Inr (), w\<lparr>w_strategies := w_strategies w @ [?row]\<rparr>)"
    using assms code by (simp add: Upsert_def upsert_stmt_def wrap_unit_def)
  moreover have "update_where (\<lambda>o'. s_ShortCode o' = l_Name l) u (w_strategies w @ [?row]) = w_strategies w @ [u ?row]" for u
    using update_where_none [OF assms(2), of u] code by (simp add: update_where_def)
  ultimately show ?thesis using assms(1)
    by (simp add: recordFailure_def MarkFailure_def wrap_unit_def update_strategy_def)
qed

lemma run_consider_stale:
  assumes "w_outcomes w = []" and "w_strategies w = s # rest" and "s_CloneURL s = l_CloneURL l" and "s_LastAttemptedVer s \<noteq> Some v"
    and "so_ResolveVer opts = (\<lambda>_. State_Monad.return (Inr v))"
  shows "run_state (consider_listing (\<lambda>rs. rs) opts l) w =
    (Some \<lparr>j_listing = l, j_version = v, j_dest = filepath_Join [so_OfficialDir opts, l_Owner l, l_Name l, v]\<rparr>, w)"
  using assms by (simp add: consider_listing_def GetByCloneURL_def up_to_date_def)

text \<open>
  A failed install is recorded under the repository name, not under the short code of the
  installed row. When the two differ, the installed row of that repository keeps its old
  \<open>last_attempted_ver\<close>, a second row for the same clone URL appears, and the next tick queues the
  same version again: the failed version is built again at every tick (as long as Postgres keeps
  finding the older row first).
\<close>

lemma failed_install_is_retried:
  assumes "w_outcomes w = []" and "w_strategies w = [s]" and "s_CloneURL s = l_CloneURL l" and "s_ShortCode s \<noteq> l_Name l"
    and "s_LastAttemptedVer s \<noteq> Some v" and "so_RunnerMode opts \<noteq> ''docker''"
    and "so_Discovery opts = State_Monad.return (Inr [l])" and "so_ResolveVer opts = (\<lambda>_. State_Monad.return (Inr v))"
    and "so_Installer opts = Some (\<lambda>_. State_Monad.return (Inl e))"
  shows "\<exists>w' s2 j. run_state (Tick (\<lambda>rs. rs) opts) w = (Inr (), w') \<and> w_strategies w' = [s, s2]
    \<and> s_CloneURL s2 = s_CloneURL s \<and> s_ShortCode s2 = l_Name l \<and> s_InstallError s2 = Some (err_text e)
    \<and> run_state (consider_listing (\<lambda>rs. rs) opts l) w' = (Some j, w') \<and> j_version j = v"
proof -
  let ?row = "failure_row v (err_text e) (w_now w) (fresh_row (w_now w) (listing_row (l_Name l) l))"
  let ?w' = "w\<lparr>w_strategies := [s, ?row]\<rparr>"
  have "run_state (recordFailure l v (err_text e)) w = ((), ?w')"
    using assms(1,2,4) by (subst run_recordFailure_new) (simp_all add: affected_def)
  then have "run_state (Tick (\<lambda>rs. rs) opts) w = (Inr (), ?w')"
    using run_consider_stale [OF assms(1,2,3,5,8)] assms(6,7,9) by (simp add: Tick_def runInstall_def)
  moreover have "run_state (consider_listing (\<lambda>rs. rs) opts l) ?w' =
      (Some \<lparr>j_listing = l, j_version = v, j_dest = filepath_Join [so_OfficialDir opts, l_Owner l, l_Name l, v]\<rparr>, ?w')"
    using assms(1) by (intro run_consider_stale [OF _ _ assms(3,5,8)]) simp_all
  moreover have "s_CloneURL ?row = s_CloneURL s" "s_ShortCode ?row = l_Name l" "s_InstallError ?row = Some (err_text e)"
    by (simp_all add: failure_row_def fresh_row_def listing_row_def assms(3))
  ultimately show ?thesis by force
qed

end
