(* ===== verification/Upgrade_Behaviour.thy ===== *)
theory Upgrade_Behaviour
  imports Handler_Behaviour Sync
begin

text \<open>
  What an upgrade leaves in the tables, through the endpoint and after an install: the row that
  \<open>doUpgrade\<close> writes, the case where its run cannot be queued, and which portfolios the automatic
  upgrade touches.
\<close>

section \<open>What an upgrade leaves\<close>

lemma next_params_valid:
  assumes "map_order iter" and "next_params bp cur newD (DiffParameters iter oldD newD) = Inr ps"
  shows "fst ` set ps = set (declared newD)"
proof (cases bp)
  case None
  with assms(2) have "Compatible (DiffParameters iter oldD newD)" "ps = mergeKeptAndDefaults cur newD (DiffParameters iter oldD newD)"
    by (auto simp: next_params_def split: if_splits)
  with compatible_merge_valid [OF assms(1)] show ?thesis by (simp add: validateParameters_ok_iff)
next
  case (Some b)
  with assms(2) show ?thesis by (auto simp: next_params_def validateParameters_ok_iff split: sum.splits)
qed

lemma Submit_keeps_portfolios: "preserves (\<lambda>w. w_portfolios w = X) (dispatcherAdapter_Submit pool_run_store pid)"
proof -
  have free: "outcome_free (\<lambda>w. w_portfolios w = X)" by (simp add: outcome_free_def)
  have "preserves (\<lambda>w. w_portfolios w = X) (send_task t)" for t by (auto simp: preserves_def send_task_def)
  then show ?thesis
    unfolding dispatcherAdapter_Submit_def Submit_def pool_run_store_def RunStore.simps CreateRun_def UpdateRunFailed_def
    by (intro preserves_bind preserves_return preserves_case_sum preserves_if preserves_dbop free)
      (auto simp: create_run_stmt_def update_run_stmt_def commit_runs_def Let_def)
qed

lemma ApplyUpgrade_Inr:
  assumes "run_state (ApplyUpgrade pid v d ps pn) w = (Inr x, w')"
  shows "w_portfolios w' = update_where (\<lambda>p. p_ID p = pid) (apply_upgrade v d ps pn (w_now w)) (w_portfolios w)"
  using assms
  by (auto simp: ApplyUpgrade_def run_dbop next_outcome_def upgrade_stmt_def update_portfolio_def split: if_splits list.splits db_outcome.splits)

lemma apply_and_run_Inr:
  assumes "h_dispatcher h = Some (dispatcherAdapter_Submit pool_run_store)"
    and "run_state (apply_and_run h p s d ps res) w = (Inr res', w')"
  shows "\<exists>v w1 r. s_InstalledVer s = Some v
    \<and> run_state (ApplyUpgrade (p_ID p) v (s_DescribeJSON s) ps (MatchPresetName ps d)) w = (Inr (), w1)
    \<and> run_state (dispatcherAdapter_Submit pool_run_store (p_ID p)) w1 = (r, w')
    \<and> res' = (case r of Inl e \<Rightarrow> res\<lparr>ur_Outcome := UpgradeOutcomeApplied, ur_RunErr := Some e\<rparr>
                | Inr runID \<Rightarrow> res\<lparr>ur_Outcome := UpgradeOutcomeApplied, ur_RunID := Some runID\<rparr>)"
proof -
  from assms(2) obtain v where v: "s_InstalledVer s = Some v" by (auto simp: apply_and_run_def split: option.splits)
  obtain a w1 where a: "run_state (ApplyUpgrade (p_ID p) v (s_DescribeJSON s) ps (MatchPresetName ps d)) w = (a, w1)" by fastforce
  with assms v obtain x where x: "a = Inr x" by (cases a) (auto simp: apply_and_run_def)
  obtain r w2 where r: "run_state (dispatcherAdapter_Submit pool_run_store (p_ID p)) w1 = (r, w2)" by fastforce
  with assms v a x show ?thesis by (auto simp: apply_and_run_def)
qed

definition applied_via :: "Portfolio \<Rightarrow> Strategy \<Rightarrow> Describe \<Rightarrow> params \<Rightarrow> string \<Rightarrow> world \<Rightarrow> UpgradeResult \<Rightarrow> world \<Rightarrow> bool" where
  "applied_via p s nd ps v w res w' \<longleftrightarrow> (\<exists>w1 r.
     run_state (ApplyUpgrade (p_ID p) v (s_DescribeJSON s) ps (MatchPresetName ps nd)) w = (Inr (), w1)
     \<and> run_state (dispatcherAdapter_Submit pool_run_store (p_ID p)) w1 = (r, w')
     \<and> ur_RunErr res = (case r of Inl e \<Rightarrow> Some e | Inr _ \<Rightarrow> None))"

lemma applied_via_portfolios:
  assumes "applied_via p s nd ps v w res w'"
  shows "w_portfolios w' = update_where (\<lambda>q. p_ID q = p_ID p) (apply_upgrade v (s_DescribeJSON s) ps (MatchPresetName ps nd) (w_now w)) (w_portfolios w)"
proof -
  from assms obtain w1 r where a: "run_state (ApplyUpgrade (p_ID p) v (s_DescribeJSON s) ps (MatchPresetName ps nd)) w = (Inr (), w1)"
    and r: "run_state (dispatcherAdapter_Submit pool_run_store (p_ID p)) w1 = (r, w')" by (auto simp: applied_via_def)
  have "w_portfolios w' = w_portfolios w1"
    using preservesD [OF Submit_keeps_portfolios [of "w_portfolios w1" "p_ID p"], of w1] r by simp
  with ApplyUpgrade_Inr [OF a] show ?thesis by simp
qed

lemma others_update_where:
  assumes "\<And>r. c (u r) = c r"
  shows "filter (\<lambda>r. \<not> c r) (update_where c u rs) = filter (\<lambda>r. \<not> c r) rs"
  using assms by (induction rs) (auto simp: update_where_def)

text \<open>The two ways \<open>doUpgrade\<close> returns without an error: applied, or with the tables unchanged.\<close>

lemma doUpgrade_Inr:
  assumes "h_dispatcher h = Some (dispatcherAdapter_Submit pool_run_store)"
    and "run_state (doUpgrade lb h p s bp) w = (Inr res, w')"
  obtains (same) "ur_Outcome res \<noteq> UpgradeOutcomeApplied" "ur_RunErr res = None" "w' = w"
  | (applied) od nd ps v where "decodeDescribes p s = Inr (od, nd)"
      "next_params bp (p_Parameters p) nd (DiffParameters (lib_iter lb) od nd) = Inr ps" "s_InstalledVer s = Some v"
      "applied_via p s nd ps v w res w'"
proof (cases "\<exists>od nd ps. decodeDescribes p s = Inr (od, nd) \<and> next_params bp (p_Parameters p) nd (DiffParameters (lib_iter lb) od nd) = Inr ps
    \<and> \<not> (p_StrategyVer p \<noteq> None \<and> s_InstalledVer s \<noteq> None \<and> p_StrategyVer p = s_InstalledVer s)")
  case True
  then obtain od nd ps where ps: "decodeDescribes p s = Inr (od, nd)"
      "next_params bp (p_Parameters p) nd (DiffParameters (lib_iter lb) od nd) = Inr ps"
      "\<not> (p_StrategyVer p \<noteq> None \<and> s_InstalledVer s \<noteq> None \<and> p_StrategyVer p = s_InstalledVer s)" by blast
  then have "run_state (doUpgrade lb h p s bp) w = run_state (apply_and_run h p s nd ps
      ((new_result p s)\<lparr>ur_Diff := DiffParameters (lib_iter lb) od nd, ur_NewDescribe := s_DescribeJSON s\<rparr>)) w"
    by (auto simp: doUpgrade_def Let_def)
  with assms(2) have "run_state (apply_and_run h p s nd ps
      ((new_result p s)\<lparr>ur_Diff := DiffParameters (lib_iter lb) od nd, ur_NewDescribe := s_DescribeJSON s\<rparr>)) w = (Inr res, w')" by simp
  from apply_and_run_Inr [OF assms(1) this] obtain v w1 r where v: "s_InstalledVer s = Some v"
    and run: "run_state (ApplyUpgrade (p_ID p) v (s_DescribeJSON s) ps (MatchPresetName ps nd)) w = (Inr (), w1)"
      "run_state (dispatcherAdapter_Submit pool_run_store (p_ID p)) w1 = (r, w')"
    and res': "res = (case r of Inl e \<Rightarrow> (new_result p s)\<lparr>ur_Diff := DiffParameters (lib_iter lb) od nd, ur_NewDescribe := s_DescribeJSON s,
            ur_Outcome := UpgradeOutcomeApplied, ur_RunErr := Some e\<rparr>
        | Inr runID \<Rightarrow> (new_result p s)\<lparr>ur_Diff := DiffParameters (lib_iter lb) od nd, ur_NewDescribe := s_DescribeJSON s,
            ur_Outcome := UpgradeOutcomeApplied, ur_RunID := Some runID\<rparr>)" by blast
  from res' have res: "ur_RunErr res = (case r of Inl e \<Rightarrow> Some e | Inr _ \<Rightarrow> None)" by (cases r) (simp_all add: new_result_def)
  have "applied_via p s nd ps v w res w'" unfolding applied_via_def using run res by (intro exI [of _ w1] exI [of _ r]) simp
  with ps v that(2) show ?thesis by blast
next
  case False
  with assms(2) have "ur_Outcome res \<noteq> UpgradeOutcomeApplied \<and> ur_RunErr res = None \<and> w' = w"
    by (auto simp: doUpgrade_def Let_def next_params_def new_result_def split: if_splits sum.splits prod.splits option.splits)
  then show ?thesis using that(1) by blast
qed

text \<open>
  C7. An upgrade that is applied leaves a valid portfolio: whatever the database did, if
  \<open>doUpgrade\<close> reports the outcome applied then the stored row has the installed version, the
  registry's describe document, and exactly the parameters that this describe declares; it is
  pending, its last error is cleared, and no other portfolio changed.
\<close>

theorem doUpgrade_applied:
  assumes "map_order (lib_iter lb)" and "h_dispatcher h = Some (dispatcherAdapter_Submit pool_run_store)" and "p \<in> set (w_portfolios w)"
    and "run_state (doUpgrade lb h p s bp) w = (Inr res, w')" and "ur_Outcome res = UpgradeOutcomeApplied"
  shows "(\<exists>p' \<in> set (w_portfolios w'). p_ID p' = p_ID p \<and> p_StrategyVer p' = s_InstalledVer s \<and> p_StrategyDescribeJSON p' = s_DescribeJSON s
      \<and> (\<exists>d. unmarshalDescribe (s_DescribeJSON s) = Inr d \<and> fst ` set (p_Parameters p') = set (declared d))
      \<and> p_Status p' = StatusPending \<and> p_LastError p' = None)
    \<and> filter (\<lambda>q. p_ID q \<noteq> p_ID p) (w_portfolios w') = filter (\<lambda>q. p_ID q \<noteq> p_ID p) (w_portfolios w)"
proof (cases rule: doUpgrade_Inr [OF assms(2,4), case_names same applied])
  case (applied od nd ps v)
  let ?u = "apply_upgrade v (s_DescribeJSON s) ps (MatchPresetName ps nd) (w_now w)"
  have nd: "unmarshalDescribe (s_DescribeJSON s) = Inr nd" using applied(1) by (auto simp: decodeDescribes_def split: sum.splits if_splits)
  have "?u p \<in> set (w_portfolios w')" unfolding applied_via_portfolios [OF applied(4)] using assms(3) by (auto intro: update_whereI)
  moreover have "filter (\<lambda>q. p_ID q \<noteq> p_ID p) (w_portfolios w') = filter (\<lambda>q. p_ID q \<noteq> p_ID p) (w_portfolios w)"
    unfolding applied_via_portfolios [OF applied(4)] by (rule others_update_where) (simp add: apply_upgrade_def)
  ultimately show ?thesis
    using nd applied(3) next_params_valid [OF assms(1) applied(2)] by (intro conjI bexI [of _ "?u p"]) (simp_all add: apply_upgrade_def)
qed (use assms(5) in simp)

definition demo_newer :: Strategy where
  "demo_newer = demo_strategy\<lparr>s_InstalledVer := Some ''v1.0.1''\<rparr>"

lemma demo_upgrade:
  assumes "w_outcomes w = []" and "db_inv w" and "\<not> w_closed w" and "w_portfolios w = [demo_portfolio]" and "filter in_flight (runs_of 1 (w_runs w)) = []"
  shows "\<exists>res w'. run_state (doUpgrade demo_lib demo_handler demo_portfolio demo_newer None) w = (Inr res, w')
    \<and> ur_Outcome res = UpgradeOutcomeApplied \<and> (w_cap w = 0 \<longrightarrow> (\<exists>e. ur_RunErr res = Some e \<and> errors_Is e ErrQueueFull))"
proof -
  have d: "unmarshalDescribe (RawDoc (JObj [])) = Inr zero_describe" by (simp add: unmarshalDescribe_def decode_struct_def)
  have raw: "p_StrategyDescribeJSON demo_portfolio = RawDoc (JObj [])" "s_DescribeJSON demo_newer = RawDoc (JObj [])"
    "p_StrategyVer demo_portfolio = Some ''v1.0.0''" "s_InstalledVer demo_newer = Some ''v1.0.1''"
    by (simp_all add: demo_portfolio_def demo_newer_def demo_strategy_def)
  have "Compatible (DiffParameters (\<lambda>ks. ks) zero_describe zero_describe)"
    by (simp add: Compatible_def DiffParameters_def declared_def zero_describe_def empty_diff_def)
  then obtain ps where ps: "next_params None (p_Parameters demo_portfolio) zero_describe (DiffParameters (\<lambda>ks. ks) zero_describe zero_describe) = Inr ps"
    by (simp add: next_params_def)
  have it: "lib_iter demo_lib = (\<lambda>ks. ks)" by (simp add: demo_lib_def)
  have h: "h_dispatcher demo_handler = Some (dispatcherAdapter_Submit pool_run_store)" by (simp add: demo_handler_def pool_handler_def)
  let ?w = "update_portfolio 1 (apply_upgrade ''v1.0.1'' (RawDoc (JObj [])) ps (MatchPresetName ps zero_describe)) w"
  have app: "run_state (ApplyUpgrade 1 ''v1.0.1'' (RawDoc (JObj [])) ps (MatchPresetName ps zero_describe)) w = (Inr (), ?w)"
    using assms(1,4) by (simp add: ApplyUpgrade_def upgrade_stmt_def json_document_def affected_def)
  have "db_inv ?w" using preservesD [OF store_writes_preserve(14) assms(2)] app by (metis snd_conv)
  from run_Submit [OF this, of 1 TriggerManual] assms have sub: "run_state (Submit pool_run_store 1 TriggerManual) ?w =
      (if length (w_tasks w) < w_cap w then (Inr (w_next ?w), ?w\<lparr>w_runs := w_runs ?w @ [new_run 1 TriggerManual ?w], w_next := Suc (w_next ?w),
          w_tasks := w_tasks ?w @ [new_task 1 TriggerManual ?w]\<rparr>)
       else (Inl queue_full, ?w\<lparr>w_runs := w_runs ?w @ [run_failed ''dispatcher queue full'' 0 (w_now ?w) (new_run 1 TriggerManual ?w)], w_next := Suc (w_next ?w)\<rparr>))"
    by (simp add: update_portfolio_def update_where_def apply_upgrade_def del: One_nat_def)
  show ?thesis
    using app sub ps
    by (simp add: doUpgrade_def decodeDescribes_def raw d it Let_def apply_and_run_def h dispatcherAdapter_Submit_def queue_full_def
        queue_full_portfolio_def del: One_nat_def)
qed

theorem doUpgrade_applied_witness:
  "\<exists>res w'. run_state (doUpgrade demo_lib demo_handler demo_portfolio demo_newer None) demo_world = (Inr res, w')
     \<and> (\<exists>p' \<in> set (w_portfolios w'). p_ID p' = 1 \<and> p_StrategyVer p' = Some ''v1.0.1'')"
proof -
  have "\<not> w_closed demo_world" by (simp add: demo_world_def empty_world_def)
  with demo_upgrade [of demo_world] demo_world_inv demo_idle obtain res w' where
    run: "run_state (doUpgrade demo_lib demo_handler demo_portfolio demo_newer None) demo_world = (Inr res, w')"
    and out: "ur_Outcome res = UpgradeOutcomeApplied" by auto
  have "map_order (lib_iter demo_lib)" by (simp add: map_order_def demo_lib_def)
  moreover have "h_dispatcher demo_handler = Some (dispatcherAdapter_Submit pool_run_store)" by (simp add: demo_handler_def pool_handler_def)
  ultimately have "\<exists>p' \<in> set (w_portfolios w'). p_ID p' = 1 \<and> p_StrategyVer p' = s_InstalledVer demo_newer"
    using doUpgrade_applied [OF _ _ _ run out] by simp blast
  with run show ?thesis by (auto simp: demo_newer_def)
qed



lemma demo_full_world:
  "w_outcomes (demo_world\<lparr>w_cap := 0\<rparr>) = []" "db_inv (demo_world\<lparr>w_cap := 0\<rparr>)" "\<not> w_closed (demo_world\<lparr>w_cap := 0\<rparr>)"
  "w_portfolios (demo_world\<lparr>w_cap := 0\<rparr>) = [demo_portfolio]" "filter in_flight (runs_of 1 (w_runs (demo_world\<lparr>w_cap := 0\<rparr>))) = []"
  using demo_world_inv demo_idle by (simp_all add: demo_world_def empty_world_def db_inv_def)


subsection \<open>The automatic upgrade\<close>

lemma Submit_no_faults: "preserves (\<lambda>w. w_outcomes w = []) (dispatcherAdapter_Submit pool_run_store pid)"
proof -
  have "preserves (\<lambda>w. w_outcomes w = []) (send_task t)" for t by (auto simp: preserves_def send_task_def)
  then show ?thesis
    unfolding dispatcherAdapter_Submit_def Submit_def pool_run_store_def RunStore.simps CreateRun_def UpdateRunFailed_def
    by (intro preserves_bind preserves_return preserves_case_sum preserves_if preserves_no_faults)
      (auto simp: create_run_stmt_def update_run_stmt_def commit_runs_def Let_def)
qed

text \<open>
  An upgrade of a portfolio keeps everything said of the other rows, whatever the database does.
\<close>

lemma upgrade_step_keeps:
  assumes "h_dispatcher h = Some (dispatcherAdapter_Submit pool_run_store)"
    and sub: "preserves I (dispatcherAdapter_Submit pool_run_store (p_ID q))"
    and app: "\<And>v d ps n. preserves I (ApplyUpgrade (p_ID q) v d ps n)"
    and panic: "\<And>w. I w \<Longrightarrow> I (w\<lparr>w_panic := True\<rparr>)"
  shows "preserves I (doUpgrade lb h q s bp)"
  unfolding doUpgrade_def apply_and_run_def assms(1) Let_def
  by (auto intro!: preserves_bind preserves_return preserves_case_sum preserves_if preserves_update sub app panic split: option.splits sum.splits prod.splits)

lemma doUpgrade_keeps_row:
  assumes "h_dispatcher h = Some (dispatcherAdapter_Submit pool_run_store)" and "\<And>p. P p \<Longrightarrow> p_ID p \<noteq> p_ID q"
  shows "preserves (\<lambda>w. \<exists>p \<in> set (w_portfolios w). P p) (doUpgrade lb h q s bp)"
proof (rule upgrade_step_keeps [OF assms(1)])
  show "preserves (\<lambda>w. \<exists>p \<in> set (w_portfolios w). P p) (dispatcherAdapter_Submit pool_run_store (p_ID q))"
    using Submit_keeps_portfolios by (rule preserves_part)
  show "preserves (\<lambda>w. \<exists>p \<in> set (w_portfolios w). P p) (ApplyUpgrade (p_ID q) v d ps n)" for v d ps n
    unfolding ApplyUpgrade_def
  proof (rule preserves_dbop)
    show "outcome_free (\<lambda>w. \<exists>p \<in> set (w_portfolios w). P p)" by (simp add: outcome_free_def)
    show "\<exists>p \<in> set (w_portfolios (snd (upgrade_stmt (p_ID q) v d ps n w))). P p" if "\<exists>p \<in> set (w_portfolios w). P p" for w
      using that assms(2) by (auto simp: upgrade_stmt_def update_portfolio_def set_update_where)
  qed
qed simp

lemma doUpgrade_no_faults:
  assumes "h_dispatcher h = Some (dispatcherAdapter_Submit pool_run_store)"
  shows "preserves (\<lambda>w. w_outcomes w = []) (doUpgrade lb h q s bp)"
  by (rule upgrade_step_keeps [OF assms Submit_no_faults])
    (auto simp: ApplyUpgrade_def upgrade_stmt_def update_portfolio_def intro!: preserves_no_faults)


definition at_installed :: "uuid \<Rightarrow> Strategy \<Rightarrow> world \<Rightarrow> bool" where
  "at_installed pid s w \<longleftrightarrow> (\<exists>p \<in> set (w_portfolios w). p_ID p = pid \<and> p_StrategyVer p = s_InstalledVer s)"

text \<open>A portfolio that the merge path can upgrade: both describe documents decode and their diff is compatible.\<close>

definition mergeable :: "lib \<Rightarrow> Portfolio \<Rightarrow> Strategy \<Rightarrow> bool" where
  "mergeable lb p s \<longleftrightarrow> (case decodeDescribes p s of Inl _ \<Rightarrow> False | Inr (od, nd) \<Rightarrow> Compatible (DiffParameters (lib_iter lb) od nd))"

lemma doUpgrade_installs:
  assumes "h_dispatcher h = Some (dispatcherAdapter_Submit pool_run_store)" and "w_outcomes w = []" and "p \<in> set (w_portfolios w)"
    and "mergeable lb p s" and "s_InstalledVer s = Some v"
  shows "at_installed (p_ID p) s (snd (run_state (doUpgrade lb h p s None) w))"
proof (cases "p_StrategyVer p = Some v")
  case True
  with assms show ?thesis by (auto simp: doUpgrade_def at_installed_def)
next
  case False
  from assms(4) obtain od nd where d: "decodeDescribes p s = Inr (od, nd)" and c: "Compatible (DiffParameters (lib_iter lb) od nd)"
    by (auto simp: mergeable_def split: sum.splits prod.splits)
  then have doc: "json_document (s_DescribeJSON s)"
    by (auto simp: decodeDescribes_def unmarshalDescribe_def json_document_def split: sum.splits if_splits rawjson.splits)
  define ps where "ps = mergeKeptAndDefaults (p_Parameters p) nd (DiffParameters (lib_iter lb) od nd)"
  define w1 where "w1 = update_portfolio (p_ID p) (apply_upgrade v (s_DescribeJSON s) ps (MatchPresetName ps nd)) w"
  have "affected (\<lambda>q. p_ID q = p_ID p) (w_portfolios w) \<noteq> 0" using assms(3) by (auto simp: affected_eq_0)
  then have a: "run_state (ApplyUpgrade (p_ID p) v (s_DescribeJSON s) ps (MatchPresetName ps nd)) w = (Inr (), w1)"
    using assms(2) doc by (simp add: ApplyUpgrade_def upgrade_stmt_def w1_def)
  have "at_installed (p_ID p) s w1"
    unfolding at_installed_def w1_def update_portfolio_def using assms(3,5)
    by (auto intro!: bexI [of _ "apply_upgrade v (s_DescribeJSON s) ps (MatchPresetName ps nd) (w_now w) p"] update_whereI simp: apply_upgrade_def)
  then have "at_installed (p_ID p) s (snd (run_state (dispatcherAdapter_Submit pool_run_store (p_ID p)) w1))"
    using preservesD [OF preserves_part [OF Submit_keeps_portfolios], of "\<lambda>ps. \<exists>q \<in> set ps. p_ID q = p_ID p \<and> p_StrategyVer q = s_InstalledVer s" w1]
    by (simp add: at_installed_def)
  moreover have "run_state (doUpgrade lb h p s None) w = run_state (apply_and_run h p s nd ps
      ((new_result p s)\<lparr>ur_Diff := DiffParameters (lib_iter lb) od nd, ur_NewDescribe := s_DescribeJSON s\<rparr>)) w"
    using False assms(5) d c by (auto simp: doUpgrade_def Let_def next_params_def ps_def)
  ultimately show ?thesis
    using a assms(1,5) by (simp add: apply_and_run_def split: prod.splits)
qed

lemma tryUpgradeOne_keeps: "(eligible sv nv q \<Longrightarrow> preserves I (doUpgrade lb h q s None)) \<Longrightarrow> preserves I (tryUpgradeOne sv lb h s nv q)"
  unfolding tryUpgradeOne_def by (intro preserves_if preserves_bind preserves_return) auto

lemma loop_upgrades:
  assumes h: "h_dispatcher h = Some (dispatcherAdapter_Submit pool_run_store)" and "distinct (map p_ID qs)" and "p \<in> set qs"
    and "eligible sv nv p" and "mergeable lb p s" and "s_InstalledVer s = Some v" and "w_outcomes w = []" and "p \<in> set (w_portfolios w)"
  shows "at_installed (p_ID p) s (snd (run_state (for_each qs (tryUpgradeOne sv lb h s nv)) w))"
proof -
  from assms(3) obtain ys zs where qs: "qs = ys @ p # zs" by (auto dest: split_list)
  with assms(2) have other: "\<And>q. q \<in> set ys \<union> set zs \<Longrightarrow> p_ID p \<noteq> p_ID q" by (auto simp: image_iff)
  have keep: "preserves (\<lambda>w. w_outcomes w = [] \<and> (\<exists>q \<in> set (w_portfolios w). P q)) (for_each xs (tryUpgradeOne sv lb h s nv))"
    if "set xs \<subseteq> set ys \<union> set zs" "\<And>q. P q \<Longrightarrow> p_ID q = p_ID p" for xs P
  proof (intro preserves_conj preserves_for_each tryUpgradeOne_keeps doUpgrade_no_faults [OF h] doUpgrade_keeps_row [OF h])
    show "p_ID q \<noteq> p_ID r" if "r \<in> set xs" "P q" for q r
      using other \<open>set xs \<subseteq> set ys \<union> set zs\<close> \<open>\<And>q. P q \<Longrightarrow> p_ID q = p_ID p\<close> that by auto
  qed
  define w1 where "w1 = snd (run_state (for_each ys (tryUpgradeOne sv lb h s nv)) w)"
  have w1: "w_outcomes w1 = []" "p \<in> set (w_portfolios w1)"
    using preservesD [OF keep [of ys "\<lambda>q. q = p"], of w] assms(7,8) by (auto simp: w1_def)
  define w2 where "w2 = snd (run_state (doUpgrade lb h p s None) w1)"
  have w2: "w_outcomes w2 = []" "at_installed (p_ID p) s w2"
    unfolding w2_def using preservesD [OF doUpgrade_no_faults [OF h]] doUpgrade_installs [OF h w1 assms(5,6)] w1 by auto
  have "at_installed (p_ID p) s (snd (run_state (for_each zs (tryUpgradeOne sv lb h s nv)) w2))"
    using preservesD [OF keep [of zs "\<lambda>q. p_ID q = p_ID p \<and> p_StrategyVer q = s_InstalledVer s"], of w2] w2
    by (auto simp: at_installed_def)
  then show ?thesis using assms(4) by (auto simp: qs for_each_append w1_def w2_def tryUpgradeOne_def split: prod.splits)
qed

lemma eligible_iff:
  "eligible sv nv p \<longleftrightarrow> p_Status p \<noteq> StatusRunning \<and> (\<exists>cur c. p_StrategyVer p = Some cur \<and> sv_NewVersion sv cur = Some c
     \<and> sv_Major sv c = sv_Major sv nv \<and> sv_Minor sv c = sv_Minor sv nv \<and> sv_GreaterThan sv nv c)"
  by (auto simp: eligible_def isPatchBump_def split: option.splits)


text \<open>Versions of one digit per component, as a triple in the lexicographic order.\<close>

definition demo_semver :: "(nat \<times> nat \<times> nat) semver" where
  "demo_semver = \<lparr>sv_NewVersion = (\<lambda>s. case s of [_, a, _, b, _, c] \<Rightarrow> Some (of_char a - 48, of_char b - 48, of_char c - 48) | _ \<Rightarrow> None),
     sv_Major = fst, sv_Minor = (\<lambda>(a, b, c). b),
     sv_GreaterThan = (\<lambda>(a, b, c) (a', b', c'). a > a' \<or> a = a' \<and> (b > b' \<or> b = b' \<and> c > c'))\<rparr>"


end
