(* ===== verification/Alert_Store.thy ===== *)
theory Alert_Store
  imports Portfolio_Store
begin

text \<open>
  The table \<open>portfolio_alerts\<close> and its store, \<open>alert/db.go\<close>. The column \<open>frequency\<close> has a CHECK
  constraint and \<open>portfolio_id\<close> a foreign key; a portfolio's alerts go with it. \<open>recipients\<close> is a
  text array. Operations that share a name with a portfolio operation carry the prefix \<open>Alert_\<close>.
\<close>

definition frequencies :: "string list" where
  "frequencies = [''scheduled_run'', ''daily'', ''weekly'', ''monthly'']"

definition alert_not_found :: error where "alert_not_found = Error [AlertErrNotFound] ''alert not found''"

definition frequency_error :: error where
  "frequency_error = Error [] ''ERROR: new row violates check constraint (SQLSTATE 23514)''"

lemma alert_sentinels [simp]: "errors_Is alert_not_found x \<longleftrightarrow> x = AlertErrNotFound" "\<not> errors_Is frequency_error x"
  by (auto simp: alert_not_found_def frequency_error_def)

definition create_alert_stmt :: "uuid \<Rightarrow> string \<Rightarrow> string list \<Rightarrow> world \<Rightarrow> Alert result \<times> world" where
  "create_alert_stmt pid freq recipients w =
     (let a = \<lparr>a_ID = w_next w, a_PortfolioID = pid, a_Frequency = freq, a_Recipients = recipients, a_LastSentAt = None,
               a_LastSentValue = None, a_CreatedAt = w_now w, a_UpdatedAt = w_now w\<rparr> in
      if freq \<notin> set frequencies then (Inl (wrap ''create alert'' frequency_error), w)
      else if affected (\<lambda>p. p_ID p = pid) (w_portfolios w) = 0 then (Inl (wrap ''create alert'' fk_error), w)
      else (Inr a, w\<lparr>w_alerts := w_alerts w @ [a], w_next := Suc (w_next w)\<rparr>))"

definition Alert_Create :: "uuid \<Rightarrow> string \<Rightarrow> string list \<Rightarrow> Alert result io" where
  "Alert_Create pid freq recipients = dbop (create_alert_stmt pid freq recipients)"

definition Alert_List :: "uuid \<Rightarrow> Alert list result io" where
  "Alert_List pid = dbread (\<lambda>w. Inr (sort_key a_CreatedAt (filter (\<lambda>a. a_PortfolioID a = pid) (w_alerts w))))"

definition Alert_Get :: "uuid \<Rightarrow> Alert result io" where
  "Alert_Get i = dbread (\<lambda>w.
     case List.find (\<lambda>a. a_ID a = i) (w_alerts w) of None \<Rightarrow> Inl (wrap ''get alert'' alert_not_found) | Some a \<Rightarrow> Inr a)"

definition update_alerts :: "uuid \<Rightarrow> (instant \<Rightarrow> Alert \<Rightarrow> Alert) \<Rightarrow> world \<Rightarrow> world" where
  "update_alerts i u w = w\<lparr>w_alerts := update_where (\<lambda>a. a_ID a = i) (u (w_now w)) (w_alerts w)\<rparr>"

definition set_alert :: "string \<Rightarrow> string list \<Rightarrow> instant \<Rightarrow> Alert \<Rightarrow> Alert" where
  "set_alert freq recipients now a = a\<lparr>a_Frequency := freq, a_Recipients := recipients, a_UpdatedAt := now\<rparr>"

definition update_alert_stmt :: "uuid \<Rightarrow> string \<Rightarrow> string list \<Rightarrow> world \<Rightarrow> Alert result \<times> world" where
  "update_alert_stmt i freq recipients w =
     (case List.find (\<lambda>a. a_ID a = i) (w_alerts w) of
        None \<Rightarrow> (Inl (wrap ''update alert'' alert_not_found), w)
      | Some a \<Rightarrow>
          if freq \<notin> set frequencies then (Inl (wrap ''update alert'' frequency_error), w)
          else (Inr (set_alert freq recipients (w_now w) a), update_alerts i (set_alert freq recipients) w))"

definition Alert_Update :: "uuid \<Rightarrow> string \<Rightarrow> string list \<Rightarrow> Alert result io" where
  "Alert_Update i freq recipients = dbop (update_alert_stmt i freq recipients)"

definition Alert_Delete :: "uuid \<Rightarrow> unit result io" where
  "Alert_Delete i = dbop (\<lambda>w.
     if affected (\<lambda>a. a_ID a = i) (w_alerts w) = 0 then (Inl alert_not_found, w)
     else (Inr (), w\<lparr>w_alerts := delete_where (\<lambda>a. a_ID a = i) (w_alerts w)\<rparr>))"

definition mark_sent :: "instant \<Rightarrow> float64 \<Rightarrow> instant \<Rightarrow> Alert \<Rightarrow> Alert" where
  "mark_sent sentAt value now a = a\<lparr>a_LastSentAt := Some sentAt, a_LastSentValue := Some value, a_UpdatedAt := now\<rparr>"

definition MarkSent :: "uuid \<Rightarrow> instant \<Rightarrow> float64 \<Rightarrow> unit result io" where
  "MarkSent i sentAt value = dbop (\<lambda>w. (Inr (), update_alerts i (mark_sent sentAt value) w))"

definition drop_recipient :: "string \<Rightarrow> instant \<Rightarrow> Alert \<Rightarrow> Alert" where
  "drop_recipient recipient now a = a\<lparr>a_Recipients := removeAll recipient (a_Recipients a), a_UpdatedAt := now\<rparr>"

text \<open>
  Two statements that are not one transaction: \<open>array_remove\<close> takes every copy of the recipient
  out, then the row is deleted if the array is empty.
\<close>

definition RemoveRecipient :: "uuid \<Rightarrow> string \<Rightarrow> unit result io" where
  "RemoveRecipient i recipient = do {
     r \<leftarrow> dbop (\<lambda>w. (Inr (affected (\<lambda>a. a_ID a = i) (w_alerts w)), update_alerts i (drop_recipient recipient) w));
     (case r of
        Inl e \<Rightarrow> State_Monad.return (Inl (wrap ''remove recipient'' e))
      | Inr n \<Rightarrow>
          if n = 0 then State_Monad.return (Inl alert_not_found)
          else dbop (\<lambda>w. (Inr (), w\<lparr>w_alerts := delete_where (\<lambda>a. a_ID a = i \<and> a_Recipients a = []) (w_alerts w)\<rparr>)))
   }"

section \<open>The constraints hold\<close>

text \<open>The tables' invariant, and the CHECK constraint: it is what the table guarantees the readers.\<close>

definition alerts_ok :: "world \<Rightarrow> bool" where
  "alerts_ok w \<longleftrightarrow> db_inv w \<and> (\<forall>a \<in> set (w_alerts w). a_Frequency a \<in> set frequencies)"

lemma outcome_free_alerts_ok [simp]: "outcome_free alerts_ok"
  by (simp add: outcome_free_def alerts_ok_def db_inv_def)

lemma alert_keys [simp]:
  "a_ID (set_alert f rs n a) = a_ID a" "a_ID (mark_sent t v n a) = a_ID a" "a_ID (drop_recipient r n a) = a_ID a"
  "a_PortfolioID (set_alert f rs n a) = a_PortfolioID a" "a_PortfolioID (mark_sent t v n a) = a_PortfolioID a"
  "a_PortfolioID (drop_recipient r n a) = a_PortfolioID a"
  by (simp_all add: set_alert_def mark_sent_def drop_recipient_def)

lemma db_inv_alerts:
  assumes "db_inv w" and "distinct (map a_ID as)"
    and "\<And>a. a \<in> set as \<Longrightarrow> 0 < a_ID a \<and> a_ID a < w_next w \<and> a_PortfolioID a \<in> p_ID ` set (w_portfolios w)"
  shows "db_inv (w\<lparr>w_alerts := as\<rparr>)"
  using assms by (simp add: db_inv_def)

lemma db_inv_update_alerts:
  assumes "db_inv w" and "\<And>n a. a_ID (u n a) = a_ID a" and "\<And>n a. a_PortfolioID (u n a) = a_PortfolioID a"
  shows "db_inv (update_alerts i u w)"
  unfolding update_alerts_def
proof (rule db_inv_alerts [OF assms(1)])
  show "distinct (map a_ID (update_where (\<lambda>a. a_ID a = i) (u (w_now w)) (w_alerts w)))"
    using assms(1,2) by (simp add: db_inv_def)
qed (use assms in \<open>auto simp: db_inv_def elim!: in_update_whereE\<close>)

lemma db_inv_delete_alerts: "db_inv w \<Longrightarrow> db_inv (w\<lparr>w_alerts := delete_where c (w_alerts w)\<rparr>)"
  by (rule db_inv_alerts) (auto simp: db_inv_def distinct_map_delete_where)

lemma alerts_ok_create: "alerts_ok w \<Longrightarrow> alerts_ok (snd (create_alert_stmt pid f rs w))"
  by (force simp: create_alert_stmt_def Let_def alerts_ok_def db_inv_def affected_eq_0 less_Suc_eq)

lemma alerts_ok_update:
  assumes "alerts_ok w" and "\<And>n a. a_ID (u n a) = a_ID a" and "\<And>n a. a_PortfolioID (u n a) = a_PortfolioID a"
    and "\<And>n a. a_Frequency a \<in> set frequencies \<Longrightarrow> a_Frequency (u n a) \<in> set frequencies"
  shows "alerts_ok (update_alerts i u w)"
proof -
  have "db_inv (update_alerts i u w)" using assms by (intro db_inv_update_alerts) (auto simp: alerts_ok_def)
  with assms(1,4) show ?thesis by (auto simp: alerts_ok_def update_alerts_def elim!: in_update_whereE)
qed

lemma alert_store_keeps [preserve_rules]:
  "preserves alerts_ok (Alert_Create pid f rs)" "preserves alerts_ok (Alert_Update i f rs)" "preserves alerts_ok (Alert_Delete i)"
  "preserves alerts_ok (MarkSent i t v)" "preserves alerts_ok (RemoveRecipient i r)"
proof -
  have del: "alerts_ok (w\<lparr>w_alerts := delete_where c (w_alerts w)\<rparr>)" if "alerts_ok w" for w c
    using that db_inv_delete_alerts by (auto simp: alerts_ok_def)
  show "preserves alerts_ok (Alert_Create pid f rs)" unfolding Alert_Create_def
    by (intro preserves_dbop alerts_ok_create) simp_all
  show "preserves alerts_ok (Alert_Update i f rs)" unfolding Alert_Update_def
    by (intro preserves_dbop) (auto simp: update_alert_stmt_def set_alert_def [abs_def] split: option.splits intro!: alerts_ok_update)
  show "preserves alerts_ok (Alert_Delete i)" unfolding Alert_Delete_def
    by (intro preserves_dbop) (auto intro: del)
  show "preserves alerts_ok (MarkSent i t v)" unfolding MarkSent_def
    by (intro preserves_dbop) (auto simp: mark_sent_def [abs_def] intro!: alerts_ok_update)
  show "preserves alerts_ok (RemoveRecipient i r)" unfolding RemoveRecipient_def
    by (intro preserves_bind preserves_case_sum preserves_if preserves_return preserves_dbop)
      (auto simp: drop_recipient_def [abs_def] intro: del intro!: alerts_ok_update)
qed

end
