(* ===== verification/Sha256.thy ===== *)
theory Sha256
  imports Prelude "HOL-Library.Word"
begin

unbundle bit_operations_syntax

text \<open>
  What \<open>alert/unsubscribe_token.go\<close> uses of Go's standard library: \<open>crypto/sha256\<close> and
  \<open>crypto/hmac\<close> (FIPS 180-4 and RFC 2104) on byte strings, and \<open>base64.RawURLEncoding\<close> with its
  lenient decoder (line breaks are skipped, the unused low bits of the last character are ignored).
\<close>

section \<open>SHA-256\<close>

type_synonym u32 = "32 word"

text \<open>
  The constants are the first 32 bits of the fractional parts of the cube roots of the first 64
  primes, and the initial hash those of the square roots of the first eight. \<open>int_root k b n 0\<close> is
  the largest \<open>r < 2 ^ b\<close> with \<open>r ^ k \<le> n\<close>, one bit at a time.
\<close>

fun int_root :: "nat \<Rightarrow> nat \<Rightarrow> nat \<Rightarrow> nat \<Rightarrow> nat" where
  "int_root k 0 n r = r"
| "int_root k (Suc b) n r = int_root k b n (if (r + 2 ^ b) ^ k \<le> n then r + 2 ^ b else r)"

definition small_primes :: "nat list" where
  "small_primes = filter (\<lambda>n. list_all (\<lambda>d. n mod d \<noteq> 0) [2..<n]) [2..<312]"

definition root_fraction :: "nat \<Rightarrow> nat \<Rightarrow> u32" where
  "root_fraction k p = of_nat (int_root k 36 (p * 2 ^ (32 * k)) 0)"

definition sha256_K :: "u32 list" where
  "sha256_K = map (root_fraction 3) small_primes"

definition sha256_H0 :: "u32 list" where
  "sha256_H0 = map (root_fraction 2) (take 8 small_primes)"

definition rotr :: "nat \<Rightarrow> u32 \<Rightarrow> u32" where
  "rotr n x = drop_bit n x OR push_bit (32 - n) x"

definition sha_ch :: "u32 \<Rightarrow> u32 \<Rightarrow> u32 \<Rightarrow> u32" where "sha_ch x y z = (x AND y) XOR (NOT x AND z)"
definition sha_maj :: "u32 \<Rightarrow> u32 \<Rightarrow> u32 \<Rightarrow> u32" where "sha_maj x y z = (x AND y) XOR (x AND z) XOR (y AND z)"
definition bsig0 :: "u32 \<Rightarrow> u32" where "bsig0 x = rotr 2 x XOR rotr 13 x XOR rotr 22 x"
definition bsig1 :: "u32 \<Rightarrow> u32" where "bsig1 x = rotr 6 x XOR rotr 11 x XOR rotr 25 x"
definition ssig0 :: "u32 \<Rightarrow> u32" where "ssig0 x = rotr 7 x XOR rotr 18 x XOR drop_bit 3 x"
definition ssig1 :: "u32 \<Rightarrow> u32" where "ssig1 x = rotr 17 x XOR rotr 19 x XOR drop_bit 10 x"

fun words_be :: "nat list \<Rightarrow> u32 list" where
  "words_be (a # b # c # d # bs) = of_nat (((a * 256 + b) * 256 + c) * 256 + d) # words_be bs"
| "words_be _ = []"

definition be_bytes :: "nat \<Rightarrow> nat \<Rightarrow> nat list" where
  "be_bytes k n = map (\<lambda>i. n div 256 ^ (k - 1 - i) mod 256) [0..<k]"

definition sha256_pad :: "nat list \<Rightarrow> nat list" where
  "sha256_pad m = m @ [128] @ replicate ((119 - length m mod 64) mod 64) 0 @ be_bytes 8 (8 * length m)"

text \<open>The schedule grows by one word per step, the newest word first.\<close>

definition schedule_step :: "u32 list \<Rightarrow> u32 list" where
  "schedule_step ws = (ssig1 (ws ! 1) + ws ! 6 + ssig0 (ws ! 14) + ws ! 15) # ws"

definition message_schedule :: "u32 list \<Rightarrow> u32 list" where
  "message_schedule block = rev ((schedule_step ^^ 48) (rev block))"

fun sha256_round :: "u32 \<times> u32 \<Rightarrow> u32 list \<Rightarrow> u32 list" where
  "sha256_round (k, x) [a, b, c, d, e, f, g, h] =
     (let t1 = h + bsig1 e + sha_ch e f g + k + x; t2 = bsig0 a + sha_maj a b c in [t1 + t2, a, b, c, d + t1, e, f, g])"
| "sha256_round _ s = s"

definition sha256_block :: "u32 list \<Rightarrow> u32 list \<Rightarrow> u32 list" where
  "sha256_block hs block = map2 (+) hs (fold sha256_round (zip sha256_K (message_schedule block)) hs)"

fun sha_blocks :: "nat \<Rightarrow> u32 list \<Rightarrow> u32 list list" where
  "sha_blocks 0 ws = []"
| "sha_blocks (Suc n) ws = take 16 ws # sha_blocks n (drop 16 ws)"

definition bytes_of :: "string \<Rightarrow> nat list" where "bytes_of s = map of_char s"
definition string_of :: "nat list \<Rightarrow> string" where "string_of bs = map char_of bs"

definition sha256_Sum :: "string \<Rightarrow> string" where
  "sha256_Sum s =
     (let ws = words_be (sha256_pad (bytes_of s)) in
      string_of (concat (map (\<lambda>x. be_bytes 4 (unat x)) (fold (\<lambda>b hs. sha256_block hs b) (sha_blocks (length ws div 16) ws) sha256_H0))))"

section \<open>HMAC\<close>

definition xor_pad :: "nat \<Rightarrow> string \<Rightarrow> string" where
  "xor_pad v key = map (\<lambda>ch. char_of (of_char ch XOR v)) (key @ replicate (64 - length key) (char_of (0::nat)))"

definition hmac_sha256 :: "string \<Rightarrow> string \<Rightarrow> string" where
  "hmac_sha256 secret msg =
     (let key = (if 64 < length secret then sha256_Sum secret else secret) in
      sha256_Sum (xor_pad 92 key @ sha256_Sum (xor_pad 54 key @ msg)))"

section \<open>Base64\<close>

definition b64_digit :: "nat \<Rightarrow> char" where
  "b64_digit n = (if n < 26 then char_of (n + 65) else if n < 52 then char_of (n + 71) else if n < 62 then char_of (n - 4)
     else if n = 62 then CHR ''-'' else CHR ''_'')"

definition b64_value :: "char \<Rightarrow> nat option" where
  "b64_value c =
     (let n = of_char c in
      if 65 \<le> n \<and> n \<le> 90 then Some (n - 65) else if 97 \<le> n \<and> n \<le> 122 then Some (n - 71)
      else if 48 \<le> n \<and> n \<le> 57 then Some (n + 4) else if c = CHR ''-'' then Some 62 else if c = CHR ''_'' then Some 63 else None)"

fun b64_encode :: "nat list \<Rightarrow> nat list" where
  "b64_encode [] = []"
| "b64_encode [a] = [a div 4, (a mod 4) * 16]"
| "b64_encode [a, b] = [a div 4, (a mod 4) * 16 + b div 16, (b mod 16) * 4]"
| "b64_encode (a # b # c # bs) = [a div 4, (a mod 4) * 16 + b div 16, (b mod 16) * 4 + c div 64, c mod 64] @ b64_encode bs"

fun b64_decode :: "nat list \<Rightarrow> nat list option" where
  "b64_decode [] = Some []"
| "b64_decode [_] = None"
| "b64_decode [p, q] = Some [p * 4 + q div 16]"
| "b64_decode [p, q, r] = Some [p * 4 + q div 16, (q mod 16) * 16 + r div 4]"
| "b64_decode (p # q # r # s # ds) =
     (case b64_decode ds of None \<Rightarrow> None
      | Some bs \<Rightarrow> Some ([p * 4 + q div 16, (q mod 16) * 16 + r div 4, (r mod 4) * 64 + s] @ bs))"

definition EncodeToString :: "string \<Rightarrow> string" where
  "EncodeToString s = map b64_digit (b64_encode (bytes_of s))"

definition line_break :: "char \<Rightarrow> bool" where "line_break c \<longleftrightarrow> of_char c = (10::nat) \<or> of_char c = (13::nat)"

definition DecodeString :: "string \<Rightarrow> string option" where
  "DecodeString s =
     (let vs = map b64_value (filter (\<lambda>c. \<not> line_break c) s) in
      if None \<in> set vs then None else map_option string_of (b64_decode (map the vs)))"

subsection \<open>Round trip\<close>

lemma b64_digits_less: "(\<forall>b \<in> set bs. b < 256) \<Longrightarrow> \<forall>d \<in> set (b64_encode bs). d < 64"
  by (induction bs rule: b64_encode.induct) auto

lemma b64_decode_encode: "(\<forall>b \<in> set bs. b < 256) \<Longrightarrow> b64_decode (b64_encode bs) = Some bs"
proof (induction bs rule: b64_encode.induct)
  case (4 a b c bs)
  have "(b mod 16 * 4 + c div 64) mod 4 * 64 + c mod 64 = c" "(a mod 4 * 16 + b div 16) div 16 = a mod 4"
    "(a mod 4 * 16 + b div 16) mod 16 = b div 16" "(b mod 16 * 4 + c div 64) div 4 = b mod 16" using 4 by auto
  with 4 show ?case by simp
qed auto

lemma char_of_value: "n < 256 \<Longrightarrow> of_char (char_of n :: char) = (n::nat)"
  by (simp add: of_char_of)

lemma b64_value_digit: "n < 64 \<Longrightarrow> b64_value (b64_digit n) = Some n"
  by (auto simp: b64_value_def b64_digit_def Let_def of_char_of)

lemma b64_digit_plain: "n < 64 \<Longrightarrow> \<not> line_break (b64_digit n) \<and> b64_digit n \<noteq> CHR ''.''"
  by (auto simp: b64_digit_def line_break_def of_char_of char_of_eq_iff take_bit_eq_mod)

lemma DecodeString_EncodeToString: "DecodeString (EncodeToString s) = Some s"
proof -
  have bytes: "\<forall>b \<in> set (bytes_of s). b < 256" by (auto simp: bytes_of_def)
  note less = b64_digits_less [OF bytes]
  have keep: "filter (\<lambda>c. \<not> line_break c) (EncodeToString s) = EncodeToString s"
    using less b64_digit_plain by (auto simp: EncodeToString_def filter_id_conv)
  have vs: "map b64_value (EncodeToString s) = map Some (b64_encode (bytes_of s))"
    using less by (simp add: EncodeToString_def b64_value_digit)
  have "string_of (bytes_of s) = s" by (simp add: string_of_def bytes_of_def comp_def)
  then show ?thesis unfolding DecodeString_def keep vs Let_def
    by (simp add: b64_decode_encode [OF bytes] comp_def image_iff)
qed

lemma EncodeToString_no_dot: "CHR ''.'' \<notin> set (EncodeToString s)"
proof -
  have "\<forall>b \<in> set (bytes_of s). b < 256" by (auto simp: bytes_of_def)
  from b64_digits_less [OF this] show ?thesis using b64_digit_plain by (fastforce simp: EncodeToString_def)
qed

end
