(* ===== verification/Alert_Handler.thy ===== *)
theory Alert_Handler
  imports Handler Alert_Store Sha256
begin

text \<open>
  The alert endpoints of \<open>alert/handler.go\<close> and the unsubscribe token of
  \<open>alert/unsubscribe_token.go\<close>. Every handler but \<open>Unsubscribe\<close> starts with \<open>resolvePortfolio\<close>,
  which answers a missing subject or portfolio with a problem and returns the nil error of the
  writer, so its caller goes on with the zero portfolio, whose id is \<open>uuid.Nil\<close>; of the portfolio
  the callers use only the id. \<open>c.JSON\<close> keeps the status that was set before, 200 at the start.
\<close>

subsection \<open>The unsubscribe token\<close>

definition invalid_token :: error where "invalid_token = Error [ErrInvalidUnsubscribeToken] ''invalid unsubscribe token''"

definition token_payload :: "lib \<Rightarrow> uuid \<Rightarrow> string \<Rightarrow> string" where
  "token_payload lb alertID recipient = lib_uuid_String lb alertID @ '':'' @ recipient"

definition GenerateUnsubscribeToken :: "lib \<Rightarrow> string \<Rightarrow> uuid \<Rightarrow> string \<Rightarrow> string result" where
  "GenerateUnsubscribeToken lb secret alertID recipient =
     (let payload = token_payload lb alertID recipient in
      Inr (EncodeToString payload @ ''.'' @ EncodeToString (hmac_sha256 secret payload)))"

definition before :: "char \<Rightarrow> string \<Rightarrow> string" where "before c s = takeWhile (\<lambda>x. x \<noteq> c) s"
definition after :: "char \<Rightarrow> string \<Rightarrow> string" where "after c s = tl (dropWhile (\<lambda>x. x \<noteq> c) s)"

definition VerifyUnsubscribeToken :: "lib \<Rightarrow> string \<Rightarrow> string \<Rightarrow> (uuid \<times> string) result" where
  "VerifyUnsubscribeToken lb secret token =
     (if CHR ''.'' \<notin> set token then Inl invalid_token
      else case DecodeString (before CHR ''.'' token) of
        None \<Rightarrow> Inl invalid_token
      | Some payload \<Rightarrow>
          (case DecodeString (after CHR ''.'' token) of
             None \<Rightarrow> Inl invalid_token
           | Some sig \<Rightarrow>
               if sig \<noteq> hmac_sha256 secret payload then Inl invalid_token
               else if CHR '':'' \<notin> set payload then Inl invalid_token
               else (case lib_uuid_Parse lb (before CHR '':'' payload) of
                       None \<Rightarrow> Inl invalid_token
                     | Some i \<Rightarrow> Inr (i, after CHR '':'' payload))))"

subsection \<open>The endpoints\<close>

record alert_lib =
  al_Body :: "string \<Rightarrow> (string \<times> string list) result"
    \<comment> \<open>sonic on the body with \<open>frequency\<close> and \<open>recipients\<close>\<close>
  al_Recipient :: "string \<Rightarrow> string result"
    \<comment> \<open>sonic on the body with \<open>recipient\<close>\<close>

record AlertHandler =
  ah_summarizer :: "(uuid \<Rightarrow> string \<Rightarrow> unit result io) option"
  ah_unsubscribeSecret :: string

definition alert_problem :: "nat \<Rightarrow> string \<Rightarrow> string \<Rightarrow> unit result io" where
  "alert_problem status title detail = send status (AlertProblemBody title detail)"

definition alert_ise :: "error \<Rightarrow> unit result io" where
  "alert_ise e = alert_problem 500 ''Internal Server Error'' (err_text e)"

definition c_JSON :: "body \<Rightarrow> unit result io" where
  "c_JSON b = do {
     w \<leftarrow> State_Monad.get;
     send (case w_resp w of None \<Rightarrow> 200 | Some r \<Rightarrow> rs_status r) b
   }"

text \<open>\<open>c.SendStatus\<close> writes the status text only when there is no body yet.\<close>

definition c_SendStatus :: "nat \<Rightarrow> body \<Rightarrow> unit result io" where
  "c_SendStatus status b = do {
     w \<leftarrow> State_Monad.get;
     send status (case w_resp w of None \<Rightarrow> b | Some r \<Rightarrow> rs_body r)
   }"

definition nil_after :: "unit result io \<Rightarrow> uuid result io" where
  "nil_after m = do { r \<leftarrow> m; State_Monad.return (case r of Inl e \<Rightarrow> Inl e | Inr _ \<Rightarrow> Inr 0) }"

definition resolvePortfolio :: "request \<Rightarrow> uuid result io" where
  "resolvePortfolio c =
     (case subject c of
        Inl _ \<Rightarrow> nil_after (alert_problem 401 ''Unauthorized'' ''missing subject'')
      | Inr ownerSub \<Rightarrow> do {
          let slug = c_Params c ''slug'';
          p \<leftarrow> Get ownerSub slug;
          (case p of
             Inl e \<Rightarrow> if errors_Is e ErrNotFound then nil_after (alert_problem 404 ''Not Found'' (''portfolio not found: '' @ slug))
                      else nil_after (alert_ise e)
           | Inr q \<Rightarrow> State_Monad.return (Inr (p_ID q)))
        })"

definition with_resolved :: "request \<Rightarrow> (uuid \<Rightarrow> unit result io) \<Rightarrow> unit result io" where
  "with_resolved c k = do {
     r \<leftarrow> resolvePortfolio c;
     (case r of Inl e \<Rightarrow> State_Monad.return (Inl e) | Inr pid \<Rightarrow> k pid)
   }"

definition alert_toView :: "Alert \<Rightarrow> alertView" where
  "alert_toView a = \<lparr>av_ID = a_ID a, av_PortfolioID = a_PortfolioID a, av_Frequency = a_Frequency a, av_Recipients = a_Recipients a,
     av_LastSentAt = map_option utc_Format (a_LastSentAt a)\<rparr>"

definition validFrequency :: "string \<Rightarrow> bool" where
  "validFrequency f \<longleftrightarrow> f = ''scheduled_run'' \<or> f = ''daily'' \<or> f = ''weekly'' \<or> f = ''monthly''"

definition bad_frequency :: "unit result io" where
  "bad_frequency = alert_problem 422 ''invalid frequency'' ''frequency must be one of: scheduled_run, daily, weekly, monthly''"

definition AlertHandler_Create :: "alert_lib \<Rightarrow> request \<Rightarrow> unit result io" where
  "AlertHandler_Create al c = with_resolved c (\<lambda>pid.
     case al_Body al (c_Body c) of
       Inl e \<Rightarrow> alert_problem 422 ''invalid body'' (err_text e)
     | Inr (freq, recipients) \<Rightarrow>
         if \<not> validFrequency freq then bad_frequency
         else if recipients = [] then alert_problem 422 ''recipients required'' ''at least one recipient is required''
         else do {
           a \<leftarrow> Alert_Create pid freq recipients;
           (case a of Inl e \<Rightarrow> alert_ise e | Inr x \<Rightarrow> send 201 (AlertViewBody (alert_toView x)))
         })"

definition AlertHandler_List :: "request \<Rightarrow> unit result io" where
  "AlertHandler_List c = with_resolved c (\<lambda>pid. do {
     r \<leftarrow> Alert_List pid;
     (case r of Inl e \<Rightarrow> alert_ise e | Inr xs \<Rightarrow> c_JSON (AlertViewsBody (map alert_toView xs)))
   })"

text \<open>The start that \<open>Update\<close> and \<open>Delete\<close> share: the alert must be one of the portfolio.\<close>

definition with_alert :: "lib \<Rightarrow> request \<Rightarrow> (uuid \<Rightarrow> Alert \<Rightarrow> unit result io) \<Rightarrow> unit result io" where
  "with_alert lb c k = with_resolved c (\<lambda>pid.
     case lib_uuid_Parse lb (c_Params c ''alertId'') of
       None \<Rightarrow> alert_problem 400 ''Bad Request'' ''invalid alertId''
     | Some alertID \<Rightarrow> do {
         r \<leftarrow> Alert_Get alertID;
         (case r of
            Inl e \<Rightarrow> if errors_Is e AlertErrNotFound then alert_problem 404 ''Not Found'' ''alert not found'' else alert_ise e
          | Inr existing \<Rightarrow>
              if a_PortfolioID existing \<noteq> pid then alert_problem 404 ''Not Found'' ''alert not found''
              else k alertID existing)
       })"

definition AlertHandler_Update :: "lib \<Rightarrow> alert_lib \<Rightarrow> request \<Rightarrow> unit result io" where
  "AlertHandler_Update lb al c = with_alert lb c (\<lambda>alertID existing.
     case al_Body al (c_Body c) of
       Inl e \<Rightarrow> alert_problem 422 ''invalid body'' (err_text e)
     | Inr (freq, recipients) \<Rightarrow>
         if freq \<noteq> [] \<and> \<not> validFrequency freq then bad_frequency
         else do {
           u \<leftarrow> Alert_Update alertID (if freq \<noteq> [] then freq else a_Frequency existing)
                  (if recipients \<noteq> [] then recipients else a_Recipients existing);
           (case u of Inl e \<Rightarrow> alert_ise e | Inr a \<Rightarrow> c_JSON (AlertViewBody (alert_toView a)))
         })"

definition AlertHandler_Delete :: "lib \<Rightarrow> request \<Rightarrow> unit result io" where
  "AlertHandler_Delete lb c = with_alert lb c (\<lambda>alertID existing. do {
     d \<leftarrow> Alert_Delete alertID;
     (case d of Inl e \<Rightarrow> alert_ise e | Inr _ \<Rightarrow> c_SendStatus 204 NoBody)
   })"

definition AlertHandler_SendSummary :: "alert_lib \<Rightarrow> AlertHandler \<Rightarrow> request \<Rightarrow> unit result io" where
  "AlertHandler_SendSummary al h c =
     (case ah_summarizer h of
        None \<Rightarrow> alert_problem 503 ''email not configured'' ''email sending is not configured on this server''
      | Some sendSummary \<Rightarrow> with_resolved c (\<lambda>pid.
          case al_Recipient al (c_Body c) of
            Inl e \<Rightarrow> alert_problem 422 ''invalid body'' (err_text e)
          | Inr recipient \<Rightarrow>
              if recipient = [] then alert_problem 422 ''recipient required'' ''recipient is required''
              else do {
                s \<leftarrow> sendSummary pid recipient;
                (case s of
                   Inl e \<Rightarrow> if errors_Is e ErrEmailNotConfigured then alert_problem 503 ''email not configured'' ''Mailgun API key is not set''
                            else alert_ise e
                 | Inr _ \<Rightarrow> c_SendStatus 201 (TextBody ''Created''))
              }))"

definition unsubscribed_page :: "lib \<Rightarrow> uuid \<Rightarrow> string" where
  "unsubscribed_page lb alertID =
     ''<!DOCTYPE html>'' @ newline @ ''<html><head><meta charset=\"UTF-8\"><title>Unsubscribed</title>'' @ newline
     @ ''<style>body{font-family:-apple-system,sans-serif;max-width:480px;margin:80px auto;padding:0 24px;color:#0f172a}'' @ newline
     @ ''h1{color:#0ea5e9}p{color:#64748b}</style></head>'' @ newline @ ''<body><h1>Penny Vault</h1>'' @ newline
     @ ''<p>You have been unsubscribed from portfolio alerts for portfolio <strong>'' @ lib_uuid_String lb alertID @ ''</strong>.</p>''
     @ newline @ ''</body></html>''"

definition AlertHandler_Unsubscribe :: "lib \<Rightarrow> AlertHandler \<Rightarrow> request \<Rightarrow> unit result io" where
  "AlertHandler_Unsubscribe lb h c =
     (if ah_unsubscribeSecret h = [] then send 404 (TextBody ''Unsubscribe is not configured.'')
      else case VerifyUnsubscribeToken lb (ah_unsubscribeSecret h) (c_Query c ''token'') of
        Inl _ \<Rightarrow> send 400 (TextBody ''Invalid or expired unsubscribe link.'')
      | Inr (alertID, recipient) \<Rightarrow> do {
          g \<leftarrow> Alert_Get alertID;
          (case g of
             Inl e \<Rightarrow>
               if errors_Is e AlertErrNotFound then send 200 (HtmlBody ''<html><body><p>You have been unsubscribed.</p></body></html>'')
               else send 500 (TextBody ''Something went wrong.'')
           | Inr _ \<Rightarrow> do {
               r \<leftarrow> RemoveRecipient alertID recipient;
               (case r of
                  Inl e \<Rightarrow> if errors_Is e AlertErrNotFound then send 200 (HtmlBody (unsubscribed_page lb alertID))
                           else send 500 (TextBody ''Something went wrong.'')
                | Inr _ \<Rightarrow> send 200 (HtmlBody (unsubscribed_page lb alertID)))
             })
        })"

subsection \<open>Routes (api/portfolios.go)\<close>

datatype alert_route = ACreate | AList | AUpdate | ADelete | ASendSummary | AUnsubscribe

fun alert_route_handler :: "lib \<Rightarrow> alert_lib \<Rightarrow> AlertHandler \<Rightarrow> alert_route \<Rightarrow> request \<Rightarrow> unit result io" where
  "alert_route_handler lb al h ACreate c = AlertHandler_Create al c"
| "alert_route_handler lb al h AList c = AlertHandler_List c"
| "alert_route_handler lb al h AUpdate c = AlertHandler_Update lb al c"
| "alert_route_handler lb al h ADelete c = AlertHandler_Delete lb c"
| "alert_route_handler lb al h ASendSummary c = AlertHandler_SendSummary al h c"
| "alert_route_handler lb al h AUnsubscribe c = AlertHandler_Unsubscribe lb h c"

text \<open>A request starts with an empty response.\<close>

definition serve_alert :: "lib \<Rightarrow> alert_lib \<Rightarrow> AlertHandler \<Rightarrow> alert_route \<Rightarrow> request \<Rightarrow> unit result io" where
  "serve_alert lb al h r c = do {
     State_Monad.update (\<lambda>w. w\<lparr>w_resp := None\<rparr>);
     alert_route_handler lb al h r c
   }"

section \<open>The token round trip\<close>

lemma before_append: "c \<notin> set xs \<Longrightarrow> before c (xs @ c # ys) = xs"
  by (simp add: before_def, subst takeWhile_append2) auto

lemma after_append: "c \<notin> set xs \<Longrightarrow> after c (xs @ c # ys) = ys"
  by (simp add: after_def, subst dropWhile_append2) auto

text \<open>What the code relies on of \<open>uuid\<close>: the text of an id has no colon and parses to the id.\<close>

definition uuid_text_ok :: "lib \<Rightarrow> bool" where
  "uuid_text_ok lb \<longleftrightarrow> (\<forall>i. CHR '':'' \<notin> set (lib_uuid_String lb i) \<and> lib_uuid_Parse lb (lib_uuid_String lb i) = Some i)"

lemma Verify_Generate:
  assumes "uuid_text_ok lb" and "GenerateUnsubscribeToken lb secret i r = Inr tok"
  shows "VerifyUnsubscribeToken lb secret tok = Inr (i, r)"
proof -
  let ?p = "token_payload lb i r"
  have tok: "tok = EncodeToString ?p @ CHR ''.'' # EncodeToString (hmac_sha256 secret ?p)"
    using assms(2) by (simp add: GenerateUnsubscribeToken_def Let_def)
  have p: "?p = lib_uuid_String lb i @ CHR '':'' # r" by (simp add: token_payload_def)
  have colon: "CHR '':'' \<notin> set (lib_uuid_String lb i)" "lib_uuid_Parse lb (lib_uuid_String lb i) = Some i"
    using assms(1) by (simp_all add: uuid_text_ok_def)
  show ?thesis
    unfolding VerifyUnsubscribeToken_def tok before_append [OF EncodeToString_no_dot] after_append [OF EncodeToString_no_dot]
      DecodeString_EncodeToString
    using colon by (simp add: p before_append after_append)
qed

end
