(* ===== verification/Alert_Checker.thy ===== *)
theory Alert_Checker
  imports Alert_Handler
begin

text \<open>
  When alerts are due and how they are sent: \<open>alert/evaluate.go\<close>, \<open>alert/checker.go\<close> and the
  decision of \<open>alert/email/email.go\<close>. Arguments: the trading calendar of \<open>pvbt/tradecron\<close>, the
  calendar day of an instant in New York, what \<open>buildPayload\<close> and the templates make of a portfolio,
  and the reply of the mail service.
\<close>

subsection \<open>Cadence (evaluate.go)\<close>

record calendar =
  cal_HolidaysInitialized :: bool
  cal_New :: "string \<Rightarrow> (instant \<Rightarrow> bool) option"
    \<comment> \<open>\<open>tradecron.New\<close>: the \<open>IsTradeDay\<close> of a schedule that parses\<close>
  cal_IsMarketDay :: "instant \<Rightarrow> bool"
  cal_etDay :: "instant \<Rightarrow> date"

definition calReady :: "calendar \<Rightarrow> bool" where
  "calReady cal \<longleftrightarrow> cal_HolidaysInitialized cal \<and> cal_New cal ''@weekend'' \<noteq> None \<and> cal_New cal ''@monthend'' \<noteq> None"

definition fires :: "calendar \<Rightarrow> string \<Rightarrow> instant \<Rightarrow> bool" where
  "fires cal spec t \<longleftrightarrow> (case cal_New cal spec of None \<Rightarrow> False | Some f \<Rightarrow> f t)"

definition isTradingDay :: "calendar \<Rightarrow> instant \<Rightarrow> bool" where
  "isTradingDay cal t \<longleftrightarrow> calReady cal \<and> cal_IsMarketDay cal t"

definition isLastTradingDayOfWeek :: "calendar \<Rightarrow> instant \<Rightarrow> bool" where
  "isLastTradingDayOfWeek cal t \<longleftrightarrow> calReady cal \<and> fires cal ''@weekend'' t"

definition isLastTradingDayOfMonth :: "calendar \<Rightarrow> instant \<Rightarrow> bool" where
  "isLastTradingDayOfMonth cal t \<longleftrightarrow> calReady cal \<and> fires cal ''@monthend'' t"

definition strategyFiresOn :: "calendar \<Rightarrow> string \<Rightarrow> instant \<Rightarrow> bool" where
  "strategyFiresOn cal spec t \<longleftrightarrow>
     (if \<not> calReady cal then False
      else if spec = [] then cal_IsMarketDay cal t
      else case cal_New cal spec of None \<Rightarrow> cal_IsMarketDay cal t | Some f \<Rightarrow> f t)"

definition cadence :: "calendar \<Rightarrow> string \<Rightarrow> string \<Rightarrow> instant \<Rightarrow> bool" where
  "cadence cal freq schedule now \<longleftrightarrow>
     (if freq = ''scheduled_run'' then strategyFiresOn cal schedule now
      else if freq = ''daily'' then isTradingDay cal now
      else if freq = ''weekly'' then isLastTradingDayOfWeek cal now
      else if freq = ''monthly'' then isLastTradingDayOfMonth cal now
      else False)"

definition isDue :: "calendar \<Rightarrow> Alert \<Rightarrow> string \<Rightarrow> instant \<Rightarrow> bool" where
  "isDue cal a schedule now \<longleftrightarrow>
     (if \<not> cadence cal (a_Frequency a) schedule now then False
      else case a_LastSentAt a of None \<Rightarrow> True | Some t \<Rightarrow> cal_etDay cal t < cal_etDay cal now)"

subsection \<open>Sending (checker.go)\<close>

record portfolioData =
  q_Name :: string
  q_Slug :: string
  q_StrategyCode :: string
  q_StrategySchedule :: string
  q_Benchmark :: string
  q_CurrentValue :: "float64 option"
  q_Status :: Status
  q_LastError :: "string option"
  q_SnapshotPath :: "string option"

record Checker =
  ck_calendar :: calendar
  ck_APIKey :: string
  ck_appBaseURL :: string
  ck_unsubscribeSecret :: string
  ck_render :: "portfolioData \<Rightarrow> bool \<Rightarrow> bool \<Rightarrow> string \<Rightarrow> string \<Rightarrow> (string \<times> string) result"
    \<comment> \<open>\<open>buildPayload\<close> and \<open>email.Render\<close>: success, whether the trades are shown, portfolio URL, unsubscribe URL\<close>
  ck_mailgun :: "mail \<Rightarrow> world \<Rightarrow> error option"

definition schedule_field :: "string \<Rightarrow> json \<Rightarrow> string \<Rightarrow> string option" where
  "schedule_field k v s = (if k = ''schedule'' then set_string (\<lambda>x _. x) v s else Some s)"

definition describe_schedule :: "rawjson \<Rightarrow> string" where
  "describe_schedule raw =
     (case raw of RawDoc j \<Rightarrow> (case decode_struct schedule_field j [] of None \<Rightarrow> [] | Some s \<Rightarrow> s) | _ \<Rightarrow> [])"

definition loadPortfolio :: "uuid \<Rightarrow> portfolioData result io" where
  "loadPortfolio i = dbread (\<lambda>w.
     case List.find (\<lambda>p. p_ID p = i) (w_portfolios w) of
       None \<Rightarrow> Inl (Error [] ''no rows in result set'')
     | Some p \<Rightarrow> Inr \<lparr>q_Name = p_Name p, q_Slug = p_Slug p, q_StrategyCode = p_StrategyCode p,
         q_StrategySchedule = describe_schedule (p_StrategyDescribeJSON p), q_Benchmark = p_Benchmark p,
         q_CurrentValue = p_CurrentValue p, q_Status = p_Status p, q_LastError = p_LastError p, q_SnapshotPath = p_SnapshotPath p\<rparr>)"

definition email_Send :: "Checker \<Rightarrow> mail \<Rightarrow> unit result io" where
  "email_Send ck m =
     (if ck_APIKey ck = [] then State_Monad.return (Inr ())
      else do {
        w \<leftarrow> State_Monad.get;
        (case ck_mailgun ck m w of
           Some e \<Rightarrow> State_Monad.return (Inl e)
         | None \<Rightarrow> do {
             State_Monad.update (\<lambda>w. w\<lparr>w_mails := w_mails w @ [m]\<rparr>);
             State_Monad.return (Inr ())
           })
      })"

definition mail_subject_for :: "bool \<Rightarrow> string \<Rightarrow> string" where
  "mail_subject_for success name = (if success then ''Portfolio Update: '' else ''Portfolio Error: '') @ name"

definition unsubscribe_url :: "lib \<Rightarrow> Checker \<Rightarrow> uuid \<Rightarrow> string \<Rightarrow> string" where
  "unsubscribe_url lb ck i recipient =
     (if ck_unsubscribeSecret ck \<noteq> [] \<and> ck_appBaseURL ck \<noteq> []
      then (case GenerateUnsubscribeToken lb (ck_unsubscribeSecret ck) i recipient of
              Inl _ \<Rightarrow> [] | Inr tok \<Rightarrow> ck_appBaseURL ck @ ''/api/alerts/unsubscribe?token='' @ tok)
      else [])"

definition portfolio_url :: "Checker \<Rightarrow> portfolioData \<Rightarrow> string" where
  "portfolio_url ck port =
     (if ck_appBaseURL ck \<noteq> [] \<and> q_Slug port \<noteq> [] then ck_appBaseURL ck @ ''/portfolios/'' @ q_Slug port else [])"

definition send_recipient :: "lib \<Rightarrow> Checker \<Rightarrow> Alert \<Rightarrow> portfolioData \<Rightarrow> bool \<Rightarrow> string \<Rightarrow> unit io" where
  "send_recipient lb ck a port success recipient =
     (case ck_render ck port success True (portfolio_url ck port) (unsubscribe_url lb ck (a_ID a) recipient) of
        Inl _ \<Rightarrow> State_Monad.return ()
      | Inr (html, text) \<Rightarrow> do {
          _ \<leftarrow> email_Send ck \<lparr>mail_to = [recipient], mail_subject = mail_subject_for success (q_Name port), mail_html = html, mail_text = text\<rparr>;
          State_Monad.return ()
        })"

definition sendOne :: "lib \<Rightarrow> Checker \<Rightarrow> Alert \<Rightarrow> portfolioData \<Rightarrow> instant \<Rightarrow> bool \<Rightarrow> unit result io" where
  "sendOne lb ck a port now success = do {
     for_each (a_Recipients a) (send_recipient lb ck a port success);
     _ \<leftarrow> MarkSent (a_ID a) now (case q_CurrentValue port of None \<Rightarrow> ''0'' | Some v \<Rightarrow> v);
     State_Monad.return (Inr ())
   }"

definition check_alert :: "lib \<Rightarrow> Checker \<Rightarrow> portfolioData \<Rightarrow> instant \<Rightarrow> bool \<Rightarrow> Alert \<Rightarrow> unit io" where
  "check_alert lb ck port now success a =
     (if \<not> isDue (ck_calendar ck) a (q_StrategySchedule port) now then State_Monad.return ()
      else do { _ \<leftarrow> sendOne lb ck a port now success; State_Monad.return () })"

definition NotifyRunComplete :: "lib \<Rightarrow> Checker \<Rightarrow> uuid \<Rightarrow> uuid \<Rightarrow> bool \<Rightarrow> unit result io" where
  "NotifyRunComplete lb ck pid runID success = do {
     r \<leftarrow> Alert_List pid;
     (case r of
        Inl e \<Rightarrow> State_Monad.return (Inl (wrap ''alert checker: list'' e))
      | Inr alerts \<Rightarrow>
          if alerts = [] then State_Monad.return (Inr ())
          else do {
            w \<leftarrow> State_Monad.get;
            let now = w_now w;
            l \<leftarrow> loadPortfolio pid;
            (case l of
               Inl e \<Rightarrow> State_Monad.return (Inl (wrap ''alert checker: load portfolio'' e))
             | Inr port \<Rightarrow> do {
                 for_each alerts (check_alert lb ck port now success);
                 State_Monad.return (Inr ())
               })
          })
   }"

definition Checker_SendSummary :: "Checker \<Rightarrow> uuid \<Rightarrow> string \<Rightarrow> unit result io" where
  "Checker_SendSummary ck pid recipient =
     (if ck_APIKey ck = [] then State_Monad.return (Inl (Error [ErrEmailNotConfigured] ''email not configured: no Mailgun API key''))
      else do {
        l \<leftarrow> loadPortfolio pid;
        (case l of
           Inl e \<Rightarrow> State_Monad.return (Inl (wrap ''send summary: load portfolio'' e))
         | Inr port \<Rightarrow>
             (case ck_render ck port (q_Status port = StatusReady) False [] [] of
                Inl e \<Rightarrow> State_Monad.return (Inl (wrap ''send summary: render'' e))
              | Inr (html, text) \<Rightarrow> do {
                  s \<leftarrow> email_Send ck \<lparr>mail_to = [recipient], mail_subject = mail_subject_for (q_Status port = StatusReady) (q_Name port),
                         mail_html = html, mail_text = text\<rparr>;
                  State_Monad.return (case s of Inl e \<Rightarrow> Inl (wrap ''send summary: send'' e) | Inr _ \<Rightarrow> Inr ())
                }))
      })"

end
