(* ===== verification/Orchestrator.thy ===== *)
theory Orchestrator
  imports Dispatcher Slug Paths
begin

text \<open>
  One backtest from end to end (\<open>backtest/run.go\<close>, \<open>backtest/args.go\<close>, \<open>backtest/runner.go\<close>):
  loading the portfolio, the transitions of the portfolio and run rows, the snapshot file and its
  rename, the progress hub, pruning and the notifier. The strategy binary or container is the
  function \<open>o_runner\<close> from a request to what it printed, wrote and returned; file-system
  failures come from \<open>o_fs\<close>; \<open>o_readKpis\<close> reads the KPIs of a snapshot file's contents.
\<close>

subsection \<open>args.go\<close>

fun to_kebab_runes :: "unicode \<Rightarrow> bool \<Rightarrow> nat list \<Rightarrow> string" where
  "to_kebab_runes u first [] = []"
| "to_kebab_runes u first (r # rs) =
     (if r = 95 then ''-''
      else if isUpper u r then (if first then [] else ''-'') @ encode_rune (toLower u r)
      else encode_rune r) @ to_kebab_runes u False rs"

definition toKebab :: "unicode \<Rightarrow> string \<Rightarrow> string" where
  "toKebab u s = to_kebab_runes u True (runes s)"

text \<open>
  \<open>fmt.Sprintf("%v")\<close> of a \<open>float64\<close>, from the text \<open>encoding/json\<close> prints for it. Both print the
  shortest digits; \<open>%v\<close> switches to an exponent below 1e-4 (JSON below 1e-6) and pads the
  exponent to two digits.
\<close>

definition is_e :: "char \<Rightarrow> bool" where "is_e c \<longleftrightarrow> c = CHR ''e''"

definition pad_exponent :: "string \<Rightarrow> string" where
  "pad_exponent s =
     (let m = takeWhile (\<lambda>c. \<not> is_e c) s; e = dropWhile (\<lambda>c. \<not> is_e c) s in
      if length e = 3 then m @ take 2 e @ ''0'' @ drop 2 e else s)"

definition small_fraction :: "string \<Rightarrow> string" where
  "small_fraction fr =
     (let zs = takeWhile (\<lambda>c. c = CHR ''0'') fr; ds = dropWhile (\<lambda>c. c = CHR ''0'') fr in
      take 1 ds @ (if length ds \<le> 1 then [] else ''.'' @ drop 1 ds) @ ''e-'' @ digits_w 2 (length zs + 1))"

definition sprintf_num :: "string \<Rightarrow> string" where
  "sprintf_num s =
     (let sign = takeWhile (\<lambda>c. c = CHR ''-'') s; t = dropWhile (\<lambda>c. c = CHR ''-'') s in
      sign @ (if list_ex is_e t then pad_exponent t
              else if take 6 t = ''0.0000'' then small_fraction (drop 2 t)
              else t))"

text \<open>\<open>%v\<close> of a decoded JSON value: maps print with sorted keys, slices with spaces.\<close>

fun sprintf_v :: "json \<Rightarrow> string" where
  "sprintf_v JNull = ''<nil>''"
| "sprintf_v (JBool b) = (if b then ''true'' else ''false'')"
| "sprintf_v (JNum s) = sprintf_num s"
| "sprintf_v (JStr s) = s"
| "sprintf_v (JArr xs) = ''['' @ join '' '' (map sprintf_v xs) @ '']''"
| "sprintf_v (JObj kvs) = ''map['' @ join '' '' (map snd (sort_key fst (map (\<lambda>(k, v). (k, k @ '':'' @ sprintf_v v)) kvs))) @ '']''"

fun stringify :: "json \<Rightarrow> string" where
  "stringify (JStr s) = s"
| "stringify (JArr xs) = join '','' (map stringify xs)"
| "stringify v = sprintf_v v"

definition BuildArgs :: "unicode \<Rightarrow> params \<Rightarrow> string \<Rightarrow> date option \<Rightarrow> date option \<Rightarrow> string list" where
  "BuildArgs u ps benchmark startDate endDate =
     concat (map (\<lambda>(k, v). [''--'' @ toKebab u k, stringify v]) (sort_key fst ps))
     @ (case startDate of None \<Rightarrow> [] | Some d \<Rightarrow> [''--start'', time_Format d])
     @ (case endDate of None \<Rightarrow> [] | Some d \<Rightarrow> [''--end'', time_Format d])
     @ (if benchmark = [] then [] else [''--benchmark'', benchmark])"

subsection \<open>The interfaces of the orchestrator\<close>

record PortfolioRow =
  pr_ID :: uuid
  pr_StrategyCode :: string
  pr_StrategyVer :: string
  pr_StrategyCloneURL :: string
  pr_Parameters :: params
  pr_Benchmark :: string
  pr_Status :: string
  pr_SnapshotPath :: "string option"
  pr_StartDate :: "date option"
  pr_EndDate :: "date option"

record PortfolioStore =
  ps_GetByID :: "uuid \<Rightarrow> PortfolioRow result io"
  ps_MarkRunningTx :: "uuid \<Rightarrow> uuid \<Rightarrow> unit result io"
  ps_MarkReadyTx :: "uuid \<Rightarrow> uuid \<Rightarrow> string \<Rightarrow> Kpis \<Rightarrow> int \<Rightarrow> unit result io"
  ps_MarkFailedTx :: "uuid \<Rightarrow> uuid \<Rightarrow> string \<Rightarrow> int \<Rightarrow> unit result io"
  ps_PruneRuns :: "uuid \<Rightarrow> string list result io"

definition to_row :: "Portfolio \<Rightarrow> PortfolioRow" where
  "to_row p = \<lparr>pr_ID = p_ID p, pr_StrategyCode = p_StrategyCode p,
     pr_StrategyVer = (case p_StrategyVer p of None \<Rightarrow> [] | Some v \<Rightarrow> v),
     pr_StrategyCloneURL = p_StrategyCloneURL p, pr_Parameters = p_Parameters p, pr_Benchmark = p_Benchmark p,
     pr_Status = status_string (p_Status p), pr_SnapshotPath = p_SnapshotPath p,
     pr_StartDate = p_StartDate p, pr_EndDate = p_EndDate p\<rparr>"

text \<open>\<open>backtestPortfolioStoreAdapter\<close> of \<open>cmd/server.go\<close>.\<close>

definition adapter_GetByID :: "uuid \<Rightarrow> PortfolioRow result io" where
  "adapter_GetByID pid = do { r \<leftarrow> GetByID pid; State_Monad.return (map_sum id to_row r) }"

definition pool_portfolio_store :: PortfolioStore where
  "pool_portfolio_store = \<lparr>ps_GetByID = adapter_GetByID, ps_MarkRunningTx = MarkRunningTx, ps_MarkReadyTx = MarkReadyTx,
     ps_MarkFailedTx = MarkFailedTx, ps_PruneRuns = PruneRuns\<rparr>"

datatype ArtifactKind = ArtifactBinary | ArtifactImage

record RunRequest =
  rq_RunID :: uuid
  rq_Artifact :: string
  rq_ArtifactKind :: ArtifactKind
  rq_Args :: "string list"
  rq_OutPath :: string
  rq_Timeout :: int
  rq_Progress :: bool

record run_outcome =
  ro_stdout :: "string list"
  ro_file :: "string option"
  ro_elapsed :: nat
  ro_err :: "error option"

datatype fs_op = FsMkdir string | FsOpen string | FsSync string | FsClose string | FsRename string string | FsRemove string

record orchestrator =
  o_cfg :: backtest_config
  o_runner :: "RunRequest \<Rightarrow> run_outcome"
  o_artifactKind :: ArtifactKind
  o_ps :: PortfolioStore
  o_rs :: RunStore
  o_resolve :: "string \<Rightarrow> string \<Rightarrow> string result"
  o_notifier :: "(uuid \<Rightarrow> uuid \<Rightarrow> bool \<Rightarrow> unit result io) option"
  o_hub :: bool
  o_unicode :: unicode
  o_uuidString :: "uuid \<Rightarrow> string"
  o_fs :: "fs_op \<Rightarrow> error option"
  o_parse :: "string \<Rightarrow> ProgressMessage option"
  o_readKpis :: "string \<Rightarrow> Kpis result"

subsection \<open>run.go\<close>

text \<open>\<open>durationMs\<close> of a duration in microseconds.\<close>

definition max_int32 :: int where "max_int32 = 2147483647"

definition durationMs :: "int \<Rightarrow> int" where
  "durationMs d =
     (let ms = (if d < 0 then - (- d div 1000) else d div 1000) in
      if ms < 0 then 0 else if ms > max_int32 then max_int32 else ms)"

definition since :: "instant \<Rightarrow> int io" where
  "since started = do { w \<leftarrow> State_Monad.get; State_Monad.return (w_now w - started) }"

definition remove_file :: "(fs_op \<Rightarrow> error option) \<Rightarrow> string \<Rightarrow> unit io" where
  "remove_file fs p = State_Monad.update (\<lambda>w.
     case fs (FsRemove p) of None \<Rightarrow> w\<lparr>w_files := (w_files w)(p := None)\<rparr> | Some _ \<Rightarrow> w)"

definition prune :: "orchestrator \<Rightarrow> uuid \<Rightarrow> unit io" where
  "prune o' pid = do {
     r \<leftarrow> ps_PruneRuns (o_ps o') pid;
     (case r of
        Inl _ \<Rightarrow> State_Monad.return ()
      | Inr paths \<Rightarrow> for_each paths (\<lambda>p. if p = [] then State_Monad.return () else remove_file (o_fs o') p))
   }"

definition hub_complete :: "orchestrator \<Rightarrow> uuid \<Rightarrow> string \<Rightarrow> string \<Rightarrow> unit io" where
  "hub_complete o' runID st msg =
     (if o_hub o' then State_Monad.update (\<lambda>w. w\<lparr>w_hub := Complete runID st msg (w_hub w)\<rparr>) else State_Monad.return ())"

definition notify :: "orchestrator \<Rightarrow> bool \<Rightarrow> uuid \<Rightarrow> uuid \<Rightarrow> bool \<Rightarrow> unit io" where
  "notify o' scheduled pid runID success =
     (case o_notifier o' of
        None \<Rightarrow> State_Monad.return ()
      | Some n \<Rightarrow> if scheduled then ignore (n pid runID success) else State_Monad.return ())"

definition truncate_msg :: "string \<Rightarrow> string" where
  "truncate_msg msg = (if length msg > 2048 then take 2048 msg else msg)"

definition run_fail :: "orchestrator \<Rightarrow> uuid \<Rightarrow> uuid \<Rightarrow> instant \<Rightarrow> bool \<Rightarrow> error \<Rightarrow> unit result io" where
  "run_fail o' pid runID started scheduled err = do {
     let msg = truncate_msg (err_text err);
     d \<leftarrow> since started;
     _ \<leftarrow> ps_MarkFailedTx (o_ps o') pid runID msg (durationMs d);
     prune o' pid;
     hub_complete o' runID ''failed'' msg;
     notify o' scheduled pid runID False;
     State_Monad.return (Inl (if errors_Is err DeadlineExceeded \<or> errors_Is err Canceled
        then Error [ErrTimedOut] (''backtest: runner timed out: '' @ msg) else err))
   }"

text \<open>\<open>fsyncAndRename\<close>: each file-system call may fail.\<close>

definition fsyncAndRename :: "(fs_op \<Rightarrow> error option) \<Rightarrow> string \<Rightarrow> string \<Rightarrow> unit result io" where
  "fsyncAndRename fs tmp final = State (\<lambda>w.
     if filepath_Clean tmp \<noteq> tmp then
       (Inl (Error [ErrNonCanonicalSnapshotPath] (''fsync: refusing non-canonical tmp path: '' @ tmp)), w)
     else case (if w_files w tmp = None then Some (Error [] ''no such file or directory'') else fs (FsOpen tmp)) of
       Some e \<Rightarrow> (Inl (wrap ''open tmp'' e), w)
     | None \<Rightarrow> (case fs (FsSync tmp) of
         Some e \<Rightarrow> (Inl (wrap ''fsync tmp'' e), w)
       | None \<Rightarrow> (case fs (FsClose tmp) of
           Some e \<Rightarrow> (Inl (wrap ''close tmp'' e), w)
         | None \<Rightarrow> (case fs (FsRename tmp final) of
             Some e \<Rightarrow> (Inl (wrap ''rename'' e), w)
           | None \<Rightarrow> (Inr (), w\<lparr>w_files := (w_files w)(final := w_files w tmp, tmp := None)\<rparr>)))))"

definition readKpisFromSnapshot :: "(string \<Rightarrow> Kpis result) \<Rightarrow> string \<Rightarrow> Kpis result io" where
  "readKpisFromSnapshot readKpis path = do {
     w \<leftarrow> State_Monad.get;
     State_Monad.return (case w_files w path of
         None \<Rightarrow> Inl (Error [] ''open snapshot: no such file or directory'')
       | Some content \<Rightarrow> map_sum (wrap ''read kpis'') id (readKpis content))
   }"

text \<open>The run of the strategy: its output goes through the line writer, time passes, and the
  snapshot file appears.\<close>

definition exec_runner :: "orchestrator \<Rightarrow> RunRequest \<Rightarrow> unit result io" where
  "exec_runner o' req = State (\<lambda>w.
     let out = o_runner o' req;
         h = (if rq_Progress req then snd (fold (Write (o_parse o') (rq_RunID req)) (ro_stdout out) ([], w_hub w)) else w_hub w);
         w1 = w\<lparr>w_hub := h, w_now := w_now w + int (ro_elapsed out),
                w_files := (case ro_file out of None \<Rightarrow> w_files w | Some c \<Rightarrow> (w_files w)(rq_OutPath req := Some c))\<rparr>
     in (case ro_err out of None \<Rightarrow> Inr () | Some e \<Rightarrow> Inl e, w1))"

definition snapshot_dir :: "orchestrator \<Rightarrow> uuid \<Rightarrow> string" where
  "snapshot_dir o' pid = filepath_Join [bc_SnapshotsDir (o_cfg o'), o_uuidString o' pid]"

definition tmp_path :: "orchestrator \<Rightarrow> uuid \<Rightarrow> uuid \<Rightarrow> string" where
  "tmp_path o' pid runID = filepath_Join [snapshot_dir o' pid, o_uuidString o' runID @ ''.sqlite.tmp'']"

definition final_path :: "orchestrator \<Rightarrow> uuid \<Rightarrow> uuid \<Rightarrow> string" where
  "final_path o' pid runID = filepath_Join [snapshot_dir o' pid, o_uuidString o' runID @ ''.sqlite'']"

definition run_request :: "orchestrator \<Rightarrow> PortfolioRow \<Rightarrow> uuid \<Rightarrow> uuid \<Rightarrow> string \<Rightarrow> RunRequest" where
  "run_request o' row pid runID artifact =
     \<lparr>rq_RunID = runID, rq_Artifact = artifact, rq_ArtifactKind = o_artifactKind o',
      rq_Args = BuildArgs (o_unicode o') (pr_Parameters row) (pr_Benchmark row) (pr_StartDate row) (pr_EndDate row),
      rq_OutPath = tmp_path o' pid runID, rq_Timeout = bc_Timeout (o_cfg o'), rq_Progress = o_hub o'\<rparr>"

text \<open>The part of \<open>Run\<close> after the artifact is resolved.\<close>

definition run_artifact :: "orchestrator \<Rightarrow> PortfolioRow \<Rightarrow> uuid \<Rightarrow> uuid \<Rightarrow> instant \<Rightarrow> bool \<Rightarrow> string \<Rightarrow> unit result io" where
  "run_artifact o' row pid runID started scheduled artifact =
     (case o_fs o' (FsMkdir (snapshot_dir o' pid)) of
        Some e \<Rightarrow> run_fail o' pid runID started scheduled (wrap ''mkdir snapshots subdir'' e)
      | None \<Rightarrow> do {
          let tmp = tmp_path o' pid runID;
          let final = final_path o' pid runID;
          remove_file (o_fs o') tmp;
          ran \<leftarrow> exec_runner o' (run_request o' row pid runID artifact);
          (case ran of
             Inl e \<Rightarrow> run_fail o' pid runID started scheduled e
           | Inr _ \<Rightarrow> do {
               renamed \<leftarrow> fsyncAndRename (o_fs o') tmp final;
               (case renamed of
                  Inl e \<Rightarrow> run_fail o' pid runID started scheduled e
                | Inr _ \<Rightarrow> do {
                    kp \<leftarrow> readKpisFromSnapshot (o_readKpis o') final;
                    (case kp of
                       Inl e \<Rightarrow> run_fail o' pid runID started scheduled e
                     | Inr k \<Rightarrow> do {
                         d \<leftarrow> since started;
                         marked \<leftarrow> ps_MarkReadyTx (o_ps o') pid runID final k (durationMs d);
                         (case marked of
                            Inl e \<Rightarrow> run_fail o' pid runID started scheduled (wrap ''mark ready'' e)
                          | Inr _ \<Rightarrow> do {
                              prune o' pid;
                              hub_complete o' runID ''success'' [];
                              notify o' scheduled pid runID True;
                              State_Monad.return (Inr ())
                            })
                       })
                  })
             })
        })"

definition Run :: "orchestrator \<Rightarrow> uuid \<Rightarrow> uuid \<Rightarrow> bool \<Rightarrow> unit result io" where
  "Run o' pid runID scheduled = do {
     w0 \<leftarrow> State_Monad.get;
     let started = w_now w0;
     r \<leftarrow> ps_GetByID (o_ps o') pid;
     (case r of
        Inl e \<Rightarrow> run_fail o' pid runID started scheduled (wrap ''load portfolio'' e)
      | Inr row \<Rightarrow>
          if pr_Status row = ''running'' then do {
            d \<leftarrow> since started;
            _ \<leftarrow> rs_UpdateRunFailed (o_rs o') runID ''portfolio already running'' (durationMs d);
            State_Monad.return (Inl (Error [ErrAlreadyRunning] ''backtest: portfolio already running''))
          } else do {
            m \<leftarrow> ps_MarkRunningTx (o_ps o') pid runID;
            (case m of
               Inl e \<Rightarrow> run_fail o' pid runID started scheduled (wrap ''mark running'' e)
             | Inr _ \<Rightarrow>
                 (case o_resolve o' (pr_StrategyCloneURL row) (pr_StrategyVer row) of
                    Inl e \<Rightarrow> run_fail o' pid runID started scheduled
                       (Error (ErrStrategyNotInstalled # err_chain e) (''backtest: strategy binary not installed: '' @ err_text e))
                  | Inr artifact \<Rightarrow> run_artifact o' row pid runID started scheduled artifact))
          })
   }"

section \<open>The tables stay consistent\<close>

text \<open>
  The laws of \<open>backtest.PortfolioStore\<close> and what the invariant does not depend on. \<open>Run\<close> and
  \<open>run_fail\<close> then keep the invariant on every path.
\<close>

locale portfolio_store = run_store rs I for rs I +
  fixes ps :: PortfolioStore
  assumes get_keeps: "preserves I (ps_GetByID ps pid)"
    and running_keeps: "preserves I (ps_MarkRunningTx ps pid rid)"
    and ready_keeps: "preserves I (ps_MarkReadyTx ps pid rid path k ms)"
    and failed_keeps: "preserves I (ps_MarkFailedTx ps pid rid msg ms)"
    and prune_keeps: "preserves I (ps_PruneRuns ps pid)"
    and files_frame: "I w \<Longrightarrow> I (w\<lparr>w_files := f\<rparr>)"
    and hub_frame: "I w \<Longrightarrow> I (w\<lparr>w_hub := h\<rparr>)"
    and now_frame: "I w \<Longrightarrow> I (w\<lparr>w_now := t\<rparr>)"
begin

lemma remove_file_keeps: "preserves I (remove_file fs p)"
  by (auto simp: preserves_def remove_file_def files_frame split: option.splits)

lemma since_keeps: "preserves I (since t)"
  unfolding since_def by (intro preserve_rules)

lemma hub_complete_keeps: "preserves I (hub_complete o' rid st msg)"
  unfolding hub_complete_def by (intro preserve_rules preserves_update hub_frame)

lemma exec_runner_keeps: "preserves I (exec_runner o' req)"
  unfolding preserves_def exec_runner_def Let_def
  by (auto split: option.splits intro!: files_frame now_frame hub_frame)

lemma fsyncAndRename_keeps: "preserves I (fsyncAndRename fs tmp final)"
  by (auto simp: preserves_def fsyncAndRename_def files_frame split: option.splits)

lemma readKpis_keeps: "preserves I (readKpisFromSnapshot rk path)"
  unfolding readKpisFromSnapshot_def by (intro preserve_rules)

lemma prune_keeps_I: "o_ps o' = ps \<Longrightarrow> preserves I (prune o' pid)"
  unfolding prune_def by (intro preserve_rules remove_file_keeps) (simp_all add: prune_keeps)

lemma notify_keeps:
  "(\<And>n p r s. o_notifier o' = Some n \<Longrightarrow> preserves I (n p r s)) \<Longrightarrow> preserves I (notify o' sch pid rid ok)"
  unfolding notify_def by (intro preserve_rules)

lemma run_fail_keeps:
  assumes "o_ps o' = ps" and "\<And>n p r s. o_notifier o' = Some n \<Longrightarrow> preserves I (n p r s)"
  shows "preserves I (run_fail o' pid rid t sch e)"
  unfolding run_fail_def Let_def
  by (intro preserve_rules since_keeps prune_keeps_I hub_complete_keeps notify_keeps) (simp_all add: assms failed_keeps)

lemma Run_keeps:
  assumes "o_ps o' = ps" "o_rs o' = rs" and "\<And>n p r s. o_notifier o' = Some n \<Longrightarrow> preserves I (n p r s)"
  shows "preserves I (Run o' pid rid sch)"
proof -
  have fail: "preserves I (run_fail o' pid rid t sch e)" for t e
    by (rule run_fail_keeps) (use assms in auto)
  have "preserves I (run_artifact o' row pid rid t sch art)" for row t art
    unfolding run_artifact_def Let_def
    by (intro preserve_rules fail remove_file_keeps exec_runner_keeps fsyncAndRename_keeps readKpis_keeps since_keeps
        prune_keeps_I hub_complete_keeps notify_keeps) (simp_all add: assms ready_keeps)
  then show ?thesis
    unfolding Run_def Let_def
    by (intro preserve_rules fail since_keeps) (simp_all add: assms get_keeps running_keeps fail_keeps)
qed

end

interpretation pool_bt: portfolio_store pool_run_store db_inv pool_portfolio_store
proof
  show "preserves db_inv (ps_GetByID pool_portfolio_store pid)" for pid
    unfolding pool_portfolio_store_def PortfolioStore.simps adapter_GetByID_def
    by (intro preserve_rules outcome_free_db_inv)
qed (simp_all add: pool_portfolio_store_def preserve_rules, simp_all add: db_inv_def)

section \<open>A run that a worker picked up ends\<close>

definition inflight_id :: "uuid \<Rightarrow> world \<Rightarrow> bool" where
  "inflight_id rid w \<longleftrightarrow> (\<exists>r \<in> set (w_runs w). r_ID r = rid \<and> in_flight r)"

definition calm :: "world \<Rightarrow> bool" where
  "calm w \<longleftrightarrow> w_outcomes w = [] \<and> one_inflight (w_runs w)"

definition settled :: "uuid \<Rightarrow> world \<Rightarrow> bool" where
  "settled rid w \<longleftrightarrow> w_outcomes w = [] \<and> \<not> inflight_id rid w"

lemma one_inflight_end_run:
  assumes "one_inflight rs" and "\<And>r. \<not> in_flight (u r)"
  shows "one_inflight (update_where c u rs)"
proof -
  have "filter in_flight (update_where c u rs) = filter (\<lambda>r. \<not> c r) (filter in_flight rs)"
    using assms(2) by (induction rs) (auto simp: update_where_def)
  then show ?thesis using assms(1) by (simp only: one_inflight_def distinct_map_filter)
qed

lemma ended_runs [simp]: "\<not> in_flight (run_failed m d n r)" "\<not> in_flight (run_success p d n r)"
  by (simp_all add: in_flight_def run_failed_def run_success_def)

lemma both_stmt_end:
  assumes "calm w" and "\<And>n r. \<not> in_flight (u n r)" and "\<And>n r. r_ID (u n r) = r_ID r"
  shows "fst (both_stmt pid rid up u w) = Inr () \<and> settled rid (snd (both_stmt pid rid up u w))"
  using assms
  by (auto simp: both_stmt_def update_run_stmt_def commit_runs_def update_portfolio_def calm_def settled_def inflight_id_def
      one_inflight_end_run elim!: in_update_whereE split: if_splits)

lemma MarkFailedTx_settles: "valid calm (MarkFailedTx pid rid m d) (\<lambda>_. settled rid)"
  unfolding valid_def MarkFailedTx_def using both_stmt_end by (auto simp: calm_def)

lemma MarkReadyTx_settles: "valid calm (MarkReadyTx pid rid s k d) (\<lambda>r w. r = Inr () \<and> settled rid w)"
  unfolding valid_def MarkReadyTx_def using both_stmt_end by (auto simp: calm_def)

lemma UpdateRunFailed_settles: "valid calm (UpdateRunFailed rid m d) (\<lambda>_. settled rid)"
  unfolding valid_def UpdateRunFailed_def
  by (auto simp: calm_def settled_def inflight_id_def update_run_stmt_def commit_runs_def one_inflight_end_run
      elim!: in_update_whereE split: if_splits)

lemma settled_delete: "settled rid w \<Longrightarrow> settled rid (w\<lparr>w_runs := delete_where c (w_runs w)\<rparr>)"
  by (auto simp: settled_def inflight_id_def)

lemma prune_settled: "o_ps o' = pool_portfolio_store \<Longrightarrow> preserves (settled rid) (prune o' pid)"
proof -
  assume ps: "o_ps o' = pool_portfolio_store"
  have "preserves (settled rid) (PruneRuns pid)"
  proof
    fix w assume w: "settled rid w"
    then have "snd (run_state (PruneRuns pid) w) = snd (prune_stmt pid w)" by (simp add: PruneRuns_def settled_def)
    with w show "settled rid (snd (run_state (PruneRuns pid) w))"
      by (auto simp: prune_stmt_def Let_def settled_delete split: option.splits)
  qed
  moreover have "preserves (settled rid) (remove_file fs p)" for fs p
    by (auto simp: preserves_def remove_file_def settled_def inflight_id_def split: option.splits)
  ultimately show ?thesis
    unfolding prune_def ps pool_portfolio_store_def PortfolioStore.simps by (intro preserve_rules)
qed

lemma hub_complete_settled: "preserves (settled rid) (hub_complete o' r st m)"
  by (auto simp: preserves_def hub_complete_def settled_def inflight_id_def)

text \<open>The notifier may read and mark alerts, but it leaves the run table alone.\<close>

definition notifier_keeps_runs :: "orchestrator \<Rightarrow> bool" where
  "notifier_keeps_runs o' \<longleftrightarrow> (case o_notifier o' of None \<Rightarrow> True
     | Some n \<Rightarrow> \<forall>p r s w. let w' = snd (run_state (n p r s) w) in
          w_runs w' = w_runs w \<and> (w_outcomes w = [] \<longrightarrow> w_outcomes w' = []))"

lemma notify_settled: "notifier_keeps_runs o' \<Longrightarrow> preserves (settled rid) (notify o' sch p r ok)"
  by (auto simp: notify_def notifier_keeps_runs_def preserves_def settled_def inflight_id_def ignore_def Let_def
      split: option.splits prod.splits) (metis snd_conv)+

lemma since_valid: "valid P (since t) (\<lambda>_. P)"
  by (simp add: valid_def since_def)

lemma run_fail_settles:
  assumes "o_ps o' = pool_portfolio_store" and "notifier_keeps_runs o'"
  shows "valid calm (run_fail o' pid rid t sch e) (\<lambda>_. settled rid)"
  unfolding run_fail_def Let_def
  by (rule valid_bind [OF since_valid], rule valid_bind [where R = "\<lambda>_. settled rid"])
    (use assms in \<open>auto simp: pool_portfolio_store_def MarkFailedTx_settles intro!: valid_preserves preserve_rules
      prune_settled hub_complete_settled notify_settled\<close>)

lemma calm_parts:
  "calm (w\<lparr>w_files := f\<rparr>) = calm w" "calm (w\<lparr>w_hub := h\<rparr>) = calm w" "calm (w\<lparr>w_now := t\<rparr>) = calm w"
  by (simp_all add: calm_def)

lemma calm_steps:
  "preserves calm (remove_file fs p)" "preserves calm (exec_runner o' req)" "preserves calm (fsyncAndRename fs tmp final)"
  "preserves calm (readKpisFromSnapshot rk path)"
  by (auto simp: preserves_def remove_file_def exec_runner_def fsyncAndRename_def readKpisFromSnapshot_def Let_def calm_parts
      split: option.splits)

lemma calm_MarkRunningTx: "preserves calm (MarkRunningTx pid rid)"
  by (auto simp: preserves_def MarkRunningTx_def both_stmt_def update_run_stmt_def commit_runs_def update_portfolio_def calm_def)

lemma run_artifact_settles:
  assumes "o_ps o' = pool_portfolio_store" and "notifier_keeps_runs o'"
  shows "valid calm (run_artifact o' row pid rid t sch art) (\<lambda>_. settled rid)"
proof -
  note fail = run_fail_settles [OF assms]
  have ready: "valid calm (ps_MarkReadyTx (o_ps o') pid rid s k d) (\<lambda>r w. r = Inr () \<and> settled rid w)" for s k d
    by (simp add: assms(1) pool_portfolio_store_def MarkReadyTx_settles)
  have tail: "valid (\<lambda>w. r = Inr () \<and> settled rid w)
      (case r of Inl e \<Rightarrow> run_fail o' pid rid t sch (wrap ''mark ready'' e)
       | Inr _ \<Rightarrow> do { prune o' pid; hub_complete o' rid ''success'' []; notify o' sch pid rid True; State_Monad.return (Inr ()) })
      (\<lambda>_. settled rid)" for r :: "unit result"
  proof (cases r)
    case (Inr x)
    have "preserves (settled rid) (do { prune o' pid; hub_complete o' rid ''success'' []; notify o' sch pid rid True;
        State_Monad.return (Inr ()) } :: unit result io)"
      by (intro preserves_bind preserves_return prune_settled hub_complete_settled notify_settled assms)
    with Inr show ?thesis by (auto simp: preserves_def valid_def)
  qed (simp add: valid_def)
  note calm = calm_steps [THEN valid_preserves]
  show ?thesis
    unfolding run_artifact_def Let_def
    by (rule valid_case_option, rule valid_bind [OF calm(1)], rule valid_bind [OF calm(2)], rule valid_case_sum, rule fail,
        rule valid_bind [OF calm(3)], rule valid_case_sum, rule fail, rule valid_bind [OF calm(4)], rule valid_case_sum,
        rule fail, rule valid_bind [OF since_valid], rule valid_bind [OF ready], rule tail, rule fail)
qed


section \<open>A successful run\<close>

lemma tmp_path_canonical: "filepath_Clean (tmp_path o' pid rid) = tmp_path o' pid rid"
  unfolding tmp_path_def by (intro filepath_Clean_Join filepath_Join_nonempty) simp

lemma run_for_each_remove:
  assumes "\<And>x. fs (FsRemove x) = None"
  shows "run_state (for_each ps (\<lambda>p. if p = [] then State_Monad.return () else remove_file fs p)) w =
     ((), w\<lparr>w_files := (\<lambda>x. if x \<in> set ps \<and> x \<noteq> [] then None else w_files w x)\<rparr>)"
proof (induction ps arbitrary: w)
  case (Cons p ps)
  then show ?case by (auto simp: remove_file_def assms fun_eq_iff intro!: world.equality)
qed (simp add: fun_eq_iff)

lemma one_inflight_keep:
  assumes "one_inflight rs" and "\<And>r. r \<in> set rs \<Longrightarrow> c r \<Longrightarrow> in_flight r"
    and "\<And>r. in_flight (u r)" and "\<And>r. r_PortfolioID (u r) = r_PortfolioID r"
  shows "one_inflight (update_where c u rs)"
proof -
  have "map r_PortfolioID (filter in_flight (update_where c u rs)) = map r_PortfolioID (filter in_flight rs)"
    using assms(2-4) by (induction rs) (auto simp: update_where_def)
  with assms(1) show ?thesis by (simp add: one_inflight_def)
qed

text \<open>The notifier does not touch portfolios, runs or files.\<close>

definition notifier_frame :: "orchestrator \<Rightarrow> bool" where
  "notifier_frame o' \<longleftrightarrow> (case o_notifier o' of None \<Rightarrow> True
     | Some n \<Rightarrow> \<forall>p r s w. let w' = snd (run_state (n p r s) w) in
          w_portfolios w' = w_portfolios w \<and> w_runs w' = w_runs w \<and> w_files w' = w_files w)"

lemma run_notify:
  assumes "notifier_frame o'"
  shows "\<exists>w'. run_state (notify o' sch p r ok) w = ((), w') \<and> w_portfolios w' = w_portfolios w \<and> w_runs w' = w_runs w \<and> w_files w' = w_files w"
proof (cases "o_notifier o'")
  case (Some n)
  obtain x w' where x: "run_state (n p r ok) w = (x, w')" by fastforce
  have "let w' = snd (run_state (n p r ok) w) in w_portfolios w' = w_portfolios w \<and> w_runs w' = w_runs w \<and> w_files w' = w_files w"
    using assms Some by (simp add: notifier_frame_def)
  with Some x show ?thesis by (auto simp: notify_def ignore_def)
qed (simp add: notify_def)

lemma run_hub_complete:
  "\<exists>h. run_state (hub_complete o' r st m) w = ((), w\<lparr>w_hub := h\<rparr>)"
  by (cases "o_hub o'") (auto simp: hub_complete_def intro: exI [of _ "w_hub w"])

text \<open>A run that is queued or running can be marked running without touching the index.\<close>

lemma run_MarkRunningTx:
  assumes "w_outcomes w = []" and "one_inflight (w_runs w)"
    and "\<And>q. q \<in> set (w_runs w) \<Longrightarrow> r_ID q = rid \<Longrightarrow> in_flight q"
  shows "run_state (MarkRunningTx pid rid) w = (Inr (), w\<lparr>
      w_portfolios := update_where (\<lambda>p. p_ID p = pid) (mark_running (w_now w)) (w_portfolios w),
      w_runs := update_where (\<lambda>r. r_ID r = rid) (run_running (w_now w)) (w_runs w)\<rparr>)"
proof -
  have "one_inflight (update_where (\<lambda>r. r_ID r = rid) (run_running (w_now w)) (w_runs w))"
    using assms(2,3) by (intro one_inflight_keep) (auto simp: in_flight_def run_running_def)
  with assms(1) show ?thesis
    by (simp add: MarkRunningTx_def both_stmt_def update_run_stmt_def commit_runs_def update_portfolio_def)
qed

lemma run_MarkReadyTx:
  assumes "w_outcomes w = []" and "one_inflight (w_runs w)"
  shows "run_state (MarkReadyTx pid rid s k ms) w = (Inr (), w\<lparr>
      w_portfolios := update_where (\<lambda>p. p_ID p = pid) (mark_ready s k (w_now w)) (w_portfolios w),
      w_runs := update_where (\<lambda>r. r_ID r = rid) (run_success s ms (w_now w)) (w_runs w)\<rparr>)"
  using assms one_inflight_end_run [OF assms(2), of "run_success s ms (w_now w)"]
  by (simp add: MarkReadyTx_def both_stmt_def update_run_stmt_def commit_runs_def update_portfolio_def)

lemma mark_ready_simps:
  "p_Status (mark_ready s k n p) = StatusReady" "p_LastError (mark_ready s k n p) = None"
  "p_SnapshotPath (mark_ready s k n p) = Some s" "p_CurrentValue (mark_ready s k n p) = Some (k_CurrentValue k)"
  by (simp_all add: mark_ready_def)

lemma run_success_simps:
  "r_Status (run_success s m n r) = RunSuccess" "r_SnapshotPath (run_success s m n r) = Some s"
  by (simp_all add: run_success_def)

definition pruned_paths :: "uuid \<Rightarrow> int \<Rightarrow> Run list \<Rightarrow> string set" where
  "pruned_paths pid k rs = {s. s \<noteq> [] \<and> (\<exists>r \<in> set rs. prunable pid k rs r \<and> r_SnapshotPath r = Some s)}"

lemma run_prune:
  assumes "w_outcomes w = []" and "o_ps o' = pool_portfolio_store" and "\<And>op. o_fs o' op = None"
    and "List.find (\<lambda>p. p_ID p = pid) (w_portfolios w) = Some p"
  shows "run_state (prune o' pid) w = ((), w\<lparr>
      w_runs := delete_where (prunable pid (p_RunRetention p) (w_runs w)) (w_runs w),
      w_files := (\<lambda>x. if x \<in> pruned_paths pid (p_RunRetention p) (w_runs w) then None else w_files w x)\<rparr>)"
proof -
  let ?dead = "prunable pid (p_RunRetention p) (w_runs w)"
  define L where "L = filter (\<lambda>s. s \<noteq> []) (map snapshot_or_empty (filter ?dead (w_runs w)))"
  have mem: "x \<in> set L \<and> x \<noteq> [] \<longleftrightarrow> x \<in> pruned_paths pid (p_RunRetention p) (w_runs w)" for x
    by (force simp: L_def pruned_paths_def snapshot_or_empty_def split: option.splits)
  have "run_state (PruneRuns pid) w = (Inr L, w\<lparr>w_runs := delete_where ?dead (w_runs w)\<rparr>)"
    using assms(1,4) by (simp add: PruneRuns_def prune_stmt_def L_def Let_def)
  then show ?thesis
    using assms(2,3) by (simp add: prune_def pool_portfolio_store_def run_for_each_remove mem cong: if_cong)
qed

text \<open>The newest run of a portfolio is never pruned.\<close>

lemma newest_not_prunable:
  assumes "1 \<le> k" and "\<And>q. q \<in> set rs \<Longrightarrow> r_PortfolioID q = r_PortfolioID r \<Longrightarrow> r_ID q \<le> r_ID r"
  shows "\<not> prunable pid k rs r"
proof -
  have "filter (\<lambda>q. r_PortfolioID q = r_PortfolioID r \<and> r_ID r < r_ID q) rs = []"
    using assms(2) by (auto simp: filter_empty_conv leD)
  with assms(1) show ?thesis by (simp add: prunable_def row_number_def)
qed

lemma run_exec_runner_ok:
  assumes "ro_err (o_runner o' req) = None" and "ro_file (o_runner o' req) = Some c"
  shows "\<exists>h. run_state (exec_runner o' req) w = (Inr (), w\<lparr>w_hub := h, w_now := w_now w + int (ro_elapsed (o_runner o' req)),
      w_files := (w_files w)(rq_OutPath req := Some c)\<rparr>)"
  using assms by (cases "rq_Progress req") (auto simp: exec_runner_def Let_def intro: exI [of _ "w_hub w"])

lemma run_fsync_ok:
  assumes "\<And>op. fs op = None" and "filepath_Clean tmp = tmp" and "w_files w tmp = Some c"
  shows "run_state (fsyncAndRename fs tmp final) w = (Inr (), w\<lparr>w_files := (w_files w)(final := Some c, tmp := None)\<rparr>)"
  using assms by (simp add: fsyncAndRename_def)

lemma remove_file_ok: "(\<And>op. fs op = None) \<Longrightarrow> run_state (remove_file fs p) w = ((), w\<lparr>w_files := (w_files w)(p := None)\<rparr>)"
  by (simp add: remove_file_def)

text \<open>Publishing the result of the newest run and pruning: the run and its file survive.\<close>

lemma run_ready_prune:
  assumes stores: "o_ps o' = pool_portfolio_store" and fs: "\<And>op. o_fs o' op = None"
    and w: "w_outcomes w = []" "one_inflight (w_runs w)"
    and p: "List.find (\<lambda>q. p_ID q = pid) (w_portfolios w) = Some p" "1 \<le> p_RunRetention p"
    and r: "r \<in> set (w_runs w)" "r_ID r = rid" "r_PortfolioID r = pid"
    and newest: "\<And>q. q \<in> set (w_runs w) \<Longrightarrow> r_PortfolioID q = pid \<Longrightarrow> r_ID q \<le> rid"
    and paths: "\<And>q. q \<in> set (w_runs w) \<Longrightarrow> r_SnapshotPath q \<noteq> Some final"
  shows "\<exists>w4 w5. run_state (MarkReadyTx pid rid final k ms) w = (Inr (), w4) \<and> run_state (prune o' pid) w4 = ((), w5)
    \<and> mark_ready final k (w_now w) p \<in> set (w_portfolios w5) \<and> run_success final ms (w_now w) r \<in> set (w_runs w5)
    \<and> w_files w5 final = w_files w final \<and> (\<forall>x. w_files w x = None \<longrightarrow> w_files w5 x = None)"
proof -
  let ?k = "p_RunRetention p"
  define w4 where "w4 = w\<lparr>w_portfolios := update_where (\<lambda>q. p_ID q = pid) (mark_ready final k (w_now w)) (w_portfolios w),
      w_runs := update_where (\<lambda>q. r_ID q = rid) (run_success final ms (w_now w)) (w_runs w)\<rparr>"
  define w5 where "w5 = w4\<lparr>w_runs := delete_where (prunable pid ?k (w_runs w4)) (w_runs w4),
      w_files := (\<lambda>x. if x \<in> pruned_paths pid ?k (w_runs w4) then None else w_files w4 x)\<rparr>"
  have "List.find (\<lambda>q. p_ID q = pid) (update_where (\<lambda>q. p_ID q = pid) (mark_ready final k n) ps) =
      map_option (mark_ready final k n) (List.find (\<lambda>q. p_ID q = pid) ps)" for n ps
    by (induction ps) (auto simp: update_where_def)
  then have f4: "List.find (\<lambda>q. p_ID q = pid) (w_portfolios w4) = Some (mark_ready final k (w_now w) p)"
    using p(1) by (simp add: w4_def)
  have pr: "run_state (prune o' pid) w4 = ((), w5)"
    using run_prune [OF _ stores fs f4] w(1) by (simp add: w5_def w4_def)
  have from_w: "\<exists>q0 \<in> set (w_runs w). r_ID q = r_ID q0 \<and> r_PortfolioID q = r_PortfolioID q0 \<and> (r_ID q \<noteq> rid \<longrightarrow> q = q0)"
    if "q \<in> set (w_runs w4)" for q
    using that by (auto simp: w4_def elim!: in_update_whereE split: if_splits)
  have keep: "\<not> prunable pid ?k (w_runs w4) q" if "q \<in> set (w_runs w4)" "r_ID q = rid" for q
  proof (cases "r_PortfolioID q = pid")
    case True
    with from_w newest that p(2) show ?thesis by (intro newest_not_prunable) metis+
  qed (simp add: prunable_def)
  have r4: "run_success final ms (w_now w) r \<in> set (w_runs w4)" using r by (auto simp: w4_def intro: update_whereI)
  have "final \<notin> pruned_paths pid ?k (w_runs w4)"
    unfolding pruned_paths_def using keep from_w paths by blast
  moreover have "run_state (MarkReadyTx pid rid final k ms) w = (Inr (), w4)"
    unfolding w4_def by (rule run_MarkReadyTx) (use w in auto)
  moreover have "mark_ready final k (w_now w) p \<in> set (w_portfolios w5)"
    using find_Some_in [OF p(1)] by (auto simp: w5_def w4_def intro: update_whereI)
  moreover have "run_success final ms (w_now w) r \<in> set (w_runs w5)" using r4 keep [OF r4] r(2) by (simp add: w5_def)
  ultimately show ?thesis using pr by (auto simp: w5_def w4_def)
qed

text \<open>
  The part of a successful run after the artifact is resolved: from a state where the run is in
  flight and is the newest of its portfolio.
\<close>

lemma run_artifact_ok:
  assumes stores: "o_ps o' = pool_portfolio_store" and fs: "\<And>op. o_fs o' op = None" and nf: "notifier_frame o'"
    and w: "w_outcomes w = []" "one_inflight (w_runs w)"
    and p: "List.find (\<lambda>q. p_ID q = pid) (w_portfolios w) = Some p" "1 \<le> p_RunRetention p"
    and r: "r \<in> set (w_runs w)" "r_ID r = rid" "r_PortfolioID r = pid"
    and newest: "\<And>q. q \<in> set (w_runs w) \<Longrightarrow> r_PortfolioID q = pid \<Longrightarrow> r_ID q \<le> rid"
    and paths: "\<And>q. q \<in> set (w_runs w) \<Longrightarrow> r_SnapshotPath q \<noteq> Some (final_path o' pid rid)"
    and neq: "tmp_path o' pid rid \<noteq> final_path o' pid rid"
    and runner: "ro_err (o_runner o' (run_request o' row pid rid art)) = None"
      "ro_file (o_runner o' (run_request o' row pid rid art)) = Some c" and kpis: "o_readKpis o' c = Inr k"
  shows "\<exists>w' n ms. run_state (run_artifact o' row pid rid t sch art) w = (Inr (), w')
    \<and> mark_ready (final_path o' pid rid) k n p \<in> set (w_portfolios w')
    \<and> run_success (final_path o' pid rid) ms n r \<in> set (w_runs w')
    \<and> w_files w' (final_path o' pid rid) = Some c \<and> w_files w' (tmp_path o' pid rid) = None"
proof -
  let ?tmp = "tmp_path o' pid rid" and ?final = "final_path o' pid rid"
  let ?req = "run_request o' row pid rid art"
  define w1 where "w1 = w\<lparr>w_files := (w_files w)(?tmp := None)\<rparr>"
  obtain h where e: "run_state (exec_runner o' ?req) w1 = (Inr (), w1\<lparr>w_hub := h, w_now := w_now w1 + int (ro_elapsed (o_runner o' ?req)),
      w_files := (w_files w1)(?tmp := Some c)\<rparr>)"
    using run_exec_runner_ok [OF runner, of w1] by (auto simp: run_request_def)
  define w2 where "w2 = w1\<lparr>w_hub := h, w_now := w_now w1 + int (ro_elapsed (o_runner o' ?req)), w_files := (w_files w1)(?tmp := Some c)\<rparr>"
  define w3 where "w3 = w2\<lparr>w_files := (w_files w2)(?final := Some c, ?tmp := None)\<rparr>"
  have f: "run_state (fsyncAndRename (o_fs o') ?tmp ?final) w2 = (Inr (), w3)"
    unfolding w3_def by (rule run_fsync_ok) (use fs in \<open>auto simp: tmp_path_canonical w2_def\<close>)
  have files3: "w_files w3 ?final = Some c" "w_files w3 ?tmp = None" using neq by (auto simp: w3_def)
  have same3: "w_outcomes w3 = []" "w_runs w3 = w_runs w" "w_portfolios w3 = w_portfolios w"
    using w(1) by (simp_all add: w3_def w2_def w1_def)
  define ms where "ms = durationMs (w_now w3 - t)"
  obtain w4 w5 where m: "run_state (MarkReadyTx pid rid ?final k ms) w3 = (Inr (), w4)" "run_state (prune o' pid) w4 = ((), w5)"
    and res: "mark_ready ?final k (w_now w3) p \<in> set (w_portfolios w5)" "run_success ?final ms (w_now w3) r \<in> set (w_runs w5)"
      "w_files w5 ?final = Some c" "w_files w5 ?tmp = None"
    using run_ready_prune [OF stores fs, of w3 pid p r rid ?final k ms] same3 w p r newest paths files3 by auto
  obtain h' where hc: "run_state (hub_complete o' rid ''success'' []) w5 = ((), w5\<lparr>w_hub := h'\<rparr>)" using run_hub_complete by blast
  obtain w' where n: "run_state (notify o' sch pid rid True) (w5\<lparr>w_hub := h'\<rparr>) = ((), w')"
      "w_portfolios w' = w_portfolios w5" "w_runs w' = w_runs w5" "w_files w' = w_files w5"
    using run_notify [OF nf, of sch pid rid True "w5\<lparr>w_hub := h'\<rparr>"] by auto
  have rd: "run_state (readKpisFromSnapshot (o_readKpis o') ?final) w3 = (Inr k, w3)"
    using files3(1) kpis by (simp add: readKpisFromSnapshot_def)
  have "run_state (run_artifact o' row pid rid t sch art) w = (Inr (), w')"
    using fs e [folded w2_def] f rd m hc n(1)
    by (simp add: run_artifact_def Let_def remove_file_ok w1_def [symmetric] since_def ms_def [symmetric] stores pool_portfolio_store_def)
  with res n show ?thesis by metis
qed

lemma to_row_status: "p_Status p \<noteq> StatusRunning \<Longrightarrow> pr_Status (to_row p) \<noteq> ''running''"
  by (cases "p_Status p") (simp_all add: to_row_def)

lemma to_row_url [simp]: "pr_StrategyCloneURL (to_row p) = p_StrategyCloneURL p"
  by (simp add: to_row_def)

text \<open>Marking a queued run running changes the status columns only.\<close>

lemma run_started:
  assumes "db_inv w" and "w_outcomes w = []" and "p \<in> set (w_portfolios w)"
    and "r \<in> set (w_runs w)" and "r_PortfolioID r = p_ID p" and "r_Status r = RunQueued"
  shows "\<exists>w1. run_state (MarkRunningTx (p_ID p) (r_ID r)) w = (Inr (), w1) \<and> w_outcomes w1 = [] \<and> one_inflight (w_runs w1)
    \<and> List.find (\<lambda>q. p_ID q = p_ID p) (w_portfolios w1) = Some (mark_running (w_now w) p)
    \<and> run_running (w_now w) r \<in> set (w_runs w1)
    \<and> (\<forall>q \<in> set (w_runs w1). \<exists>q0 \<in> set (w_runs w). r_ID q = r_ID q0 \<and> r_PortfolioID q = r_PortfolioID q0 \<and> r_SnapshotPath q = r_SnapshotPath q0)"
proof -
  let ?n = "w_now w"
  have dp: "distinct (map p_ID (w_portfolios w))" and dr: "distinct (map r_ID (w_runs w))" and oi: "one_inflight (w_runs w)"
    using assms(1) by (auto simp: db_inv_def)
  have "q = r" if "q \<in> set (w_runs w)" "r_ID q = r_ID r" for q
    using dr that assms(4) by (auto simp: distinct_map dest: inj_onD)
  then have rin: "in_flight q" if "q \<in> set (w_runs w)" "r_ID q = r_ID r" for q
    using that assms(6) by (metis in_flight_def)
  define w1 where "w1 = w\<lparr>w_portfolios := update_where (\<lambda>q. p_ID q = p_ID p) (mark_running ?n) (w_portfolios w),
      w_runs := update_where (\<lambda>q. r_ID q = r_ID r) (run_running ?n) (w_runs w)\<rparr>"
  have "run_state (MarkRunningTx (p_ID p) (r_ID r)) w = (Inr (), w1)"
    unfolding w1_def by (rule run_MarkRunningTx) (use assms(2) oi rin in auto)
  moreover have "List.find (\<lambda>q. p_ID q = p_ID p) (w_portfolios w1) = Some (mark_running ?n p)"
  proof -
    have "List.find (\<lambda>q. p_ID q = i) (update_where (\<lambda>q. p_ID q = i) (mark_running ?n) ps) =
        map_option (mark_running ?n) (List.find (\<lambda>q. p_ID q = i) ps)" for i ps
      by (induction ps) (auto simp: update_where_def)
    with find_Some_iff_key [OF dp, of "p_ID p" p] assms(3) show ?thesis by (simp add: w1_def)
  qed
  moreover have "one_inflight (w_runs w1)"
    unfolding w1_def using oi rin by (auto intro!: one_inflight_keep) (simp add: in_flight_def run_running_def)
  moreover have "\<exists>q0 \<in> set (w_runs w). r_ID q = r_ID q0 \<and> r_PortfolioID q = r_PortfolioID q0 \<and> r_SnapshotPath q = r_SnapshotPath q0"
    if "q \<in> set (w_runs w1)" for q
  proof -
    from that obtain q0 where "q0 \<in> set (w_runs w)" "q = (if r_ID q0 = r_ID r then run_running ?n q0 else q0)"
      by (auto simp: w1_def elim: in_update_whereE)
    then show ?thesis by (intro bexI [of _ q0]) (simp_all add: run_running_def)
  qed
  moreover have "run_running ?n r \<in> set (w_runs w1)" using assms(4) by (auto simp: w1_def intro: update_whereI)
  moreover have "w_outcomes w1 = []" using assms(2) by (simp add: w1_def)
  ultimately show ?thesis by blast
qed

text \<open>
  C1. A successful run, from the queue to the published result: when the strategy resolves, runs
  and writes a readable snapshot, \<open>Run\<close> returns no error; the portfolio is ready with the KPIs of
  the snapshot and the path of its file, the run is a success with the same path, the file is in
  place and the temporary file is gone. Pruning does not touch the new run or its file.
\<close>

theorem Run_success:
  assumes "o_ps o' = pool_portfolio_store" and "o_rs o' = pool_run_store" and "\<And>op. o_fs o' op = None" and "notifier_frame o'"
    and "db_inv w" and "w_outcomes w = []"
    and "p \<in> set (w_portfolios w)" and "p_Status p \<noteq> StatusRunning"
    and "r \<in> set (w_runs w)" and "r_PortfolioID r = p_ID p" and "r_Status r = RunQueued"
    and "\<And>q. q \<in> set (w_runs w) \<Longrightarrow> r_PortfolioID q = p_ID p \<Longrightarrow> r_ID q \<le> r_ID r"
    and "\<And>q. q \<in> set (w_runs w) \<Longrightarrow> r_SnapshotPath q \<noteq> Some (final_path o' (p_ID p) (r_ID r))"
    and "tmp_path o' (p_ID p) (r_ID r) \<noteq> final_path o' (p_ID p) (r_ID r)"
    and "o_resolve o' (p_StrategyCloneURL p) (pr_StrategyVer (to_row p)) = Inr art"
    and "ro_err (o_runner o' (run_request o' (to_row p) (p_ID p) (r_ID r) art)) = None"
    and "ro_file (o_runner o' (run_request o' (to_row p) (p_ID p) (r_ID r) art)) = Some c" and "o_readKpis o' c = Inr k"
  shows "\<exists>w'. run_state (Run o' (p_ID p) (r_ID r) sch) w = (Inr (), w')
    \<and> (\<exists>p' \<in> set (w_portfolios w'). p_ID p' = p_ID p \<and> p_Status p' = StatusReady \<and> p_LastError p' = None
         \<and> p_SnapshotPath p' = Some (final_path o' (p_ID p) (r_ID r)) \<and> p_CurrentValue p' = Some (k_CurrentValue k))
    \<and> (\<exists>r' \<in> set (w_runs w'). r_ID r' = r_ID r \<and> r_Status r' = RunSuccess
         \<and> r_SnapshotPath r' = Some (final_path o' (p_ID p) (r_ID r)))
    \<and> w_files w' (final_path o' (p_ID p) (r_ID r)) = Some c \<and> w_files w' (tmp_path o' (p_ID p) (r_ID r)) = None"
proof -
  let ?n = "w_now w"
  obtain w1 where mark: "run_state (MarkRunningTx (p_ID p) (r_ID r)) w = (Inr (), w1)" "w_outcomes w1 = []"
    and oi1: "one_inflight (w_runs w1)"
    and find1: "List.find (\<lambda>q. p_ID q = p_ID p) (w_portfolios w1) = Some (mark_running ?n p)"
    and r1: "run_running ?n r \<in> set (w_runs w1)"
    and from_w: "\<forall>q \<in> set (w_runs w1). \<exists>q0 \<in> set (w_runs w). r_ID q = r_ID q0 \<and> r_PortfolioID q = r_PortfolioID q0 \<and> r_SnapshotPath q = r_SnapshotPath q0"
    using run_started [OF assms(5,6,7,9,10,11)] by blast
  have newest1: "r_ID q \<le> r_ID r" if "q \<in> set (w_runs w1)" "r_PortfolioID q = p_ID p" for q
    using from_w that assms(12) by metis
  have paths1: "r_SnapshotPath q \<noteq> Some (final_path o' (p_ID p) (r_ID r))" if "q \<in> set (w_runs w1)" for q
    using from_w that assms(13) by metis
  have k1: "1 \<le> p_RunRetention (mark_running ?n p)" "r_ID (run_running ?n r) = r_ID r" "r_PortfolioID (run_running ?n r) = p_ID p"
    using assms(5,7,10) by (simp_all add: db_inv_def)
  have find: "List.find (\<lambda>q. p_ID q = p_ID p) (w_portfolios w) = Some p"
    using assms(5,7) by (subst find_Some_iff_key) (auto simp: db_inv_def)
  from run_artifact_ok [OF assms(1,3,4) mark(2) oi1 find1 k1(1) r1 k1(2,3) newest1 paths1 assms(14,16,17,18)]
  obtain w' n ms where res: "run_state (run_artifact o' (to_row p) (p_ID p) (r_ID r) ?n sch art) w1 = (Inr (), w')"
      "mark_ready (final_path o' (p_ID p) (r_ID r)) k n (mark_running ?n p) \<in> set (w_portfolios w')"
      "run_success (final_path o' (p_ID p) (r_ID r)) ms n (run_running ?n r) \<in> set (w_runs w')"
      "w_files w' (final_path o' (p_ID p) (r_ID r)) = Some c" "w_files w' (tmp_path o' (p_ID p) (r_ID r)) = None"
    by blast
  have "run_state (Run o' (p_ID p) (r_ID r) sch) w = (Inr (), w')"
    using res(1) mark(1) assms(6,15) find to_row_status [OF assms(8)]
    by (simp add: Run_def Let_def assms(1) pool_portfolio_store_def adapter_GetByID_def GetByID_def)
  with res(2-5) show ?thesis
    by (metis mark_keys(1,4) run_update_keys(1,3) mark_ready_simps run_success_simps)
qed

subsection \<open>Concrete runs\<close>

definition demo_kpis :: Kpis where
  "demo_kpis = \<lparr>k_CurrentValue = ''100'', k_YtdReturn = None, k_MaxDrawdown = None, k_Sharpe = None, k_Cagr = None,
     k_InceptionDate = Date 2020 1 1\<rparr>"

definition demo_orch :: orchestrator where
  "demo_orch = \<lparr>o_cfg = \<lparr>bc_SnapshotsDir = ''/snap'', bc_MaxConcurrency = 1, bc_Timeout = 1, bc_RunnerMode = ''host'', bc_OrphanGCInterval = 1\<rparr>,
     o_runner = (\<lambda>_. \<lparr>ro_stdout = [], ro_file = Some ''db'', ro_elapsed = 7, ro_err = None\<rparr>), o_artifactKind = ArtifactBinary,
     o_ps = pool_portfolio_store, o_rs = pool_run_store, o_resolve = (\<lambda>_ _. Inr ''/bin/adm''), o_notifier = None, o_hub = True,
     o_unicode = ascii, o_uuidString = (\<lambda>i. if i = 1 then ''p'' else ''r''), o_fs = (\<lambda>_. None), o_parse = (\<lambda>_. None),
     o_readKpis = (\<lambda>_. Inr demo_kpis)\<rparr>"

definition demo_queued :: Run where
  "demo_queued = \<lparr>r_ID = 5, r_PortfolioID = 1, r_Status = RunQueued, r_StartedAt = None, r_FinishedAt = None,
     r_DurationMs = None, r_Error = None, r_SnapshotPath = None, r_TriggeredBy = TriggerManual\<rparr>"

definition demo_busy :: world where
  "demo_busy = demo_world\<lparr>w_runs := w_runs demo_world @ [demo_queued], w_next := 6\<rparr>"

lemma demo_busy_inv: "db_inv demo_busy"
  by (simp add: db_inv_def demo_busy_def demo_queued_def demo_world_def empty_world_def demo_portfolio_def demo_run_def one_inflight_def in_flight_def)

lemma demo_busy_runs: "w_runs demo_busy = [demo_run 2 ''/snap/2'', demo_run 3 ''/snap/3'', demo_run 4 ''/snap/4'', demo_queued]"
  by (simp add: demo_busy_def demo_world_def)

lemma demo_paths: "tmp_path demo_orch 1 5 = ''/snap/p/r.sqlite.tmp''" "final_path demo_orch 1 5 = ''/snap/p/r.sqlite''"
  by (simp_all add: tmp_path_def final_path_def snapshot_dir_def demo_orch_def filepath_Join_def filepath_Clean_def
      is_rooted_def slash_def Let_def)

theorem Run_success_witness:
  "\<exists>w'. run_state (Run demo_orch (p_ID demo_portfolio) (r_ID demo_queued) True) demo_busy = (Inr (), w')
    \<and> w_files w' (final_path demo_orch (p_ID demo_portfolio) (r_ID demo_queued)) = Some ''db''"
proof -
  have "\<exists>w'. run_state (Run demo_orch (p_ID demo_portfolio) (r_ID demo_queued) True) demo_busy = (Inr (), w')
    \<and> (\<exists>p' \<in> set (w_portfolios w'). p_ID p' = p_ID demo_portfolio \<and> p_Status p' = StatusReady \<and> p_LastError p' = None
         \<and> p_SnapshotPath p' = Some (final_path demo_orch (p_ID demo_portfolio) (r_ID demo_queued)) \<and> p_CurrentValue p' = Some (k_CurrentValue demo_kpis))
    \<and> (\<exists>r' \<in> set (w_runs w'). r_ID r' = r_ID demo_queued \<and> r_Status r' = RunSuccess
         \<and> r_SnapshotPath r' = Some (final_path demo_orch (p_ID demo_portfolio) (r_ID demo_queued)))
    \<and> w_files w' (final_path demo_orch (p_ID demo_portfolio) (r_ID demo_queued)) = Some ''db''
    \<and> w_files w' (tmp_path demo_orch (p_ID demo_portfolio) (r_ID demo_queued)) = None"
  proof (rule Run_success)
    show "tmp_path demo_orch (p_ID demo_portfolio) (r_ID demo_queued) \<noteq> final_path demo_orch (p_ID demo_portfolio) (r_ID demo_queued)"
      using demo_paths by (simp add: demo_queued_def)
    show "q \<in> set (w_runs demo_busy) \<Longrightarrow> r_PortfolioID q = p_ID demo_portfolio \<Longrightarrow> r_ID q \<le> r_ID demo_queued" for q
      by (auto simp: demo_busy_runs demo_run_def demo_queued_def)
    show "q \<in> set (w_runs demo_busy) \<Longrightarrow> r_SnapshotPath q \<noteq> Some (final_path demo_orch (p_ID demo_portfolio) (r_ID demo_queued))" for q
      using demo_paths(2) by (auto simp: demo_busy_runs demo_run_def demo_queued_def)
  qed (simp_all add: demo_orch_def notifier_frame_def demo_busy_inv demo_busy_runs, simp_all add: demo_busy_def demo_queued_def demo_portfolio_def)
  then show ?thesis by blast
qed


text \<open>
  C27. Retention counts failed runs too: when as many newer runs as the retention allows have
  failed, pruning deletes the row and the file of the run whose snapshot the portfolio still
  points to.
\<close>

theorem prune_drops_current_snapshot:
  assumes "db_inv w" and "w_outcomes w = []" and "o_ps o' = pool_portfolio_store" and "\<And>op. o_fs o' op = None"
    and "p \<in> set (w_portfolios w)" and "p_SnapshotPath p = Some s" and "s \<noteq> []"
    and "r \<in> set (w_runs w)" and "r_PortfolioID r = p_ID p" and "r_SnapshotPath r = Some s"
    and "p_RunRetention p \<le> int (length (filter (\<lambda>q. r_ID r < r_ID q) (runs_of (p_ID p) (w_runs w))))"
  shows "let w' = snd (run_state (prune o' (p_ID p)) w) in
    p \<in> set (w_portfolios w') \<and> p_SnapshotPath p = Some s \<and> w_files w' s = None \<and> r \<notin> set (w_runs w')"
proof -
  have find: "List.find (\<lambda>q. p_ID q = p_ID p) (w_portfolios w) = Some p"
    using assms(1,5) by (subst find_Some_iff_key) (auto simp: db_inv_def)
  have "filter (\<lambda>q. r_PortfolioID q = r_PortfolioID r \<and> r_ID r < r_ID q) (w_runs w) =
      filter (\<lambda>q. r_ID r < r_ID q) (runs_of (p_ID p) (w_runs w))"
    using assms(9) by (simp add: runs_of_def conj_commute)
  with assms(9,11) have dead: "prunable (p_ID p) (p_RunRetention p) (w_runs w) r"
    by (simp add: prunable_def row_number_def)
  with assms(7,8,10) have "s \<in> pruned_paths (p_ID p) (p_RunRetention p) (w_runs w)" by (auto simp: pruned_paths_def)
  with run_prune [OF assms(2,3,4) find] dead assms(5,6) show ?thesis by simp
qed

theorem prune_drops_current_snapshot_witness:
  "let w = demo_world\<lparr>w_portfolios := [demo_portfolio\<lparr>p_SnapshotPath := Some ''/snap/2''\<rparr>]\<rparr>;
       w' = snd (run_state (prune demo_orch (p_ID (demo_portfolio\<lparr>p_SnapshotPath := Some ''/snap/2''\<rparr>))) w) in
    w_files w' ''/snap/2'' = None \<and> p_SnapshotPath (hd (w_portfolios w)) = Some ''/snap/2''"
proof -
  let ?p = "demo_portfolio\<lparr>p_SnapshotPath := Some ''/snap/2''\<rparr>"
  let ?w = "demo_world\<lparr>w_portfolios := [?p]\<rparr>"
  have "let w' = snd (run_state (prune demo_orch (p_ID ?p)) ?w) in
    ?p \<in> set (w_portfolios w') \<and> p_SnapshotPath ?p = Some ''/snap/2'' \<and> w_files w' ''/snap/2'' = None
      \<and> demo_run 2 ''/snap/2'' \<notin> set (w_runs w')"
  proof (rule prune_drops_current_snapshot)
    show "db_inv ?w" using demo_world_inv by (simp add: db_inv_def slug_key_def)
    show "p_RunRetention ?p \<le> int (length (filter (\<lambda>q. r_ID (demo_run 2 ''/snap/2'') < r_ID q) (runs_of (p_ID ?p) (w_runs ?w))))"
      by (simp add: runs_of_def demo_world_def demo_run_def demo_portfolio_def)
  qed (simp_all add: demo_orch_def, simp_all add: demo_world_def demo_run_def)
  then show ?thesis by (simp add: Let_def)
qed

text \<open>
  A worker that finds the portfolio already running gives up at once: the new run is marked
  failed, the portfolio row is left to the run that owns it, and the caller sees
  \<open>ErrAlreadyRunning\<close>.
\<close>

lemma Run_already_running:
  assumes "o_ps o' = pool_portfolio_store" and "o_rs o' = pool_run_store" and "db_inv w" and "w_outcomes w = []"
    and "p \<in> set (w_portfolios w)" and "p_Status p = StatusRunning"
  shows "\<exists>w'. run_state (Run o' (p_ID p) rid sch) w = (Inl (Error [ErrAlreadyRunning] ''backtest: portfolio already running''), w')
    \<and> w_portfolios w' = w_portfolios w \<and> w_hub w' = w_hub w
    \<and> w_runs w' = update_where (\<lambda>r. r_ID r = rid) (run_failed ''portfolio already running'' 0 (w_now w)) (w_runs w)"
proof -
  have find: "List.find (\<lambda>q. p_ID q = p_ID p) (w_portfolios w) = Some p"
    using assms(3,5) by (subst find_Some_iff_key) (auto simp: db_inv_def)
  have "one_inflight (update_where (\<lambda>r. r_ID r = rid) (run_failed m 0 (w_now w)) (w_runs w))" for m
    using assms(3) by (intro one_inflight_end_run) (auto simp: db_inv_def)
  with find assms(4,6) show ?thesis
    by (simp add: Run_def Let_def assms(1,2) pool_portfolio_store_def pool_run_store_def adapter_GetByID_def GetByID_def to_row_def
        since_def UpdateRunFailed_def update_run_stmt_def commit_runs_def durationMs_def max_int32_def)
qed


text \<open>
  The command line does not depend on the iteration order of the parameter map.
\<close>

lemma BuildArgs_perm:
  assumes "mset ps = mset ps'" and "distinct (map fst ps)"
  shows "BuildArgs u ps b sd ed = BuildArgs u ps' b sd ed"
  using sort_key_fst_perm [OF assms] by (simp add: BuildArgs_def)

end
