(* ===== verification/Alert_Behaviour.thy ===== *)
theory Alert_Behaviour
  imports Isolation Alert_Checker Orchestrator
begin

text \<open>
  What the alerts guarantee: which alerts a finished run sends and that no alert is sent twice on one
  trading day, that the link in a mail removes its recipient and nothing else, that alert requests
  respect the other tenants, and that the checker is a notifier the orchestrator may call.
\<close>

section \<open>A finished run\<close>

definition recipient_mails :: "lib \<Rightarrow> Checker \<Rightarrow> portfolioData \<Rightarrow> bool \<Rightarrow> Alert \<Rightarrow> string \<Rightarrow> mail list" where
  "recipient_mails lb ck port success a r =
     (case ck_render ck port success True (portfolio_url ck port) (unsubscribe_url lb ck (a_ID a) r) of
        Inl _ \<Rightarrow> []
      | Inr (html, text) \<Rightarrow>
          [\<lparr>mail_to = [r], mail_subject = mail_subject_for success (q_Name port), mail_html = html, mail_text = text\<rparr>])"

definition alert_mails :: "lib \<Rightarrow> Checker \<Rightarrow> portfolioData \<Rightarrow> bool \<Rightarrow> Alert \<Rightarrow> mail list" where
  "alert_mails lb ck port success a = concat (map (recipient_mails lb ck port success a) (a_Recipients a))"

text \<open>A mail service that takes every message.\<close>

definition mail_works :: "Checker \<Rightarrow> bool" where
  "mail_works ck \<longleftrightarrow> ck_APIKey ck \<noteq> [] \<and> (\<forall>m w. ck_mailgun ck m w = None)"

lemma run_send_recipient:
  "\<exists>ms. run_state (send_recipient lb ck a port ok r) w = ((), w\<lparr>w_mails := w_mails w @ ms\<rparr>)
     \<and> (mail_works ck \<longrightarrow> ms = recipient_mails lb ck port ok a r)"
proof -
  have none: "w = w\<lparr>w_mails := w_mails w @ []\<rparr>" by simp
  show ?thesis
  proof (cases "ck_render ck port ok True (portfolio_url ck port) (unsubscribe_url lb ck (a_ID a) r)")
    case (Inl e)
    then show ?thesis using none by (intro exI [of _ "[]"]) (simp add: send_recipient_def recipient_mails_def)
  next
    case (Inr ht)
    obtain html plain where ht: "ht = (html, plain)" by fastforce
    let ?m = "\<lparr>mail_to = [r], mail_subject = mail_subject_for ok (q_Name port), mail_html = html, mail_text = plain\<rparr>"
    show ?thesis
    proof (cases "ck_APIKey ck = [] \<or> ck_mailgun ck ?m w \<noteq> None")
      case True
      then have "run_state (email_Send ck ?m) w = (fst (run_state (email_Send ck ?m) w), w)" "\<not> mail_works ck"
        by (auto simp: email_Send_def mail_works_def)
      then show ?thesis using Inr ht none by (intro exI [of _ "[]"]) (auto simp: send_recipient_def split: prod.splits)
    next
      case False
      then show ?thesis using Inr ht
        by (intro exI [of _ "[?m]"]) (auto simp: send_recipient_def email_Send_def recipient_mails_def)
    qed
  qed
qed

lemma run_send_recipients:
  "\<exists>ms. run_state (for_each rs (send_recipient lb ck a port ok)) w = ((), w\<lparr>w_mails := w_mails w @ ms\<rparr>)
     \<and> (mail_works ck \<longrightarrow> ms = concat (map (recipient_mails lb ck port ok a) rs))"
proof (induction rs arbitrary: w)
  case Nil
  show ?case by (intro exI [of _ "[]"]) simp
next
  case (Cons r rs)
  obtain m1 where 1: "run_state (send_recipient lb ck a port ok r) w = ((), w\<lparr>w_mails := w_mails w @ m1\<rparr>)"
    "mail_works ck \<longrightarrow> m1 = recipient_mails lb ck port ok a r" using run_send_recipient by blast
  obtain m2 where 2: "run_state (for_each rs (send_recipient lb ck a port ok)) (w\<lparr>w_mails := w_mails w @ m1\<rparr>)
      = ((), w\<lparr>w_mails := w_mails w @ m1 @ m2\<rparr>)" "mail_works ck \<longrightarrow> m2 = concat (map (recipient_mails lb ck port ok a) rs)"
    using Cons.IH [of "w\<lparr>w_mails := w_mails w @ m1\<rparr>"] by auto
  show ?case using 1 2 by (intro exI [of _ "m1 @ m2"]) simp
qed

text \<open>The value recorded with a sent alert, and the rows after the alerts in \<open>xs\<close> were looked at.\<close>

abbreviation sent_value :: "portfolioData \<Rightarrow> float64" where
  "sent_value port \<equiv> (case q_CurrentValue port of None \<Rightarrow> ''0'' | Some v \<Rightarrow> v)"

abbreviation due :: "Checker \<Rightarrow> portfolioData \<Rightarrow> instant \<Rightarrow> Alert \<Rightarrow> bool" where
  "due ck port now a \<equiv> isDue (ck_calendar ck) a (q_StrategySchedule port) now"

lemma mark_sent_again: "mark_sent t v n (mark_sent t v n a) = mark_sent t v n a"
  by (simp add: mark_sent_def)

lemma run_check_alerts:
  assumes "w_outcomes w = []" and "w_now w = n"
  shows "\<exists>ms. run_state (for_each xs (check_alert lb ck port now ok)) w = ((), w\<lparr>
      w_alerts := map (\<lambda>a. if \<exists>x \<in> set xs. a_ID x = a_ID a \<and> due ck port now x then mark_sent now (sent_value port) n a else a) (w_alerts w),
      w_mails := w_mails w @ ms\<rparr>)
    \<and> (mail_works ck \<longrightarrow> ms = concat (map (alert_mails lb ck port ok) (filter (due ck port now) xs)))
    \<and> (filter (due ck port now) xs = [] \<longrightarrow> ms = [])"
  using assms
proof (induction xs arbitrary: w)
  case Nil
  show ?case by (intro exI [of _ "[]"]) simp
next
  case (Cons x xs)
  show ?case
  proof (cases "due ck port now x")
    case False
    with Cons.IH [OF Cons.prems] show ?thesis by (simp add: check_alert_def)
  next
    case True
    obtain m1 where m1: "run_state (for_each (a_Recipients x) (send_recipient lb ck x port ok)) w = ((), w\<lparr>w_mails := w_mails w @ m1\<rparr>)"
      "mail_works ck \<longrightarrow> m1 = alert_mails lb ck port ok x"
      using run_send_recipients unfolding alert_mails_def by blast
    let ?u = "mark_sent now (sent_value port) n"
    let ?w = "w\<lparr>w_mails := w_mails w @ m1, w_alerts := update_where (\<lambda>a. a_ID a = a_ID x) ?u (w_alerts w)\<rparr>"
    have one: "run_state (check_alert lb ck port now ok x) w = ((), ?w)"
      using True m1(1) Cons.prems by (simp add: check_alert_def sendOne_def MarkSent_def update_alerts_def)
    obtain m2 where m2: "run_state (for_each xs (check_alert lb ck port now ok)) ?w = ((), ?w\<lparr>
        w_alerts := map (\<lambda>a. if \<exists>x \<in> set xs. a_ID x = a_ID a \<and> due ck port now x then ?u a else a) (w_alerts ?w),
        w_mails := w_mails ?w @ m2\<rparr>)"
      "mail_works ck \<longrightarrow> m2 = concat (map (alert_mails lb ck port ok) (filter (due ck port now) xs))"
      using Cons.IH [of ?w] Cons.prems by auto
    have "map (\<lambda>a. if \<exists>x \<in> set xs. a_ID x = a_ID a \<and> due ck port now x then ?u a else a)
            (update_where (\<lambda>a. a_ID a = a_ID x) ?u (w_alerts w))
        = map (\<lambda>a. if \<exists>y \<in> set (x # xs). a_ID y = a_ID a \<and> due ck port now y then ?u a else a) (w_alerts w)"
      using True by (auto simp: update_where_def mark_sent_again)
    then show ?thesis using one m1 m2 True by (intro exI [of _ "m1 @ m2"]) simp
  qed
qed

text \<open>The state after \<open>NotifyRunComplete\<close> for a portfolio that exists.\<close>

definition port_of :: "Portfolio \<Rightarrow> portfolioData" where
  "port_of p = \<lparr>q_Name = p_Name p, q_Slug = p_Slug p, q_StrategyCode = p_StrategyCode p,
     q_StrategySchedule = describe_schedule (p_StrategyDescribeJSON p), q_Benchmark = p_Benchmark p,
     q_CurrentValue = p_CurrentValue p, q_Status = p_Status p, q_LastError = p_LastError p, q_SnapshotPath = p_SnapshotPath p\<rparr>"

definition listed :: "uuid \<Rightarrow> world \<Rightarrow> Alert list" where
  "listed pid w = sort_key a_CreatedAt (filter (\<lambda>a. a_PortfolioID a = pid) (w_alerts w))"

lemma run_NotifyRunComplete:
  assumes "db_inv w" and "w_outcomes w = []" and "List.find (\<lambda>p. p_ID p = pid) (w_portfolios w) = Some p"
  shows "\<exists>ms. run_state (NotifyRunComplete lb ck pid rid ok) w = (Inr (), w\<lparr>
      w_alerts := map (\<lambda>a. if a_PortfolioID a = pid \<and> due ck (port_of p) (w_now w) a
                           then mark_sent (w_now w) (sent_value (port_of p)) (w_now w) a else a) (w_alerts w),
      w_mails := w_mails w @ ms\<rparr>)
    \<and> (mail_works ck \<longrightarrow> ms = concat (map (alert_mails lb ck (port_of p) ok) (filter (due ck (port_of p) (w_now w)) (listed pid w))))
    \<and> (filter (due ck (port_of p) (w_now w)) (listed pid w) = [] \<longrightarrow> ms = [])"
proof -
  have load: "run_state (loadPortfolio pid) w = (Inr (port_of p), w)" using assms by (simp add: loadPortfolio_def port_of_def)
  have lst: "run_state (Alert_List pid) w = (Inr (listed pid w), w)" using assms by (simp add: Alert_List_def listed_def)
  have inj: "a = b" if "a \<in> set (w_alerts w)" "b \<in> set (w_alerts w)" "a_ID a = a_ID b" for a b
    using assms(1) that by (auto simp: db_inv_def distinct_map inj_on_def)
  have same: "(\<exists>x \<in> set (listed pid w). a_ID x = a_ID a \<and> D x) \<longleftrightarrow> a_PortfolioID a = pid \<and> D a" if "a \<in> set (w_alerts w)" for a and D
    using inj that by (auto simp: listed_def)
  obtain ms where ms: "run_state (for_each (listed pid w) (check_alert lb ck (port_of p) (w_now w) ok)) w = ((), w\<lparr>
      w_alerts := map (\<lambda>a. if \<exists>x \<in> set (listed pid w). a_ID x = a_ID a \<and> due ck (port_of p) (w_now w) x
                           then mark_sent (w_now w) (sent_value (port_of p)) (w_now w) a else a) (w_alerts w),
      w_mails := w_mails w @ ms\<rparr>)"
    "mail_works ck \<longrightarrow> ms = concat (map (alert_mails lb ck (port_of p) ok) (filter (due ck (port_of p) (w_now w)) (listed pid w)))"
    "filter (due ck (port_of p) (w_now w)) (listed pid w) = [] \<longrightarrow> ms = []"
    using run_check_alerts [OF assms(2) refl, of "listed pid w" lb ck "port_of p" "w_now w" ok] by blast
  have eq: "map (\<lambda>a. if \<exists>x \<in> set (listed pid w). a_ID x = a_ID a \<and> due ck (port_of p) (w_now w) x
                           then mark_sent (w_now w) (sent_value (port_of p)) (w_now w) a else a) (w_alerts w)
    = map (\<lambda>a. if a_PortfolioID a = pid \<and> due ck (port_of p) (w_now w) a
                           then mark_sent (w_now w) (sent_value (port_of p)) (w_now w) a else a) (w_alerts w)"
    using same by (intro map_cong) auto
  show ?thesis
  proof (cases "listed pid w = []")
    case True
    then have "run_state (NotifyRunComplete lb ck pid rid ok) w = (Inr (), w)" using lst by (simp add: NotifyRunComplete_def)
    moreover have "w\<lparr>w_alerts := map (\<lambda>a. if a_PortfolioID a = pid \<and> due ck (port_of p) (w_now w) a
                           then mark_sent (w_now w) (sent_value (port_of p)) (w_now w) a else a) (w_alerts w), w_mails := w_mails w @ []\<rparr> = w"
      using eq True by simp
    ultimately show ?thesis using True by (intro exI [of _ "[]"]) simp
  next
    case False
    then have "run_state (NotifyRunComplete lb ck pid rid ok) w =
        (Inr (), snd (run_state (for_each (listed pid w) (check_alert lb ck (port_of p) (w_now w) ok)) w))"
      using lst load by (simp add: NotifyRunComplete_def split: prod.splits)
    with ms eq show ?thesis by (intro exI [of _ ms]) simp
  qed
qed


text \<open>
  C15. When a run of a portfolio ends on a working server, each alert of the portfolio that is due is
  mailed to each of its recipients in the order of the list and is marked with the time and the
  value; the other alerts, their marks and everything else in the tables stay as they were.
\<close>

theorem NotifyRunComplete_spec:
  assumes "db_inv w" and "w_outcomes w = []" and "List.find (\<lambda>p. p_ID p = pid) (w_portfolios w) = Some p" and "mail_works ck"
  shows "run_state (NotifyRunComplete lb ck pid rid ok) w = (Inr (), w\<lparr>
      w_alerts := map (\<lambda>a. if a_PortfolioID a = pid \<and> isDue (ck_calendar ck) a (describe_schedule (p_StrategyDescribeJSON p)) (w_now w)
                           then a\<lparr>a_LastSentAt := Some (w_now w), a_LastSentValue := Some (case p_CurrentValue p of None \<Rightarrow> ''0'' | Some v \<Rightarrow> v),
                                  a_UpdatedAt := w_now w\<rparr> else a) (w_alerts w),
      w_mails := w_mails w @ concat (map (alert_mails lb ck (port_of p) ok)
        (filter (\<lambda>a. isDue (ck_calendar ck) a (describe_schedule (p_StrategyDescribeJSON p)) (w_now w)) (listed pid w)))\<rparr>)"
  using run_NotifyRunComplete [OF assms(1-3), of lb ck rid ok] assms(4) by (auto simp: port_of_def mark_sent_def cong: map_cong)

text \<open>What the code relies on of the calendar: its answers depend only on the day in New York.\<close>

definition by_day :: "calendar \<Rightarrow> bool" where
  "by_day cal \<longleftrightarrow> (\<forall>t t'. cal_etDay cal t = cal_etDay cal t' \<longrightarrow> cal_IsMarketDay cal t = cal_IsMarketDay cal t'
     \<and> (\<forall>spec f. cal_New cal spec = Some f \<longrightarrow> f t = f t'))"

lemma by_dayD:
  assumes "by_day cal" and "cal_etDay cal t = cal_etDay cal t'"
  shows "cal_IsMarketDay cal t = cal_IsMarketDay cal t'" "cal_New cal spec = Some f \<Longrightarrow> f t = f t'"
  using assms unfolding by_day_def by blast+

lemma cadence_by_day:
  assumes "by_day cal" and "cal_etDay cal t = cal_etDay cal t'"
  shows "cadence cal f sch t = cadence cal f sch t'"
proof -
  have f: "fires cal spec t = fires cal spec t'" for spec
    using by_dayD(2) [OF assms, of spec] by (cases "cal_New cal spec") (simp_all add: fires_def)
  have "strategyFiresOn cal sch t = strategyFiresOn cal sch t'"
    using by_dayD(2) [OF assms, of sch] by (cases "cal_New cal sch") (simp_all add: strategyFiresOn_def by_dayD(1) [OF assms])
  with f show ?thesis
    by (simp add: cadence_def isTradingDay_def isLastTradingDayOfWeek_def isLastTradingDayOfMonth_def by_dayD(1) [OF assms])
qed

lemma not_due_again:
  assumes "by_day cal" and "cal_etDay cal t = cal_etDay cal now"
  shows "\<not> isDue cal (if isDue cal a sch now then mark_sent now v n a else a) sch t"
  using assms cadence_by_day [OF assms] by (auto simp: isDue_def mark_sent_def split: option.splits)



subsection \<open>A concrete portfolio with one alert\<close>

definition demo_alert :: Alert where
  "demo_alert = \<lparr>a_ID = 4, a_PortfolioID = 1, a_Frequency = ''daily'', a_Recipients = [''a@x.io'', ''b@x.io''], a_LastSentAt = None,
     a_LastSentValue = None, a_CreatedAt = 1, a_UpdatedAt = 1\<rparr>"

definition demo_alerts :: world where
  "demo_alerts = demo_world\<lparr>w_alerts := [demo_alert]\<rparr>"

definition demo_calendar :: calendar where
  "demo_calendar = \<lparr>cal_HolidaysInitialized = True, cal_New = (\<lambda>_. Some (\<lambda>_. True)), cal_IsMarketDay = (\<lambda>_. True),
     cal_etDay = (\<lambda>t. civil (t div 86400000000))\<rparr>"

definition demo_checker :: Checker where
  "demo_checker = \<lparr>ck_calendar = demo_calendar, ck_APIKey = ''key'', ck_appBaseURL = ''https://pv.io'', ck_unsubscribeSecret = ''s'',
     ck_render = (\<lambda>port ok trades url unsub. Inr (''<p>'' @ q_Name port, unsub)), ck_mailgun = (\<lambda>_ _. None)\<rparr>"

lemma demo_alerts_simps:
  "db_inv demo_alerts" "w_outcomes demo_alerts = []" "List.find (\<lambda>p. p_ID p = 1) (w_portfolios demo_alerts) = Some demo_portfolio"
  "w_alerts demo_alerts = [demo_alert]" "w_mails demo_alerts = []"
proof -
  show "db_inv demo_alerts" unfolding demo_alerts_def
    by (rule db_inv_alerts [OF demo_world_inv]) (simp_all add: demo_alert_def demo_world_def demo_portfolio_def)
qed (simp_all add: demo_alerts_def demo_world_def empty_world_def demo_portfolio_def)

lemma demo_due: "isDue demo_calendar demo_alert sch t"
  by (simp add: isDue_def cadence_def demo_alert_def demo_calendar_def isTradingDay_def calReady_def)

lemma demo_by_day: "by_day (ck_calendar demo_checker)"
  by (auto simp: by_day_def demo_checker_def demo_calendar_def)

theorem NotifyRunComplete_spec_witness:
  "map mail_to (w_mails (snd (run_state (NotifyRunComplete demo_lib demo_checker 1 4 True) demo_alerts))) = [[''a@x.io''], [''b@x.io'']]"
proof -
  have "mail_works demo_checker" by (simp add: mail_works_def demo_checker_def)
  note run = NotifyRunComplete_spec [OF demo_alerts_simps(1-3) this, of demo_lib 4 True]
  have "map mail_to (alert_mails demo_lib demo_checker port True demo_alert) = [[''a@x.io''], [''b@x.io'']]" for port
    by (simp add: alert_mails_def recipient_mails_def demo_checker_def demo_alert_def)
  moreover have "ck_calendar demo_checker = demo_calendar" "a_PortfolioID demo_alert = 1" by (simp_all add: demo_checker_def demo_alert_def)
  ultimately show ?thesis unfolding run by (simp add: demo_alerts_simps listed_def demo_due)
qed



section \<open>The unsubscribe link\<close>

lemma run_RemoveRecipient:
  assumes "w_outcomes w = []" and "i \<in> a_ID ` set (w_alerts w)"
  shows "run_state (RemoveRecipient i r) w = (Inr (), w\<lparr>w_alerts := delete_where (\<lambda>a. a_ID a = i \<and> a_Recipients a = [])
    (update_where (\<lambda>a. a_ID a = i) (drop_recipient r (w_now w)) (w_alerts w))\<rparr>)"
proof -
  have "affected (\<lambda>a. a_ID a = i) (w_alerts w) \<noteq> 0" using assms(2) by (auto simp: affected_eq_0)
  with assms(1) show ?thesis by (simp add: RemoveRecipient_def update_alerts_def)
qed

text \<open>
  C18. The link that a mail carries works: the token made for an alert and a recipient, sent back to
  the server that made it, is accepted, and afterwards the alert no longer lists this recipient. The
  other recipients stay, an alert with none left is gone, and no other alert changed.
\<close>

theorem unsubscribe_link_works:
  assumes "uuid_text_ok lb" and "db_inv w" and "w_outcomes w = []" and "a \<in> set (w_alerts w)" and "ah_unsubscribeSecret h \<noteq> []"
    and "GenerateUnsubscribeToken lb (ah_unsubscribeSecret h) (a_ID a) r = Inr (c_Query c ''token'')"
    and "run_state (serve_alert lb al h AUnsubscribe c) w = (res, w')"
  shows "res = Inr () \<and> map_option rs_status (w_resp w') = Some 200
    \<and> (\<forall>b \<in> set (w_alerts w'). a_ID b = a_ID a \<longrightarrow> a_Recipients b = removeAll r (a_Recipients a) \<and> a_Recipients b \<noteq> [])
    \<and> (a_ID a \<in> a_ID ` set (w_alerts w') \<longleftrightarrow> removeAll r (a_Recipients a) \<noteq> [])
    \<and> filter (\<lambda>b. a_ID b \<noteq> a_ID a) (w_alerts w') = filter (\<lambda>b. a_ID b \<noteq> a_ID a) (w_alerts w)"
proof -
  let ?as = "delete_where (\<lambda>b. a_ID b = a_ID a \<and> a_Recipients b = [])
    (update_where (\<lambda>b. a_ID b = a_ID a) (drop_recipient r (w_now w)) (w_alerts w))"
  note tok = Verify_Generate [OF assms(1,6)]
  have inj: "b = a" if "b \<in> set (w_alerts w)" "a_ID b = a_ID a" for b
    using assms(2,4) that by (auto simp: db_inv_def distinct_map inj_on_def)
  have find: "List.find (\<lambda>b. a_ID b = a_ID a) (w_alerts w) = Some a"
    using assms(2,4) by (subst find_Some_iff_key) (simp_all add: db_inv_def)
  have run: "run_state (serve_alert lb al h AUnsubscribe c) w = (Inr (), w\<lparr>w_alerts := ?as,
      w_resp := Some \<lparr>rs_status = 200, rs_body = HtmlBody (unsubscribed_page lb (a_ID a))\<rparr>\<rparr>)"
    using assms(3-5) tok find
    by (simp add: serve_alert_def AlertHandler_Unsubscribe_def Alert_Get_def run_RemoveRecipient send_def)
  have upd: "set (update_where (\<lambda>b. a_ID b = a_ID a) (drop_recipient r n) (w_alerts w)) =
      insert (drop_recipient r n a) {b \<in> set (w_alerts w). a_ID b \<noteq> a_ID a}" for n
    using inj assms(4) by (auto simp: set_update_where)
  have "filter (\<lambda>b. a_ID b \<noteq> a_ID a) (delete_where (\<lambda>b. a_ID b = a_ID a \<and> a_Recipients b = [])
      (update_where (\<lambda>b. a_ID b = a_ID a) (drop_recipient r n) bs)) = filter (\<lambda>b. a_ID b \<noteq> a_ID a) bs" for bs n
    by (induction bs) (auto simp: update_where_def delete_where_def)
  then have rest: "filter (\<lambda>b. a_ID b \<noteq> a_ID a) ?as = filter (\<lambda>b. a_ID b \<noteq> a_ID a) (w_alerts w)" by simp
  have as: "set ?as = {b \<in> insert (drop_recipient r (w_now w) a) {b \<in> set (w_alerts w). a_ID b \<noteq> a_ID a}. \<not> (a_ID b = a_ID a \<and> a_Recipients b = [])}"
    by (simp only: set_delete_where upd)
  have rcpt: "a_Recipients (drop_recipient r n a) = removeAll r (a_Recipients a)" for n by (simp add: drop_recipient_def)
  have "\<forall>b \<in> set ?as. a_ID b = a_ID a \<longrightarrow> a_Recipients b = removeAll r (a_Recipients a) \<and> a_Recipients b \<noteq> []"
    unfolding as using rcpt by auto
  moreover have "a_ID a \<in> a_ID ` set ?as \<longleftrightarrow> removeAll r (a_Recipients a) \<noteq> []"
    unfolding as using rcpt by (force simp: image_iff)
  moreover have "res = Inr ()" "map_option rs_status (w_resp w') = Some 200" "w_alerts w' = ?as" using run assms(7) by auto
  ultimately show ?thesis using rest by simp
qed


definition demo_uuids :: lib where
  "demo_uuids = demo_lib\<lparr>lib_uuid_String := (\<lambda>i. replicate i CHR ''1''), lib_uuid_Parse := (\<lambda>s. Some (length s))\<rparr>"

definition demo_click :: request where
  "demo_click = (demo_request [] [])\<lparr>c_Query := (\<lambda>_. case GenerateUnsubscribeToken demo_uuids ''s'' 4 ''a@x.io'' of Inr t \<Rightarrow> t | Inl _ \<Rightarrow> [])\<rparr>"

theorem unsubscribe_link_works_witness:
  "\<exists>w'. run_state (serve_alert demo_uuids \<lparr>al_Body = \<lambda>_. Inr ([], []), al_Recipient = \<lambda>_. Inr []\<rparr>
       \<lparr>ah_summarizer = None, ah_unsubscribeSecret = ''s''\<rparr> AUnsubscribe demo_click) demo_alerts = (Inr (), w')
     \<and> (\<forall>b \<in> set (w_alerts w'). a_ID b = 4 \<longrightarrow> a_Recipients b = [''b@x.io''])"
proof -
  let ?h = "\<lparr>ah_summarizer = None, ah_unsubscribeSecret = ''s''\<rparr>" and ?al = "\<lparr>al_Body = \<lambda>_. Inr ([], []), al_Recipient = \<lambda>_. Inr []\<rparr>"
  obtain res w' where run: "run_state (serve_alert demo_uuids ?al ?h AUnsubscribe demo_click) demo_alerts = (res, w')" by fastforce
  have a: "a_ID demo_alert = 4" "removeAll ''a@x.io'' (a_Recipients demo_alert) = [''b@x.io'']" by (simp_all add: demo_alert_def)
  have u: "uuid_text_ok demo_uuids" by (simp add: uuid_text_ok_def demo_uuids_def)
  have t: "GenerateUnsubscribeToken demo_uuids (ah_unsubscribeSecret ?h) (a_ID demo_alert) ''a@x.io'' = Inr (c_Query demo_click ''token'')"
    by (simp add: a demo_click_def GenerateUnsubscribeToken_def Let_def)
  have "demo_alert \<in> set (w_alerts demo_alerts)" by (simp add: demo_alerts_simps)
  from unsubscribe_link_works [OF u demo_alerts_simps(1,2) this _ t run] run a show ?thesis by auto
qed

section \<open>Alert requests and the other tenants\<close>

text \<open>
  The contract of the alert handlers: besides the laws of \<open>tenant\<close>, an alert created for one of
  the subject's portfolios keeps \<open>I\<close>, an alert that was found under such a portfolio is the
  subject's, changing and deleting the subject's alerts keeps \<open>I\<close>, and so does the summarizer.
\<close>

locale alert_tenant = tenant h sub I mine for h sub I mine +
  fixes ah :: AlertHandler and my_alert :: "uuid \<Rightarrow> world \<Rightarrow> bool"
  assumes alert_create_keeps: "preserves (\<lambda>w. I w \<and> mine pid w) (Alert_Create pid f rs)"
    and alert_list_keeps: "preserves (\<lambda>w. I w \<and> mine pid w) (Alert_List pid)"
    and alert_get: "valid (\<lambda>w. I w \<and> mine pid w) (Alert_Get i)
      (\<lambda>r w. I w \<and> (\<forall>a. r = Inr a \<longrightarrow> a_PortfolioID a = pid \<longrightarrow> my_alert i w))"
    and alert_update_keeps: "valid (\<lambda>w. I w \<and> my_alert i w) (Alert_Update i f rs) (\<lambda>_. I)"
    and alert_delete_keeps: "valid (\<lambda>w. I w \<and> my_alert i w) (Alert_Delete i) (\<lambda>_. I)"
    and summarizer_keeps: "ah_summarizer ah = Some s \<Longrightarrow> preserves I (s pid rcpt)"
begin

lemma alert_replies_keep:
  "preserves I (alert_problem s t d)" "preserves I (alert_ise e)" "preserves I bad_frequency" "preserves I (c_JSON b)" "preserves I (c_SendStatus s b)"
  unfolding alert_problem_def alert_ise_def bad_frequency_def c_JSON_def c_SendStatus_def by (intro preserve_rules send_keeps)+

lemma with_resolved_keeps:
  assumes "\<And>s. subject c = Inr s \<Longrightarrow> s = sub" and "\<And>pid. valid (J pid) (k pid) (\<lambda>_. I)"
  shows "preserves I (with_resolved c k)"
proof -
  have nil: "valid I (nil_after m) (\<lambda>r w. I w \<and> (\<forall>pid. r = Inr pid \<longrightarrow> mine pid w))" if "preserves I m" for m
    using that nil_mine by (auto simp: valid_def preserves_def nil_after_def split: sum.splits prod.splits)
  have "valid I (resolvePortfolio c) (\<lambda>r w. I w \<and> (\<forall>pid. r = Inr pid \<longrightarrow> mine pid w))"
  proof (cases "subject c")
    case (Inl e)
    then show ?thesis by (simp add: resolvePortfolio_def nil alert_replies_keep)
  next
    case (Inr s)
    with assms(1) have s: "subject c = Inr sub" by simp
    have "valid (\<lambda>w. I w \<and> (\<forall>p. x = Inr p \<longrightarrow> mine (p_ID p) w))
        (case x of Inl e \<Rightarrow> if errors_Is e ErrNotFound then nil_after (alert_problem 404 ''Not Found'' d) else nil_after (alert_ise e)
         | Inr q \<Rightarrow> State_Monad.return (Inr (p_ID q)))
        (\<lambda>r w. I w \<and> (\<forall>pid. r = Inr pid \<longrightarrow> mine pid w))" for x d
    proof (cases x)
      case (Inl e)
      show ?thesis unfolding Inl by (auto intro!: valid_pre [OF nil] alert_replies_keep)
    next
      case (Inr q)
      show ?thesis unfolding Inr by (auto simp: valid_def)
    qed
    from valid_bind [OF get_mine this] show ?thesis by (simp add: resolvePortfolio_def s Let_def)
  qed
  moreover have "valid (\<lambda>w. I w \<and> (\<forall>pid. r = Inr pid \<longrightarrow> mine pid w))
      (case r of Inl e \<Rightarrow> State_Monad.return (Inl e) | Inr pid \<Rightarrow> k pid) (\<lambda>_. I)" for r :: "uuid result"
    using assms(2) by (cases r) (auto simp: valid_def)
  ultimately have "valid I (with_resolved c k) (\<lambda>_. I)" unfolding with_resolved_def by (rule valid_bind)
  then show ?thesis by (simp add: valid_def preserves_def)
qed

lemma with_alert_keeps:
  assumes "\<And>s. subject c = Inr s \<Longrightarrow> s = sub" and "\<And>i a. valid (\<lambda>w. I w \<and> my_alert i w) (k i a) (\<lambda>_. I)"
  shows "preserves I (with_alert lb c k)"
proof -
  have "valid (\<lambda>w. I w \<and> (\<forall>a. r = Inr a \<longrightarrow> a_PortfolioID a = pid \<longrightarrow> my_alert i w))
      (case r of
         Inl e \<Rightarrow> if errors_Is e AlertErrNotFound then alert_problem 404 ''Not Found'' ''alert not found'' else alert_ise e
       | Inr x \<Rightarrow> if a_PortfolioID x \<noteq> pid then alert_problem 404 ''Not Found'' ''alert not found'' else k i x) (\<lambda>_. I)" for r pid i
    by (cases r) (auto intro!: valid_pre [OF valid_preserves [OF alert_replies_keep(1)]] valid_pre [OF valid_preserves [OF alert_replies_keep(2)]]
        valid_pre [OF assms(2)])
  note found = valid_bind [OF alert_get this]
  show ?thesis unfolding with_alert_def
    by (intro with_resolved_keeps [OF assms(1)] valid_case_option from_I [OF alert_replies_keep(1)] found)
qed

lemma serve_alert_keeps:
  assumes "\<And>s. subject c = Inr s \<Longrightarrow> s = sub" and "r \<noteq> AUnsubscribe"
  shows "preserves I (serve_alert lb al ah r c)"
proof -
  have "valid (J pid) (do { a \<leftarrow> Alert_Create pid f rs; (case a of Inl e \<Rightarrow> alert_ise e | Inr x \<Rightarrow> send 201 (AlertViewBody (alert_toView x))) }) (\<lambda>_. I)"
    for pid f rs by (intro bind_J alert_create_keeps valid_case_sum from_I alert_replies_keep send_keeps)
  then have create: "preserves I (AlertHandler_Create al c)" unfolding AlertHandler_Create_def
    by (intro with_resolved_keeps [OF assms(1)] valid_case_sum from_I [OF alert_replies_keep(1)])
      (auto intro!: valid_if from_I [OF alert_replies_keep(1)] from_I [OF alert_replies_keep(3)])
  have list: "preserves I (AlertHandler_List c)" unfolding AlertHandler_List_def
    by (intro with_resolved_keeps [OF assms(1)] bind_J alert_list_keeps valid_case_sum from_I alert_replies_keep)
  have update: "preserves I (AlertHandler_Update lb al c)" unfolding AlertHandler_Update_def
  proof (rule with_alert_keeps [OF assms(1)])
    have frame: "valid (\<lambda>w. I w \<and> my_alert i w) m (\<lambda>_. I)" if "preserves I m" for i and m :: "unit result io"
      using that by (simp add: valid_def preserves_def)
    have "valid I (case u of Inl e \<Rightarrow> alert_ise e | Inr a \<Rightarrow> c_JSON (AlertViewBody (alert_toView a))) (\<lambda>_. I)" for u
      by (intro valid_preserves preserve_rules alert_replies_keep)
    note upd = valid_bind [OF alert_update_keeps this]
    show "valid (\<lambda>w. I w \<and> my_alert i w) (case al_Body al (c_Body c) of Inl e \<Rightarrow> alert_problem 422 ''invalid body'' (err_text e)
       | Inr (freq, recipients) \<Rightarrow> if freq \<noteq> [] \<and> \<not> validFrequency freq then bad_frequency
         else do {
           u \<leftarrow> Alert_Update i (if freq \<noteq> [] then freq else a_Frequency a) (if recipients \<noteq> [] then recipients else a_Recipients a);
           (case u of Inl e \<Rightarrow> alert_ise e | Inr a \<Rightarrow> c_JSON (AlertViewBody (alert_toView a)))
         }) (\<lambda>_. I)" for i a
      by (auto split: sum.split intro!: frame alert_replies_keep upd)
  qed
  have delete: "preserves I (AlertHandler_Delete lb c)" unfolding AlertHandler_Delete_def
  proof (rule with_alert_keeps [OF assms(1)])
    have "valid I (case d of Inl e \<Rightarrow> alert_ise e | Inr _ \<Rightarrow> c_SendStatus 204 NoBody) (\<lambda>_. I)" for d :: "unit result"
      by (intro valid_preserves preserve_rules alert_replies_keep)
    from valid_bind [OF alert_delete_keeps this] show "valid (\<lambda>w. I w \<and> my_alert i w) (do {
        d \<leftarrow> Alert_Delete i; (case d of Inl e \<Rightarrow> alert_ise e | Inr _ \<Rightarrow> c_SendStatus 204 NoBody) }) (\<lambda>_. I)" for i and a :: Alert .
  qed
  have summary: "preserves I (AlertHandler_SendSummary al ah c)"
  proof (cases "ah_summarizer ah")
    case None
    then show ?thesis by (simp add: AlertHandler_SendSummary_def alert_replies_keep)
  next
    case (Some f)
    have answer: "preserves I (case x of Inl e \<Rightarrow> if errors_Is e ErrEmailNotConfigured then alert_problem 503 t d else alert_ise e
        | Inr _ \<Rightarrow> c_SendStatus 201 b)" for x :: "unit result" and t d b
      by (cases x) (simp_all add: alert_replies_keep)
    note inner = preserves_bind [OF summarizer_keeps [OF Some] answer]
    have body: "preserves I (case al_Recipient al (c_Body c) of Inl e \<Rightarrow> alert_problem 422 t (err_text e)
        | Inr recipient \<Rightarrow> if recipient = [] then alert_problem 422 t1 d1 else State_Monad.bind (f pid recipient) (\<lambda>x. case x of
            Inl e \<Rightarrow> if errors_Is e ErrEmailNotConfigured then alert_problem 503 t2 d2 else alert_ise e
          | Inr _ \<Rightarrow> c_SendStatus 201 b))" for pid t t1 d1 t2 d2 b
      by (cases "al_Recipient al (c_Body c)") (simp_all add: alert_replies_keep inner)
    show ?thesis unfolding AlertHandler_SendSummary_def Some option.case by (intro with_resolved_keeps [OF assms(1)] from_I body)
  qed
  show ?thesis unfolding serve_alert_def
    using assms(2) create list update delete summary
    by (cases r) (auto intro!: preserves_bind preserves_update resp_frame)
qed

end

text \<open>The laws hold for the view of the other subjects' rows.\<close>

lemma foreign_alerts:
  assumes "filter (\<lambda>a. a_PortfolioID a \<in> foreign_ids sub w) as = filter (\<lambda>a. a_PortfolioID a \<in> foreign_ids sub w) (w_alerts w)"
  shows "foreign sub (w\<lparr>w_alerts := as\<rparr>) = foreign sub w \<and> foreign_ids sub (w\<lparr>w_alerts := as\<rparr>) = foreign_ids sub w"
  using assms by (intro foreignI) simp_all

definition own_alert :: "string \<Rightarrow> uuid \<Rightarrow> world \<Rightarrow> bool" where
  "own_alert sub i w \<longleftrightarrow> (\<forall>a \<in> set (w_alerts w). a_ID a = i \<longrightarrow> a_PortfolioID a \<notin> foreign_ids sub w)"

lemma outcome_free_own_alert [simp]: "outcome_free (own_alert sub i)"
  by (simp add: outcome_free_def own_alert_def)

lemma Alert_Create_isolated: "preserves (K sub X pid) (Alert_Create pid f rs)"
  unfolding Alert_Create_def
proof (rule preserves_dbop)
  fix w assume w: "K sub X pid w"
  let ?w = "snd (create_alert_stmt pid f rs w)"
  have "foreign sub ?w = foreign sub w \<and> foreign_ids sub ?w = foreign_ids sub w"
    using w by (intro foreignI) (auto simp: create_alert_stmt_def Let_def own_id_def)
  moreover have "db_inv ?w"
    using w by (force simp: others_same_def create_alert_stmt_def Let_def db_inv_def affected_eq_0 less_Suc_eq)
  ultimately show "K sub X pid ?w" using w by (simp add: others_same_def own_id_def)
qed simp

lemma Alert_Get_isolated:
  "valid (K sub X pid) (Alert_Get i) (\<lambda>r w. others_same sub X w \<and> (\<forall>a. r = Inr a \<longrightarrow> a_PortfolioID a = pid \<longrightarrow> own_alert sub i w))"
  unfolding Alert_Get_def dbread_def
proof (rule valid_dbop)
  fix w assume w: "K sub X pid w"
  have "own_alert sub i w" if "List.find (\<lambda>a. a_ID a = i) (w_alerts w) = Some a" "a_PortfolioID a = pid" for a
    using that w find_Some_in [OF that(1)] by (auto simp: own_alert_def own_id_def others_same_def db_inv_def distinct_map dest: inj_onD)
  then show "others_same sub X (snd (case List.find (\<lambda>a. a_ID a = i) (w_alerts w) of None \<Rightarrow> Inl (wrap ''get alert'' alert_not_found) | Some a \<Rightarrow> Inr a, w))
    \<and> (\<forall>a. fst (case List.find (\<lambda>a. a_ID a = i) (w_alerts w) of None \<Rightarrow> Inl (wrap ''get alert'' alert_not_found) | Some a \<Rightarrow> Inr a, w) = Inr a \<longrightarrow>
          a_PortfolioID a = pid \<longrightarrow> own_alert sub i
          (snd (case List.find (\<lambda>a. a_ID a = i) (w_alerts w) of None \<Rightarrow> Inl (wrap ''get alert'' alert_not_found) | Some a \<Rightarrow> Inr a, w)))"
    using w by (auto split: option.splits)
qed auto

lemma own_alert_filter:
  assumes "own_alert sub i w" and "\<And>a. a_PortfolioID (u a) = a_PortfolioID a"
  shows "filter (\<lambda>a. a_PortfolioID a \<in> foreign_ids sub w) (update_where (\<lambda>a. a_ID a = i) u (w_alerts w)) =
      filter (\<lambda>a. a_PortfolioID a \<in> foreign_ids sub w) (w_alerts w)"
    and "filter (\<lambda>a. a_PortfolioID a \<in> foreign_ids sub w) (delete_where (\<lambda>a. a_ID a = i) (w_alerts w)) =
      filter (\<lambda>a. a_PortfolioID a \<in> foreign_ids sub w) (w_alerts w)"
proof -
  have "filter (\<lambda>a. a_PortfolioID a \<in> F) (update_where (\<lambda>a. a_ID a = i) u as) = filter (\<lambda>a. a_PortfolioID a \<in> F) as"
    "filter (\<lambda>a. a_PortfolioID a \<in> F) (delete_where (\<lambda>a. a_ID a = i) as) = filter (\<lambda>a. a_PortfolioID a \<in> F) as"
    if "\<forall>a \<in> set as. a_ID a = i \<longrightarrow> a_PortfolioID a \<notin> F" for as F
    using that assms(2) by (induction as) (auto simp: update_where_def delete_where_def)
  with assms(1) show "filter (\<lambda>a. a_PortfolioID a \<in> foreign_ids sub w) (update_where (\<lambda>a. a_ID a = i) u (w_alerts w)) =
      filter (\<lambda>a. a_PortfolioID a \<in> foreign_ids sub w) (w_alerts w)"
    and "filter (\<lambda>a. a_PortfolioID a \<in> foreign_ids sub w) (delete_where (\<lambda>a. a_ID a = i) (w_alerts w)) =
      filter (\<lambda>a. a_PortfolioID a \<in> foreign_ids sub w) (w_alerts w)" by (simp_all add: own_alert_def)
qed

lemma Alert_changes_isolated:
  "valid (\<lambda>w. others_same sub X w \<and> own_alert sub i w) (Alert_Update i f rs) (\<lambda>_. others_same sub X)"
  "valid (\<lambda>w. others_same sub X w \<and> own_alert sub i w) (Alert_Delete i) (\<lambda>_. others_same sub X)"
proof -
  have upd: "others_same sub X (snd (update_alert_stmt i f rs w))" if "others_same sub X w \<and> own_alert sub i w" for w
  proof -
    have "others_same sub X (update_alerts i (set_alert f rs) w)"
      using that foreign_alerts [OF own_alert_filter(1), of sub i w "set_alert f rs (w_now w)"] db_inv_update_alerts [of w "set_alert f rs" i]
      by (simp add: others_same_def update_alerts_def)
    with that show ?thesis by (auto simp: update_alert_stmt_def split: option.splits)
  qed
  have del: "others_same sub X (w\<lparr>w_alerts := delete_where (\<lambda>a. a_ID a = i) (w_alerts w)\<rparr>)"
    if "others_same sub X w \<and> own_alert sub i w" for w
    using that foreign_alerts [OF own_alert_filter(2), of sub i w id] db_inv_delete_alerts [of w] by (simp add: others_same_def)
  show "valid (\<lambda>w. others_same sub X w \<and> own_alert sub i w) (Alert_Update i f rs) (\<lambda>_. others_same sub X)"
    unfolding Alert_Update_def by (rule valid_dbop) (use upd in auto)
  show "valid (\<lambda>w. others_same sub X w \<and> own_alert sub i w) (Alert_Delete i) (\<lambda>_. others_same sub X)"
    unfolding Alert_Delete_def by (rule valid_dbop) (use del in auto)
qed

lemma mails_frame [simp]:
  "db_inv (w\<lparr>w_mails := ms\<rparr>) = db_inv w" "foreign sub (w\<lparr>w_mails := ms\<rparr>) = foreign sub w" "foreign_ids sub (w\<lparr>w_mails := ms\<rparr>) = foreign_ids sub w"
  by (simp_all add: db_inv_def foreign_def foreign_ids_def)

lemma email_Send_keeps: "(\<And>w m. I w \<Longrightarrow> I (w\<lparr>w_mails := w_mails w @ [m]\<rparr>)) \<Longrightarrow> preserves I (email_Send ck m)"
  unfolding email_Send_def by (intro preserve_rules preserves_update)

lemma SendSummary_isolated: "preserves (others_same sub X) (Checker_SendSummary ck pid r)"
  unfolding Checker_SendSummary_def loadPortfolio_def
  by (intro preserve_rules preserves_dbread email_Send_keeps) (auto simp: others_same_def)

interpretation alerts_isolated: alert_tenant "pool_handler openfn build describe validator inside dir" sub "others_same sub X" "own_id sub"
  "\<lparr>ah_summarizer = Some (Checker_SendSummary ck), ah_unsubscribeSecret = secret\<rparr>" "own_alert sub"
proof (intro alert_tenant.intro alert_tenant_axioms.intro isolated.tenant_axioms)
  show "preserves (K sub X pid) (Alert_List pid)" for pid unfolding Alert_List_def by (intro preserves_dbread) simp
qed (auto intro: Alert_Create_isolated Alert_Get_isolated Alert_changes_isolated SendSummary_isolated)

text \<open>
  Tenants are isolated in the alert endpoints too. After a missing portfolio the handlers go on
  with the nil id, yet no request of a subject creates, changes or deletes an alert of another
  subject's portfolio, whatever the database does; the tables' invariant is kept.
\<close>

lemma alert_requests_isolated:
  assumes "db_inv w" and "c_Subject c = Some sub" and "r \<noteq> AUnsubscribe"
    and "run_state (serve_alert lb al \<lparr>ah_summarizer = Some (Checker_SendSummary ck), ah_unsubscribeSecret = secret\<rparr> r c) w = (res, w')"
  shows "foreign sub w' = foreign sub w \<and> db_inv w'"
proof -
  have "s = sub" if "subject c = Inr s" for s using that assms(2) by (auto simp: subject_def split: if_splits)
  then have "preserves (others_same sub (foreign sub w))
      (serve_alert lb al \<lparr>ah_summarizer = Some (Checker_SendSummary ck), ah_unsubscribeSecret = secret\<rparr> r c)"
    by (rule alerts_isolated.serve_alert_keeps [OF _ assms(3)])
  with assms(1,4) show ?thesis by (auto simp: preserves_def others_same_def)
qed

text \<open>
  The alert endpoints do not stop at a portfolio that does not exist: the list is answered
  with status 404 and the body of an empty list instead of the problem, and a creation ends as a
  500 from the foreign key. Nothing is stored.
\<close>

lemma alerts_of_missing_portfolio:
  assumes "db_inv w" and "w_outcomes w = []" and "subject c = Inr sub"
    and "List.find (owned sub (c_Params c ''slug'')) (w_portfolios w) = None"
    and "al_Body al (c_Body c) = Inr (freq, rcpts)" and "validFrequency freq" and "rcpts \<noteq> []"
  shows "run_state (serve_alert lb al h AList c) w = (Inr (), w\<lparr>w_resp := Some \<lparr>rs_status = 404, rs_body = AlertViewsBody []\<rparr>\<rparr>)
    \<and> run_state (serve_alert lb al h ACreate c) w = (Inr (), w\<lparr>w_resp := Some \<lparr>rs_status = 500,
         rs_body = AlertProblemBody ''Internal Server Error'' (''create alert: '' @ err_text fk_error)\<rparr>\<rparr>)"
proof -
  have none: "filter (\<lambda>a. a_PortfolioID a = 0) (w_alerts w) = []" "affected (\<lambda>p. p_ID p = 0) (w_portfolios w) = 0"
    using assms(1) by (auto simp: db_inv_def filter_empty_conv affected_eq_0)
  have f: "freq \<in> set frequencies" using assms(6) by (auto simp: validFrequency_def frequencies_def)
  have res: "run_state (resolvePortfolio c) (w\<lparr>w_resp := None\<rparr>) = (Inr 0, w\<lparr>w_resp := Some \<lparr>rs_status = 404,
      rs_body = AlertProblemBody ''Not Found'' (''portfolio not found: '' @ c_Params c ''slug'')\<rparr>\<rparr>)"
    using assms(2-4) by (simp add: resolvePortfolio_def Get_def Let_def nil_after_def alert_problem_def send_def not_found_def)
  show ?thesis
    using assms(2,5-7) none f
    by (simp add: serve_alert_def AlertHandler_List_def AlertHandler_Create_def with_resolved_def res Alert_List_def c_JSON_def send_def
        Alert_Create_def create_alert_stmt_def Let_def alert_ise_def alert_problem_def wrap_def)
qed

section \<open>The checker as the orchestrator's notifier\<close>

lemma NotifyRunComplete_frame:
  assumes "\<And>w o'. I (w\<lparr>w_outcomes := o'\<rparr>) = I w" and "\<And>w as. I (w\<lparr>w_alerts := as\<rparr>) = I w" and "\<And>w ms. I (w\<lparr>w_mails := ms\<rparr>) = I w"
  shows "preserves I (NotifyRunComplete lb ck pid rid ok)"
proof -
  have free: "outcome_free I" using assms(1) by (simp add: outcome_free_def)
  show ?thesis
    unfolding NotifyRunComplete_def Alert_List_def loadPortfolio_def Let_def check_alert_def sendOne_def send_recipient_def MarkSent_def
    by (intro preserve_rules preserves_dbread preserves_dbop free email_Send_keeps) (simp_all add: assms update_alerts_def)
qed

lemma checker_is_notifier:
  assumes "o_notifier o' = Some (NotifyRunComplete lb ck)"
  shows "notifier_frame o'" "notifier_keeps_runs o'"
proof -
  have p: "w_portfolios (snd (run_state (NotifyRunComplete lb ck pid rid ok) w)) = w_portfolios w"
    "w_runs (snd (run_state (NotifyRunComplete lb ck pid rid ok) w)) = w_runs w"
    "w_files (snd (run_state (NotifyRunComplete lb ck pid rid ok) w)) = w_files w" for pid rid ok w
    using preservesD [OF NotifyRunComplete_frame [of "\<lambda>v. w_portfolios v = w_portfolios w"], of w]
      preservesD [OF NotifyRunComplete_frame [of "\<lambda>v. w_runs v = w_runs w"], of w]
      preservesD [OF NotifyRunComplete_frame [of "\<lambda>v. w_files v = w_files w"], of w] by simp_all
  then show "notifier_frame o'" by (simp add: notifier_frame_def assms Let_def)
  have "preserves (\<lambda>w. w_outcomes w = []) (NotifyRunComplete lb ck pid rid ok)" for pid rid ok
    unfolding NotifyRunComplete_def Alert_List_def loadPortfolio_def Let_def check_alert_def sendOne_def send_recipient_def MarkSent_def dbread_def
    by (intro preserve_rules preserves_no_faults email_Send_keeps) (simp_all add: update_alerts_def)
  with p show "notifier_keeps_runs o'" by (simp add: notifier_keeps_runs_def assms Let_def preserves_def)
qed

end
