(* ===== verification/Stats.thy ===== *)
theory Stats
  imports Sync
begin

text \<open>
  The statistics of installed strategies, \<open>strategy/stats.go\<close>: once a day a backtest with default
  parameters is run for every installed strategy and its metrics are stored in the registry row.
  Arguments: the runner, the reader of the snapshot it writes, the temporary directory, and the
  instant of a time of day in New York. The files of the temporary directory are not part of the state.
\<close>

subsection \<open>Configuration\<close>

text \<open>\<open>fmt.Sscanf\<close> with the verb \<open>%d\<close>: blanks but no line break, a sign, digits, a 64-bit value.\<close>

definition skip_blanks :: "string \<Rightarrow> string" where
  "skip_blanks s = trim_fuel (length s) (filter (\<lambda>q. q \<noteq> [char_of (10::nat)]) space_seqs) s"

definition scan_int :: "string \<Rightarrow> (int \<times> string) option" where
  "scan_int s =
     (let t = skip_blanks s;
          signed = (t \<noteq> [] \<and> (hd t = CHR ''-'' \<or> hd t = CHR ''+''));
          ds = takeWhile is_digit (if signed then tl t else t);
          n = (if signed \<and> hd t = CHR ''-'' then - int (atoi_acc 0 ds) else int (atoi_acc 0 ds)) in
      if ds = [] \<or> n < - (2 ^ 63) \<or> 2 ^ 63 \<le> n then None
      else Some (n, dropWhile is_digit (if signed then tl t else t)))"

definition scan_time :: "string \<Rightarrow> (int \<times> int) option" where
  "scan_time s =
     (case scan_int s of
        None \<Rightarrow> None
      | Some (h, rest) \<Rightarrow>
          (case rest of
             CHR '':'' # rest' \<Rightarrow> (case scan_int rest' of None \<Rightarrow> None | Some (m, _) \<Rightarrow> Some (h, m))
           | _ \<Rightarrow> None))"

record StatsRefresherConfig =
  sc_StartDate :: "date option"
    \<comment> \<open>\<open>None\<close> is the zero time\<close>
  sc_RefreshTime :: string
  sc_TickInterval :: int
    \<comment> \<open>nanoseconds\<close>
  sc_SnapshotDir :: string

record StatRunRequest =
  sq_Artifact :: string
  sq_Args :: "string list"
  sq_OutPath :: string

record StatKpis =
  sk_CAGR :: "float64 option"
  sk_MaxDrawdown :: "float64 option"
  sk_Sharpe :: "float64 option"
  sk_Sortino :: "float64 option"
  sk_UlcerIndex :: "float64 option"
  sk_Beta :: "float64 option"
  sk_Alpha :: "float64 option"
  sk_StdDev :: "float64 option"
  sk_TaxCostRatio :: "float64 option"
  sk_OneYearReturn :: "float64 option"
  sk_YtdReturn :: "float64 option"
  sk_BenchmarkYtdReturn :: "float64 option"

record StatsRefresher =
  sf_runner :: "StatRunRequest \<Rightarrow> world \<Rightarrow> error option"
  sf_readKpis :: "string \<Rightarrow> world \<Rightarrow> StatKpis result"
  sf_MkdirTemp :: "string \<Rightarrow> world \<Rightarrow> string result"
  sf_at :: "instant \<Rightarrow> int \<Rightarrow> int \<Rightarrow> instant"
    \<comment> \<open>\<open>time.Date\<close> with an hour and a minute on the New York day of an instant\<close>
  sf_cfg :: StatsRefresherConfig
  sf_refreshHour :: int
  sf_refreshMin :: int

definition stats_defaults :: "StatsRefresherConfig \<Rightarrow> StatsRefresherConfig" where
  "stats_defaults cfg = cfg\<lparr>
     sc_TickInterval := (if sc_TickInterval cfg = 0 then 300000000000 else sc_TickInterval cfg),
     sc_StartDate := (case sc_StartDate cfg of None \<Rightarrow> Some (Date 2010 1 1) | Some d \<Rightarrow> Some d),
     sc_RefreshTime := (if sc_RefreshTime cfg = [] then ''17:00'' else sc_RefreshTime cfg)\<rparr>"

definition NewStatsRefresher :: "(string \<Rightarrow> string) \<Rightarrow> (StatRunRequest \<Rightarrow> world \<Rightarrow> error option) \<Rightarrow> (string \<Rightarrow> world \<Rightarrow> StatKpis result)
    \<Rightarrow> (string \<Rightarrow> world \<Rightarrow> string result) \<Rightarrow> (instant \<Rightarrow> int \<Rightarrow> int \<Rightarrow> instant) \<Rightarrow> StatsRefresherConfig \<Rightarrow> StatsRefresher result" where
  "NewStatsRefresher quote runner readKpis mkdirTemp dayTime cfg0 =
     (let cfg = stats_defaults cfg0;
          bad = Inl (Error [ErrInvalidRefreshTime] (''invalid RefreshTime: expected HH:MM: '' @ quote (sc_RefreshTime cfg))) in
      case scan_time (sc_RefreshTime cfg) of
        None \<Rightarrow> bad
      | Some (h, m) \<Rightarrow>
          if h < 0 \<or> h > 23 \<or> m < 0 \<or> m > 59 then bad
          else Inr \<lparr>sf_runner = runner, sf_readKpis = readKpis, sf_MkdirTemp = mkdirTemp, sf_at = dayTime,
                    sf_cfg = cfg, sf_refreshHour = h, sf_refreshMin = m\<rparr>)"

subsection \<open>One strategy\<close>

definition stats_buildArgs :: "string \<Rightarrow> date option \<Rightarrow> string list" where
  "stats_buildArgs benchmark startDate =
     (case startDate of None \<Rightarrow> [] | Some d \<Rightarrow> [''--start'', time_Format d]) @ (if benchmark \<noteq> [] then [''--benchmark'', benchmark] else [])"

definition parseBenchmark :: "rawjson \<Rightarrow> string" where
  "parseBenchmark raw = (case unmarshalDescribe raw of Inl _ \<Rightarrow> [] | Inr d \<Rightarrow> d_Benchmark d)"

definition stats_result :: "StatKpis \<Rightarrow> instant \<Rightarrow> StatsResult" where
  "stats_result k now = \<lparr>sr_CAGR = sk_CAGR k, sr_MaxDrawdown = sk_MaxDrawdown k, sr_Sharpe = sk_Sharpe k, sr_Sortino = sk_Sortino k,
     sr_UlcerIndex = sk_UlcerIndex k, sr_Beta = sk_Beta k, sr_Alpha = sk_Alpha k, sr_StdDev = sk_StdDev k, sr_TaxCostRatio = sk_TaxCostRatio k,
     sr_OneYearReturn = sk_OneYearReturn k, sr_YtdReturn = sk_YtdReturn k, sr_BenchmarkYtdReturn = sk_BenchmarkYtdReturn k, sr_AsOf = now\<rparr>"

definition stats_failed :: "string \<Rightarrow> string \<Rightarrow> error \<Rightarrow> unit result io" where
  "stats_failed shortCode ctx e = do {
     _ \<leftarrow> MarkStatsError shortCode (err_text e);
     State_Monad.return (Inl (wrap (ctx @ shortCode) e))
   }"

definition run_stats :: "StatsRefresher \<Rightarrow> string \<Rightarrow> Strategy \<Rightarrow> string \<Rightarrow> unit result io" where
  "run_stats r shortCode s ref = do {
     w \<leftarrow> State_Monad.get;
     (case sf_MkdirTemp r (sc_SnapshotDir (sf_cfg r)) w of
        Inl e \<Rightarrow> State_Monad.return (Inl (wrap ''creating temp dir for stats snapshot'' e))
      | Inr tmpDir \<Rightarrow>
          (let outPath = filepath_Join [tmpDir, ''stats.sqlite''];
               req = \<lparr>sq_Artifact = ref, sq_Args = stats_buildArgs (parseBenchmark (s_DescribeJSON s)) (sc_StartDate (sf_cfg r)), sq_OutPath = outPath\<rparr> in
           case sf_runner r req w of
             Some e \<Rightarrow> stats_failed shortCode ''stats backtest for '' e
           | None \<Rightarrow>
               (case sf_readKpis r outPath w of
                  Inl e \<Rightarrow> stats_failed shortCode ''reading kpis for '' e
                | Inr kpis \<Rightarrow> do {
                    w \<leftarrow> State_Monad.get;
                    u \<leftarrow> UpdateStats shortCode (stats_result kpis (w_now w));
                    State_Monad.return (wrap_unit (''writing stats for '' @ shortCode) u)
                  })))
   }"

definition RunOne :: "StatsRefresher \<Rightarrow> string \<Rightarrow> unit result io" where
  "RunOne r shortCode = do {
     g \<leftarrow> Strategy_Get shortCode;
     (case g of
        Inl e \<Rightarrow> State_Monad.return (Inl (wrap (''loading strategy '' @ shortCode) e))
      | Inr s \<Rightarrow>
          (case (s_ArtifactRef s, s_ArtifactKind s) of
             (Some ref, Some kind) \<Rightarrow>
               if kind = artifactKindImage then State_Monad.return (Inr ()) else run_stats r shortCode s ref
           | _ \<Rightarrow> State_Monad.return (Inl (Error [ErrNoInstalledArtifact] (''strategy has no installed artifact: '' @ shortCode)))))
   }"

subsection \<open>The daily pass\<close>

definition PastRefreshTime :: "StatsRefresher \<Rightarrow> instant \<Rightarrow> bool" where
  "PastRefreshTime r now \<longleftrightarrow> \<not> now < sf_at r now (sf_refreshHour r) (sf_refreshMin r)"

definition utc_day :: "instant \<Rightarrow> int" where "utc_day t = t div 86400000000"

text \<open>\<open>time.Now().UTC().Truncate(24 * time.Hour)\<close> is the last midnight in UTC.\<close>

definition stats_fresh :: "instant \<Rightarrow> Strategy \<Rightarrow> bool" where
  "stats_fresh now s \<longleftrightarrow> (case s_Stats s of None \<Rightarrow> False | Some st \<Rightarrow> \<not> sr_AsOf st < utc_day now * 86400000000)"

definition RefreshDue :: "StatsRefresher \<Rightarrow> unit result io" where
  "RefreshDue r = do {
     l \<leftarrow> ListInstalled;
     (case l of
        Inl e \<Rightarrow> State_Monad.return (Inl e)
      | Inr strategies \<Rightarrow> do {
          w \<leftarrow> State_Monad.get;
          let now = w_now w;
          for_each strategies (\<lambda>s. if stats_fresh now s then State_Monad.return ()
             else do { _ \<leftarrow> RunOne r (s_ShortCode s); State_Monad.return () });
          State_Monad.return (Inr ())
        })
   }"

text \<open>One tick of the loop \<open>Run\<close>.\<close>

definition stats_tick :: "StatsRefresher \<Rightarrow> unit io" where
  "stats_tick r = do {
     w \<leftarrow> State_Monad.get;
     if \<not> PastRefreshTime r (w_now w) then State_Monad.return ()
     else do { _ \<leftarrow> RefreshDue r; State_Monad.return () }
   }"

section \<open>What a refresh leaves\<close>

lemma RunOne_keeps_registry [preserve_rules]: "preserves registry_inv (RunOne r code)"
proof -
  have f: "preserves registry_inv (stats_failed c x e)" for c x e unfolding stats_failed_def by (intro preserve_rules)
  have r: "preserves registry_inv (run_stats r c s ref)" for c s ref
    unfolding run_stats_def Let_def by (intro preserve_rules f)
  show ?thesis unfolding RunOne_def by (auto intro!: preserve_rules r split: option.split prod.split)
qed

lemma RefreshDue_keeps_registry: "preserves registry_inv (RefreshDue r)"
  unfolding RefreshDue_def Let_def by (intro preserve_rules) simp_all


text \<open>A toolchain that runs every strategy and reads the metrics \<open>k\<close>.\<close>

definition stats_work :: "StatsRefresher \<Rightarrow> StatKpis \<Rightarrow> bool" where
  "stats_work r k \<longleftrightarrow> (\<forall>req w. sf_runner r req w = None) \<and> (\<forall>p w. sf_readKpis r p w = Inr k) \<and> (\<forall>d w. \<exists>t. sf_MkdirTemp r d w = Inr t)"

definition refreshed :: "StatKpis \<Rightarrow> instant \<Rightarrow> Strategy \<Rightarrow> Strategy" where
  "refreshed k now s = s\<lparr>s_Stats := Some (stats_result k now), s_StatsError := None, s_UpdatedAt := now\<rparr>"

lemma run_RunOne:
  assumes "stats_work r k" and "w_outcomes w = []" and "registry_inv w" and "s \<in> set (w_strategies w)" and "s_ArtifactRef s = Some ref"
    and "s_ArtifactKind s = Some artifactKindBinary"
  shows "run_state (RunOne r (s_ShortCode s)) w = (Inr (), update_strategy (s_ShortCode s) (refreshed k (w_now w)) w)"
proof -
  have "List.find (\<lambda>x. s_ShortCode x = s_ShortCode s) (w_strategies w) = Some s"
    using assms(3,4) by (subst find_Some_iff_key) (simp_all add: registry_inv_def)
  moreover obtain t where "sf_MkdirTemp r (sc_SnapshotDir (sf_cfg r)) w = Inr t" using assms(1) unfolding stats_work_def by blast
  ultimately show ?thesis
    using assms by (simp add: RunOne_def Strategy_Get_def run_stats_def stats_work_def Let_def UpdateStats_def wrap_unit_def refreshed_def [abs_def]
        artifactKindBinary_def artifactKindImage_def)
qed

lemma update_strategy_simps [simp]:
  "w_outcomes (update_strategy c u w) = w_outcomes w" "w_now (update_strategy c u w) = w_now w"
  by (simp_all add: update_strategy_def)

text \<open>
  The loop over the strategies \<open>xs\<close> that were listed: the rows of the listed strategies that are
  not fresh are refreshed, the others are as before.
\<close>

lemma run_refresh_loop:
  assumes "stats_work r k" and "w_outcomes w = []" and "registry_inv w" and "distinct (map s_ShortCode xs)" and "set xs \<subseteq> set (w_strategies w)"
    and "\<And>x. x \<in> set xs \<Longrightarrow> s_ArtifactRef x \<noteq> None \<and> s_ArtifactKind x = Some artifactKindBinary" and "w_now w = now"
  shows "run_state (for_each xs (\<lambda>s. if stats_fresh now s then State_Monad.return ()
             else do { _ \<leftarrow> RunOne r (s_ShortCode s); State_Monad.return () })) w
    = ((), w\<lparr>w_strategies := map (\<lambda>s. if s \<in> set xs \<and> \<not> stats_fresh now s then refreshed k now s else s) (w_strategies w)\<rparr>)"
  using assms(2-)
proof (induction xs arbitrary: w)
  case Nil
  then show ?case by simp
next
  case (Cons x xs)
  show ?case
  proof (cases "stats_fresh now x")
    case True
    moreover have "(\<lambda>s. if (s = x \<or> s \<in> set xs) \<and> \<not> stats_fresh now s then refreshed k now s else s)
        = (\<lambda>s. if s \<in> set xs \<and> \<not> stats_fresh now s then refreshed k now s else s)" using True by auto
    ultimately show ?thesis using Cons.IH [of w] Cons.prems by simp
  next
    case False
    let ?w = "update_strategy (s_ShortCode x) (refreshed k now) w"
    obtain ref where "s_ArtifactRef x = Some ref" using Cons.prems(5) [of x] by auto
    with run_RunOne [OF assms(1) Cons.prems(1,2), of x ref] Cons.prems
    have one: "run_state (RunOne r (s_ShortCode x)) w = (Inr (), ?w)" by simp
    have inj: "y = x" if "y \<in> set (w_strategies w)" "s_ShortCode y = s_ShortCode x" for y
      using Cons.prems(2,4) that by (auto simp: registry_inv_def distinct_map inj_on_def)
    have w: "w_strategies ?w = map (\<lambda>s. if s = x then refreshed k now s else s) (w_strategies w)"
      using inj by (auto simp: update_strategy_def update_where_def)
    have inv: "registry_inv ?w"
      by (rule update_strategy_inv [OF Cons.prems(2)]) (simp_all add: refreshed_def owner_check_def installed_complete_def)
    have code: "s_ShortCode (refreshed k now x) = s_ShortCode x" by (simp add: refreshed_def)
    have nx: "x \<notin> set xs" "refreshed k now x \<notin> set xs" using Cons.prems(3) code by (auto simp: image_iff)
    have "set xs \<subseteq> set (w_strategies ?w)"
    proof
      fix y assume "y \<in> set xs"
      with nx Cons.prems(4) show "y \<in> set (w_strategies ?w)" unfolding w by (auto simp: image_iff)
    qed
    then have "run_state (for_each xs (\<lambda>s. if stats_fresh now s then State_Monad.return ()
        else do { _ \<leftarrow> RunOne r (s_ShortCode s); State_Monad.return () })) ?w
      = ((), ?w\<lparr>w_strategies := map (\<lambda>s. if s \<in> set xs \<and> \<not> stats_fresh now s then refreshed k now s else s) (w_strategies ?w)\<rparr>)"
      using Cons.IH [of ?w] Cons.prems inv by simp
    moreover have "map (\<lambda>s. if s \<in> set xs \<and> \<not> stats_fresh now s then refreshed k now s else s) (w_strategies ?w)
        = map (\<lambda>s. if s \<in> set (x # xs) \<and> \<not> stats_fresh now s then refreshed k now s else s) (w_strategies w)"
      unfolding w using nx False by auto
    ultimately show ?thesis using one False by (simp add: update_strategy_def)
  qed
qed



text \<open>
  The pass follows the day in UTC, the gate \<open>PastRefreshTime\<close> the day in New York. Statistics that
  were made at 00:05 UTC, 20:05 in New York the evening before, are still fresh at 21:05 UTC, 17:05 in
  New York: the pass at the configured time of the next day does nothing.
\<close>

definition demo_kpis :: StatKpis where
  "demo_kpis = \<lparr>sk_CAGR = Some ''0.1'', sk_MaxDrawdown = None, sk_Sharpe = None, sk_Sortino = None, sk_UlcerIndex = None, sk_Beta = None,
     sk_Alpha = None, sk_StdDev = None, sk_TaxCostRatio = None, sk_OneYearReturn = None, sk_YtdReturn = None, sk_BenchmarkYtdReturn = None\<rparr>"

definition demo_refresher :: StatsRefresher where
  "demo_refresher = \<lparr>sf_runner = (\<lambda>_ _. None), sf_readKpis = (\<lambda>_ _. Inr demo_kpis), sf_MkdirTemp = (\<lambda>_ _. Inr ''/tmp/stats-1''),
     sf_at = (\<lambda>t h m. (t - 14400000000) div 86400000000 * 86400000000 + 14400000000 + (h * 60 + m) * 60000000),
     sf_cfg = \<lparr>sc_StartDate = None, sc_RefreshTime = ''17:00'', sc_TickInterval = 1, sc_SnapshotDir = []\<rparr>, sf_refreshHour = 17, sf_refreshMin = 0\<rparr>"

definition demo_stats_world :: world where
  "demo_stats_world = empty_world\<lparr>w_strategies := [demo_strategy\<lparr>s_Stats := Some (stats_result demo_kpis 300000000)\<rparr>], w_now := 75900000000\<rparr>"


end
