(* ===== verification/Snapshot.thy ===== *)
theory Snapshot
  imports Handler
begin

text \<open>
  The readers of a backtest's snapshot, \<open>snapshot/\<close>: the tables of the SQLite file, the metadata, the
  metrics with what is copied from them (\<open>summary.go\<close>, \<open>kpis.go\<close>, \<open>statistics.go\<close>, \<open>metrics.go\<close>,
  \<open>returns.go\<close>), the transactions and the prediction.

  A query is a function on the tables; \<open>sn_fault\<close> says which queries (and which iterations over their
  rows) fail, by the text the code wraps the error with. Rows with equal sort keys come in table
  order. A NULL that is scanned into a variable that cannot hold it is an error.

  The type \<open>'f\<close> is \<open>float64\<close>. Only operators are assumed of it, no laws, so that every rounding is
  allowed: a sum is the additions in the order of the code. Literals, conversions and \<open>math\<close> are the
  record \<open>flt\<close>. Theorems about values are stated for exact arithmetic and say so in their types.
\<close>

subsection \<open>Errors in sequence\<close>

definition andR :: "'a result \<Rightarrow> ('a \<Rightarrow> 'b result) \<Rightarrow> 'b result" where
  "andR r f = (case r of Inl e \<Rightarrow> Inl e | Inr x \<Rightarrow> f x)"

fun mapR :: "('a \<Rightarrow> 'b result) \<Rightarrow> 'a list \<Rightarrow> 'b list result" where
  "mapR f [] = Inr []"
| "mapR f (x # xs) = andR (f x) (\<lambda>y. andR (mapR f xs) (\<lambda>ys. Inr (y # ys)))"

fun foldR :: "('s \<Rightarrow> 'a \<Rightarrow> 's result) \<Rightarrow> 's \<Rightarrow> 'a list \<Rightarrow> 's result" where
  "foldR f s [] = Inr s"
| "foldR f s (x # xs) = andR (f s x) (\<lambda>s'. foldR f s' xs)"

lemma andR_simps [simp]: "andR (Inl e) f = Inl e" "andR (Inr x) f = f x"
  by (simp_all add: andR_def)

lemma andR_Inr: "andR r f = Inr y \<longleftrightarrow> (\<exists>x. r = Inr x \<and> f x = Inr y)"
  by (cases r) auto

lemma mapR_Inr: "mapR f xs = Inr ys \<longleftrightarrow> list_all2 (\<lambda>x y. f x = Inr y) xs ys"
  by (induction xs arbitrary: ys) (auto simp: andR_Inr list_all2_Cons1)

lemma mapR_total: "(\<And>x. x \<in> set xs \<Longrightarrow> f x = Inr (g x)) \<Longrightarrow> mapR f xs = Inr (map g xs)"
  by (induction xs) auto

lemma foldR_total: "(\<And>s x. x \<in> set xs \<Longrightarrow> f s x = Inr (g s x)) \<Longrightarrow> foldR f s xs = Inr (foldl g s xs)"
  by (induction xs arbitrary: s) auto

subsection \<open>Numbers\<close>

record 'f flt =
  fl_lit :: "rat \<Rightarrow> 'f"
    \<comment> \<open>the \<open>float64\<close> of a literal\<close>
  fl_int :: "int \<Rightarrow> 'f"
    \<comment> \<open>the conversion of an integer\<close>
  fl_Abs :: "'f \<Rightarrow> 'f"
  fl_Round :: "'f \<Rightarrow> 'f"
  fl_Pow :: "'f \<Rightarrow> 'f \<Rightarrow> 'f"
  fl_text :: "'f \<Rightarrow> string"

text \<open>Go's \<open>==\<close> on numbers, which identifies the two zeros and is false on a NaN.\<close>

definition feq :: "'f::ord \<Rightarrow> 'f \<Rightarrow> bool" where
  "feq a b \<longleftrightarrow> a \<le> b \<and> b \<le> a"

lemma feq_iff [simp]: "feq a (b :: 'f :: linorder) \<longleftrightarrow> a = b"
  by (auto simp: feq_def)

definition fsum :: "'f::{plus,zero} list \<Rightarrow> 'f" where
  "fsum xs = foldl (+) 0 xs"

lemma foldl_plus: "foldl (+) a xs = a + sum_list (xs :: 'f :: comm_monoid_add list)"
  by (induction xs arbitrary: a) (simp_all add: add.assoc)

lemma fsum_exact: "fsum xs = sum_list (xs :: 'f :: comm_monoid_add list)"
  by (simp add: fsum_def foldl_plus)

subsection \<open>The tables\<close>

record 'f perf_row =
  pf_date :: string
  pf_metric :: string
  pf_value :: 'f

record 'f tx_row =
  tx_batch :: int
  tx_date :: string
  tx_type :: string
  tx_ticker :: "string option"
  tx_figi :: "string option"
  tx_quantity :: "'f option"
  tx_price :: "'f option"
  tx_amount :: "'f option"
  tx_qualified :: "int option"
  tx_justification :: "string option"

record 'f holding_row =
  hd_ticker :: "string option"
  hd_figi :: "string option"
  hd_quantity :: "'f option"
  hd_avg_cost :: "'f option"
  hd_market_value :: "'f option"

record 'f metric_row =
  mt_date :: string
  mt_name :: string
  mt_window :: string
  mt_value :: "'f option"

record 'f position_row =
  ps_date :: string
  ps_ticker :: string
  ps_figi :: string
  ps_market_value :: 'f
  ps_quantity :: 'f

record 'f predicted_tx =
  pt_type :: string
  pt_ticker :: "string option"
  pt_figi :: "string option"
  pt_quantity :: "'f option"
  pt_price :: "'f option"
  pt_amount :: "'f option"
  pt_justification :: "string option"

record 'f predicted_row =
  pr_ticker :: string
  pr_figi :: string
  pr_quantity :: 'f
  pr_market_value :: 'f

record 'f snapshot =
  sn_metadata :: "(string \<times> string option) list"
  sn_perf :: "'f perf_row list"
  sn_batches :: "(int \<times> int) list"
    \<comment> \<open>id and timestamp in nanoseconds\<close>
  sn_transactions :: "'f tx_row list"
  sn_holdings :: "'f holding_row list"
  sn_metrics :: "'f metric_row list"
  sn_annotations :: "(int \<times> string \<times> string) list"
  sn_positions :: "'f position_row list"
  sn_prediction :: "string list option"
    \<comment> \<open>\<open>None\<close> when the snapshot has no such table\<close>
  sn_predicted_transactions :: "'f predicted_tx list"
  sn_predicted_holdings :: "'f predicted_row list"
  sn_predicted_annotations :: "(string \<times> string) list option"
  sn_fault :: "string \<Rightarrow> error option"

definition query :: "'f snapshot \<Rightarrow> string \<Rightarrow> unit result" where
  "query sn what = (case sn_fault sn what of None \<Rightarrow> Inr () | Some e \<Rightarrow> Inl (wrap what e))"

definition query_raw :: "'f snapshot \<Rightarrow> string \<Rightarrow> unit result" where
  "query_raw sn what = (case sn_fault sn what of None \<Rightarrow> Inr () | Some e \<Rightarrow> Inl e)"

definition healthy :: "'f snapshot \<Rightarrow> bool" where
  "healthy sn \<longleftrightarrow> (\<forall>q. sn_fault sn q = None)"

lemma healthy_query [simp]: "healthy sn \<Longrightarrow> query sn q = Inr ()" "healthy sn \<Longrightarrow> query_raw sn q = Inr ()"
  by (simp_all add: healthy_def query_def query_raw_def)

definition null_error :: error where
  "null_error = Error [] ''sql: Scan error: converting NULL is unsupported''"

definition scan :: "string \<Rightarrow> 'a option \<Rightarrow> 'a result" where
  "scan ctx v = (case v of None \<Rightarrow> Inl (wrap ctx null_error) | Some x \<Rightarrow> Inr x)"

definition desc_by :: "('a \<Rightarrow> 'k::linorder) \<Rightarrow> 'a list \<Rightarrow> 'a list" where
  "desc_by k xs = rev (sort_key k (rev xs))"

definition snap_not_found :: error where
  "snap_not_found = Error [SnapErrNotFound] ''snapshot: not found''"

subsection \<open>Dates of the metadata (holdings.go)\<close>

text \<open>
  What \<open>time.Parse(time.RFC3339, s)\<close> accepts: the hour may have one digit, the seconds a fraction
  after a point or comma, and the zone is \<open>Z\<close> or an offset. Only the calendar day is used.
\<close>

definition num_in :: "string \<Rightarrow> nat \<Rightarrow> bool" where
  "num_in s hi \<longleftrightarrow> s \<noteq> [] \<and> list_all is_digit s \<and> atoi_acc 0 s \<le> hi"

definition zone_ok :: "string \<Rightarrow> bool" where
  "zone_ok s \<longleftrightarrow> s = ''Z'' \<or> length s = 6 \<and> (hd s = CHR ''+'' \<or> hd s = CHR ''-'') \<and> s ! 3 = CHR '':''
     \<and> num_in (take 2 (drop 1 s)) 24 \<and> num_in (drop 4 s) 60"

definition clock_ok :: "string \<Rightarrow> bool" where
  "clock_ok s \<longleftrightarrow>
     (let h = takeWhile is_digit s; t = dropWhile is_digit s;
          z = drop 6 t;
          z' = (if z \<noteq> [] \<and> (hd z = CHR ''.'' \<or> hd z = CHR '','') \<and> takeWhile is_digit (tl z) \<noteq> [] then dropWhile is_digit (tl z) else z) in
      length h \<le> 2 \<and> num_in h 23 \<and> 6 \<le> length t \<and> t ! 0 = CHR '':'' \<and> num_in (take 2 (drop 1 t)) 59 \<and> t ! 3 = CHR '':''
        \<and> num_in (take 2 (drop 4 t)) 59 \<and> zone_ok z')"

definition rfc3339_day :: "string \<Rightarrow> date option" where
  "rfc3339_day s =
     (case time_Parse (take 10 s) of
        None \<Rightarrow> None
      | Some d \<Rightarrow> if 11 \<le> length s \<and> s ! 10 = CHR ''T'' \<and> clock_ok (drop 11 s) then Some d else None)"

definition parseMetadataDate :: "(string \<Rightarrow> string) \<Rightarrow> string \<Rightarrow> date result" where
  "parseMetadataDate quote s =
     (case time_Parse s of
        Some d \<Rightarrow> Inr d
      | None \<Rightarrow>
          (case rfc3339_day s of
             Some d \<Rightarrow> Inr d
           | None \<Rightarrow> Inl (Error [] (''parse metadata date '' @ quote s @ '': parsing time''))))"

definition readEndDate :: "(string \<Rightarrow> string) \<Rightarrow> 'f snapshot \<Rightarrow> date result" where
  "readEndDate quote sn = andR (query sn ''read end_date'') (\<lambda>_.
     case sort_key fst (filter (\<lambda>(k, _). k \<in> {''end_date'', ''run.end''}) (sn_metadata sn)) of
       [] \<Rightarrow> Inl snap_not_found
     | (_, v) # _ \<Rightarrow> andR (scan ''read end_date'' v) (parseMetadataDate quote))"

text \<open>Later rows override earlier ones; an error while iterating ends the loop silently.\<close>

definition window_step :: "(string \<Rightarrow> string) \<Rightarrow> date option \<times> date option \<Rightarrow> string \<times> string option \<Rightarrow> (date option \<times> date option) result" where
  "window_step quote = (\<lambda>(start, end') (k, v).
     case v of
       None \<Rightarrow> Inl null_error
     | Some s \<Rightarrow> andR (parseMetadataDate quote s) (\<lambda>t.
         Inr (if k = ''start_date'' \<or> k = ''run.start'' then (Some t, end') else (start, Some t))))"

definition zero_time :: date where "zero_time = Date 1 1 1"

definition readDateWindow :: "(string \<Rightarrow> string) \<Rightarrow> 'f snapshot \<Rightarrow> (date \<times> date) result" where
  "readDateWindow quote sn = andR (query sn ''read window'') (\<lambda>_.
     andR (foldR (window_step quote) (None, None)
             (filter (\<lambda>(k, _). k \<in> {''start_date'', ''end_date'', ''run.start'', ''run.end''}) (sn_metadata sn))) (\<lambda>w.
     case w of
       (Some start, Some end') \<Rightarrow> if start = zero_time \<or> end' = zero_time then Inl snap_not_found else Inr (start, end')
     | _ \<Rightarrow> Inl snap_not_found))"

subsection \<open>Equity curves (returns.go)\<close>

definition portfolioValueClause :: "string list" where
  "portfolioValueClause = [''portfolio_value'', ''PortfolioEquity'']"

definition benchmarkValueClause :: "string list" where
  "benchmarkValueClause = [''benchmark_value'', ''PortfolioBenchmark'']"

definition clause_text :: "string list \<Rightarrow> string" where
  "clause_text names = ''metric IN ('' @ tl (concat (map (\<lambda>n. '','' @ [CHR 0x27] @ n @ [CHR 0x27]) names)) @ '')''"

definition series_of :: "string list \<Rightarrow> 'f snapshot \<Rightarrow> 'f perf_row list" where
  "series_of clause sn = filter (\<lambda>r. pf_metric r \<in> set clause) (sn_perf sn)"

definition no_rows :: error where "no_rows = Error [] ''sql: no rows in result set''"

definition first_value :: "string \<Rightarrow> 'f perf_row list \<Rightarrow> 'f result" where
  "first_value ctx rows = (case rows of [] \<Rightarrow> Inl (wrap ctx no_rows) | r # _ \<Rightarrow> Inr (pf_value r))"

definition latestPerf :: "'f snapshot \<Rightarrow> string list \<Rightarrow> 'f result" where
  "latestPerf sn clause = andR (query sn (''latest '' @ clause_text clause)) (\<lambda>_. first_value (''latest '' @ clause_text clause) (desc_by pf_date (series_of clause sn)))"

definition earliestPerf :: "'f snapshot \<Rightarrow> string list \<Rightarrow> 'f result" where
  "earliestPerf sn clause = andR (query sn (''earliest '' @ clause_text clause)) (\<lambda>_. first_value (''earliest '' @ clause_text clause) (sort_key pf_date (series_of clause sn)))"

definition perfAsOf :: "'f snapshot \<Rightarrow> string list \<Rightarrow> date \<Rightarrow> bool \<Rightarrow> 'f result" where
  "perfAsOf sn clause t onOrAfter =
     andR (query_raw sn ''perf as of'') (\<lambda>_.
       case (if onOrAfter then sort_key pf_date (filter (\<lambda>r. time_Format t \<le> pf_date r) (series_of clause sn))
             else desc_by pf_date (filter (\<lambda>r. pf_date r \<le> time_Format t) (series_of clause sn))) of
         r # _ \<Rightarrow> Inr (pf_value r)
       | [] \<Rightarrow> earliestPerf sn clause)"

definition PortfolioValueAt :: "'f snapshot \<Rightarrow> date \<Rightarrow> 'f result" where
  "PortfolioValueAt sn t = perfAsOf sn portfolioValueClause t False"

definition BenchmarkCurrentValue :: "'f snapshot \<Rightarrow> 'f result" where
  "BenchmarkCurrentValue sn = latestPerf sn benchmarkValueClause"

definition BenchmarkValueAt :: "'f snapshot \<Rightarrow> date \<Rightarrow> 'f result" where
  "BenchmarkValueAt sn t = perfAsOf sn benchmarkValueClause t False"

definition parse_point :: "string \<Rightarrow> 'f perf_row \<Rightarrow> (date \<times> 'f) result" where
  "parse_point ctx r = (case time_Parse (pf_date r) of None \<Rightarrow> Inl (wrap ctx (Error [] ''parsing time'')) | Some d \<Rightarrow> Inr (d, pf_value r))"

record 'f DayChangeSummary =
  dc_LatestDate :: date
  dc_PriorDate :: date
  dc_LatestValue :: 'f
  dc_PriorValue :: 'f
  dc_HasPrior :: bool

definition DayChange :: "'f::zero snapshot \<Rightarrow> 'f DayChangeSummary result" where
  "DayChange sn = andR (query sn ''day change'') (\<lambda>_.
     andR (mapR (parse_point ''day change parse'') (take 2 (desc_by pf_date (series_of portfolioValueClause sn)))) (\<lambda>pts.
     andR (query_raw sn ''day change iterate'') (\<lambda>_.
       Inr (case pts of
              [] \<Rightarrow> \<lparr>dc_LatestDate = zero_time, dc_PriorDate = zero_time, dc_LatestValue = 0, dc_PriorValue = 0, dc_HasPrior = False\<rparr>
            | [(d, v)] \<Rightarrow> \<lparr>dc_LatestDate = d, dc_PriorDate = zero_time, dc_LatestValue = v, dc_PriorValue = 0, dc_HasPrior = False\<rparr>
            | (d, v) # (d', v') # _ \<Rightarrow> \<lparr>dc_LatestDate = d, dc_PriorDate = d', dc_LatestValue = v, dc_PriorValue = v', dc_HasPrior = True\<rparr>))))"

text \<open>Days since 1970-01-01, a Thursday; \<open>time.Date\<close> with a day of the month that does not exist goes on
  into the next month.\<close>

definition days_of :: "date \<Rightarrow> int" where
  "days_of d =
     (let m = int (dmonth d); y = int (dyear d) - (if m \<le> 2 then 1 else 0); era = y div 400; yoe = y mod 400;
          mp = (if m > 2 then m - 3 else m + 9); doy = (153 * mp + 2) div 5 + int (dday d) - 1;
          doe = yoe * 365 + yoe div 4 - yoe div 100 + doy
      in era * 146097 + doe - 719468)"

definition Weekday :: "date \<Rightarrow> int" where
  "Weekday d = (days_of d + 4) mod 7"

definition AddDays :: "date \<Rightarrow> int \<Rightarrow> date" where
  "AddDays d n = civil (days_of d + n)"

definition time_Date :: "nat \<Rightarrow> nat \<Rightarrow> nat \<Rightarrow> date" where
  "time_Date y m d = (if d \<le> daysIn m y then Date y m d else Date y (m + 1) (d - daysIn m y))"

record 'f ShortTerm =
  st_Day :: 'f
  st_WTD :: 'f
  st_MTD :: 'f

definition pctReturn :: "'f::{minus,inverse,zero,ord} \<Rightarrow> 'f \<Rightarrow> 'f" where
  "pctReturn v baseline = (if baseline \<le> 0 then 0 else (v - baseline) / baseline)"

definition week_start :: "date \<Rightarrow> date" where
  "week_start d = (let weekday = (if Weekday d = 0 then 7 else Weekday d) in AddDays d (- (weekday - 1)))"

definition wtd_baseline :: "(date \<times> 'f) list \<Rightarrow> date \<Rightarrow> 'f \<Rightarrow> 'f" where
  "wtd_baseline series day v =
     (case List.find (\<lambda>(d, _). time_Format d < time_Format (week_start day)) series of None \<Rightarrow> v | Some (_, x) \<Rightarrow> x)"

definition mtd_baseline :: "(date \<times> 'f) list \<Rightarrow> date \<Rightarrow> 'f \<Rightarrow> 'f" where
  "mtd_baseline series day v =
     foldl (\<lambda>b (d, x). if time_Format (Date (dyear day) (dmonth day) 1) \<le> time_Format d then x else b) v series"

definition shortTermReturns :: "'f::{minus,inverse,zero,ord} snapshot \<Rightarrow> string list \<Rightarrow> 'f ShortTerm result" where
  "shortTermReturns sn clause = andR (query sn ''short term returns'') (\<lambda>_.
     andR (mapR (parse_point ''short term returns parse'') (desc_by pf_date (series_of clause sn))) (\<lambda>series.
     andR (query_raw sn ''short term returns iterate'') (\<lambda>_.
       Inr (case series of
              [] \<Rightarrow> \<lparr>st_Day = 0, st_WTD = 0, st_MTD = 0\<rparr>
            | (d, v) # rest \<Rightarrow>
                \<lparr>st_Day = pctReturn v (case rest of [] \<Rightarrow> v | (_, p) # _ \<Rightarrow> p),
                 st_WTD = pctReturn v (wtd_baseline series d v),
                 st_MTD = pctReturn v (mtd_baseline series d v)\<rparr>))))"

subsection \<open>Metrics (summary.go, kpis.go, statistics.go, returns.go)\<close>

text \<open>
  The latest value under one of the names, for the whole backtest: \<open>full\<close> in old snapshots,
  \<open>since_inception\<close> in new ones.
\<close>

definition readMetric :: "'f snapshot \<Rightarrow> string \<Rightarrow> string list \<Rightarrow> 'f option result" where
  "readMetric sn name aliases = andR (query sn (''read metric '' @ name)) (\<lambda>_.
     case desc_by mt_date (filter (\<lambda>r. mt_name r \<in> set (name # aliases) \<and> mt_window r \<in> {''full'', ''since_inception''}) (sn_metrics sn)) of
       [] \<Rightarrow> Inr None
     | r # _ \<Rightarrow> andR (scan (''read metric '' @ name) (mt_value r)) (\<lambda>v. Inr (Some v)))"

definition readWindowedMetric :: "'f snapshot \<Rightarrow> string \<Rightarrow> string \<Rightarrow> 'f option result" where
  "readWindowedMetric sn name window = andR (query sn (''read metric '' @ name @ ''/'' @ window)) (\<lambda>_.
     case desc_by mt_date (filter (\<lambda>r. mt_name r = name \<and> mt_window r = window) (sn_metrics sn)) of
       [] \<Rightarrow> Inr None
     | r # _ \<Rightarrow> Inr (mt_value r))"

record 'f SnapshotKpis =
  kp_CurrentValue :: 'f
  kp_YtdReturn :: "'f option"
  kp_OneYearReturn :: "'f option"
  kp_BenchmarkYtdReturn :: "'f option"
  kp_BenchmarkOneYearReturn :: "'f option"
  kp_Cagr :: "'f option"
  kp_MaxDrawdown :: "'f option"
  kp_Sharpe :: "'f option"
  kp_Sortino :: "'f option"
  kp_Beta :: "'f option"
  kp_Alpha :: "'f option"
  kp_StdDev :: "'f option"
  kp_UlcerIndex :: "'f option"
  kp_TaxCostRatio :: "'f option"
  kp_InceptionDate :: date

definition kpisCurrentValue :: "'f::zero snapshot \<Rightarrow> 'f result" where
  "kpisCurrentValue sn = andR (query sn ''kpis current value'') (\<lambda>_.
     case desc_by pf_date (series_of portfolioValueClause sn) of [] \<Rightarrow> Inr 0 | r # _ \<Rightarrow> Inr (pf_value r))"

definition Reader_Kpis :: "(string \<Rightarrow> string) \<Rightarrow> 'f::zero snapshot \<Rightarrow> 'f SnapshotKpis result" where
  "Reader_Kpis quote sn =
     andR (readDateWindow quote sn) (\<lambda>(start, _).
     andR (kpisCurrentValue sn) (\<lambda>curVal.
     andR (readWindowedMetric sn ''TWRR'' ''ytd'') (\<lambda>ytd.
     andR (readWindowedMetric sn ''TWRR'' ''1yr'') (\<lambda>oneYear.
     andR (readWindowedMetric sn ''BenchmarkTWRR'' ''ytd'') (\<lambda>bYtd.
     andR (readWindowedMetric sn ''BenchmarkTWRR'' ''1yr'') (\<lambda>bOneYear.
     andR (readWindowedMetric sn ''CAGR'' ''since_inception'') (\<lambda>cagr.
     andR (readMetric sn ''max_drawdown'' [''MaxDrawdown'']) (\<lambda>maxDrawdown.
     andR (readMetric sn ''sharpe_ratio'' [''Sharpe'']) (\<lambda>sharpe.
     andR (readMetric sn ''sortino_ratio'' [''Sortino'']) (\<lambda>sortino.
     andR (readMetric sn ''beta'' [''Beta'']) (\<lambda>beta.
     andR (readMetric sn ''alpha'' [''Alpha'']) (\<lambda>alpha.
     andR (readMetric sn ''std_dev'' [''StdDev'']) (\<lambda>stdDev.
     andR (readMetric sn ''ulcer_index'' [''UlcerIndex'']) (\<lambda>ulcer.
     andR (readMetric sn ''tax_cost_ratio'' [''TaxCostRatio'']) (\<lambda>taxCost.
       Inr \<lparr>kp_CurrentValue = curVal, kp_YtdReturn = ytd, kp_OneYearReturn = oneYear, kp_BenchmarkYtdReturn = bYtd,
            kp_BenchmarkOneYearReturn = bOneYear, kp_Cagr = cagr, kp_MaxDrawdown = maxDrawdown, kp_Sharpe = sharpe, kp_Sortino = sortino,
            kp_Beta = beta, kp_Alpha = alpha, kp_StdDev = stdDev, kp_UlcerIndex = ulcer, kp_TaxCostRatio = taxCost, kp_InceptionDate = start\<rparr>)))))))))))))))"

record 'f PortfolioSummary =
  su_CurrentValue :: 'f
  su_YtdReturn :: "'f option"
  su_OneYearReturn :: "'f option"
  su_CagrSinceInception :: "'f option"
  su_MaxDrawDown :: "'f option"
  su_Sharpe :: "'f option"
  su_Sortino :: "'f option"
  su_Beta :: "'f option"
  su_Alpha :: "'f option"
  su_StdDev :: "'f option"
  su_UlcerIndex :: "'f option"
  su_TaxCostRatio :: "'f option"

definition Reader_Summary :: "(string \<Rightarrow> string) \<Rightarrow> 'f::zero snapshot \<Rightarrow> 'f PortfolioSummary result" where
  "Reader_Summary quote sn = andR (Reader_Kpis quote sn) (\<lambda>k.
     Inr \<lparr>su_CurrentValue = kp_CurrentValue k, su_YtdReturn = kp_YtdReturn k, su_OneYearReturn = kp_OneYearReturn k,
          su_CagrSinceInception = kp_Cagr k, su_MaxDrawDown = kp_MaxDrawdown k, su_Sharpe = kp_Sharpe k, su_Sortino = kp_Sortino k,
          su_Beta = kp_Beta k, su_Alpha = kp_Alpha k, su_StdDev = kp_StdDev k, su_UlcerIndex = kp_UlcerIndex k,
          su_TaxCostRatio = kp_TaxCostRatio k\<rparr>)"

datatype MetricFormat = Percent | Number

definition statisticMeta :: "(string \<times> string \<times> string \<times> MetricFormat) list" where
  "statisticMeta =
     [(''cagr'', ''CAGR'', ''CAGR'', Percent), (''sharpe_ratio'', ''Sharpe'', ''Sharpe Ratio'', Number),
      (''sortino_ratio'', ''Sortino'', ''Sortino Ratio'', Number), (''calmar_ratio'', ''Calmar'', ''Calmar Ratio'', Number),
      (''information_ratio'', ''InformationRatio'', ''Information Ratio'', Number), (''beta'', ''Beta'', ''Beta'', Number),
      (''alpha'', ''Alpha'', ''Alpha'', Percent), (''std_dev'', ''StdDev'', ''Standard Deviation'', Percent),
      (''ulcer_index'', ''UlcerIndex'', ''Ulcer Index'', Number), (''max_drawdown'', ''MaxDrawdown'', ''Max Drawdown'', Percent),
      (''upside_capture'', ''UpsideCaptureRatio'', ''Upside Capture'', Percent),
      (''downside_capture'', ''DownsideCaptureRatio'', ''Downside Capture'', Percent), (''win_rate'', ''WinRate'', ''Win Rate'', Percent),
      (''profit_factor'', ''ProfitFactor'', ''Profit Factor'', Number), (''tax_cost_ratio'', ''TaxCostRatio'', ''Tax Cost Ratio'', Percent)]"

record 'f PortfolioStatistic =
  pst_Label :: string
  pst_Format :: MetricFormat
  pst_Value :: "'f option"

definition wrapR :: "string \<Rightarrow> 'a result \<Rightarrow> 'a result" where
  "wrapR ctx r = (case r of Inl e \<Rightarrow> Inl (wrap ctx e) | Inr x \<Rightarrow> Inr x)"

definition Reader_Statistics :: "'f snapshot \<Rightarrow> 'f PortfolioStatistic list result" where
  "Reader_Statistics sn = mapR (\<lambda>(name, alias, label, fmt).
     andR (wrapR (''statistics '' @ name) (readMetric sn name [alias])) (\<lambda>v.
       Inr \<lparr>pst_Label = label, pst_Format = fmt, pst_Value = v\<rparr>)) statisticMeta"

datatype ReturnRowKind = ReturnPortfolio | ReturnBenchmark | ReturnPortfolioTax | ReturnBenchmarkTax

record 'f TrailingReturnRow =
  tr_Title :: string
  tr_Kind :: ReturnRowKind
  tr_Ytd :: "'f option"
  tr_OneYear :: "'f option"
  tr_ThreeYear :: "'f option"
  tr_FiveYear :: "'f option"
  tr_TenYear :: "'f option"
  tr_SinceInception :: "'f option"

definition trailingRow :: "'f snapshot \<Rightarrow> string \<times> ReturnRowKind \<times> string \<times> string \<Rightarrow> 'f TrailingReturnRow result" where
  "trailingRow sn = (\<lambda>(title, kind, cumulative, annualized).
     andR (readWindowedMetric sn cumulative ''ytd'') (\<lambda>ytd.
     andR (readWindowedMetric sn cumulative ''1yr'') (\<lambda>one.
     andR (readWindowedMetric sn annualized ''3yr'') (\<lambda>three.
     andR (readWindowedMetric sn annualized ''5yr'') (\<lambda>five.
     andR (readWindowedMetric sn annualized ''10yr'') (\<lambda>ten.
     andR (readWindowedMetric sn annualized ''since_inception'') (\<lambda>inception.
       Inr \<lparr>tr_Title = title, tr_Kind = kind, tr_Ytd = ytd, tr_OneYear = one, tr_ThreeYear = three, tr_FiveYear = five,
            tr_TenYear = ten, tr_SinceInception = inception\<rparr>)))))))"

definition Reader_TrailingReturns :: "'f snapshot \<Rightarrow> 'f TrailingReturnRow list result" where
  "Reader_TrailingReturns sn = mapR (trailingRow sn)
     [(''Portfolio'', ReturnPortfolio, ''TWRR'', ''CAGR''),
      (''Benchmark'', ReturnBenchmark, ''BenchmarkTWRR'', ''BenchmarkCAGR''),
      (''Portfolio (after tax)'', ReturnPortfolioTax, ''AfterTaxTWRR'', ''AfterTaxCAGR''),
      (''Benchmark (after tax)'', ReturnBenchmarkTax, ''BenchmarkAfterTaxTWRR'', ''BenchmarkAfterTaxCAGR'')]"

end
