(* ===== verification/Snapshot_Reads.thy ===== *)
theory Snapshot_Reads
  imports Snapshot
begin

text \<open>
  More readers of a snapshot: the grouped metrics (\<open>snapshot/metrics.go\<close>), the transactions
  (\<open>transactions.go\<close>), the equity curves (\<open>performance.go\<close>) and the prediction of the next trade
  (\<open>prediction.go\<close>).
\<close>

subsection \<open>Grouped metrics (metrics.go)\<close>

definition metricMeta :: "(string \<times> string) list" where
  "metricMeta =
     [(''TWRR'', ''summary''), (''MWRR'', ''summary''), (''Sharpe'', ''summary''), (''Sortino'', ''summary''),
      (''Calmar'', ''summary''), (''KellerRatio'', ''summary''), (''MaxDrawdown'', ''summary''),
      (''StdDev'', ''summary''), (''BenchmarkTWRR'', ''summary''), (''BenchmarkMWRR'', ''summary''),
      (''BenchmarkSharpe'', ''summary''), (''BenchmarkSortino'', ''summary''), (''BenchmarkCalmar'', ''summary''),
      (''BenchmarkMaxDrawdown'', ''summary''), (''BenchmarkStdDev'', ''summary''), (''Beta'', ''risk''),
      (''Alpha'', ''risk''), (''TrackingError'', ''risk''), (''DownsideDeviation'', ''risk''),
      (''InformationRatio'', ''risk''), (''Treynor'', ''risk''), (''UlcerIndex'', ''risk''),
      (''ExcessKurtosis'', ''risk''), (''Skewness'', ''risk''), (''RSquared'', ''risk''),
      (''ValueAtRisk'', ''risk''), (''UpsideCaptureRatio'', ''risk''), (''DownsideCaptureRatio'', ''risk''),
      (''BenchmarkDownsideDeviation'', ''risk''), (''BenchmarkUlcerIndex'', ''risk''),
      (''BenchmarkExcessKurtosis'', ''risk''), (''BenchmarkSkewness'', ''risk''),
      (''BenchmarkValueAtRisk'', ''risk''), (''WinRate'', ''trade''), (''AverageWin'', ''trade''),
      (''AverageLoss'', ''trade''), (''ProfitFactor'', ''trade''), (''AverageHoldingPeriod'', ''trade''),
      (''Turnover'', ''trade''), (''NPositivePeriods'', ''trade''), (''TradeGainLossRatio'', ''trade''),
      (''AverageMFE'', ''trade''), (''AverageMAE'', ''trade''), (''MedianMFE'', ''trade''),
      (''MedianMAE'', ''trade''), (''EdgeRatio'', ''trade''), (''TradeCaptureRatio'', ''trade''),
      (''LongWinRate'', ''trade''), (''ShortWinRate'', ''trade''), (''LongProfitFactor'', ''trade''),
      (''ShortProfitFactor'', ''trade''), (''SafeWithdrawalRate'', ''withdrawal''),
      (''PerpetualWithdrawalRate'', ''withdrawal''), (''DynamicWithdrawalRate'', ''withdrawal''),
      (''LTCG'', ''tax''), (''STCG'', ''tax''), (''UnrealizedLTCG'', ''tax''), (''UnrealizedSTCG'', ''tax''),
      (''QualifiedDividends'', ''tax''), (''NonQualifiedIncome'', ''tax''), (''TaxCostRatio'', ''tax''),
      (''TaxDrag'', ''tax''), (''AfterTaxTWRR'', ''tax''), (''AfterTaxCAGR'', ''tax''),
      (''BenchmarkAfterTaxTWRR'', ''tax''), (''BenchmarkAfterTaxCAGR'', ''tax''), (''CAGR'', ''advanced''),
      (''BenchmarkCAGR'', ''advanced''), (''ActiveReturn'', ''advanced''), (''SmartSharpe'', ''advanced''),
      (''SmartSortino'', ''advanced''), (''ProbabilisticSharpe'', ''advanced''), (''KRatio'', ''advanced''),
      (''KellyCriterion'', ''advanced''), (''OmegaRatio'', ''advanced''), (''GainToPainRatio'', ''advanced''),
      (''CVaR'', ''advanced''), (''TailRatio'', ''advanced''), (''RecoveryFactor'', ''advanced''),
      (''Exposure'', ''advanced''), (''ConsecutiveWins'', ''advanced''), (''ConsecutiveLosses'', ''advanced''),
      (''AvgDrawdown'', ''advanced''), (''AvgDrawdownDays'', ''advanced''), (''GainLossRatio'', ''advanced''),
      (''AvgUlcerIndex'', ''advanced''), (''P90UlcerIndex'', ''advanced''), (''MedianUlcerIndex'', ''advanced''),
      (''BenchmarkAvgUlcerIndex'', ''advanced''), (''BenchmarkP90UlcerIndex'', ''advanced''),
      (''BenchmarkMedianUlcerIndex'', ''advanced'')]"

definition validWindows :: "string list" where
  "validWindows = [''since_inception'', ''10yr'', ''5yr'', ''3yr'', ''1yr'', ''ytd'', ''mtd'', ''wtd'']"

fun filterWindows_from :: "string list \<Rightarrow> string list \<Rightarrow> string list" where
  "filterWindows_from seen [] = []"
| "filterWindows_from seen (w # ws) =
     (if w \<in> set validWindows \<and> w \<notin> set seen then w # filterWindows_from (w # seen) ws else filterWindows_from seen ws)"

definition filterWindows :: "string list \<Rightarrow> string list" where
  "filterWindows requested = filterWindows_from [] requested"

definition filterMetrics :: "string list \<Rightarrow> (string \<times> string) list" where
  "filterMetrics requested = (if requested = [] then metricMeta else filter (\<lambda>(n, _). n \<in> set requested) metricMeta)"

type_synonym 'f dbRows = "string \<Rightarrow> (string \<Rightarrow> 'f option) option"

text \<open>
  The query returns, per name and window, the row that \<open>ROW_NUMBER()\<close> by descending date puts first.
  A map of maps is filled from its rows; a name that has a row has an inner map.
\<close>

definition newest_rows :: "string list \<Rightarrow> string list \<Rightarrow> 'f metric_row list \<Rightarrow> 'f metric_row list" where
  "newest_rows names windows rows =
     concat (map (\<lambda>n. concat (map (\<lambda>w. take 1 (desc_by mt_date (filter (\<lambda>r. mt_name r = n \<and> mt_window r = w) rows))) windows)) names)"

definition add_row :: "'f dbRows \<Rightarrow> 'f metric_row \<Rightarrow> 'f dbRows result" where
  "add_row m r = andR (scan ''scan metric row'' (mt_value r)) (\<lambda>v.
     let inner = (case m (mt_name r) of None \<Rightarrow> (\<lambda>_. None) | Some i \<Rightarrow> i) in
     Inr (m(mt_name r := Some (inner(mt_window r := Some v)))))"

definition queryMetricRows :: "'f snapshot \<Rightarrow> string list \<Rightarrow> string list \<Rightarrow> 'f dbRows result" where
  "queryMetricRows sn names windows =
     (if names = [] \<or> windows = [] then Inr (\<lambda>_. None)
      else andR (query sn ''query metrics'') (\<lambda>_.
        andR (foldR add_row (\<lambda>_. None) (newest_rows names windows (sn_metrics sn))) (\<lambda>m.
        andR (query_raw sn ''query metrics iterate'') (\<lambda>_. Inr m))))"

text \<open>A group maps metric names to one value per window; \<open>None\<close> is a group that is absent.\<close>

type_synonym 'f MetricGroup = "(string \<rightharpoonup> 'f option list) option"

record 'f PortfolioMetrics =
  pm_Windows :: "string list"
  pm_Summary :: "'f MetricGroup"
  pm_Risk :: "'f MetricGroup"
  pm_Trade :: "'f MetricGroup"
  pm_Withdrawal :: "'f MetricGroup"
  pm_Tax :: "'f MetricGroup"
  pm_Advanced :: "'f MetricGroup"

definition put_metric :: "string \<Rightarrow> 'f option list \<Rightarrow> 'f MetricGroup \<Rightarrow> 'f MetricGroup" where
  "put_metric name vals g = Some ((case g of None \<Rightarrow> (\<lambda>_. None) | Some m \<Rightarrow> m)(name \<mapsto> vals))"

definition setMetricValue :: "'f PortfolioMetrics \<Rightarrow> string \<Rightarrow> string \<Rightarrow> 'f option list \<Rightarrow> 'f PortfolioMetrics" where
  "setMetricValue out category name vals =
     (if category = ''summary'' then out\<lparr>pm_Summary := put_metric name vals (pm_Summary out)\<rparr>
      else if category = ''risk'' then out\<lparr>pm_Risk := put_metric name vals (pm_Risk out)\<rparr>
      else if category = ''trade'' then out\<lparr>pm_Trade := put_metric name vals (pm_Trade out)\<rparr>
      else if category = ''withdrawal'' then out\<lparr>pm_Withdrawal := put_metric name vals (pm_Withdrawal out)\<rparr>
      else if category = ''tax'' then out\<lparr>pm_Tax := put_metric name vals (pm_Tax out)\<rparr>
      else if category = ''advanced'' then out\<lparr>pm_Advanced := put_metric name vals (pm_Advanced out)\<rparr>
      else out)"

definition add_metric :: "string list \<Rightarrow> 'f dbRows \<Rightarrow> 'f PortfolioMetrics \<Rightarrow> string \<times> string \<Rightarrow> 'f PortfolioMetrics" where
  "add_metric windows dbRows out = (\<lambda>(name, category).
     case dbRows name of
       None \<Rightarrow> out
     | Some windowVals \<Rightarrow>
         (let vals = map windowVals windows in
          if \<exists>v \<in> set vals. v \<noteq> None then setMetricValue out category name vals else out))"

definition buildPortfolioMetrics :: "string list \<Rightarrow> (string \<times> string) list \<Rightarrow> 'f dbRows \<Rightarrow> 'f PortfolioMetrics" where
  "buildPortfolioMetrics windows entries dbRows =
     foldl (add_metric windows dbRows)
       \<lparr>pm_Windows = windows, pm_Summary = None, pm_Risk = None, pm_Trade = None, pm_Withdrawal = None, pm_Tax = None, pm_Advanced = None\<rparr> entries"

definition Reader_Metrics :: "'f snapshot \<Rightarrow> string list \<Rightarrow> string list \<Rightarrow> 'f PortfolioMetrics result" where
  "Reader_Metrics sn windows metrics =
     (let resolved = filterWindows windows;
          resolvedWindows = (if resolved = [] then [''since_inception''] else resolved);
          resolvedMeta = filterMetrics metrics in
      andR (queryMetricRows sn (map fst resolvedMeta) resolvedWindows) (\<lambda>dbRows.
        Inr (buildPortfolioMetrics resolvedWindows resolvedMeta dbRows)))"

subsection \<open>Transactions (transactions.go)\<close>

record 'f LatestBatchTrade =
  lt_Ticker :: string
  lt_Type :: string
  lt_Date :: string
  lt_Quantity :: 'f
  lt_Price :: 'f
  lt_Amount :: 'f

definition is_trade :: "'f tx_row \<Rightarrow> bool" where
  "is_trade t \<longleftrightarrow> tx_type t \<in> {''buy'', ''sell''}"

definition scan_trade :: "'f tx_row \<Rightarrow> 'f LatestBatchTrade result" where
  "scan_trade t =
     (let ctx = ''latest batch trades scan'' in
      andR (scan ctx (tx_ticker t)) (\<lambda>ticker.
      andR (scan ctx (tx_quantity t)) (\<lambda>quantity.
      andR (scan ctx (tx_price t)) (\<lambda>price.
      andR (scan ctx (tx_amount t)) (\<lambda>amount.
        Inr \<lparr>lt_Ticker = ticker, lt_Type = tx_type t, lt_Date = tx_date t, lt_Quantity = quantity, lt_Price = price, lt_Amount = amount\<rparr>)))))"

definition latest_trades :: "'f tx_row list \<Rightarrow> 'f tx_row list" where
  "latest_trades txs =
     (let trades = filter is_trade txs in
      case trades of [] \<Rightarrow> [] | t # ts \<Rightarrow> (let top_id = foldl (\<lambda>b x. max b (tx_batch x)) (tx_batch t) ts in filter (\<lambda>x. tx_batch x = top_id) trades))"

definition LatestBatchTrades :: "'f snapshot \<Rightarrow> 'f LatestBatchTrade list result" where
  "LatestBatchTrades sn = andR (query sn ''latest batch trades query'') (\<lambda>_.
     andR (mapR scan_trade (latest_trades (sn_transactions sn))) (\<lambda>out.
     andR (query sn ''latest batch trades iterate'') (\<lambda>_. Inr out)))"

record 'f Transaction =
  ta_BatchId :: int
  ta_Date :: date
  ta_Type :: string
  ta_Ticker :: "string option"
  ta_Figi :: "string option"
  ta_Justification :: "string option"
  ta_Quantity :: "'f option"
  ta_Price :: "'f option"
  ta_Amount :: "'f option"
  ta_Qualified :: "bool option"

definition tx_selected :: "SnapshotTxFilter \<Rightarrow> 'f tx_row \<Rightarrow> bool" where
  "tx_selected f t \<longleftrightarrow>
     (case tf_From f of None \<Rightarrow> True | Some d \<Rightarrow> time_Format d \<le> tx_date t)
     \<and> (case tf_To f of None \<Rightarrow> True | Some d \<Rightarrow> tx_date t \<le> time_Format d)
     \<and> (tf_Types f = [] \<or> tx_type t \<in> set (tf_Types f))"

definition to_transaction :: "(string \<Rightarrow> string) \<Rightarrow> 'f tx_row \<Rightarrow> 'f Transaction result" where
  "to_transaction quote t =
     (case time_Parse (tx_date t) of
        None \<Rightarrow> Inl (Error [] (''transactions parse date '' @ quote (tx_date t) @ '': parsing time''))
      | Some d \<Rightarrow> Inr \<lparr>ta_BatchId = tx_batch t, ta_Date = d, ta_Type = tx_type t, ta_Ticker = tx_ticker t, ta_Figi = tx_figi t,
            ta_Justification = tx_justification t, ta_Quantity = tx_quantity t, ta_Price = tx_price t, ta_Amount = tx_amount t,
            ta_Qualified = map_option (\<lambda>q. q \<noteq> 0) (tx_qualified t)\<rparr>)"

definition Reader_Transactions :: "(string \<Rightarrow> string) \<Rightarrow> 'f snapshot \<Rightarrow> SnapshotTxFilter \<Rightarrow> 'f Transaction list result" where
  "Reader_Transactions quote sn f = andR (query sn ''transactions query'') (\<lambda>_.
     andR (mapR (to_transaction quote) (sort_key tx_batch (filter (tx_selected f) (sn_transactions sn)))) (\<lambda>items.
     andR (query sn ''transactions iterate'') (\<lambda>_. Inr items)))"

subsection \<open>Equity curves (performance.go)\<close>

record 'f PerformancePoint =
  pp_Date :: date
  pp_PortfolioValue :: 'f
  pp_BenchmarkValue :: 'f

record 'f PortfolioPerformance =
  pe_PortfolioSlug :: string
  pe_From :: date
  pe_To :: date
  pe_Points :: "'f PerformancePoint list"

text \<open>The points by date text, in the order in which the dates are first seen.\<close>

definition set_point :: "'f perf_row \<Rightarrow> 'f PerformancePoint \<Rightarrow> 'f PerformancePoint" where
  "set_point r p =
     (if pf_metric r \<in> set portfolioValueClause then p\<lparr>pp_PortfolioValue := pf_value r\<rparr>
      else if pf_metric r \<in> set benchmarkValueClause then p\<lparr>pp_BenchmarkValue := pf_value r\<rparr>
      else p)"

definition add_point :: "(string \<times> 'f::zero PerformancePoint) list \<Rightarrow> 'f perf_row \<Rightarrow> (string \<times> 'f PerformancePoint) list" where
  "add_point pts r =
     (let ds = pf_date r in
      if ds \<in> fst ` set pts then map (\<lambda>(k, p). (k, if k = ds then set_point r p else p)) pts
      else pts @ [(ds, set_point r \<lparr>pp_Date = (case time_Parse ds of None \<Rightarrow> zero_time | Some d \<Rightarrow> d), pp_PortfolioValue = 0, pp_BenchmarkValue = 0\<rparr>)])"

definition rebaseBenchmark :: "'f::{times,inverse,zero,ord} PerformancePoint list \<Rightarrow> 'f PerformancePoint list" where
  "rebaseBenchmark points =
     (case List.find (\<lambda>p. 0 < pp_PortfolioValue p \<and> 0 < pp_BenchmarkValue p) points of
        None \<Rightarrow> points
      | Some p \<Rightarrow>
          (let scale = pp_PortfolioValue p / pp_BenchmarkValue p in
           map (\<lambda>q. q\<lparr>pp_BenchmarkValue := pp_BenchmarkValue q * scale\<rparr>) points))"

definition Reader_Performance :: "(string \<Rightarrow> string) \<Rightarrow> 'f::{times,inverse,zero,ord} snapshot \<Rightarrow> string \<Rightarrow> date option \<Rightarrow> date option
    \<Rightarrow> 'f PortfolioPerformance result" where
  "Reader_Performance quote sn slug from to =
     andR (readDateWindow quote sn) (\<lambda>(start, end').
     let from' = (case from of None \<Rightarrow> start | Some d \<Rightarrow> d); to' = (case to of None \<Rightarrow> end' | Some d \<Rightarrow> d) in
     andR (query sn ''performance query'') (\<lambda>_.
     andR (query_raw sn ''performance iterate'') (\<lambda>_.
       Inr \<lparr>pe_PortfolioSlug = slug, pe_From = from', pe_To = to',
            pe_Points = rebaseBenchmark (map snd (foldl add_point [] (sort_key pf_date
              (filter (\<lambda>r. pf_metric r \<in> set (portfolioValueClause @ benchmarkValueClause)
                  \<and> time_Format from' \<le> pf_date r \<and> pf_date r \<le> time_Format to') (sn_perf sn)))))\<rparr>)))"

subsection \<open>The next trade (prediction.go)\<close>

record 'f PredictedHolding =
  ph_Ticker :: string
  ph_Figi :: "string option"
  ph_Quantity :: 'f
  ph_MarketValue :: 'f
  ph_Weight :: 'f

record 'f PredictionResponse =
  pn_Date :: date
  pn_Transactions :: "'f predicted_tx list"
  pn_Holdings :: "'f PredictedHolding list"
  pn_Annotations :: "(string \<times> string) list"
  pn_TotalMarketValue :: 'f

definition some_text :: "string \<Rightarrow> string option" where
  "some_text s = (if s \<noteq> [] then Some s else None)"

definition readPredictedHoldings :: "'f::{plus,inverse,zero,ord} snapshot \<Rightarrow> ('f PredictedHolding list \<times> 'f) result" where
  "readPredictedHoldings sn = andR (query sn ''predicted holdings query'') (\<lambda>_.
     andR (query sn ''predicted holdings iterate'') (\<lambda>_.
     let rows = sort_key pr_ticker (sort_key pr_figi (sn_predicted_holdings sn));
         total = fsum (map pr_market_value rows) in
     Inr (map (\<lambda>r. \<lparr>ph_Ticker = pr_ticker r, ph_Figi = some_text (pr_figi r), ph_Quantity = pr_quantity r, ph_MarketValue = pr_market_value r,
                    ph_Weight = (if 0 < total then pr_market_value r / total else 0)\<rparr>) rows, total)))"

definition readPredictedAnnotations :: "'f snapshot \<Rightarrow> (string \<times> string) list result" where
  "readPredictedAnnotations sn = andR (query sn ''predicted annotations table lookup'') (\<lambda>_.
     case sn_predicted_annotations sn of
       None \<Rightarrow> Inr []
     | Some rows \<Rightarrow> andR (query sn ''predicted annotations query'') (\<lambda>_. andR (query sn ''predicted annotations iterate'') (\<lambda>_. Inr rows)))"

definition Reader_Prediction :: "(string \<Rightarrow> string) \<Rightarrow> 'f::{plus,inverse,zero,ord} snapshot \<Rightarrow> 'f PredictionResponse result" where
  "Reader_Prediction quote sn = andR (query sn ''prediction table lookup'') (\<lambda>_.
     case sn_prediction sn of
       None \<Rightarrow> Inl snap_not_found
     | Some dates \<Rightarrow> andR (query sn ''prediction query'') (\<lambda>_.
         case dates of
           [] \<Rightarrow> Inl snap_not_found
         | dateStr # _ \<Rightarrow>
             (case time_Parse dateStr of
                None \<Rightarrow> Inl (Error [] (''prediction parse date '' @ quote dateStr @ '': parsing time''))
              | Some d \<Rightarrow>
                  andR (query sn ''predicted transactions query'') (\<lambda>_.
                  andR (query sn ''predicted transactions iterate'') (\<lambda>_.
                  andR (readPredictedHoldings sn) (\<lambda>(holdings, total).
                  andR (readPredictedAnnotations sn) (\<lambda>ann.
                    Inr \<lparr>pn_Date = d, pn_Transactions = sn_predicted_transactions sn, pn_Holdings = holdings,
                         pn_Annotations = ann, pn_TotalMarketValue = total\<rparr>)))))))"

section \<open>What the readers return\<close>

subsection \<open>Grouped metrics\<close>

lemma filterWindows_from_spec:
  "distinct (filterWindows_from seen ws) \<and> set (filterWindows_from seen ws) = set ws \<inter> set validWindows - set seen"
  by (induction seen ws rule: filterWindows_from.induct) auto

lemma filterWindows_spec: "distinct (filterWindows ws)" "set (filterWindows ws) = set ws \<inter> set validWindows"
  using filterWindows_from_spec [of "[]" ws] by (simp_all add: filterWindows_def)

text \<open>The value of a metric in a window: that of the row with the latest date.\<close>

definition metric_value :: "'f snapshot \<Rightarrow> string \<Rightarrow> string \<Rightarrow> 'f option" where
  "metric_value sn n w =
     (case desc_by mt_date (filter (\<lambda>r. mt_name r = n \<and> mt_window r = w) (sn_metrics sn)) of [] \<Rightarrow> None | r # _ \<Rightarrow> mt_value r)"

definition lookup2 :: "'f dbRows \<Rightarrow> string \<Rightarrow> string \<Rightarrow> 'f option" where
  "lookup2 m n w = (case m n of None \<Rightarrow> None | Some i \<Rightarrow> i w)"

lemma set_desc_by [simp]: "set (desc_by k xs) = set xs" "desc_by k xs = [] \<longleftrightarrow> xs = []"
  by (auto simp: desc_by_def) (metis length_rev length_sort list.size(3) length_0_conv)+

lemma desc_by_hd: "desc_by k xs = r # rest \<Longrightarrow> r \<in> set xs"
  by (metis list.set_intros(1) set_desc_by(1))

lemma desc_by_obtain: "q \<in> set xs \<Longrightarrow> \<exists>r rest. desc_by k xs = r # rest"
  by (cases "desc_by k xs") auto

lemma fold_add_row:
  assumes "\<And>r. r \<in> set rows \<Longrightarrow> mt_value r = Some (val (mt_name r) (mt_window r))"
  shows "\<exists>m'. foldR add_row m rows = Inr m'
    \<and> (\<forall>n w. lookup2 m' n w = (if \<exists>r \<in> set rows. mt_name r = n \<and> mt_window r = w then Some (val n w) else lookup2 m n w))
    \<and> (\<forall>n. m' n \<noteq> None \<longleftrightarrow> m n \<noteq> None \<or> (\<exists>r \<in> set rows. mt_name r = n))"
  using assms
proof (induction rows arbitrary: m)
  case Nil
  then show ?case by simp
next
  case (Cons r rows)
  define m1 where "m1 = m(mt_name r := Some ((case m (mt_name r) of None \<Rightarrow> \<lambda>_. None | Some i \<Rightarrow> i)(mt_window r := Some (val (mt_name r) (mt_window r)))))"
  have step: "add_row m r = Inr m1" using Cons.prems [of r] by (simp add: add_row_def scan_def Let_def m1_def)
  have m1: "lookup2 m1 n w = (if mt_name r = n \<and> mt_window r = w then Some (val n w) else lookup2 m n w)"
    "m1 n \<noteq> None \<longleftrightarrow> m n \<noteq> None \<or> mt_name r = n" for n w
    by (auto simp: lookup2_def m1_def split: option.splits)
  have rows: "\<And>q. q \<in> set rows \<Longrightarrow> mt_value q = Some (val (mt_name q) (mt_window q))" using Cons.prems by simp
  from Cons.IH [OF this, of m1] m1 step show ?case by auto
qed

lemma newest_rows_spec:
  assumes "r \<in> set (newest_rows ns ws rows)"
  shows "mt_name r \<in> set ns \<and> mt_window r \<in> set ws
    \<and> (\<exists>rest. desc_by mt_date (filter (\<lambda>q. mt_name q = mt_name r \<and> mt_window q = mt_window r) rows) = r # rest)"
proof -
  from assms obtain n w where nw: "n \<in> set ns" "w \<in> set ws"
    and r: "r \<in> set (take 1 (desc_by mt_date (filter (\<lambda>q. mt_name q = n \<and> mt_window q = w) rows)))"
    by (auto simp: newest_rows_def)
  then obtain rest where d: "desc_by mt_date (filter (\<lambda>q. mt_name q = n \<and> mt_window q = w) rows) = r # rest"
    by (cases "desc_by mt_date (filter (\<lambda>q. mt_name q = n \<and> mt_window q = w) rows)") auto
  then have "r \<in> set (desc_by mt_date (filter (\<lambda>q. mt_name q = n \<and> mt_window q = w) rows))" by simp
  then have "mt_name r = n" "mt_window r = w" by simp_all
  with nw d show ?thesis by auto
qed

lemma newest_rows_in:
  assumes "n \<in> set ns" and "w \<in> set ws" and "q \<in> set rows" and "mt_name q = n" and "mt_window q = w"
  shows "\<exists>r \<in> set (newest_rows ns ws rows). mt_name r = n \<and> mt_window r = w"
proof -
  have "q \<in> set (filter (\<lambda>q. mt_name q = n \<and> mt_window q = w) rows)" using assms by simp
  from desc_by_obtain [OF this, of mt_date]
  obtain r rest where d: "desc_by mt_date (filter (\<lambda>q. mt_name q = n \<and> mt_window q = w) rows) = r # rest" by blast
  have "r \<in> set (take 1 (desc_by mt_date (filter (\<lambda>q. mt_name q = n \<and> mt_window q = w) rows)))" unfolding d by simp
  then have "r \<in> set (newest_rows ns ws rows)" using assms(1,2)
    by (simp add: newest_rows_def) (rule bexI [of _ n], rule bexI [of _ w], simp_all)
  moreover have "mt_name r = n \<and> mt_window r = w" using desc_by_hd [OF d] by simp
  ultimately show ?thesis by blast
qed

lemma queryMetricRows_spec:
  assumes "healthy sn" and "\<And>r. r \<in> set (sn_metrics sn) \<Longrightarrow> mt_value r \<noteq> None"
  shows "\<exists>m. queryMetricRows sn ns ws = Inr m \<and> (\<forall>n. n \<in> set ns \<longrightarrow>
      (m n \<noteq> None \<longleftrightarrow> (\<exists>w \<in> set ws. metric_value sn n w \<noteq> None)) \<and> (\<forall>w \<in> set ws. lookup2 m n w = metric_value sn n w))"
proof (cases "ns = [] \<or> ws = []")
  case True
  then show ?thesis by (auto simp: queryMetricRows_def)
next
  case False
  let ?rows = "newest_rows ns ws (sn_metrics sn)"
  have newest: "metric_value sn (mt_name r) (mt_window r) = mt_value r \<and> mt_value r \<noteq> None" if "r \<in> set ?rows" for r
  proof -
    from newest_rows_spec [OF that] obtain rest
      where d: "desc_by mt_date (filter (\<lambda>q. mt_name q = mt_name r \<and> mt_window q = mt_window r) (sn_metrics sn)) = r # rest" by blast
    from desc_by_hd [OF this] have "r \<in> set (sn_metrics sn)" by simp
    with d assms(2) show ?thesis by (simp add: metric_value_def)
  qed
  have present: "(\<exists>r \<in> set ?rows. mt_name r = n \<and> mt_window r = w) \<longleftrightarrow> metric_value sn n w \<noteq> None" if "n \<in> set ns" "w \<in> set ws" for n w
  proof
    assume "\<exists>r \<in> set ?rows. mt_name r = n \<and> mt_window r = w"
    with newest show "metric_value sn n w \<noteq> None" by auto
  next
    assume "metric_value sn n w \<noteq> None"
    then have "filter (\<lambda>r. mt_name r = n \<and> mt_window r = w) (sn_metrics sn) \<noteq> []"
      by (auto simp: metric_value_def desc_by_def)
    then obtain q where "q \<in> set (sn_metrics sn)" "mt_name q = n" "mt_window q = w" by (auto simp: filter_empty_conv)
    with newest_rows_in [OF that] show "\<exists>r \<in> set ?rows. mt_name r = n \<and> mt_window r = w" by blast
  qed
  have "mt_value r = Some (the (metric_value sn (mt_name r) (mt_window r)))" if "r \<in> set ?rows" for r using newest [OF that] by auto
  from fold_add_row [where m = "\<lambda>_. None" and rows = ?rows, OF this] obtain m where m: "foldR add_row (\<lambda>_. None) ?rows = Inr m"
    "\<And>n w. lookup2 m n w = (if \<exists>r \<in> set ?rows. mt_name r = n \<and> mt_window r = w then Some (the (metric_value sn n w)) else lookup2 (\<lambda>_. None) n w)"
    "\<And>n. m n \<noteq> None \<longleftrightarrow> (\<exists>r \<in> set ?rows. mt_name r = n)" by auto
  have "lookup2 m n w = metric_value sn n w" if "n \<in> set ns" "w \<in> set ws" for n w
    using m(2) [of n w] present [OF that] by (auto simp: lookup2_def)
  moreover have "m n \<noteq> None \<longleftrightarrow> (\<exists>w \<in> set ws. metric_value sn n w \<noteq> None)" if "n \<in> set ns" for n
  proof -
    have "(\<exists>r \<in> set ?rows. mt_name r = n) \<longleftrightarrow> (\<exists>w \<in> set ws. \<exists>r \<in> set ?rows. mt_name r = n \<and> mt_window r = w)"
      using newest_rows_spec by blast
    with m(3) [of n] present [OF that] show ?thesis by auto
  qed
  ultimately show ?thesis using m(1) False assms(1) by (simp add: queryMetricRows_def)
qed

definition metric_group :: "'f PortfolioMetrics \<Rightarrow> string \<Rightarrow> 'f MetricGroup" where
  "metric_group out c = (if c = ''summary'' then pm_Summary out else if c = ''risk'' then pm_Risk out else if c = ''trade'' then pm_Trade out
     else if c = ''withdrawal'' then pm_Withdrawal out else if c = ''tax'' then pm_Tax out else if c = ''advanced'' then pm_Advanced out else None)"

definition metric_cell :: "'f PortfolioMetrics \<Rightarrow> string \<Rightarrow> string \<Rightarrow> 'f option list option" where
  "metric_cell out c n = (case metric_group out c of None \<Rightarrow> None | Some g \<Rightarrow> g n)"

abbreviation categories :: "string set" where
  "categories \<equiv> {''summary'', ''risk'', ''trade'', ''withdrawal'', ''tax'', ''advanced''}"

lemma metric_cell_set:
  assumes "c \<in> categories"
  shows "metric_cell (setMetricValue out c n vals) c' n' = (if c' = c \<and> n' = n then Some vals else metric_cell out c' n')"
  using assms by (auto simp: metric_cell_def metric_group_def setMetricValue_def put_metric_def split: option.splits)

lemma setMetricValue_windows [simp]: "pm_Windows (setMetricValue out c n vals) = pm_Windows out"
  by (simp add: setMetricValue_def)

lemma metricMeta_ok: "distinct (map fst metricMeta)" "snd ` set metricMeta \<subseteq> categories"
  by code_simp+

lemma fold_add_metric:
  assumes "distinct (map fst es)" and "snd ` set es \<subseteq> categories"
  shows "pm_Windows (foldl (add_metric ws m) out es) = pm_Windows out
    \<and> (\<forall>n c. metric_cell (foldl (add_metric ws m) out es) c n =
        (if (n, c) \<in> set es \<and> m n \<noteq> None \<and> (\<exists>w \<in> set ws. lookup2 m n w \<noteq> None) then Some (map (lookup2 m n) ws) else metric_cell out c n))"
  using assms
proof (induction es arbitrary: out)
  case Nil
  then show ?case by simp
next
  case (Cons e es)
  obtain n0 c0 where e: "e = (n0, c0)" by fastforce
  have c0: "c0 \<in> categories" using Cons.prems e by simp
  have n0: "n0 \<notin> fst ` set es" using Cons.prems e by simp
  have one: "pm_Windows (add_metric ws m out e) = pm_Windows out"
    "metric_cell (add_metric ws m out e) c n = (if (n, c) = e \<and> m n \<noteq> None \<and> (\<exists>w \<in> set ws. lookup2 m n w \<noteq> None)
       then Some (map (lookup2 m n) ws) else metric_cell out c n)" for n c
    by (auto simp: e add_metric_def lookup2_def [abs_def] Let_def metric_cell_set [OF c0] split: option.splits)
  from Cons.IH [of "add_metric ws m out e"] Cons.prems one n0 e show ?case by (auto simp: image_iff)
qed

text \<open>
  The metrics endpoint on a readable snapshot without NULL values: the windows are the valid
  requested ones without repetition, or \<open>since_inception\<close> when none is valid; a known metric that was
  requested (or any, when none was named) appears in its category exactly when one of the windows has
  a row for it, with one cell per window, which holds the value with the latest date or is empty.
  Nothing else appears.
\<close>

lemma Reader_Metrics_spec:
  assumes "healthy sn" and "\<And>r. r \<in> set (sn_metrics sn) \<Longrightarrow> mt_value r \<noteq> None"
  shows "\<exists>out ws. Reader_Metrics sn windows metrics = Inr out \<and> pm_Windows out = ws
    \<and> distinct ws \<and> set ws = (if set windows \<inter> set validWindows = {} then {''since_inception''} else set windows \<inter> set validWindows)
    \<and> (\<forall>n c. metric_cell out c n =
        (if (n, c) \<in> set metricMeta \<and> (metrics = [] \<or> n \<in> set metrics) \<and> (\<exists>w \<in> set ws. metric_value sn n w \<noteq> None)
         then Some (map (metric_value sn n) ws) else None))"
proof -
  define ws where "ws = (if filterWindows windows = [] then [''since_inception''] else filterWindows windows)"
  let ?es = "filterMetrics metrics"
  let ?init = "\<lparr>pm_Windows = ws, pm_Summary = None, pm_Risk = None, pm_Trade = None, pm_Withdrawal = None, pm_Tax = None, pm_Advanced = None\<rparr> :: 'a PortfolioMetrics"
  have ws: "distinct ws" "set ws = (if set windows \<inter> set validWindows = {} then {''since_inception''} else set windows \<inter> set validWindows)"
    using filterWindows_spec [of windows] unfolding ws_def by (auto simp flip: set_empty)
  have es: "distinct (map fst ?es)" "snd ` set ?es \<subseteq> categories"
    "(n, c) \<in> set ?es \<longleftrightarrow> (n, c) \<in> set metricMeta \<and> (metrics = [] \<or> n \<in> set metrics)" for n c
    using metricMeta_ok by (auto simp: filterMetrics_def distinct_map_filter)
  obtain m where m: "queryMetricRows sn (map fst ?es) ws = Inr m"
    "\<And>n. n \<in> fst ` set ?es \<Longrightarrow> (m n \<noteq> None \<longleftrightarrow> (\<exists>w \<in> set ws. metric_value sn n w \<noteq> None)) \<and> (\<forall>w \<in> set ws. lookup2 m n w = metric_value sn n w)"
    using queryMetricRows_spec [OF assms, of "map fst ?es" ws] by auto
  let ?out = "buildPortfolioMetrics ws ?es m"
  have fold: "pm_Windows ?out = ws" "metric_cell ?out c n = (if (n, c) \<in> set ?es \<and> m n \<noteq> None \<and> (\<exists>w \<in> set ws. lookup2 m n w \<noteq> None)
      then Some (map (lookup2 m n) ws) else None)" for n c
    using fold_add_metric [OF es(1,2), of ws m ?init] by (simp_all add: buildPortfolioMetrics_def metric_cell_def [of ?init] metric_group_def)
  have "metric_cell ?out c n = (if (n, c) \<in> set metricMeta \<and> (metrics = [] \<or> n \<in> set metrics) \<and> (\<exists>w \<in> set ws. metric_value sn n w \<noteq> None)
      then Some (map (metric_value sn n) ws) else None)" for n c
  proof (cases "(n, c) \<in> set ?es")
    case True
    then have "n \<in> fst ` set ?es" by force
    from m(2) [OF this] True es(3) [of n c] show ?thesis unfolding fold(2) by auto
  next
    case False
    with es(3) [of n c] show ?thesis unfolding fold(2) by auto
  qed
  moreover have "Reader_Metrics sn windows metrics = Inr ?out" using m(1) by (simp add: Reader_Metrics_def ws_def Let_def)
  ultimately show ?thesis using fold(1) ws by blast
qed

definition demo_snapshot :: "rat snapshot" where
  "demo_snapshot = \<lparr>sn_metadata = [(''run.start'', Some ''2024-01-02T00:00:00-05:00''), (''run.end'', Some ''2024-01-08T23:59:59-05:00'')],
     sn_perf = [\<lparr>pf_date = ''2024-01-02'', pf_metric = ''portfolio_value'', pf_value = 100000\<rparr>,
                \<lparr>pf_date = ''2024-01-03'', pf_metric = ''portfolio_value'', pf_value = 101000\<rparr>],
     sn_batches = [], sn_transactions = [], sn_holdings = [],
     sn_metrics = [\<lparr>mt_date = ''2024-01-08'', mt_name = ''Sharpe'', mt_window = ''since_inception'', mt_value = Some 2\<rparr>,
                   \<lparr>mt_date = ''2024-01-05'', mt_name = ''Sharpe'', mt_window = ''1yr'', mt_value = Some 1\<rparr>],
     sn_annotations = [], sn_positions = [], sn_prediction = None, sn_predicted_transactions = [], sn_predicted_holdings = [],
     sn_predicted_annotations = None, sn_fault = \<lambda>_. None\<rparr>"

subsection \<open>Equity curves and weights in exact arithmetic\<close>

text \<open>
  The two curves start at the same value, and rebasing keeps every ratio between benchmark values.
\<close>

lemma rebaseBenchmark_spec:
  fixes pts :: "'f::linordered_field PerformancePoint list"
  assumes "List.find (\<lambda>p. 0 < pp_PortfolioValue p \<and> 0 < pp_BenchmarkValue p) pts = Some p"
  shows "\<exists>scale > 0. rebaseBenchmark pts = map (\<lambda>q. q\<lparr>pp_BenchmarkValue := pp_BenchmarkValue q * scale\<rparr>) pts
    \<and> pp_BenchmarkValue p * scale = pp_PortfolioValue p"
proof -
  have "0 < pp_PortfolioValue p" "0 < pp_BenchmarkValue p" using assms by (auto simp: find_Some_iff)
  then show ?thesis using assms by (intro exI [of _ "pp_PortfolioValue p / pp_BenchmarkValue p"]) (simp add: rebaseBenchmark_def Let_def)
qed

lemma predicted_weights_sum:
  fixes sn :: "'f::linordered_field snapshot"
  assumes "readPredictedHoldings sn = Inr (hs, tot)" and "0 < tot"
  shows "sum_list (map ph_Weight hs) = 1"
proof -
  let ?rows = "sort_key pr_ticker (sort_key pr_figi (sn_predicted_holdings sn))"
  have t: "tot = sum_list (map pr_market_value ?rows)"
    and hs: "map ph_Weight hs = map (\<lambda>r. pr_market_value r / tot) ?rows"
    using assms by (auto simp: readPredictedHoldings_def andR_Inr Let_def fsum_exact comp_def)
  have "sum_list (map (\<lambda>r. pr_market_value r / tot) rs) = sum_list (map pr_market_value rs) / tot" for rs
    by (induction rs) (simp_all add: add_divide_distrib)
  from this [of ?rows] have "sum_list (map ph_Weight hs) = tot / tot" unfolding hs t .
  with assms(2) show ?thesis by simp
qed

text \<open>
  A metric that is stored as NULL makes the key figures unreadable, although a metric without a
  row is only left out: when the newest row of, for instance, the maximal drawdown has no value,
  \<open>Kpis\<close> and with it the summary fail.
\<close>

lemma Kpis_null_metric_fails:
  assumes "healthy sn" and "desc_by mt_date (filter (\<lambda>r. mt_name r \<in> {''max_drawdown'', ''MaxDrawdown''}
      \<and> mt_window r \<in> {''full'', ''since_inception''}) (sn_metrics sn)) = r # rest" and "mt_value r = None"
  shows "\<exists>e. Reader_Kpis quote sn = Inl e \<and> Reader_Summary quote sn = Inl e"
proof -
  have "readMetric sn ''max_drawdown'' [''MaxDrawdown''] = Inl (wrap ''read metric max_drawdown'' null_error)"
    using assms by (simp add: readMetric_def scan_def)
  then have "\<nexists>k. Reader_Kpis quote sn = Inr k" by (auto simp: Reader_Kpis_def andR_Inr)
  then obtain e where "Reader_Kpis quote sn = Inl e" by (cases "Reader_Kpis quote sn") auto
  then show ?thesis by (auto simp: Reader_Summary_def)
qed

end
