(* ===== verification/Holdings.thy ===== *)
theory Holdings
  imports Snapshot_Reads "HOL-Library.AList"
begin

text \<open>
  The holdings of a snapshot, \<open>snapshot/holdings.go\<close>: today's, those on a past day, replayed from the
  transactions with the average-cost method, and their history by rebalance batch. A Go map is an
  association list in the order of first insertion; where the code iterates a map without sorting
  the keys, the order is the argument \<open>iter\<close>.
\<close>

subsection \<open>Current holdings\<close>

record 'f Holding =
  ho_Ticker :: string
  ho_Figi :: "string option"
  ho_Quantity :: 'f
  ho_AvgCost :: 'f
  ho_MarketValue :: 'f

record 'f HoldingsResponse =
  hr_Date :: date
  hr_Items :: "'f Holding list"
  hr_TotalMarketValue :: 'f

definition scan_holding :: "'f holding_row \<Rightarrow> 'f Holding result" where
  "scan_holding r =
     (let ctx = ''holdings scan'' in
      andR (scan ctx (hd_ticker r)) (\<lambda>ticker.
      andR (scan ctx (hd_figi r)) (\<lambda>figi.
      andR (scan ctx (hd_quantity r)) (\<lambda>quantity.
      andR (scan ctx (hd_avg_cost r)) (\<lambda>avgCost.
      andR (scan ctx (hd_market_value r)) (\<lambda>mv.
        Inr \<lparr>ho_Ticker = ticker, ho_Figi = some_text figi, ho_Quantity = quantity, ho_AvgCost = avgCost, ho_MarketValue = mv\<rparr>))))))"

definition CurrentHoldings :: "(string \<Rightarrow> string) \<Rightarrow> 'f::{plus,zero} snapshot \<Rightarrow> 'f HoldingsResponse result" where
  "CurrentHoldings quote sn =
     andR (readEndDate quote sn) (\<lambda>endDate.
     andR (query sn ''holdings query'') (\<lambda>_.
     andR (mapR scan_holding (sn_holdings sn)) (\<lambda>items.
     andR (query sn ''holdings iterate'') (\<lambda>_.
       Inr \<lparr>hr_Date = endDate, hr_Items = items, hr_TotalMarketValue = fsum (map ho_MarketValue items)\<rparr>))))"

subsection \<open>The ledger\<close>

record 'f ledgerRow =
  lr_figi :: string
  lr_quantity :: 'f
  lr_totalCost :: 'f
  lr_lastPrice :: 'f

type_synonym 'f ledger = "(string \<times> 'f ledgerRow) list"

definition applyTxToLedger :: "'f::{plus,minus,times,inverse,zero,ord} ledgerRow \<Rightarrow> string \<Rightarrow> 'f \<Rightarrow> 'f \<Rightarrow> 'f ledgerRow" where
  "applyTxToLedger pos typeStr quantity price =
     (if typeStr = ''buy'' then
        pos\<lparr>lr_totalCost := lr_totalCost pos + quantity * price, lr_quantity := lr_quantity pos + quantity\<rparr>
      else if typeStr = ''sell'' then
        (let pos' = (if 0 < lr_quantity pos
                     then pos\<lparr>lr_totalCost := lr_totalCost pos - lr_totalCost pos / lr_quantity pos * quantity\<rparr> else pos) in
         pos'\<lparr>lr_quantity := lr_quantity pos' - quantity\<rparr>)
      else if typeStr = ''split'' then pos\<lparr>lr_quantity := lr_quantity pos * price\<rparr>
      else pos)"

definition put_row :: "string \<Rightarrow> 'f ledgerRow \<Rightarrow> 'f ledger \<Rightarrow> 'f ledger" where
  "put_row ticker pos ledger = AList.update ticker pos ledger"

definition replayTxIntoLedger :: "'f::{plus,minus,times,inverse,zero,ord} ledger \<Rightarrow> 'f tx_row \<Rightarrow> 'f ledger result" where
  "replayTxIntoLedger ledger t =
     (let ctx = ''holdings asof scan'' in
      andR (scan ctx (tx_ticker t)) (\<lambda>ticker.
      andR (scan ctx (tx_quantity t)) (\<lambda>quantity.
      andR (scan ctx (tx_price t)) (\<lambda>price.
        if ticker = [] then Inr ledger
        else
          (let pos = (case map_of ledger ticker of
                        None \<Rightarrow> \<lparr>lr_figi = (case tx_figi t of None \<Rightarrow> [] | Some f \<Rightarrow> f), lr_quantity = 0, lr_totalCost = 0, lr_lastPrice = 0\<rparr>
                      | Some p \<Rightarrow> p);
               pos1 = (if 0 < price then pos\<lparr>lr_lastPrice := price\<rparr> else pos) in
           Inr (put_row ticker (applyTxToLedger pos1 (tx_type t) quantity price) ledger))))))"

definition txs_until :: "'f snapshot \<Rightarrow> date \<Rightarrow> 'f tx_row list" where
  "txs_until sn d = sort_key tx_date (filter (\<lambda>t. tx_date t \<le> time_Format d) (sn_transactions sn))"

definition ledgerAsOf :: "'f::{plus,minus,times,inverse,zero,ord} snapshot \<Rightarrow> date \<Rightarrow> 'f ledger result" where
  "ledgerAsOf sn d =
     andR (query sn ''ledger asof query'') (\<lambda>_.
     andR (foldR replayTxIntoLedger [] (txs_until sn d)) (\<lambda>ledger.
     andR (query sn ''ledger asof iterate'') (\<lambda>_. Inr ledger)))"

record 'f HistoricalHolding =
  hh_Ticker :: string
  hh_Figi :: "string option"
  hh_Quantity :: 'f
  hh_AvgCost :: 'f
  hh_LastTradeValue :: 'f

record 'f HoldingsAsOfResponse =
  ha_Date :: date
  ha_Items :: "'f HistoricalHolding list"
  ha_TotalLastTradeValue :: 'f

definition to_holding :: "string \<Rightarrow> 'f::inverse ledgerRow \<Rightarrow> 'f \<Rightarrow> 'f HistoricalHolding" where
  "to_holding ticker pos ltv = \<lparr>hh_Ticker = ticker, hh_Figi = some_text (lr_figi pos), hh_Quantity = lr_quantity pos,
     hh_AvgCost = lr_totalCost pos / lr_quantity pos, hh_LastTradeValue = ltv\<rparr>"

definition open_rows :: "'f::{zero,ord} ledger \<Rightarrow> 'f ledger" where
  "open_rows ledger = filter (\<lambda>(_, pos). \<not> lr_quantity pos \<le> 0) (sort_key fst ledger)"

definition ledgerToAsOfResponse :: "date \<Rightarrow> 'f::{plus,times,inverse,zero,ord} ledger \<Rightarrow> 'f HoldingsAsOfResponse" where
  "ledgerToAsOfResponse d ledger =
     (let items = map (\<lambda>(ticker, pos). to_holding ticker pos (lr_quantity pos * lr_lastPrice pos)) (open_rows ledger) in
      \<lparr>ha_Date = d, ha_Items = items, ha_TotalLastTradeValue = fsum (map hh_LastTradeValue items)\<rparr>)"

definition Reader_HoldingsAsOf :: "(string \<Rightarrow> string) \<Rightarrow> 'f::{plus,minus,times,inverse,zero,ord} snapshot \<Rightarrow> date \<Rightarrow> 'f HoldingsAsOfResponse result" where
  "Reader_HoldingsAsOf quote sn d =
     andR (readDateWindow quote sn) (\<lambda>(startDate, endDate).
     if d < startDate \<or> endDate < d then Inl snap_not_found
     else andR (ledgerAsOf sn d) (\<lambda>ledger. Inr (ledgerToAsOfResponse d ledger)))"

subsection \<open>History\<close>

definition cashTicker :: string where "cashTicker = ''$CASH''"

definition readPortfolioValueOn :: "'f snapshot \<Rightarrow> date \<Rightarrow> 'f option result" where
  "readPortfolioValueOn sn d = andR (query sn ''read portfolio value'') (\<lambda>_.
     case filter (\<lambda>r. pf_metric r \<in> set portfolioValueClause \<and> pf_date r = time_Format d) (sn_perf sn) of
       [] \<Rightarrow> Inr None
     | r # _ \<Rightarrow> Inr (Some (pf_value r)))"

definition readPositionsDailyOn :: "'f snapshot \<Rightarrow> date \<Rightarrow> (string \<times> 'f) list result" where
  "readPositionsDailyOn sn d = andR (query sn (''positions daily on '' @ time_Format d)) (\<lambda>_.
     andR (query_raw sn ''positions daily iterate'') (\<lambda>_.
       Inr (foldl (\<lambda>mv r. AList.update (ps_ticker r) (ps_market_value r) mv) []
              (filter (\<lambda>r. ps_date r = time_Format d) (sn_positions sn)))))"

definition readBatchAnnotations :: "'f snapshot \<Rightarrow> int \<Rightarrow> (string \<times> string) list result" where
  "readBatchAnnotations sn batchID = andR (query sn (''holdings history annotations '' @ int_string batchID)) (\<lambda>_.
     andR (query sn ''holdings history annotations iterate'') (\<lambda>_.
       Inr (foldl (\<lambda>ann (_, k, v). AList.update k v ann) []
              (sort_key (\<lambda>(_, k, _). k) (filter (\<lambda>(b, _, _). b = batchID) (sn_annotations sn))))))"

definition ledgerToHistoricalHoldings :: "'f::{times,inverse,zero,one,ord} ledger \<Rightarrow> (string \<times> 'f) list \<Rightarrow> 'f HistoricalHolding list" where
  "ledgerToHistoricalHoldings ledger dailyMV =
     map (\<lambda>(ticker, pos). to_holding ticker pos
            (case map_of dailyMV ticker of Some mv \<Rightarrow> mv | None \<Rightarrow> lr_quantity pos * lr_lastPrice pos)) (open_rows ledger)
     @ (case map_of dailyMV cashTicker of
          Some cash \<Rightarrow> if feq cash 0 then []
            else [\<lparr>hh_Ticker = cashTicker, hh_Figi = None, hh_Quantity = cash, hh_AvgCost = 1, hh_LastTradeValue = cash\<rparr>]
        | None \<Rightarrow> [])"

record 'f HoldingsHistoryEntry =
  he_BatchId :: int
  he_Timestamp :: int
  he_Items :: "'f HistoricalHolding list"
  he_PortfolioValue :: "'f option"
  he_Annotations :: "(string \<times> string) list option"

definition day_ns :: int where "day_ns = 86400000000000"

definition holdingsHistoryBatch :: "((string \<times> 'f) list \<Rightarrow> (string \<times> 'f) list) \<Rightarrow> 'f::{plus,minus,times,inverse,zero,one,ord} snapshot \<Rightarrow> int \<Rightarrow> int
    \<Rightarrow> 'f HoldingsHistoryEntry result" where
  "holdingsHistoryBatch iter sn batchID ts =
     (let d = civil (ts div day_ns); ctx = ''holdings history batch '' @ int_string batchID in
      andR (wrapR ctx (ledgerAsOf sn d)) (\<lambda>ledger.
      andR (wrapR ctx (readPositionsDailyOn sn d)) (\<lambda>dailyMV.
      andR (wrapR ctx (readPortfolioValueOn sn d)) (\<lambda>pv.
      andR (readBatchAnnotations sn batchID) (\<lambda>ann.
        Inr \<lparr>he_BatchId = batchID, he_Timestamp = ts, he_Items = ledgerToHistoricalHoldings ledger dailyMV,
             he_PortfolioValue = (if pv = None \<and> dailyMV \<noteq> [] then Some (fsum (map snd (iter dailyMV))) else pv),
             he_Annotations = (if ann \<noteq> [] then Some ann else None)\<rparr>)))))"

definition batch_selected :: "'f snapshot \<Rightarrow> date option \<Rightarrow> date option \<Rightarrow> int \<times> int \<Rightarrow> bool" where
  "batch_selected sn from to = (\<lambda>(b, ts).
     ((\<exists>t \<in> set (sn_transactions sn). tx_batch t = b \<and> tx_type t \<in> {''buy'', ''sell'', ''split''})
      \<or> (\<exists>(a, _, _) \<in> set (sn_annotations sn). a = b))
     \<and> (case from of None \<Rightarrow> True | Some d \<Rightarrow> days_of d * day_ns \<le> ts)
     \<and> (case to of None \<Rightarrow> True | Some d \<Rightarrow> ts \<le> days_of d * day_ns + (day_ns - 1000000000)))"

definition Reader_HoldingsHistory :: "((string \<times> 'f) list \<Rightarrow> (string \<times> 'f) list) \<Rightarrow> 'f::{plus,minus,times,inverse,zero,one,ord} snapshot
    \<Rightarrow> date option \<Rightarrow> date option \<Rightarrow> 'f HoldingsHistoryEntry list result" where
  "Reader_HoldingsHistory iter sn from to =
     andR (query sn ''holdings history batches'') (\<lambda>_.
     andR (query_raw sn ''holdings history iterate'') (\<lambda>_.
       mapR (\<lambda>(b, ts). holdingsHistoryBatch iter sn b ts) (sort_key fst (filter (batch_selected sn from to) (sn_batches sn)))))"

section \<open>The average-cost method\<close>

text \<open>
  The specification of a position in exact arithmetic: its quantity and the average price paid for a
  share. Buying averages, selling keeps the average, a split of ratio \<open>r\<close> multiplies the shares and
  divides the average.
\<close>

fun avg_step :: "'f::field \<times> 'f \<Rightarrow> string \<times> 'f \<times> 'f \<Rightarrow> 'f \<times> 'f" where
  "avg_step (q, avg) (ty, n, p) =
     (if ty = ''buy'' then (q + n, (q * avg + n * p) / (q + n))
      else if ty = ''sell'' then (q - n, avg)
      else if ty = ''split'' then (q * p, avg / p)
      else (q, avg))"

text \<open>Trades are of positive size, nothing is sold that is not held, and a split has a positive ratio.\<close>

fun tx_fits :: "'f::linordered_field \<times> 'f \<Rightarrow> string \<times> 'f \<times> 'f \<Rightarrow> bool" where
  "tx_fits (q, avg) (ty, n, p) \<longleftrightarrow> (ty = ''buy'' \<longrightarrow> 0 < n) \<and> (ty = ''sell'' \<longrightarrow> 0 \<le> n \<and> n \<le> q) \<and> (ty = ''split'' \<longrightarrow> 0 < p)"

fun fits :: "'f::linordered_field \<times> 'f \<Rightarrow> (string \<times> 'f \<times> 'f) list \<Rightarrow> bool" where
  "fits s [] \<longleftrightarrow> True"
| "fits s (t # ts) \<longleftrightarrow> tx_fits s t \<and> fits (avg_step s t) ts"

definition implements :: "'f::linordered_field ledgerRow \<Rightarrow> 'f \<times> 'f \<Rightarrow> bool" where
  "implements pos = (\<lambda>(q, avg). lr_quantity pos = q \<and> 0 \<le> q \<and> lr_totalCost pos = q * avg)"

lemma applyTx_refines:
  assumes "implements pos s" and "tx_fits s (ty, n, p)"
  shows "implements (applyTxToLedger (pos\<lparr>lr_lastPrice := x\<rparr>) ty n p) (avg_step s (ty, n, p))"
    and "implements (applyTxToLedger pos ty n p) (avg_step s (ty, n, p))"
proof -
  obtain q avg where s: "s = (q, avg)" by fastforce
  have pos: "lr_quantity pos = q" "0 \<le> q" "lr_totalCost pos = q * avg" using assms(1) by (simp_all add: implements_def s)
  show new: "implements (applyTxToLedger pos ty n p) (avg_step s (ty, n, p))"
  proof -
    consider "ty = ''buy''" | "ty = ''sell''" "0 < q" | "ty = ''sell''" "q = 0" | "ty = ''split''" | "ty \<notin> {''buy'', ''sell'', ''split''}"
      using pos(2) by force
    then show ?thesis
    proof cases
      case 1 with assms(2) pos show ?thesis by (simp add: applyTxToLedger_def implements_def s)
    next
      case 2
      moreover from 2 have "q * avg - q * avg / q * n = (q - n) * avg" by (simp add: field_simps)
      ultimately show ?thesis using assms(2) pos by (simp add: applyTxToLedger_def implements_def s)
    next
      case 3 with assms(2) pos show ?thesis by (simp add: applyTxToLedger_def implements_def s)
    next
      case 4 with assms(2) pos show ?thesis by (simp add: applyTxToLedger_def implements_def s)
    next
      case 5 with assms(2) pos show ?thesis by (simp add: applyTxToLedger_def implements_def s)
    qed
  qed
  have "lr_quantity (applyTxToLedger (pos\<lparr>lr_lastPrice := x\<rparr>) ty n p) = lr_quantity (applyTxToLedger pos ty n p)"
    "lr_totalCost (applyTxToLedger (pos\<lparr>lr_lastPrice := x\<rparr>) ty n p) = lr_totalCost (applyTxToLedger pos ty n p)"
    by (simp_all add: applyTxToLedger_def Let_def)
  with new show "implements (applyTxToLedger (pos\<lparr>lr_lastPrice := x\<rparr>) ty n p) (avg_step s (ty, n, p))"
    by (simp add: implements_def split: prod.splits)
qed

text \<open>The transactions of one ticker, in order; rows of the ledger follow them independently.\<close>

definition trades_of :: "string \<Rightarrow> 'f tx_row list \<Rightarrow> (string \<times> 'f \<times> 'f) list" where
  "trades_of ticker txs = map (\<lambda>t. (tx_type t, the (tx_quantity t), the (tx_price t))) (filter (\<lambda>t. tx_ticker t = Some ticker) txs)"

definition complete_tx :: "'f tx_row \<Rightarrow> bool" where
  "complete_tx t \<longleftrightarrow> tx_ticker t \<noteq> None \<and> tx_quantity t \<noteq> None \<and> tx_price t \<noteq> None"

lemma replay_refines:
  fixes txs :: "'f::linordered_field tx_row list"
  assumes "\<And>t. t \<in> set txs \<Longrightarrow> complete_tx t" and "distinct (map fst ledger)" and "[] \<notin> fst ` set ledger"
    and "\<And>k pos. map_of ledger k = Some pos \<Longrightarrow> implements pos (st k)" and "\<And>k. map_of ledger k = None \<Longrightarrow> st k = (0, 0)"
    and "\<And>k. k \<noteq> [] \<Longrightarrow> fits (st k) (trades_of k txs)"
  shows "\<exists>l. foldR replayTxIntoLedger ledger txs = Inr l \<and> distinct (map fst l) \<and> [] \<notin> fst ` set l
    \<and> (\<forall>k. k \<noteq> [] \<longrightarrow> (case map_of l k of Some pos \<Rightarrow> implements pos (foldl avg_step (st k) (trades_of k txs))
          | None \<Rightarrow> foldl avg_step (st k) (trades_of k txs) = (0, 0)))"
  using assms
proof (induction txs arbitrary: ledger st)
  case Nil
  then show ?case by (auto simp: trades_of_def split: option.splits)
next
  case (Cons t txs)
  obtain k0 n p where t: "tx_ticker t = Some k0" "tx_quantity t = Some n" "tx_price t = Some p"
    using Cons.prems(1) [of t] by (auto simp: complete_tx_def)
  have trades: "trades_of k (t # txs) = (if k = k0 then (tx_type t, n, p) # trades_of k txs else trades_of k txs)" for k
    by (auto simp: trades_of_def t)
  show ?case
  proof (cases "k0 = []")
    case True
    then have "replayTxIntoLedger ledger t = Inr ledger" by (simp add: replayTxIntoLedger_def scan_def t Let_def)
    moreover have "trades_of k (t # txs) = trades_of k txs" if "k \<noteq> []" for k using that True trades by simp
    moreover have "\<exists>l. foldR replayTxIntoLedger ledger txs = Inr l \<and> distinct (map fst l) \<and> [] \<notin> fst ` set l
      \<and> (\<forall>k. k \<noteq> [] \<longrightarrow> (case map_of l k of Some pos \<Rightarrow> implements pos (foldl avg_step (st k) (trades_of k txs))
          | None \<Rightarrow> foldl avg_step (st k) (trades_of k txs) = (0, 0)))"
      by (rule Cons.IH [where st = st and ledger = ledger]) (use Cons.prems calculation(2) in auto)
    ultimately show ?thesis by (simp cong: option.case_cong imp_cong)
  next
    case False
    define pos where "pos = (case map_of ledger k0 of
        None \<Rightarrow> \<lparr>lr_figi = (case tx_figi t of None \<Rightarrow> [] | Some f \<Rightarrow> f), lr_quantity = 0, lr_totalCost = 0, lr_lastPrice = 0\<rparr> | Some p \<Rightarrow> p)"
    define pos1 where "pos1 = (if 0 < p then pos\<lparr>lr_lastPrice := p\<rparr> else pos)"
    define l1 where "l1 = AList.update k0 (applyTxToLedger pos1 (tx_type t) n p) ledger"
    define st1 where "st1 = st(k0 := avg_step (st k0) (tx_type t, n, p))"
    have step: "replayTxIntoLedger ledger t = Inr l1"
      using False by (simp add: replayTxIntoLedger_def scan_def t Let_def put_row_def l1_def pos1_def pos_def)
    have fit: "tx_fits (st k0) (tx_type t, n, p)" "fits (avg_step (st k0) (tx_type t, n, p)) (trades_of k0 txs)"
      using Cons.prems(6) [OF False] by (simp_all add: trades)
    have "implements pos (st k0)"
      using Cons.prems(4,5) [of k0] by (auto simp: pos_def implements_def split: option.splits)
    from applyTx_refines [OF this fit(1)] have new: "implements (applyTxToLedger pos1 (tx_type t) n p) (st1 k0)"
      by (simp add: pos1_def st1_def)
    have l1: "distinct (map fst l1)" "[] \<notin> fst ` set l1" "map_of l1 k = (if k = k0 then Some (applyTxToLedger pos1 (tx_type t) n p) else map_of ledger k)" for k
      using Cons.prems(2,3) False dom_update [of k0 _ ledger] unfolding l1_def by (simp_all add: distinct_update update_conv')
    have inv: "implements q (st1 k)" if "map_of l1 k = Some q" for k q
      using that new Cons.prems(4) by (auto simp: l1(3) st1_def split: if_splits)
    have none: "st1 k = (0, 0)" if "map_of l1 k = None" for k
      using that Cons.prems(5) by (auto simp: l1(3) st1_def split: if_splits)
    have fits1: "fits (st1 k) (trades_of k txs)" if "k \<noteq> []" for k
      using Cons.prems(6) [OF that] fit(2) by (auto simp: trades st1_def split: if_splits)
    have rest: "foldl avg_step (st k) (trades_of k (t # txs)) = foldl avg_step (st1 k) (trades_of k txs)" for k
      by (simp add: trades st1_def)
    have "\<And>u. u \<in> set txs \<Longrightarrow> complete_tx u" using Cons.prems(1) by simp
    from Cons.IH [OF this l1(1,2) inv none fits1] show ?thesis by (simp add: step rest cong: option.case_cong)
  qed
qed

lemma open_rows_spec:
  fixes l :: "'f::linordered_field ledger"
  assumes "distinct (map fst l)"
  shows "sorted_wrt (<) (map fst (open_rows l))" "(k, pos) \<in> set (open_rows l) \<longleftrightarrow> map_of l k = Some pos \<and> 0 < lr_quantity pos"
proof -
  have "distinct (map fst (sort_key fst l))" using assms by (metis distinct_map distinct_sort set_sort)
  moreover have "sorted (map fst (sort_key fst l))" by simp
  ultimately have "sorted_wrt (<) (map fst (sort_key fst l))" by (simp add: strict_sorted_iff)
  then show "sorted_wrt (<) (map fst (open_rows l))" unfolding open_rows_def by (simp add: sorted_wrt_map sorted_wrt_filter)
  show "(k, pos) \<in> set (open_rows l) \<longleftrightarrow> map_of l k = Some pos \<and> 0 < lr_quantity pos"
    using assms by (auto simp: open_rows_def not_le)
qed

text \<open>
  Holdings on a past day implement the average-cost method. In exact arithmetic, when the
  transactions up to the day are complete, nothing is sold that is not held and splits have a
  positive ratio, the answer lists, by ticker and once each, exactly the tickers with shares left,
  with the number of shares and the average price paid that the specification gives for the
  transactions of that ticker alone.
\<close>

lemma HoldingsAsOf_average_cost:
  fixes sn :: "'f::linordered_field snapshot"
  assumes "healthy sn" and "readDateWindow quote sn = Inr (a, b)" and "a \<le> d" and "d \<le> b"
    and "\<forall>t \<in> set (txs_until sn d). complete_tx t"
    and "\<forall>k. k \<noteq> [] \<longrightarrow> fits (0, 0) (trades_of k (txs_until sn d))"
  shows "\<exists>out. Reader_HoldingsAsOf quote sn d = Inr out \<and> sorted_wrt (<) (map hh_Ticker (ha_Items out))
    \<and> (\<forall>k q avg. k \<noteq> [] \<and> foldl avg_step (0, 0) (trades_of k (txs_until sn d)) = (q, avg) \<longrightarrow>
        (k \<in> hh_Ticker ` set (ha_Items out) \<longleftrightarrow> 0 < q)
        \<and> (\<forall>h \<in> set (ha_Items out). hh_Ticker h = k \<longrightarrow> hh_Quantity h = q \<and> hh_AvgCost h = avg))"
proof -
  obtain l where l: "foldR replayTxIntoLedger [] (txs_until sn d) = Inr l" "distinct (map fst l)"
    "\<And>k. k \<noteq> [] \<Longrightarrow> case map_of l k of Some pos \<Rightarrow> implements pos (foldl avg_step (0, 0) (trades_of k (txs_until sn d)))
          | None \<Rightarrow> foldl avg_step (0, 0) (trades_of k (txs_until sn d)) = (0, 0)"
    using replay_refines [of "txs_until sn d" "[]" "\<lambda>_. (0, 0)"] assms(5,6) by auto
  define out where "out = ledgerToAsOfResponse d l"
  have run: "Reader_HoldingsAsOf quote sn d = Inr out"
    using assms(1-4) l(1) by (auto simp: Reader_HoldingsAsOf_def ledgerAsOf_def out_def)
  have tickers: "map hh_Ticker (ha_Items out) = map fst (open_rows l)"
    by (auto simp: out_def ledgerToAsOfResponse_def Let_def to_holding_def)
  have items: "h \<in> set (ha_Items out) \<longleftrightarrow> (\<exists>pos. map_of l (hh_Ticker h) = Some pos \<and> 0 < lr_quantity pos
      \<and> h = to_holding (hh_Ticker h) pos (lr_quantity pos * lr_lastPrice pos))" for h
    using open_rows_spec(2) [OF l(2)] by (force simp: out_def ledgerToAsOfResponse_def Let_def to_holding_def)
  have "(k \<in> hh_Ticker ` set (ha_Items out) \<longleftrightarrow> 0 < q) \<and> (\<forall>h \<in> set (ha_Items out). hh_Ticker h = k \<longrightarrow> hh_Quantity h = q \<and> hh_AvgCost h = avg)"
    if k: "k \<noteq> []" "foldl avg_step (0, 0) (trades_of k (txs_until sn d)) = (q, avg)" for k q avg
  proof -
    have "k \<in> hh_Ticker ` set (ha_Items out) \<longleftrightarrow> (\<exists>pos. map_of l k = Some pos \<and> 0 < lr_quantity pos)"
      using arg_cong [OF tickers, of set] open_rows_spec(2) [OF l(2), of k] by (force simp: image_iff)
    moreover have "(\<exists>pos. map_of l k = Some pos \<and> 0 < lr_quantity pos) \<longleftrightarrow> 0 < q"
      using l(3) [OF k(1)] k(2) by (auto simp: implements_def split: option.splits)
    moreover have "hh_Quantity h = q \<and> hh_AvgCost h = avg" if h: "h \<in> set (ha_Items out)" "hh_Ticker h = k" for h
    proof -
      obtain pos where pos: "map_of l k = Some pos" "0 < lr_quantity pos" "h = to_holding k pos (lr_quantity pos * lr_lastPrice pos)"
        using h items [of h] by auto
      with l(3) [OF k(1)] k(2) show ?thesis by (auto simp: implements_def to_holding_def)
    qed
    ultimately show ?thesis by blast
  qed
  with run tickers open_rows_spec(1) [OF l(2)] show ?thesis by (intro exI [of _ out] conjI) (simp_all, blast)
qed

definition demo_tx :: "string \<Rightarrow> string \<Rightarrow> rat \<Rightarrow> rat \<Rightarrow> rat tx_row" where
  "demo_tx day ty n p = \<lparr>tx_batch = 1, tx_date = day, tx_type = ty, tx_ticker = Some ''VTI'', tx_figi = None, tx_quantity = Some n, tx_price = Some p,
     tx_amount = Some (n * p), tx_qualified = None, tx_justification = None\<rparr>"

definition demo_book :: "rat snapshot" where
  "demo_book = demo_snapshot\<lparr>sn_transactions := [demo_tx ''2024-01-02'' ''buy'' 100 10, demo_tx ''2024-01-03'' ''buy'' 100 20,
     demo_tx ''2024-01-04'' ''sell'' 50 30, demo_tx ''2024-01-05'' ''split'' 0 2]\<rparr>"

lemma demo_book_simps:
  "healthy demo_book" "readDateWindow id demo_book = Inr (Date 2024 1 2, Date 2024 1 8)"
  "txs_until demo_book (Date 2024 1 4) = [demo_tx ''2024-01-02'' ''buy'' 100 10, demo_tx ''2024-01-03'' ''buy'' 100 20, demo_tx ''2024-01-04'' ''sell'' 50 30]"
  "txs_until demo_book (Date 2024 1 5) = sn_transactions demo_book"
proof -
  show "healthy demo_book" by (simp add: healthy_def demo_book_def demo_snapshot_def)
qed code_simp+

text \<open>
  A split overwrites the last price with its ratio. After a split of ratio \<open>r\<close> the value reported
  for a ticker is its new number of shares times \<open>r\<close>, whatever was paid for the shares, until the
  next trade: replaying a buy of \<open>n\<close> shares at \<open>p\<close> and then the split reports \<open>n * r * r\<close>.
\<close>

lemma split_overwrites_price:
  fixes n p r :: "'f::linordered_field"
  assumes "foldR replayTxIntoLedger [] txs = Inr l" and "map_of l k = Some pos" and "0 < r" and "k \<noteq> []"
    and "tx_ticker t = Some k" and "tx_type t = ''split''" and "tx_quantity t = Some n" and "tx_price t = Some r"
  shows "\<exists>l' pos'. foldR replayTxIntoLedger [] (txs @ [t]) = Inr l' \<and> map_of l' k = Some pos'
    \<and> lr_quantity pos' = lr_quantity pos * r \<and> lr_quantity pos' * lr_lastPrice pos' = lr_quantity pos * r * r"
proof -
  have append: "foldR replayTxIntoLedger l0 (xs @ ys) = andR (foldR replayTxIntoLedger l0 xs) (\<lambda>l1. foldR replayTxIntoLedger l1 ys)" for l0 xs and ys :: "'f tx_row list"
    by (induction xs arbitrary: l0) (auto simp: andR_def split: sum.splits)
  show ?thesis using assms by (simp add: append replayTxIntoLedger_def scan_def Let_def put_row_def applyTxToLedger_def update_conv')
qed

end
