(* ===== verification/Drawdowns.thy ===== *)
theory Drawdowns
  imports Snapshot_Reads
begin

text \<open>
  The drawdowns of an equity curve, \<open>snapshot/drawdowns.go\<close>: a scan that keeps the last peak and the
  lowest point since, and a sort by depth.
\<close>

record 'f Drawdown =
  dd_Start :: date
  dd_Trough :: date
  dd_Recovery :: "date option"
  dd_Depth :: 'f
  dd_Days :: int

text \<open>The variables of the scan.\<close>

record 'f scan_state =
  ss_dds :: "'f Drawdown list"
  ss_peak :: "date \<times> 'f"
  ss_inDrawdown :: bool
  ss_trough :: "date \<times> 'f"
  ss_depth :: 'f

definition indexOfDate :: "(date \<times> 'f) list \<Rightarrow> date \<Rightarrow> nat" where
  "indexOfDate series d = (case List.find (\<lambda>i. fst (series ! i) = d) [0..<length series] of None \<Rightarrow> 0 | Some i \<Rightarrow> i)"

definition minDrawdownDepth :: "'f flt \<Rightarrow> 'f" where
  "minDrawdownDepth fl = fl_lit fl (5 / 100)"

definition scan_point :: "'f::{minus,uminus,inverse,ord} flt \<Rightarrow> (date \<times> 'f) list \<Rightarrow> 'f scan_state \<Rightarrow> nat \<Rightarrow> 'f scan_state" where
  "scan_point fl series st i =
     (let p = series ! i; peak = ss_peak st; trough = ss_trough st in
      if snd peak \<le> snd p then
        st\<lparr>ss_dds := (if ss_inDrawdown st \<and> ss_depth st \<le> - minDrawdownDepth fl
             then ss_dds st @ [\<lparr>dd_Start = fst peak, dd_Trough = fst trough, dd_Recovery = Some (fst p), dd_Depth = ss_depth st,
                                dd_Days = int i - int (indexOfDate series (fst peak))\<rparr>] else ss_dds st),
           ss_inDrawdown := False, ss_peak := p\<rparr>
      else
        (let st' = (if \<not> ss_inDrawdown st \<or> snd p < snd trough
                    then st\<lparr>ss_trough := p, ss_depth := (snd p - snd peak) / snd peak\<rparr> else st) in
         st'\<lparr>ss_inDrawdown := True\<rparr>))"

definition detectDrawdowns :: "'f::{minus,uminus,inverse,zero,ord} flt \<Rightarrow> (date \<times> 'f) list \<Rightarrow> 'f Drawdown list" where
  "detectDrawdowns fl series =
     (let st = foldl (scan_point fl series) \<lparr>ss_dds = [], ss_peak = series ! 0, ss_inDrawdown = False, ss_trough = (zero_time, 0), ss_depth = 0\<rparr>
                 [1..<length series] in
      if ss_inDrawdown st \<and> ss_depth st \<le> - minDrawdownDepth fl
      then ss_dds st @ [\<lparr>dd_Start = fst (ss_peak st), dd_Trough = fst (ss_trough st), dd_Recovery = None, dd_Depth = ss_depth st,
                         dd_Days = int (length series) - int (indexOfDate series (fst (ss_peak st)))\<rparr>]
      else ss_dds st)"

text \<open>The insertion sort: each record moves to the left past deeper-than-it-is-not ones; the sorted
  part is kept from right to left.\<close>

fun sift :: "'f::ord Drawdown list \<Rightarrow> 'f Drawdown \<Rightarrow> 'f Drawdown list" where
  "sift [] x = [x]"
| "sift (y # ys) x = (if dd_Depth x < dd_Depth y then y # sift ys x else x # y # ys)"

definition sortDrawdowns :: "'f::ord Drawdown list \<Rightarrow> 'f Drawdown list" where
  "sortDrawdowns dds = rev (foldl sift [] dds)"

definition equity_series :: "'f snapshot \<Rightarrow> (date \<times> 'f) list" where
  "equity_series sn = map (\<lambda>r. (case time_Parse (pf_date r) of None \<Rightarrow> zero_time | Some d \<Rightarrow> d, pf_value r))
     (sort_key pf_date (series_of portfolioValueClause sn))"

definition Reader_Drawdowns :: "'f::{minus,uminus,inverse,zero,ord} flt \<Rightarrow> 'f snapshot \<Rightarrow> 'f Drawdown list result" where
  "Reader_Drawdowns fl sn = andR (query sn ''drawdowns query'') (\<lambda>_.
     andR (query_raw sn ''drawdowns iterate'') (\<lambda>_.
       let series = equity_series sn in
       Inr (if series = [] then [] else sortDrawdowns (detectDrawdowns fl series))))"

section \<open>Drawdowns as cycles of the curve\<close>

text \<open>
  A cycle from index \<open>a\<close> over the trough \<open>t\<close> to \<open>r\<close>: \<open>a\<close> is as high as everything before it, the curve is
  below it up to \<open>r\<close>, where it is back at the height of \<open>a\<close> or ends, and \<open>t\<close> is the first lowest point in between.
\<close>

definition cycle :: "(date \<times> 'f::linordered_field) list \<Rightarrow> nat \<Rightarrow> nat \<Rightarrow> nat \<Rightarrow> bool" where
  "cycle series a t r \<longleftrightarrow> (let v = (\<lambda>i. snd (series ! i)) in
     a < t \<and> t < r \<and> r \<le> length series \<and> (\<forall>j < a. v j \<le> v a) \<and> (\<forall>j. a < j \<and> j < r \<longrightarrow> v j < v a)
     \<and> (r < length series \<longrightarrow> v a \<le> v r) \<and> (\<forall>j. a < j \<and> j < r \<longrightarrow> v t \<le> v j) \<and> (\<forall>j. a < j \<and> j < t \<longrightarrow> v t < v j))"

definition cycle_depth :: "(date \<times> 'f::linordered_field) list \<Rightarrow> nat \<Rightarrow> nat \<Rightarrow> 'f" where
  "cycle_depth series a t = (snd (series ! t) - snd (series ! a)) / snd (series ! a)"

definition cycle_record :: "(date \<times> 'f::linordered_field) list \<Rightarrow> nat \<Rightarrow> nat \<Rightarrow> nat \<Rightarrow> 'f Drawdown" where
  "cycle_record series a t r = \<lparr>dd_Start = fst (series ! a), dd_Trough = fst (series ! t),
     dd_Recovery = (if r < length series then Some (fst (series ! r)) else None), dd_Depth = cycle_depth series a t, dd_Days = int r - int a\<rparr>"

definition deep_cycles :: "'f::linordered_field flt \<Rightarrow> (date \<times> 'f) list \<Rightarrow> nat \<Rightarrow> 'f Drawdown set" where
  "deep_cycles fl series i =
     {cycle_record series a t r | a t r. a < i \<and> cycle series a t r \<and> cycle_depth series a t \<le> - minDrawdownDepth fl}"

lemma indexOfDate_nth:
  assumes "distinct (map fst series)" and "i < length series"
  shows "indexOfDate series (fst (series ! i)) = i"
proof -
  have "fst (series ! j) \<noteq> fst (series ! i)" if "j < i" for j
    using nth_eq_iff_index_eq [OF assms(1), of j i] that assms(2) by simp
  then have "List.find (\<lambda>j. fst (series ! j) = fst (series ! i)) [0..<length series] = Some i"
    using assms(2) by (auto simp: find_Some_iff intro!: exI [of _ i])
  then show ?thesis by (simp add: indexOfDate_def)
qed

lemma cycle_bound: "cycle series a t r \<Longrightarrow> a < length series"
  by (simp add: cycle_def)

text \<open>
  What the scan knows after the points before \<open>i\<close>: the peak is at \<open>a\<close>, everything since is below it, the
  trough is the first lowest point since, and the finished cycles have been recorded.
\<close>

definition scan_inv :: "'f::linordered_field flt \<Rightarrow> (date \<times> 'f) list \<Rightarrow> nat \<Rightarrow> 'f scan_state \<Rightarrow> nat \<Rightarrow> bool" where
  "scan_inv fl series i st a \<longleftrightarrow> (let v = (\<lambda>j. snd (series ! j)) in
     a < i \<and> i \<le> length series \<and> ss_peak st = series ! a \<and> (\<forall>j < a. v j \<le> v a) \<and> (\<forall>j. a < j \<and> j < i \<longrightarrow> v j < v a)
     \<and> (ss_inDrawdown st \<longleftrightarrow> Suc a < i)
     \<and> (Suc a < i \<longrightarrow> (\<exists>t. a < t \<and> t < i \<and> ss_trough st = series ! t \<and> ss_depth st = cycle_depth series a t
          \<and> (\<forall>j. a < j \<and> j < i \<longrightarrow> v t \<le> v j) \<and> (\<forall>j. a < j \<and> j < t \<longrightarrow> v t < v j)))
     \<and> set (ss_dds st) = deep_cycles fl series a \<and> distinct (map dd_Start (ss_dds st)) \<and> (\<forall>dd \<in> set (ss_dds st). \<exists>b < a. dd_Start dd = fst (series ! b)))"

lemma cycle_unique:
  assumes "cycle series a t r" and "cycle series a t' r'"
  shows "t = t' \<and> r = r'"
proof -
  have "r = r'"
  proof (rule linorder_cases [of r r'])
    assume "r < r'"
    then show ?thesis using assms unfolding cycle_def Let_def by (metis less_le_trans less_trans not_le)
  next
    assume "r' < r"
    then show ?thesis using assms unfolding cycle_def Let_def by (metis less_le_trans less_trans not_le)
  qed
  moreover have "t = t'"
    using assms \<open>r = r'\<close> unfolding cycle_def Let_def by (metis linorder_neqE_nat not_le)
  ultimately show ?thesis by simp
qed

lemma deep_cycles_next:
  assumes "a < i" and "\<forall>j. a < j \<and> j < i \<longrightarrow> snd (series ! j) < snd (series ! a)"
  shows "deep_cycles fl series i = deep_cycles fl series a
    \<union> {cycle_record series a t r | t r. cycle series a t r \<and> cycle_depth series a t \<le> - minDrawdownDepth fl}"
proof -
  have "b < a \<or> b = a" if "b < i" "cycle series b t r" for b t r
  proof (rule ccontr)
    assume "\<not> (b < a \<or> b = a)"
    then have "a < b" by simp
    with that have "snd (series ! a) \<le> snd (series ! b)" by (simp add: cycle_def)
    with assms(2) \<open>a < b\<close> that(1) show False by (meson not_le)
  qed
  with assms(1) show ?thesis unfolding deep_cycles_def by fastforce
qed

lemma scan_step:
  assumes inv: "scan_inv fl series i st a" and i: "i < length series" and dates: "distinct (map fst series)"
  shows "\<exists>a'. scan_inv fl series (Suc i) (scan_point fl series st i) a'"
proof -
  let ?v = "\<lambda>j. snd (series ! j)"
  have a: "a < i" "ss_peak st = series ! a" "\<forall>j < a. ?v j \<le> ?v a" "\<forall>j. a < j \<and> j < i \<longrightarrow> ?v j < ?v a" "ss_inDrawdown st \<longleftrightarrow> Suc a < i"
    and dds: "set (ss_dds st) = deep_cycles fl series a" "distinct (map dd_Start (ss_dds st))" "\<forall>dd \<in> set (ss_dds st). \<exists>b < a. dd_Start dd = fst (series ! b)"
    and trough: "Suc a < i \<Longrightarrow> \<exists>t. a < t \<and> t < i \<and> ss_trough st = series ! t \<and> ss_depth st = cycle_depth series a t
          \<and> (\<forall>j. a < j \<and> j < i \<longrightarrow> ?v t \<le> ?v j) \<and> (\<forall>j. a < j \<and> j < t \<longrightarrow> ?v t < ?v j)"
    using inv unfolding scan_inv_def Let_def by auto
  have ix: "indexOfDate series (fst (series ! a)) = a" using indexOfDate_nth [OF dates] a(1) i by simp
  have date_inj: "fst (series ! b) = fst (series ! c) \<longleftrightarrow> b = c" if "b < length series" "c < length series" for b c
    using nth_eq_iff_index_eq [OF dates] that by simp
  show ?thesis
  proof (cases "?v a \<le> ?v i")
    case True
    have up: "\<forall>j < i. ?v j \<le> ?v i"
    proof (intro allI impI)
      fix j assume "j < i"
      then have "?v j \<le> ?v a" using a(3,4) by (cases rule: linorder_cases [of j a]) (auto intro: less_imp_le)
      with True show "?v j \<le> ?v i" by (rule order_trans [rotated])
    qed
    have new: "{cycle_record series a t r | t r. cycle series a t r \<and> cycle_depth series a t \<le> - minDrawdownDepth fl}
        = (if Suc a < i \<and> ss_depth st \<le> - minDrawdownDepth fl
           then {\<lparr>dd_Start = fst (series ! a), dd_Trough = fst (ss_trough st), dd_Recovery = Some (fst (series ! i)), dd_Depth = ss_depth st, dd_Days = int i - int a\<rparr>} else {})"
    proof (cases "Suc a < i")
      case False
      then have "i = Suc a" using a(1) by simp
      then have "\<not> cycle series a t r" for t r
        using True unfolding cycle_def Let_def by (auto dest!: spec [of _ "Suc a"])
      with False show ?thesis by simp
    next
      case suc: True
      from trough [OF suc] obtain t where t: "a < t" "t < i" "ss_trough st = series ! t" "ss_depth st = cycle_depth series a t"
        "\<forall>j. a < j \<and> j < i \<longrightarrow> ?v t \<le> ?v j" "\<forall>j. a < j \<and> j < t \<longrightarrow> ?v t < ?v j" by blast
      then have c: "cycle series a t i" using a i True unfolding cycle_def Let_def by simp
      then have "cycle series a t' r' \<longleftrightarrow> t' = t \<and> r' = i" for t' r' using cycle_unique [OF c] by blast
      with suc t i show ?thesis by (auto simp: cycle_record_def)
    qed
    have next_dds: "ss_dds (scan_point fl series st i) = ss_dds st @ (if Suc a < i \<and> ss_depth st \<le> - minDrawdownDepth fl
        then [\<lparr>dd_Start = fst (series ! a), dd_Trough = fst (ss_trough st), dd_Recovery = Some (fst (series ! i)), dd_Depth = ss_depth st, dd_Days = int i - int a\<rparr>] else [])"
      using True a ix by (simp add: scan_point_def Let_def)
    then have set_dds: "set (ss_dds (scan_point fl series st i)) = deep_cycles fl series i"
      unfolding deep_cycles_next [OF a(1,4)] new dds(1) [symmetric] by auto
    have fresh: "fst (series ! a) \<notin> dd_Start ` set (ss_dds st)"
      using dds(3) date_inj a(1) i by (fastforce simp: image_iff)
    have "\<forall>dd \<in> set (ss_dds (scan_point fl series st i)). \<exists>b < i. dd_Start dd = fst (series ! b)"
      unfolding next_dds using dds(3) a(1) by (auto intro: less_trans)
    moreover have "distinct (map dd_Start (ss_dds (scan_point fl series st i)))" unfolding next_dds using dds(2) fresh by auto
    moreover have "ss_peak (scan_point fl series st i) = series ! i" "\<not> ss_inDrawdown (scan_point fl series st i)"
      using True a(2) by (simp_all add: scan_point_def Let_def)
    ultimately have "scan_inv fl series (Suc i) (scan_point fl series st i) i"
      unfolding scan_inv_def Let_def using up i set_dds by simp
    then show ?thesis by blast
  next
    case False
    define st' where "st' = scan_point fl series st i"
    have st': "ss_dds st' = ss_dds st" "ss_peak st' = series ! a" "ss_inDrawdown st'"
      using False a(2) by (simp_all add: st'_def scan_point_def Let_def)
    have down: "\<forall>j. a < j \<and> j < Suc i \<longrightarrow> ?v j < ?v a" using a(4) False by (auto simp: less_Suc_eq)
    have "\<exists>t. a < t \<and> t < Suc i \<and> ss_trough st' = series ! t \<and> ss_depth st' = cycle_depth series a t
          \<and> (\<forall>j. a < j \<and> j < Suc i \<longrightarrow> ?v t \<le> ?v j) \<and> (\<forall>j. a < j \<and> j < t \<longrightarrow> ?v t < ?v j)"
    proof (cases "\<not> Suc a < i \<or> ?v i < snd (ss_trough st)")
      case low: True
      have "?v i < ?v j" if "a < j" "j < i" for j
      proof -
        from that have "Suc a < i" by simp
        with trough obtain t where "ss_trough st = series ! t" "\<forall>j. a < j \<and> j < i \<longrightarrow> ?v t \<le> ?v j" by blast
        with low \<open>Suc a < i\<close> that show ?thesis by fastforce
      qed
      moreover have "ss_trough st' = series ! i" "ss_depth st' = cycle_depth series a i"
        using False low a(2,5) by (auto simp: st'_def scan_point_def Let_def cycle_depth_def)
      ultimately show ?thesis using a(1) by (intro exI [of _ i]) (auto simp: less_Suc_eq intro: less_imp_le)
    next
      case keep: False
      then obtain t where t: "a < t" "t < i" "ss_trough st = series ! t" "ss_depth st = cycle_depth series a t"
        "\<forall>j. a < j \<and> j < i \<longrightarrow> ?v t \<le> ?v j" "\<forall>j. a < j \<and> j < t \<longrightarrow> ?v t < ?v j" using trough by blast
      moreover have "ss_trough st' = ss_trough st" "ss_depth st' = ss_depth st"
        using False keep a(2,5) by (auto simp: st'_def scan_point_def Let_def)
      moreover have "?v t \<le> ?v i" using keep t(3) by simp
      ultimately show ?thesis by (intro exI [of _ t]) (auto simp: less_Suc_eq)
    qed
    then have "scan_inv fl series (Suc i) st' a"
      unfolding scan_inv_def Let_def using a(1,3) down i st' dds by simp
    then show ?thesis unfolding st'_def by blast
  qed
qed

lemma scan_all:
  assumes "distinct (map fst series)" and "1 \<le> i" and "i \<le> length series"
  shows "\<exists>a. scan_inv fl series i (foldl (scan_point fl series)
    \<lparr>ss_dds = [], ss_peak = series ! 0, ss_inDrawdown = False, ss_trough = (zero_time, 0), ss_depth = 0\<rparr> [1..<i]) a"
  using assms(2,3)
proof (induction i rule: dec_induct)
  case base
  then show ?case by (intro exI [of _ 0]) (auto simp: scan_inv_def deep_cycles_def)
next
  case (step i)
  then show ?case using scan_step [OF _ _ assms(1)] by (auto simp: upt_Suc_append)
qed

lemma detectDrawdowns_spec:
  fixes series :: "(date \<times> 'f::linordered_field) list"
  assumes "series \<noteq> []" and "distinct (map fst series)"
  shows "set (detectDrawdowns fl series) = {cycle_record series a t r | a t r. cycle series a t r \<and> cycle_depth series a t \<le> - minDrawdownDepth fl}
    \<and> distinct (map dd_Start (detectDrawdowns fl series))"
proof -
  let ?n = "length series" and ?v = "\<lambda>j. snd (series ! j)"
  let ?st = "foldl (scan_point fl series) \<lparr>ss_dds = [], ss_peak = series ! 0, ss_inDrawdown = False, ss_trough = (zero_time, 0), ss_depth = 0\<rparr> [1..<?n]"
  have "1 \<le> ?n" using assms(1) by (simp add: Suc_le_eq)
  from scan_all [OF assms(2) this order_refl] obtain a where inv: "scan_inv fl series ?n ?st a" by blast
  have a: "a < ?n" "ss_peak ?st = series ! a" "\<forall>j < a. ?v j \<le> ?v a" "\<forall>j. a < j \<and> j < ?n \<longrightarrow> ?v j < ?v a" "ss_inDrawdown ?st \<longleftrightarrow> Suc a < ?n"
    and dds: "set (ss_dds ?st) = deep_cycles fl series a" "distinct (map dd_Start (ss_dds ?st))" "\<forall>dd \<in> set (ss_dds ?st). \<exists>b < a. dd_Start dd = fst (series ! b)"
    and trough: "Suc a < ?n \<Longrightarrow> \<exists>t. a < t \<and> t < ?n \<and> ss_trough ?st = series ! t \<and> ss_depth ?st = cycle_depth series a t
          \<and> (\<forall>j. a < j \<and> j < ?n \<longrightarrow> ?v t \<le> ?v j) \<and> (\<forall>j. a < j \<and> j < t \<longrightarrow> ?v t < ?v j)"
    using inv unfolding scan_inv_def Let_def by auto
  have ix: "indexOfDate series (fst (series ! a)) = a" using indexOfDate_nth [OF assms(2) a(1)] .
  have last: "{cycle_record series a t r | t r. cycle series a t r \<and> cycle_depth series a t \<le> - minDrawdownDepth fl}
      = (if Suc a < ?n \<and> ss_depth ?st \<le> - minDrawdownDepth fl
         then {\<lparr>dd_Start = fst (series ! a), dd_Trough = fst (ss_trough ?st), dd_Recovery = None, dd_Depth = ss_depth ?st, dd_Days = int ?n - int a\<rparr>} else {})"
  proof (cases "Suc a < ?n")
    case False
    then have "\<not> cycle series a t r" for t r unfolding cycle_def Let_def by auto
    with False show ?thesis by simp
  next
    case True
    from trough [OF this] obtain t where t: "a < t" "t < ?n" "ss_trough ?st = series ! t" "ss_depth ?st = cycle_depth series a t"
      "\<forall>j. a < j \<and> j < ?n \<longrightarrow> ?v t \<le> ?v j" "\<forall>j. a < j \<and> j < t \<longrightarrow> ?v t < ?v j" by blast
    then have c: "cycle series a t ?n" using a unfolding cycle_def Let_def by simp
    then have "cycle series a t' r' \<longleftrightarrow> t' = t \<and> r' = ?n" for t' r' using cycle_unique [OF c] by blast
    with True t show ?thesis by (auto simp: cycle_record_def)
  qed
  have out: "detectDrawdowns fl series = ss_dds ?st @ (if Suc a < ?n \<and> ss_depth ?st \<le> - minDrawdownDepth fl
      then [\<lparr>dd_Start = fst (series ! a), dd_Trough = fst (ss_trough ?st), dd_Recovery = None, dd_Depth = ss_depth ?st, dd_Days = int ?n - int a\<rparr>] else [])"
    unfolding detectDrawdowns_def Let_def a(2,5) ix by simp
  have "set (detectDrawdowns fl series) = deep_cycles fl series ?n"
    unfolding deep_cycles_next [OF a(1,4)] last out dds(1) [symmetric] by auto
  also have "\<dots> = {cycle_record series a t r | a t r. cycle series a t r \<and> cycle_depth series a t \<le> - minDrawdownDepth fl}"
    unfolding deep_cycles_def using cycle_bound by blast
  finally have "set (detectDrawdowns fl series) = \<dots>" .
  moreover have "fst (series ! a) \<noteq> fst (series ! b)" if "b < a" for b
    using nth_eq_iff_index_eq [OF assms(2), of a b] that a(1) by simp
  then have "fst (series ! a) \<notin> dd_Start ` set (ss_dds ?st)" using dds(3) by fastforce
  then have "distinct (map dd_Start (detectDrawdowns fl series))" unfolding out using dds(2) by auto
  ultimately show ?thesis by blast
qed

section \<open>The sort\<close>

lemma mset_sift: "mset (sift ys x) = add_mset x (mset ys)"
  by (induction ys) auto

lemma sorted_sift: "sorted_wrt (\<lambda>p q. dd_Depth q \<le> dd_Depth p) ys \<Longrightarrow> sorted_wrt (\<lambda>p q. dd_Depth q \<le> (dd_Depth p :: 'f :: linorder)) (sift ys x)"
proof (induction ys)
  case (Cons y ys)
  have "set (sift ys x) = insert x (set ys)" by (metis mset_sift set_mset_add_mset_insert set_mset_mset)
  with Cons show ?case by (auto intro: order_trans less_imp_le)
qed simp

lemma sortDrawdowns_spec:
  fixes dds :: "'f::linorder Drawdown list"
  shows "mset (sortDrawdowns dds) = mset dds" "sorted_wrt (\<lambda>p q. dd_Depth p \<le> dd_Depth q) (sortDrawdowns dds)"
proof -
  have "mset (foldl sift acc dds) = mset acc + mset dds" for acc
    by (induction dds arbitrary: acc) (simp_all add: mset_sift)
  then show "mset (sortDrawdowns dds) = mset dds" by (simp add: sortDrawdowns_def)
  have "sorted_wrt (\<lambda>p q. dd_Depth q \<le> dd_Depth p) acc \<Longrightarrow> sorted_wrt (\<lambda>p q. dd_Depth q \<le> dd_Depth p) (foldl sift acc dds)" for acc
    by (induction dds arbitrary: acc) (simp_all add: sorted_sift)
  then show "sorted_wrt (\<lambda>p q. dd_Depth p \<le> dd_Depth q) (sortDrawdowns dds)" by (simp add: sortDrawdowns_def sorted_wrt_rev)
qed

text \<open>
  C13. The drawdowns of a readable snapshot whose curve has distinct dates, in exact arithmetic, are
  exactly the cycles of the curve that reach the minimal depth, each once, deepest first. A cycle
  goes from a peak as high as everything before it over its first lowest point to the first point
  back at the peak's height, or to the end of the curve when there is none; its depth is relative to
  the peak and its length is the number of points from the peak to the recovery or the end.
\<close>

theorem Reader_Drawdowns_spec:
  fixes sn :: "'f::linordered_field snapshot"
  assumes "healthy sn" and "distinct (map fst (equity_series sn))"
  shows "\<exists>dds. Reader_Drawdowns fl sn = Inr dds \<and> distinct (map dd_Start dds) \<and> sorted_wrt (\<lambda>p q. dd_Depth p \<le> dd_Depth q) dds
    \<and> set dds = {cycle_record (equity_series sn) a t r | a t r.
        cycle (equity_series sn) a t r \<and> cycle_depth (equity_series sn) a t \<le> - minDrawdownDepth fl}"
proof (cases "equity_series sn = []")
  case True
  then show ?thesis using assms(1) cycle_bound [of "[] :: (date \<times> 'f) list"] by (auto simp: Reader_Drawdowns_def)
next
  case False
  let ?dds = "detectDrawdowns fl (equity_series sn)"
  have m: "mset (sortDrawdowns ?dds) = mset ?dds" by (rule sortDrawdowns_spec)
  then have "set (sortDrawdowns ?dds) = set ?dds" by (metis set_mset_mset)
  moreover have "mset (map dd_Start (sortDrawdowns ?dds)) = mset (map dd_Start ?dds)" using m by simp
  then have "distinct (map dd_Start (sortDrawdowns ?dds)) \<longleftrightarrow> distinct (map dd_Start ?dds)" by (rule mset_eq_imp_distinct_iff)
  ultimately show ?thesis
    using detectDrawdowns_spec [OF False assms(2), of fl] sortDrawdowns_spec(2) [of ?dds] assms(1) False
    by (simp add: Reader_Drawdowns_def Let_def)
qed

definition exact_rat :: "rat flt" where
  "exact_rat = \<lparr>fl_lit = \<lambda>q. q, fl_int = of_int, fl_Abs = abs, fl_Round = \<lambda>x. of_int (if x \<ge> 0 then \<lfloor>x + 1 / 2\<rfloor> else \<lceil>x - 1 / 2\<rceil>),
     fl_Pow = \<lambda>x _. x, fl_text = \<lambda>_. []\<rparr>"

definition demo_curve :: "rat snapshot" where
  "demo_curve = demo_snapshot\<lparr>sn_perf := [\<lparr>pf_date = ''2024-01-02'', pf_metric = ''portfolio_value'', pf_value = 100\<rparr>,
     \<lparr>pf_date = ''2024-01-03'', pf_metric = ''PortfolioEquity'', pf_value = 80\<rparr>, \<lparr>pf_date = ''2024-01-04'', pf_metric = ''portfolio_value'', pf_value = 110\<rparr>]\<rparr>"

theorem Reader_Drawdowns_spec_witness:
  "\<exists>dds. Reader_Drawdowns exact_rat demo_curve = Inr dds \<and> cycle_record (equity_series demo_curve) 0 1 2 \<in> set dds
     \<and> cycle_depth (equity_series demo_curve) 0 1 = - 1 / 5"
proof -
  have h: "healthy demo_curve" by (simp add: healthy_def demo_curve_def demo_snapshot_def)
  have e: "equity_series demo_curve = [(Date 2024 1 2, 100), (Date 2024 1 3, 80), (Date 2024 1 4, 110)]" by code_simp
  have d: "distinct (map fst (equity_series demo_curve))" unfolding e by simp
  have "cycle (equity_series demo_curve) 0 1 2" unfolding e cycle_def Let_def by (auto simp: less_2_cases_iff numeral_2_eq_2 less_Suc_eq)
  moreover have c: "cycle_depth (equity_series demo_curve) 0 1 = - 1 / 5" unfolding e by (simp add: cycle_depth_def)
  moreover have "- 1 / 5 \<le> - minDrawdownDepth exact_rat" by (simp add: minDrawdownDepth_def exact_rat_def)
  ultimately have "cycle_record (equity_series demo_curve) 0 1 2 \<in> {cycle_record (equity_series demo_curve) a t r | a t r.
        cycle (equity_series demo_curve) a t r \<and> cycle_depth (equity_series demo_curve) a t \<le> - minDrawdownDepth exact_rat}" by fastforce
  with Reader_Drawdowns_spec [OF h d, of exact_rat] c show ?thesis by blast
qed

end
