(* ===== verification/Impact.thy ===== *)
theory Impact
  imports Holdings Drawdowns
begin

text \<open>
  What each holding contributed to the return, \<open>snapshot/holdings_impact.go\<close>: one timeline day per
  equity value with its positions and cash flows, the five reporting periods, and per period the
  contribution of each ticker, the check that they explain the change of equity, and the split into
  the first items and the rest. The order in which Go iterates the set of tickers is the argument
  \<open>iter\<close>. Periods are shorter than the 292 years that a \<open>time.Duration\<close> can hold, and
  the last day is not before the year 5.
\<close>

type_synonym tickerKey = "string \<times> string"

record 'f timelineDay =
  td_date :: date
  td_v :: 'f
  td_positions :: "(tickerKey \<times> 'f \<times> 'f) list"
    \<comment> \<open>market value and quantity\<close>
  td_flows :: "(tickerKey \<times> 'f) list"

record periodWindow =
  pw_id :: string
  pw_label :: string
  pw_startIdx :: nat
  pw_endIdx :: nat

definition clampTopN :: "int \<Rightarrow> nat" where
  "clampTopN n = (if n < 1 then 1 else if n > 50 then 50 else nat n)"

definition pos_mv :: "'f::zero timelineDay \<Rightarrow> tickerKey \<Rightarrow> 'f" where
  "pos_mv d k = (case map_of (td_positions d) k of None \<Rightarrow> 0 | Some (mv, _) \<Rightarrow> mv)"

definition pos_qty :: "'f::zero timelineDay \<Rightarrow> tickerKey \<Rightarrow> 'f" where
  "pos_qty d k = (case map_of (td_positions d) k of None \<Rightarrow> 0 | Some (_, q) \<Rightarrow> q)"

definition flow_of :: "'f::zero timelineDay \<Rightarrow> tickerKey \<Rightarrow> 'f" where
  "flow_of d k = (case map_of (td_flows d) k of None \<Rightarrow> 0 | Some f \<Rightarrow> f)"

subsection \<open>The timeline\<close>

definition perf_day :: "(string \<Rightarrow> string) \<Rightarrow> (string \<times> 'f timelineDay) list \<times> string list \<Rightarrow> 'f perf_row
    \<Rightarrow> ((string \<times> 'f timelineDay) list \<times> string list) result" where
  "perf_day quote = (\<lambda>(byDate, order) r.
     case time_Parse (pf_date r) of
       None \<Rightarrow> Inl (Error [] (''holdings-impact perf date '' @ quote (pf_date r) @ '': parsing time''))
     | Some t \<Rightarrow> Inr (AList.update (pf_date r) \<lparr>td_date = t, td_v = pf_value r, td_positions = [], td_flows = []\<rparr> byDate, order @ [pf_date r]))"

definition loadHoldingsImpactPerfDays :: "(string \<Rightarrow> string) \<Rightarrow> 'f snapshot \<Rightarrow> ((string \<times> 'f timelineDay) list \<times> string list) result" where
  "loadHoldingsImpactPerfDays quote sn =
     andR (query sn ''holdings-impact perf query'') (\<lambda>_.
     andR (foldR (perf_day quote) ([], []) (sort_key pf_date (series_of portfolioValueClause sn))) (\<lambda>r.
     andR (query sn ''holdings-impact perf iterate'') (\<lambda>_. Inr r)))"

definition merge_position :: "(string \<times> 'f timelineDay) list \<Rightarrow> 'f position_row \<Rightarrow> (string \<times> 'f timelineDay) list" where
  "merge_position byDate r =
     (case map_of byDate (ps_date r) of
        None \<Rightarrow> byDate
      | Some d \<Rightarrow> AList.update (ps_date r)
          (d\<lparr>td_positions := AList.update (ps_ticker r, ps_figi r) (ps_market_value r, ps_quantity r) (td_positions d)\<rparr>) byDate)"

definition mergeHoldingsImpactPositions :: "'f snapshot \<Rightarrow> (string \<times> 'f timelineDay) list \<Rightarrow> (nat \<times> (string \<times> 'f timelineDay) list) result" where
  "mergeHoldingsImpactPositions sn byDate =
     andR (query sn ''holdings-impact positions query'') (\<lambda>_.
     andR (query sn ''holdings-impact positions iterate'') (\<lambda>_.
       Inr (length (sn_positions sn), foldl merge_position byDate (sort_key ps_date (sn_positions sn)))))"

definition add_flow :: "tickerKey \<Rightarrow> 'f::{plus,zero} \<Rightarrow> (tickerKey \<times> 'f) list \<Rightarrow> (tickerKey \<times> 'f) list" where
  "add_flow k x flows = AList.update k ((case map_of flows k of None \<Rightarrow> 0 | Some f \<Rightarrow> f) + x) flows"

definition sub_flow :: "tickerKey \<Rightarrow> 'f::{minus,zero} \<Rightarrow> (tickerKey \<times> 'f) list \<Rightarrow> (tickerKey \<times> 'f) list" where
  "sub_flow k x flows = AList.update k ((case map_of flows k of None \<Rightarrow> 0 | Some f \<Rightarrow> f) - x) flows"

definition cashKey :: tickerKey where "cashKey = (cashTicker, [])"

definition applyTxFlow :: "'f::{plus,minus,zero} timelineDay \<Rightarrow> string \<Rightarrow> string \<Rightarrow> string \<Rightarrow> 'f \<Rightarrow> 'f timelineDay" where
  "applyTxFlow day typeStr ticker figi amount =
     (let assetKey = (ticker, figi); fl = td_flows day in
      if typeStr = ''buy'' \<or> typeStr = ''fee'' then day\<lparr>td_flows := sub_flow cashKey amount (add_flow assetKey amount fl)\<rparr>
      else if typeStr = ''sell'' \<or> typeStr = ''dividend'' then day\<lparr>td_flows := add_flow cashKey amount (sub_flow assetKey amount fl)\<rparr>
      else if typeStr = ''deposit'' then day\<lparr>td_flows := add_flow cashKey amount fl\<rparr>
      else if typeStr = ''withdrawal'' then day\<lparr>td_flows := sub_flow cashKey amount fl\<rparr>
      else day)"

definition merge_tx :: "(string \<times> 'f::{plus,minus,zero} timelineDay) list \<Rightarrow> 'f tx_row \<Rightarrow> (string \<times> 'f timelineDay) list result" where
  "merge_tx byDate t =
     (let ctx = ''holdings-impact transactions scan'' in
      andR (scan ctx (tx_ticker t)) (\<lambda>ticker.
      andR (scan ctx (tx_figi t)) (\<lambda>figi.
      andR (scan ctx (tx_amount t)) (\<lambda>amount.
        Inr (case map_of byDate (tx_date t) of
               None \<Rightarrow> byDate
             | Some d \<Rightarrow> AList.update (tx_date t) (applyTxFlow d (tx_type t) ticker figi amount) byDate)))))"

definition mergeHoldingsImpactTransactions :: "'f::{plus,minus,zero} snapshot \<Rightarrow> (string \<times> 'f timelineDay) list \<Rightarrow> (string \<times> 'f timelineDay) list result" where
  "mergeHoldingsImpactTransactions sn byDate =
     andR (query sn ''holdings-impact transactions query'') (\<lambda>_.
     andR (foldR merge_tx byDate (sort_key tx_date (sn_transactions sn))) (\<lambda>r.
     andR (query sn ''holdings-impact transactions iterate'') (\<lambda>_. Inr r)))"

definition loadHoldingsImpactTimeline :: "(string \<Rightarrow> string) \<Rightarrow> 'f::{plus,minus,zero} snapshot \<Rightarrow> 'f timelineDay list result" where
  "loadHoldingsImpactTimeline quote sn =
     andR (loadHoldingsImpactPerfDays quote sn) (\<lambda>(byDate, order).
     andR (mergeHoldingsImpactPositions sn byDate) (\<lambda>(n, byDate1).
     if n = 0 then Inl snap_not_found
     else andR (mergeHoldingsImpactTransactions sn byDate1) (\<lambda>byDate2.
       Inr (map (\<lambda>ds. the (map_of byDate2 ds)) order))))"

subsection \<open>Periods\<close>

definition snapForward :: "'f timelineDay list \<Rightarrow> date \<Rightarrow> nat option" where
  "snapForward timeline want = List.find (\<lambda>i. \<not> td_date (timeline ! i) < want) [0..<length timeline]"

fun skip_zero :: "'f::{zero,ord} timelineDay list \<Rightarrow> nat \<Rightarrow> nat \<Rightarrow> nat" where
  "skip_zero timeline idx 0 = idx"
| "skip_zero timeline idx (Suc n) = (if feq (td_v (timeline ! idx)) 0 then skip_zero timeline (Suc idx) n else idx)"

definition years_before :: "date \<Rightarrow> nat \<Rightarrow> date" where
  "years_before d n = time_Date (dyear d - n) (dmonth d) (dday d)"

definition period_specs :: "date \<Rightarrow> date \<Rightarrow> (string \<times> string \<times> date) list" where
  "period_specs first_day last_day =
     [(''inception'', ''Since inception'', first_day), (''5y'', ''Last 5 years'', years_before last_day 5),
      (''3y'', ''Last 3 years'', years_before last_day 3), (''1y'', ''Last 1 year'', years_before last_day 1),
      (''ytd'', ''Year to date'', Date (dyear last_day) 1 1)]"

definition window_of :: "'f::{zero,ord} timelineDay list \<Rightarrow> string \<times> string \<times> date \<Rightarrow> periodWindow list" where
  "window_of timeline = (\<lambda>(pid, label, start).
     let endIdx = length timeline - 1 in
     if pid \<noteq> ''inception'' \<and> pid \<noteq> ''ytd'' \<and> start < td_date (timeline ! 0) then []
     else case snapForward timeline start of
       None \<Rightarrow> []
     | Some idx \<Rightarrow>
         if endIdx \<le> idx then []
         else (let idx' = skip_zero timeline idx (endIdx - idx) in
               if endIdx \<le> idx' then [] else [\<lparr>pw_id = pid, pw_label = label, pw_startIdx = idx', pw_endIdx = endIdx\<rparr>]))"

definition buildPeriodWindows :: "'f::{zero,ord} timelineDay list \<Rightarrow> periodWindow list" where
  "buildPeriodWindows timeline =
     concat (map (window_of timeline) (period_specs (td_date (hd timeline)) (td_date (last timeline))))"

subsection \<open>One period\<close>

record 'f HoldingsImpactItem =
  hi_Ticker :: string
  hi_Figi :: "string option"
  hi_Contribution :: 'f
  hi_AvgWeight :: 'f
  hi_HoldingDays :: nat

record 'f HoldingsImpactPeriod =
  ip_Period :: string
  ip_Label :: string
  ip_StartDate :: date
  ip_EndDate :: date
  ip_Years :: 'f
  ip_CumulativeReturn :: 'f
  ip_AnnualizedReturn :: 'f
  ip_Items :: "'f HoldingsImpactItem list"
  ip_RestCount :: nat
  ip_RestContribution :: 'f

definition round6 :: "'f::{times,inverse} flt \<Rightarrow> 'f \<Rightarrow> 'f" where
  "round6 fl x = fl_Round fl (x * fl_lit fl 1000000) / fl_lit fl 1000000"

definition period_days :: "'f timelineDay list \<Rightarrow> periodWindow \<Rightarrow> 'f timelineDay list" where
  "period_days timeline w = map ((!) timeline) [pw_startIdx w..<Suc (pw_endIdx w)]"

definition item_pnl :: "'f::{plus,minus,zero} timelineDay list \<Rightarrow> tickerKey \<Rightarrow> 'f" where
  "item_pnl days k = (pos_mv (last days) k - pos_mv (hd days) k) - fsum (map (\<lambda>d. flow_of d k) (tl days))"

definition computePeriodItem :: "'f::{plus,minus,times,inverse,zero,ord} flt \<Rightarrow> 'f timelineDay list \<Rightarrow> tickerKey \<Rightarrow> 'f \<Rightarrow> 'f HoldingsImpactItem \<times> 'f" where
  "computePeriodItem fl days k v0 =
     (let pnl = item_pnl days k;
          weighted = filter (\<lambda>d. 0 < td_v d) days;
          weightSum = fsum (map (\<lambda>d. pos_mv d k / td_v d) weighted);
          avgWeight = (if weighted \<noteq> [] then weightSum / fl_int fl (int (length weighted)) else 0) in
      (\<lparr>hi_Ticker = fst k, hi_Figi = some_text (snd k), hi_Contribution = pnl / v0, hi_AvgWeight = round6 fl avgWeight,
        hi_HoldingDays = length (filter (\<lambda>d. \<not> feq (pos_mv d k) 0 \<or> \<not> feq (pos_qty d k) 0) days)\<rparr>, pnl))"

definition period_keys :: "'f timelineDay list \<Rightarrow> tickerKey list" where
  "period_keys days = remdups (concat (map (\<lambda>d. map fst (td_positions d)) days))"

definition computePeriodItems :: "'f::{plus,minus,times,inverse,zero,ord} flt \<Rightarrow> (tickerKey list \<Rightarrow> tickerKey list) \<Rightarrow> 'f timelineDay list \<Rightarrow> 'f
    \<Rightarrow> 'f HoldingsImpactItem list \<times> 'f" where
  "computePeriodItems fl iter days v0 =
     (let r = map (\<lambda>k. computePeriodItem fl days k v0) (iter (period_keys days)) in (map fst r, fsum (map snd r)))"

definition item_less :: "'f::ord flt \<Rightarrow> 'f HoldingsImpactItem \<Rightarrow> 'f HoldingsImpactItem \<Rightarrow> bool" where
  "item_less fl x y =
     (let ai = fl_Abs fl (hi_Contribution x); aj = fl_Abs fl (hi_Contribution y); bi = fl_Abs fl (hi_AvgWeight x); bj = fl_Abs fl (hi_AvgWeight y) in
      if \<not> feq ai aj then aj < ai else if \<not> feq bi bj then bj < bi else hi_Ticker x < hi_Ticker y)"

fun stable_insert :: "('a \<Rightarrow> 'a \<Rightarrow> bool) \<Rightarrow> 'a \<Rightarrow> 'a list \<Rightarrow> 'a list" where
  "stable_insert lt x [] = [x]"
| "stable_insert lt x (y # ys) = (if lt y x then y # stable_insert lt x ys else x # y # ys)"

definition SliceStable :: "('a \<Rightarrow> 'a \<Rightarrow> bool) \<Rightarrow> 'a list \<Rightarrow> 'a list" where
  "SliceStable lt xs = foldr (stable_insert lt) xs []"

definition computePeriod :: "'f::{plus,minus,times,inverse,zero,one,ord} flt \<Rightarrow> (tickerKey list \<Rightarrow> tickerKey list) \<Rightarrow> 'f timelineDay list \<Rightarrow> periodWindow \<Rightarrow> nat
    \<Rightarrow> 'f HoldingsImpactPeriod result" where
  "computePeriod fl iter timeline w topN =
     (let days = period_days timeline w; t0 = td_date (hd days); t1 = td_date (last days); v0 = td_v (hd days); v1 = td_v (last days) in
      if feq v0 0 then Inl (Error [ErrZeroV0] (''holdings-impact: opening equity is zero: period '' @ pw_id w))
      else
        (let (items, totalPNL) = computePeriodItems fl iter days v0;
             residual = (v1 - v0) - totalPNL in
         if fl_lit fl (1 / 10000) < fl_Abs fl residual
         then Inl (Error [ErrResidualCheck] (''holdings-impact: residual check failed: period '' @ pw_id w @ '' residual='' @ fl_text fl residual))
         else
           (let sorted_items = SliceStable (item_less fl) items;
                cumulativeReturn = v1 / v0 - 1;
                named = map (\<lambda>x. x\<lparr>hi_Contribution := round6 fl (hi_Contribution x)\<rparr>) (take topN sorted_items);
                years = fl_int fl ((days_of t1 - days_of t0) * 24) / fl_lit fl 24 / fl_lit fl (36525 / 100);
                annualizedReturn = (if 0 < years then fl_Pow fl (1 + cumulativeReturn) (1 / years) - 1 else 0) in
            Inr \<lparr>ip_Period = pw_id w, ip_Label = pw_label w, ip_StartDate = t0, ip_EndDate = t1, ip_Years = round6 fl years,
                 ip_CumulativeReturn = round6 fl cumulativeReturn, ip_AnnualizedReturn = round6 fl annualizedReturn, ip_Items = named,
                 ip_RestCount = length items - topN,
                 ip_RestContribution = round6 fl (round6 fl cumulativeReturn - fsum (map hi_Contribution named))\<rparr>)))"

record 'f HoldingsImpactResponse =
  ir_PortfolioSlug :: string
  ir_AsOf :: date
  ir_Currency :: string
  ir_Periods :: "'f HoldingsImpactPeriod list"

definition Reader_HoldingsImpact :: "(string \<Rightarrow> string) \<Rightarrow> 'f::{plus,minus,times,inverse,zero,one,ord} flt \<Rightarrow> (tickerKey list \<Rightarrow> tickerKey list) \<Rightarrow> 'f snapshot
    \<Rightarrow> string \<Rightarrow> int \<Rightarrow> 'f HoldingsImpactResponse result" where
  "Reader_HoldingsImpact quote fl iter sn slug topN =
     andR (loadHoldingsImpactTimeline quote sn) (\<lambda>timeline.
     if timeline = [] then Inl snap_not_found
     else andR (mapR (\<lambda>w. computePeriod fl iter timeline w (clampTopN topN)) (buildPeriodWindows timeline)) (\<lambda>periods.
       Inr \<lparr>ir_PortfolioSlug = slug, ir_AsOf = td_date (last timeline), ir_Currency = ''USD'', ir_Periods = periods\<rparr>))"

subsection \<open>The timeline of a snapshot\<close>

text \<open>What one transaction moves into the bucket of a key.\<close>

definition asset_flow :: "string \<Rightarrow> 'f::{uminus,zero} \<Rightarrow> 'f" where
  "asset_flow ty a = (if ty = ''buy'' \<or> ty = ''fee'' then a else if ty = ''sell'' \<or> ty = ''dividend'' then - a else 0)"

definition cash_flow :: "string \<Rightarrow> 'f::{uminus,zero} \<Rightarrow> 'f" where
  "cash_flow ty a = (if ty \<in> {''buy'', ''fee'', ''withdrawal''} then - a else if ty \<in> {''sell'', ''dividend'', ''deposit''} then a else 0)"

definition key_of :: "'f tx_row \<Rightarrow> tickerKey" where
  "key_of t = (the (tx_ticker t), the (tx_figi t))"

definition tx_flow :: "'f::linordered_field tx_row \<Rightarrow> tickerKey \<Rightarrow> 'f" where
  "tx_flow t k = (if k = key_of t then asset_flow (tx_type t) (the (tx_amount t)) else 0)
     + (if k = cashKey then cash_flow (tx_type t) (the (tx_amount t)) else 0)"

definition booked :: "'f tx_row \<Rightarrow> bool" where
  "booked t \<longleftrightarrow> tx_ticker t \<noteq> None \<and> tx_figi t \<noteq> None \<and> tx_amount t \<noteq> None"

definition put_position :: "'f timelineDay \<Rightarrow> 'f position_row \<Rightarrow> 'f timelineDay" where
  "put_position d r = d\<lparr>td_positions := AList.update (ps_ticker r, ps_figi r) (ps_market_value r, ps_quantity r) (td_positions d)\<rparr>"

definition put_tx :: "'f::{plus,minus,zero} timelineDay \<Rightarrow> 'f tx_row \<Rightarrow> 'f timelineDay" where
  "put_tx d t = applyTxFlow d (tx_type t) (the (tx_ticker t)) (the (tx_figi t)) (the (tx_amount t))"

lemma merge_positions: "map_of (foldl merge_position byDate rs) ds = map_option (\<lambda>d. foldl put_position d (filter (\<lambda>r. ps_date r = ds) rs)) (map_of byDate ds)"
  by (induction rs arbitrary: byDate) (auto simp: merge_position_def put_position_def update_conv' option.map_comp option.map_ident split: option.splits)

lemma merge_txs:
  assumes "\<And>t. t \<in> set ts \<Longrightarrow> booked t"
  shows "\<exists>byDate'. foldR merge_tx byDate ts = Inr byDate' \<and> (\<forall>ds. map_of byDate' ds = map_option (\<lambda>d. foldl put_tx d (filter (\<lambda>t. tx_date t = ds) ts)) (map_of byDate ds))"
  using assms
proof (induction ts arbitrary: byDate)
  case Nil
  then show ?case by (simp add: option.map_ident)
next
  case (Cons t ts)
  define b1 where "b1 = (case map_of byDate (tx_date t) of None \<Rightarrow> byDate | Some d \<Rightarrow> AList.update (tx_date t) (put_tx d t) byDate)"
  have "merge_tx byDate t = Inr b1"
    using Cons.prems [of t] by (auto simp: merge_tx_def scan_def booked_def b1_def put_tx_def Let_def split: option.splits)
  moreover have "map_of b1 ds = map_option (\<lambda>d. if tx_date t = ds then put_tx d t else d) (map_of byDate ds)" for ds
    by (cases "map_of byDate ds"; cases "ds = tx_date t") (auto simp: b1_def update_conv' split: option.splits)
  ultimately show ?case using Cons.IH [of b1] Cons.prems by (auto simp: option.map_comp comp_def)
qed

text \<open>The equity rows of a snapshot, and the timeline day of one of them.\<close>

definition perf_rows :: "'f snapshot \<Rightarrow> 'f perf_row list" where
  "perf_rows sn = sort_key pf_date (series_of portfolioValueClause sn)"

definition day_of :: "'f::{plus,minus,zero} snapshot \<Rightarrow> 'f perf_row \<Rightarrow> 'f timelineDay" where
  "day_of sn r =
     foldl put_tx (foldl put_position \<lparr>td_date = the (time_Parse (pf_date r)), td_v = pf_value r, td_positions = [], td_flows = []\<rparr>
       (filter (\<lambda>p. ps_date p = pf_date r) (sn_positions sn))) (filter (\<lambda>t. tx_date t = pf_date r) (sn_transactions sn))"

definition readable :: "'f snapshot \<Rightarrow> bool" where
  "readable sn \<longleftrightarrow> healthy sn \<and> sn_positions sn \<noteq> [] \<and> (\<forall>r \<in> set (perf_rows sn). time_Parse (pf_date r) \<noteq> None)
     \<and> distinct (map pf_date (perf_rows sn)) \<and> (\<forall>t \<in> set (sn_transactions sn). booked t)"

lemma perf_days:
  assumes "\<And>r. r \<in> set rs \<Longrightarrow> time_Parse (pf_date r) \<noteq> None" and "distinct (map pf_date rs)"
  shows "\<exists>b. foldR (perf_day quote) (byDate, order) rs = Inr (b, order @ map pf_date rs)
    \<and> (\<forall>ds. map_of b ds = (case List.find (\<lambda>r. pf_date r = ds) rs of None \<Rightarrow> map_of byDate ds
          | Some r \<Rightarrow> Some \<lparr>td_date = the (time_Parse ds), td_v = pf_value r, td_positions = [], td_flows = []\<rparr>))"
  using assms
proof (induction rs arbitrary: byDate order)
  case (Cons r rs)
  obtain t where t: "time_Parse (pf_date r) = Some t" using Cons.prems(1) [of r] by auto
  have none: "List.find (\<lambda>q. pf_date q = pf_date r) rs = None" using Cons.prems(2) by (auto simp: find_None_iff image_iff)
  define d where "d = \<lparr>td_date = t, td_v = pf_value r, td_positions = [], td_flows = []\<rparr>"
  have step: "perf_day quote (byDate, order) r = Inr (AList.update (pf_date r) d byDate, order @ [pf_date r])"
    by (simp add: perf_day_def t d_def)
  obtain b where b: "foldR (perf_day quote) (AList.update (pf_date r) d byDate, order @ [pf_date r]) rs = Inr (b, (order @ [pf_date r]) @ map pf_date rs)"
    "\<And>ds. map_of b ds = (case List.find (\<lambda>r. pf_date r = ds) rs of None \<Rightarrow> map_of (AList.update (pf_date r) d byDate) ds
          | Some r \<Rightarrow> Some \<lparr>td_date = the (time_Parse ds), td_v = pf_value r, td_positions = [], td_flows = []\<rparr>)"
    using Cons.IH [of "AList.update (pf_date r) d byDate" "order @ [pf_date r]"] Cons.prems by auto
  have "map_of b ds = (case List.find (\<lambda>r. pf_date r = ds) (r # rs) of None \<Rightarrow> map_of byDate ds
          | Some r \<Rightarrow> Some \<lparr>td_date = the (time_Parse ds), td_v = pf_value r, td_positions = [], td_flows = []\<rparr>)" for ds
    unfolding b(2) by (cases "pf_date r = ds") (use none t in \<open>auto simp: update_conv' d_def split: option.splits\<close>)
  with b(1) step show ?case by auto
qed auto

lemma find_row: "distinct (map pf_date rs) \<Longrightarrow> r \<in> set rs \<Longrightarrow> List.find (\<lambda>q. pf_date q = pf_date r) rs = Some r"
  by (induction rs) auto

lemma load_timeline:
  fixes sn :: "'f::{plus,minus,zero} snapshot"
  assumes "readable sn"
  shows "loadHoldingsImpactTimeline quote sn = Inr (map (day_of sn) (perf_rows sn))"
proof -
  obtain b where b: "foldR (perf_day quote) ([], []) (perf_rows sn) = Inr (b, map pf_date (perf_rows sn))"
    "\<And>ds. map_of b ds = (case List.find (\<lambda>r. pf_date r = ds) (perf_rows sn) of None \<Rightarrow> map_of [] ds
          | Some r \<Rightarrow> Some \<lparr>td_date = the (time_Parse ds), td_v = pf_value r, td_positions = [], td_flows = []\<rparr>)"
    using perf_days [of "perf_rows sn" quote "[]" "[]"] assms by (auto simp: readable_def)
  obtain b' where b': "foldR merge_tx (foldl merge_position b (sort_key ps_date (sn_positions sn))) (sort_key tx_date (sn_transactions sn)) = Inr b'"
    "\<And>ds. map_of b' ds = map_option (\<lambda>d. foldl put_tx d (filter (\<lambda>t. tx_date t = ds) (sn_transactions sn)))
        (map_of (foldl merge_position b (sort_key ps_date (sn_positions sn))) ds)"
    using merge_txs [of "sort_key tx_date (sn_transactions sn)" "foldl merge_position b (sort_key ps_date (sn_positions sn))"] assms
    by (auto simp: readable_def sort_key_stable)
  have "the (map_of b' (pf_date r)) = day_of sn r" if "r \<in> set (perf_rows sn)" for r
    using that assms by (simp add: b'(2) merge_positions b(2) find_row readable_def day_of_def sort_key_stable)
  with b(1) b'(1) assms show ?thesis
    by (simp add: loadHoldingsImpactTimeline_def loadHoldingsImpactPerfDays_def mergeHoldingsImpactPositions_def
        mergeHoldingsImpactTransactions_def readable_def perf_rows_def)
qed

subsection \<open>The residual in exact arithmetic\<close>

definition balanced :: "'f::linordered_field timelineDay \<Rightarrow> bool" where
  "balanced d \<longleftrightarrow> distinct (map fst (td_positions d)) \<and> td_v d = sum_list (map (\<lambda>(_, mv, _). mv) (td_positions d))"

lemma sum_pos_mv:
  fixes d :: "'f::linordered_field timelineDay"
  assumes "balanced d" and "finite K" and "fst ` set (td_positions d) \<subseteq> K"
  shows "(\<Sum>k\<in>K. pos_mv d k) = td_v d"
proof -
  let ?ps = "td_positions d"
  have d: "distinct (map fst ?ps)" using assms(1) by (simp add: balanced_def)
  have "(\<Sum>k\<in>K. pos_mv d k) = (\<Sum>k\<in>fst ` set ?ps. pos_mv d k)"
    using assms(2,3) by (intro sum.mono_neutral_right) (auto simp: pos_mv_def map_of_eq_None_iff [symmetric] split: option.splits)
  also have "\<dots> = (\<Sum>x\<in>set ?ps. pos_mv d (fst x))" using d by (simp add: sum.reindex distinct_map)
  also have "\<dots> = (\<Sum>x\<in>set ?ps. (\<lambda>(_, mv, _). mv) x)" using d by (intro sum.cong) (auto simp: pos_mv_def)
  also have "\<dots> = sum_list (map (\<lambda>(_, mv, _). mv) ?ps)" using d by (simp add: sum_list_distinct_conv_sum_set distinct_map)
  finally show ?thesis using assms(1) by (simp add: balanced_def)
qed

definition any_order :: "('a list \<Rightarrow> 'a list) \<Rightarrow> bool" where
  "any_order iter \<longleftrightarrow> (\<forall>xs. mset (iter xs) = mset xs)"

lemma any_orderD:
  assumes "any_order iter"
  shows "set (iter xs) = set xs" "distinct (iter xs) = distinct xs" "length (iter xs) = length xs"
  using assms mset_eq_setD [of "iter xs" xs] mset_eq_imp_distinct_iff [of "iter xs" xs] mset_eq_length [of "iter xs" xs]
  by (auto simp: any_order_def)

lemma total_pnl:
  fixes days :: "'f::linordered_field timelineDay list"
  assumes "any_order iter"
  shows "snd (computePeriodItems fl iter days v0) = (\<Sum>k\<in>set (period_keys days). item_pnl days k)"
proof -
  have "distinct (iter (period_keys days))" using any_orderD [OF assms] by (simp add: period_keys_def)
  moreover have "snd (computePeriodItems fl iter days v0) = sum_list (map (item_pnl days) (iter (period_keys days)))"
    by (simp add: computePeriodItems_def computePeriodItem_def Let_def fsum_exact comp_def)
  ultimately show ?thesis using any_orderD(1) [OF assms] by (simp add: sum_list_distinct_conv_sum_set)
qed

definition unexplained :: "'f::linordered_field timelineDay list \<Rightarrow> 'f" where
  "unexplained days = (\<Sum>k\<in>set (period_keys days). \<Sum>d\<leftarrow>tl days. flow_of d k)"

lemma residual:
  fixes days :: "'f::linordered_field timelineDay list"
  assumes "any_order iter" and "days \<noteq> []" and "balanced (hd days)" and "balanced (last days)"
  shows "(td_v (last days) - td_v (hd days)) - snd (computePeriodItems fl iter days v0) = unexplained days"
proof -
  let ?K = "set (period_keys days)"
  have "fst ` set (td_positions d) \<subseteq> ?K" if "d \<in> set days" for d using that by (auto simp: period_keys_def)
  then have "(\<Sum>k\<in>?K. pos_mv (hd days) k) = td_v (hd days)" "(\<Sum>k\<in>?K. pos_mv (last days) k) = td_v (last days)"
    using assms by (simp_all add: sum_pos_mv)
  then show ?thesis
    by (simp add: total_pnl [OF assms(1)] unexplained_def item_pnl_def sum_subtractf sum.distrib fsum_exact algebra_simps)
qed

definition exact :: "'f::linordered_field flt \<Rightarrow> bool" where
  "exact fl \<longleftrightarrow> (\<forall>q. fl_lit fl q = of_rat q) \<and> (\<forall>x. fl_Abs fl x = \<bar>x\<bar>) \<and> (\<forall>x. \<exists>i. fl_Round fl x = of_int i) \<and> (\<forall>i. fl_Round fl (of_int i) = of_int i)"

lemma computePeriod_residual:
  fixes timeline :: "'f::linordered_field timelineDay list"
  assumes "exact fl" and "any_order iter" and "\<forall>d \<in> set timeline. balanced d"
    and "pw_startIdx w \<le> pw_endIdx w" and "pw_endIdx w < length timeline" and "td_v (timeline ! pw_startIdx w) \<noteq> 0"
  shows "if \<bar>unexplained (period_days timeline w)\<bar> \<le> of_rat (1 / 10000)
    then \<exists>p. computePeriod fl iter timeline w topN = Inr p
    else \<exists>e. computePeriod fl iter timeline w topN = Inl e \<and> err_chain e = [ErrResidualCheck]"
proof -
  let ?days = "period_days timeline w"
  have d: "?days \<noteq> []" "hd ?days = timeline ! pw_startIdx w" "last ?days = timeline ! pw_endIdx w"
    using assms(4) by (simp_all add: period_days_def hd_map last_map del: upt_Suc)
  have "balanced (hd ?days)" "balanced (last ?days)" using assms(3-5) by (simp_all add: d)
  from residual [OF assms(2) d(1) this, of fl "td_v (hd ?days)"]
  obtain items total where "computePeriodItems fl iter ?days (td_v (hd ?days)) = (items, total)"
    "td_v (last ?days) - td_v (hd ?days) - total = unexplained ?days" by (metis prod.collapse)
  then show ?thesis using assms(1,6) by (auto simp: computePeriod_def Let_def exact_def d)
qed

lemma skip_zero:
  fixes tl :: "'f::linordered_field timelineDay list"
  shows "i \<le> skip_zero tl i n" "skip_zero tl i n \<le> i + n" "skip_zero tl i n < i + n \<Longrightarrow> td_v (tl ! skip_zero tl i n) \<noteq> 0"
  by (induction tl i n rule: skip_zero.induct) auto

lemma window_bounds:
  fixes timeline :: "'f::linordered_field timelineDay list"
  assumes "w \<in> set (buildPeriodWindows timeline)"
  shows "pw_startIdx w < pw_endIdx w" "pw_endIdx w = length timeline - 1" "td_v (timeline ! pw_startIdx w) \<noteq> 0"
proof -
  obtain pid label start where w: "w \<in> set (window_of timeline (pid, label, start))"
    using assms by (auto simp: buildPeriodWindows_def period_specs_def)
  then obtain i where "w = \<lparr>pw_id = pid, pw_label = label, pw_startIdx = skip_zero timeline i (length timeline - 1 - i), pw_endIdx = length timeline - 1\<rparr>"
    "i < length timeline - 1" "skip_zero timeline i (length timeline - 1 - i) < length timeline - 1"
    by (auto simp: window_of_def Let_def split: if_splits option.splits)
  then show "pw_startIdx w < pw_endIdx w" "pw_endIdx w = length timeline - 1" "td_v (timeline ! pw_startIdx w) \<noteq> 0"
    using skip_zero(3) [of timeline i "length timeline - 1 - i"] by auto
qed

subsection \<open>Which snapshots pass the residual check\<close>

lemma put_tx_simps [simp]: "td_positions (put_tx d t) = td_positions d" "td_v (put_tx d t) = td_v d" "td_date (put_tx d t) = td_date d"
  by (simp_all add: put_tx_def applyTxFlow_def Let_def)

lemma put_txs_simps [simp]:
  "td_positions (foldl put_tx d ts) = td_positions d" "td_v (foldl put_tx d ts) = td_v d" "td_date (foldl put_tx d ts) = td_date d"
  by (induction ts arbitrary: d) simp_all

lemma put_positions_simps [simp]:
  "td_v (foldl put_position d rs) = td_v d" "td_date (foldl put_position d rs) = td_date d" "td_flows (foldl put_position d rs) = td_flows d"
  by (induction rs arbitrary: d) (simp_all add: put_position_def)

lemma flow_of_flows:
  "flow_of (d\<lparr>td_flows := add_flow k x fl\<rparr>) j = flow_of (d\<lparr>td_flows := fl\<rparr>) j + (if j = k then x else (0 :: 'f::linordered_field))"
  "flow_of (d\<lparr>td_flows := sub_flow k x fl\<rparr>) j = flow_of (d\<lparr>td_flows := fl\<rparr>) j - (if j = k then x else (0 :: 'f::linordered_field))"
  by (auto simp: flow_of_def add_flow_def sub_flow_def update_conv')

lemma flow_of_put_tx: "flow_of (put_tx d t) k = flow_of d k + tx_flow t k"
  by (auto simp: put_tx_def applyTxFlow_def Let_def flow_of_flows tx_flow_def asset_flow_def cash_flow_def key_of_def)

lemma flow_of_put_txs: "flow_of (foldl put_tx d ts) k = flow_of d k + (\<Sum>t\<leftarrow>ts. tx_flow t k)"
  by (induction ts arbitrary: d) (simp_all add: flow_of_put_tx)

lemma update_new_key: "k \<notin> fst ` set al \<Longrightarrow> AList.update k v al = al @ [(k, v)]"
  by (induction al) auto

lemma put_positions:
  assumes "distinct (map fst (td_positions d) @ map (\<lambda>r. (ps_ticker r, ps_figi r)) rs)"
  shows "td_positions (foldl put_position d rs) = td_positions d @ map (\<lambda>r. ((ps_ticker r, ps_figi r), ps_market_value r, ps_quantity r)) rs"
  using assms
proof (induction rs arbitrary: d)
  case (Cons r rs)
  have "(ps_ticker r, ps_figi r) \<notin> fst ` set (td_positions d)" using Cons.prems by auto
  then have "td_positions (put_position d r) = td_positions d @ [((ps_ticker r, ps_figi r), ps_market_value r, ps_quantity r)]"
    by (simp add: put_position_def update_new_key)
  with Cons.IH [of "put_position d r"] Cons.prems show ?case by auto
qed simp

text \<open>The positions of a snapshot on one day, and that its books balance: the value of every day of the
  equity curve is that of the positions of the day.\<close>

definition positions_on :: "'f snapshot \<Rightarrow> string \<Rightarrow> 'f position_row list" where
  "positions_on sn ds = filter (\<lambda>p. ps_date p = ds) (sn_positions sn)"

definition books_balance :: "'f::linordered_field snapshot \<Rightarrow> bool" where
  "books_balance sn \<longleftrightarrow> (\<forall>r \<in> set (perf_rows sn). distinct (map (\<lambda>p. (ps_ticker p, ps_figi p)) (positions_on sn (pf_date r)))
     \<and> pf_value r = sum_list (map ps_market_value (positions_on sn (pf_date r))))"

definition window_dates :: "'f snapshot \<Rightarrow> periodWindow \<Rightarrow> string list" where
  "window_dates sn w = drop (pw_startIdx w) (map pf_date (perf_rows sn))"

definition held_in :: "'f snapshot \<Rightarrow> periodWindow \<Rightarrow> tickerKey set" where
  "held_in sn w = (\<lambda>p. (ps_ticker p, ps_figi p)) ` set (filter (\<lambda>p. ps_date p \<in> set (window_dates sn w)) (sn_positions sn))"

definition moved_in :: "'f::linordered_field snapshot \<Rightarrow> periodWindow \<Rightarrow> 'f" where
  "moved_in sn w = (\<Sum>t\<leftarrow>filter (\<lambda>t. tx_date t \<in> set (tl (window_dates sn w))) (sn_transactions sn). \<Sum>k\<in>held_in sn w. tx_flow t k)"

lemma day_of_balanced:
  fixes sn :: "'f::linordered_field snapshot"
  assumes "books_balance sn" and "r \<in> set (perf_rows sn)"
  shows "balanced (day_of sn r)" "fst ` set (td_positions (day_of sn r)) = (\<lambda>p. (ps_ticker p, ps_figi p)) ` set (positions_on sn (pf_date r))"
  using assms put_positions [of "\<lparr>td_date = the (time_Parse (pf_date r)), td_v = pf_value r, td_positions = [], td_flows = []\<rparr>" "positions_on sn (pf_date r)"]
  by (auto simp: day_of_def balanced_def books_balance_def comp_def image_image simp flip: positions_on_def)

lemma period_days_drop: "pw_endIdx w = length timeline - 1 \<Longrightarrow> timeline \<noteq> [] \<Longrightarrow> period_days timeline w = drop (pw_startIdx w) timeline"
  by (rule nth_equalityI) (simp_all add: period_days_def del: upt_Suc)

lemma sum_list_sum_swap: "(\<Sum>t\<leftarrow>ts. \<Sum>k\<in>K. f t k) = (\<Sum>k\<in>K. \<Sum>t\<leftarrow>ts. (f t k :: 'f::linordered_field))"
  by (induction ts) (simp_all add: sum.distrib)

lemma sum_by_date:
  fixes g :: "'f::linordered_field tx_row \<Rightarrow> 'f"
  assumes "distinct dates"
  shows "(\<Sum>ds\<leftarrow>dates. \<Sum>t\<leftarrow>filter (\<lambda>t. tx_date t = ds) ts. g t) = (\<Sum>t\<leftarrow>filter (\<lambda>t. tx_date t \<in> set dates) ts. g t)"
proof -
  have one: "(\<Sum>ds\<leftarrow>dates. if tx_date t = ds then g t else 0) = (if tx_date t \<in> set dates then g t else 0)" for t
    using assms by (induction dates) auto
  show ?thesis using assms
  proof (induction ts)
    case (Cons t ts)
    have "(\<Sum>ds\<leftarrow>dates. \<Sum>t\<leftarrow>filter (\<lambda>t. tx_date t = ds) (t # ts). g t)
      = (\<Sum>ds\<leftarrow>dates. (if tx_date t = ds then g t else 0) + (\<Sum>t\<leftarrow>filter (\<lambda>t. tx_date t = ds) ts. g t))"
      by (intro arg_cong [where f = sum_list] map_cong) auto
    with Cons one [of t] show ?case by (simp add: sum_list_addf)
  qed simp
qed

lemma unexplained_moved:
  fixes sn :: "'f::linordered_field snapshot"
  assumes "readable sn" and "books_balance sn" and "pw_endIdx w = length (perf_rows sn) - 1" and "perf_rows sn \<noteq> []"
  shows "unexplained (period_days (map (day_of sn) (perf_rows sn)) w) = moved_in sn w"
proof -
  let ?rs = "drop (pw_startIdx w) (perf_rows sn)"
  have days: "period_days (map (day_of sn) (perf_rows sn)) w = map (day_of sn) ?rs"
    using assms by (simp add: period_days_drop drop_map)
  have rs: "set ?rs \<subseteq> set (perf_rows sn)" by (rule set_drop_subset)
  then have "set (period_keys (map (day_of sn) ?rs)) = held_in sn w"
    using day_of_balanced(2) [OF assms(2)]
    by (auto simp: period_keys_def held_in_def window_dates_def positions_on_def drop_map image_iff subset_iff)
  moreover have "flow_of (day_of sn r) k = (\<Sum>t\<leftarrow>filter (\<lambda>t. tx_date t = pf_date r) (sn_transactions sn). tx_flow t k)" for r k
    by (simp add: day_of_def flow_of_put_txs) (simp add: flow_of_def)
  moreover have "distinct (map pf_date (tl ?rs))" using assms(1) by (simp add: readable_def map_tl distinct_tl flip: drop_map)
  then have "(\<Sum>r\<leftarrow>tl ?rs. \<Sum>t\<leftarrow>filter (\<lambda>t. tx_date t = pf_date r) (sn_transactions sn). tx_flow t k)
      = (\<Sum>t\<leftarrow>filter (\<lambda>t. tx_date t \<in> set (tl (window_dates sn w))) (sn_transactions sn). tx_flow t k)" for k
    using sum_by_date [of "map pf_date (tl ?rs)" "\<lambda>t. tx_flow t k" "sn_transactions sn"]
    by (simp add: window_dates_def drop_map map_tl comp_def)
  ultimately show ?thesis
    unfolding days unexplained_def moved_in_def by (simp add: map_tl [symmetric] comp_def sum_list_sum_swap)
qed

lemma mapR_Inl: "mapR f xs = Inl e \<Longrightarrow> \<exists>x \<in> set xs. f x = Inl e"
  by (induction xs) (auto simp: andR_def split: sum.splits)

text \<open>
  Which snapshots the holdings impact is reported for. In exact arithmetic, for a readable
  snapshot whose equity is on every day the value of its positions: the request succeeds exactly when
  in every period what the transactions after its first day move into the holdings that have a
  position in the period is within the tolerance of 1e-4 dollars, and otherwise it fails with
  \<open>ErrResidualCheck\<close>. What cash and an asset exchange cancels out, so that trading, dividends, fees
  and interest are attributed; a deposit, a withdrawal, or a dividend of a ticker with no position in
  the period leaves its whole amount.
\<close>

lemma HoldingsImpact_accepts_iff:
  fixes sn :: "'f::linordered_field snapshot"
  assumes "readable sn" and "perf_rows sn \<noteq> []" and "books_balance sn" and "exact fl" and "any_order iter"
  shows "if \<forall>w \<in> set (buildPeriodWindows (map (day_of sn) (perf_rows sn))). \<bar>moved_in sn w\<bar> \<le> of_rat (1 / 10000)
    then \<exists>out. Reader_HoldingsImpact quote fl iter sn slug topN = Inr out
    else \<exists>e. Reader_HoldingsImpact quote fl iter sn slug topN = Inl e \<and> err_chain e = [ErrResidualCheck]"
proof -
  let ?tl = "map (day_of sn) (perf_rows sn)" and ?n = "clampTopN topN"
  have bal: "\<forall>d \<in> set ?tl. balanced d" using day_of_balanced(1) [OF assms(3)] by auto
  have period: "if \<bar>moved_in sn w\<bar> \<le> of_rat (1 / 10000) then \<exists>p. computePeriod fl iter ?tl w ?n = Inr p
      else \<exists>e. computePeriod fl iter ?tl w ?n = Inl e \<and> err_chain e = [ErrResidualCheck]"
    if "w \<in> set (buildPeriodWindows ?tl)" for w
    using computePeriod_residual [OF assms(4,5) bal, of w ?n] window_bounds [OF that] unexplained_moved [OF assms(1,3) _ assms(2), of w]
    by simp
  have run: "Reader_HoldingsImpact quote fl iter sn slug topN = andR (mapR (\<lambda>w. computePeriod fl iter ?tl w ?n) (buildPeriodWindows ?tl)) (\<lambda>periods.
       Inr \<lparr>ir_PortfolioSlug = slug, ir_AsOf = td_date (last ?tl), ir_Currency = ''USD'', ir_Periods = periods\<rparr>)"
    using assms(2) by (simp add: Reader_HoldingsImpact_def load_timeline [OF assms(1)])
  show ?thesis
  proof (cases "mapR (\<lambda>w. computePeriod fl iter ?tl w ?n) (buildPeriodWindows ?tl)")
    case (Inl e)
    from mapR_Inl [OF this] obtain w where "w \<in> set (buildPeriodWindows ?tl)" "computePeriod fl iter ?tl w ?n = Inl e" by blast
    with period [of w] Inl run show ?thesis by (auto split: if_splits)
  next
    case (Inr ps)
    then have "\<exists>p. computePeriod fl iter ?tl w ?n = Inr p" if "w \<in> set (buildPeriodWindows ?tl)" for w
      using that unfolding mapR_Inr by (auto simp: list_all2_conv_all_nth in_set_conv_nth)
    then have "\<forall>w \<in> set (buildPeriodWindows ?tl). \<bar>moved_in sn w\<bar> \<le> of_rat (1 / 10000)"
      using period by (metis Inl_Inr_False)
    with Inr run show ?thesis by simp
  qed
qed

lemma exact_rat_exact: "exact exact_rat"
  by (auto simp: exact_def exact_rat_def floor_eq_iff ceiling_eq_iff)

text \<open>A portfolio of cash that receives a deposit of 50 dollars on its second day.\<close>

definition demo_deposit :: "rat snapshot" where
  "demo_deposit = demo_snapshot\<lparr>sn_perf := [\<lparr>pf_date = ''2024-01-02'', pf_metric = ''portfolio_value'', pf_value = 100\<rparr>,
       \<lparr>pf_date = ''2024-01-03'', pf_metric = ''portfolio_value'', pf_value = 150\<rparr>],
     sn_positions := [\<lparr>ps_date = ''2024-01-02'', ps_ticker = ''$CASH'', ps_figi = [], ps_market_value = 100, ps_quantity = 100\<rparr>,
       \<lparr>ps_date = ''2024-01-03'', ps_ticker = ''$CASH'', ps_figi = [], ps_market_value = 150, ps_quantity = 150\<rparr>],
     sn_transactions := [\<lparr>tx_batch = 1, tx_date = ''2024-01-03'', tx_type = ''deposit'', tx_ticker = Some [], tx_figi = Some [], tx_quantity = Some 50,
       tx_price = Some 1, tx_amount = Some 50, tx_qualified = None, tx_justification = None\<rparr>]\<rparr>"

lemma demo_deposit_facts:
  "readable demo_deposit" "perf_rows demo_deposit \<noteq> []" "books_balance demo_deposit"
  "\<exists>p \<in> set (buildPeriodWindows (map (day_of demo_deposit) (perf_rows demo_deposit))). moved_in demo_deposit p = 50"
proof -
  have rows: "perf_rows demo_deposit = sn_perf demo_deposit" by code_simp
  have parse: "time_Parse ''2024-01-02'' = Some (Date 2024 1 2)" "time_Parse ''2024-01-03'' = Some (Date 2024 1 3)" by code_simp+
  show "readable demo_deposit"
    using parse unfolding readable_def rows by (simp add: healthy_def demo_deposit_def demo_snapshot_def booked_def)
  show "perf_rows demo_deposit \<noteq> []" unfolding rows by (simp add: demo_deposit_def)
  show "books_balance demo_deposit"
    unfolding books_balance_def rows by (simp add: positions_on_def demo_deposit_def)
  let ?w = "\<lparr>pw_id = ''ytd'', pw_label = ''Year to date'', pw_startIdx = 0, pw_endIdx = 1\<rparr>"
  have w: "buildPeriodWindows (map (day_of demo_deposit) (perf_rows demo_deposit)) =
    [\<lparr>pw_id = ''inception'', pw_label = ''Since inception'', pw_startIdx = 0, pw_endIdx = 1\<rparr>, ?w]" unfolding rows by code_simp
  have "held_in demo_deposit ?w = {cashKey}"
    unfolding held_in_def window_dates_def rows by (auto simp: demo_deposit_def cashKey_def cashTicker_def)
  then have "moved_in demo_deposit ?w = 50"
    unfolding moved_in_def window_dates_def rows
    by (simp add: demo_deposit_def tx_flow_def key_of_def cashKey_def cashTicker_def cash_flow_def asset_flow_def)
  then show "\<exists>p \<in> set (buildPeriodWindows (map (day_of demo_deposit) (perf_rows demo_deposit))). moved_in demo_deposit p = 50"
    unfolding w by simp
qed

subsection \<open>The items of a period\<close>

lemma stable_insert_map: "stable_insert lt (f x) (map f ys) = map f (stable_insert (\<lambda>a b. lt (f a) (f b)) x ys)"
  by (induction ys) auto

lemma SliceStable_map: "SliceStable lt (map f xs) = map f (SliceStable (\<lambda>a b. lt (f a) (f b)) xs)"
  by (induction xs) (simp_all add: SliceStable_def stable_insert_map)

lemma mset_stable_insert: "mset (stable_insert lt x ys) = add_mset x (mset ys)"
  by (induction ys) auto

lemma mset_SliceStable [simp]: "mset (SliceStable lt xs) = mset xs"
  by (induction xs) (simp_all add: SliceStable_def mset_stable_insert)

lemma sorted_stable_insert:
  assumes "\<And>a b. lt a b \<Longrightarrow> R a b" and "\<And>a b. \<not> lt a b \<Longrightarrow> R b a" and "transp R" and "sorted_wrt R ys"
  shows "sorted_wrt R (stable_insert lt x ys)"
  using assms(4)
proof (induction ys)
  case (Cons y ys)
  have "set (stable_insert lt x ys) = insert x (set ys)" by (metis mset_stable_insert set_mset_add_mset_insert set_mset_mset)
  then show ?case using Cons assms(1) [of y x] assms(2) [of y x] transpD [OF assms(3), of x y] by auto
qed simp

lemma sorted_SliceStable:
  assumes "\<And>a b. lt a b \<Longrightarrow> R a b" and "\<And>a b. \<not> lt a b \<Longrightarrow> R b a" and "transp R"
  shows "sorted_wrt R (SliceStable lt xs)"
  by (induction xs) (simp_all add: SliceStable_def sorted_stable_insert assms)

lemma round6_exact:
  assumes "exact fl"
  shows "\<exists>i. round6 fl x = of_int i / 1000000" "round6 fl (of_int i / 1000000) = of_int i / 1000000"
  using assms by (auto simp: round6_def exact_def)

lemma round6_sum:
  assumes "exact fl"
  shows "\<exists>i. (\<Sum>x\<leftarrow>xs. round6 fl (g x)) = of_int i / 1000000"
proof (induction xs)
  case (Cons x xs)
  then obtain i where "(\<Sum>x\<leftarrow>xs. round6 fl (g x)) = of_int i / 1000000" by blast
  moreover obtain j where "round6 fl (g x) = of_int j / 1000000" using round6_exact(1) [OF assms] by blast
  ultimately show ?case by (intro exI [of _ "j + i"]) (simp add: add_divide_distrib)
qed (auto intro: exI [of _ 0])

lemma sorted_split:
  assumes "sorted_wrt R xs" and "k \<in> set (take n xs)" and "j \<in> set (drop n xs)"
  shows "R k j"
  using assms sorted_wrt_append [of R "take n xs" "drop n xs"] by simp

lemma sorted_items:
  fixes f :: "'k \<Rightarrow> 'f::linordered_field HoldingsImpactItem"
  assumes "exact fl"
  shows "sorted_wrt (\<lambda>a b. \<bar>hi_Contribution (f b)\<bar> \<le> \<bar>hi_Contribution (f a)\<bar>) (SliceStable (\<lambda>a b. item_less fl (f a) (f b)) ks)"
  by (rule sorted_SliceStable) (use assms in \<open>auto simp: item_less_def Let_def exact_def intro: transpI order.trans split: if_splits\<close>)



text \<open>Two tickers and cash: one gains 20, the other loses 5 dollars of 200.\<close>

definition demo_day :: "nat \<Rightarrow> rat \<Rightarrow> rat \<Rightarrow> rat timelineDay" where
  "demo_day n a b = \<lparr>td_date = Date 2024 1 n, td_v = a + b + 50, td_positions = [((''$CASH'', []), 50, 50), ((''VTI'', ''F1''), a, 1), ((''BND'', ''F2''), b, 1)],
     td_flows = []\<rparr>"


end
