(* ===== verification/Opener.thy ===== *)
theory Opener
  imports Impact Handler_Behaviour
begin

text \<open>
  Opening a snapshot for the portfolio handlers, \<open>snapshot/opener.go\<close> and \<open>snapshot/reader.go\<close>: the
  adapter that presents the readers as the handler's \<open>SnapshotReader\<close> and renames the package's
  not-found. SQLite is the function \<open>sqlite\<close> from the bytes of a file to its tables, and \<open>encoders\<close>
  the JSON encoder on the answers.
\<close>

record 'f encoders =
  en_Summary :: "'f PortfolioSummary \<Rightarrow> string"
  en_Drawdowns :: "'f Drawdown list \<Rightarrow> string"
  en_Statistics :: "'f PortfolioStatistic list \<Rightarrow> string"
  en_TrailingReturns :: "'f TrailingReturnRow list \<Rightarrow> string"
  en_Holdings :: "'f HoldingsResponse \<Rightarrow> string"
  en_HoldingsAsOf :: "'f HoldingsAsOfResponse \<Rightarrow> string"
  en_HoldingsHistory :: "'f HoldingsHistoryEntry list \<Rightarrow> string"
  en_HoldingsImpact :: "'f HoldingsImpactResponse \<Rightarrow> string"
  en_Performance :: "'f PortfolioPerformance \<Rightarrow> string"
  en_Transactions :: "'f Transaction list \<Rightarrow> string"
  en_Metrics :: "'f PortfolioMetrics \<Rightarrow> string"
  en_Prediction :: "'f PredictionResponse \<Rightarrow> string"

text \<open>Numbers, the quoting of \<open>%q\<close> and the orders in which the two maps are iterated.\<close>

record 'f reading =
  re_flt :: "'f flt"
  re_quote :: "string \<Rightarrow> string"
  re_positions :: "(string \<times> 'f) list \<Rightarrow> (string \<times> 'f) list"
  re_keys :: "tickerKey list \<Rightarrow> tickerKey list"
  re_json :: "'f encoders"

definition snapshot_not_found :: error where
  "snapshot_not_found = Error [ErrSnapshotNotFound] ''snapshot not found''"

definition adapt :: "('a \<Rightarrow> string) \<Rightarrow> 'a result \<Rightarrow> string result" where
  "adapt enc r = (case r of Inl e \<Rightarrow> Inl e | Inr x \<Rightarrow> Inr (enc x))"

definition adapt_not_found :: "('a \<Rightarrow> string) \<Rightarrow> 'a result \<Rightarrow> string result" where
  "adapt_not_found enc r =
     (case r of Inl e \<Rightarrow> if errors_Is e SnapErrNotFound then Inl snapshot_not_found else Inl e | Inr x \<Rightarrow> Inr (enc x))"

definition readerAdapter :: "'f::{plus,minus,uminus,times,inverse,zero,one,ord} reading \<Rightarrow> 'f snapshot \<Rightarrow> SnapshotReader" where
  "readerAdapter re sn =
     \<lparr>rd_Summary = adapt (en_Summary (re_json re)) (Reader_Summary (re_quote re) sn),
      rd_Drawdowns = adapt (en_Drawdowns (re_json re)) (Reader_Drawdowns (re_flt re) sn),
      rd_Statistics = adapt (en_Statistics (re_json re)) (Reader_Statistics sn),
      rd_TrailingReturns = adapt (en_TrailingReturns (re_json re)) (Reader_TrailingReturns sn),
      rd_CurrentHoldings = adapt (en_Holdings (re_json re)) (CurrentHoldings (re_quote re) sn),
      rd_HoldingsAsOf = (\<lambda>d. adapt_not_found (en_HoldingsAsOf (re_json re)) (Reader_HoldingsAsOf (re_quote re) sn d)),
      rd_HoldingsHistory = (\<lambda>from to. adapt (en_HoldingsHistory (re_json re)) (Reader_HoldingsHistory (re_positions re) sn from to)),
      rd_HoldingsImpact = (\<lambda>slug topN. adapt_not_found (en_HoldingsImpact (re_json re)) (Reader_HoldingsImpact (re_quote re) (re_flt re) (re_keys re) sn slug topN)),
      rd_Performance = (\<lambda>slug from to. adapt (en_Performance (re_json re)) (Reader_Performance (re_quote re) sn slug from to)),
      rd_Transactions = (\<lambda>f. adapt (en_Transactions (re_json re)) (Reader_Transactions (re_quote re) sn f)),
      rd_Metrics = (\<lambda>windows metrics. adapt (en_Metrics (re_json re)) (Reader_Metrics sn windows metrics)),
      rd_Prediction = adapt_not_found (en_Prediction (re_json re)) (Reader_Prediction (re_quote re) sn)\<rparr>"

text \<open>\<open>Open\<close> connects and pings; the two errors are those of \<open>sqlite\<close>, already wrapped.\<close>

definition Opener_Open :: "(string \<Rightarrow> 'f snapshot result) \<Rightarrow> 'f::{plus,minus,uminus,times,inverse,zero,one,ord} reading \<Rightarrow> string \<Rightarrow> SnapshotReader result" where
  "Opener_Open sqlite re content = (case sqlite content of Inl e \<Rightarrow> Inl e | Inr sn \<Rightarrow> Inr (readerAdapter re sn))"

section \<open>Requests on a snapshot\<close>

text \<open>A portfolio of the caller that is ready and whose snapshot file is the snapshot \<open>sn\<close>.\<close>

definition serves :: "(string \<Rightarrow> 'f snapshot result) \<Rightarrow> request \<Rightarrow> world \<Rightarrow> 'f snapshot \<Rightarrow> bool" where
  "serves sqlite c w sn \<longleftrightarrow> w_outcomes w = [] \<and> (\<exists>sub p path content. subject c = Inr sub
     \<and> List.find (owned sub (c_Params c ''slug'')) (w_portfolios w) = Some p \<and> p_Status p = StatusReady \<and> p_SnapshotPath p = Some path
     \<and> path \<noteq> [] \<and> w_files w path = Some content \<and> sqlite content = Inr sn)"

definition answer :: "nat \<Rightarrow> body \<Rightarrow> world \<Rightarrow> world" where
  "answer status b w = w\<lparr>w_resp := Some \<lparr>rs_status = status, rs_body = b\<rparr>\<rparr>"

lemma readSnapshot_serves:
  assumes "serves sqlite c w sn" and "lib_Marshal lb = (\<lambda>_. True)"
  shows "run_state (readSnapshot lb (pool_handler (Opener_Open sqlite re) build describe validator inside dir) c fn) w = (Inr (),
    (case fn (readerAdapter re sn) of
       Inr out \<Rightarrow> answer 200 (DataBody out) w
     | Inl e \<Rightarrow> if errors_Is e NotFoundSentinel then answer 404 (ProblemBody ''Not Found'' 404 ''not found'') w
                else answer 500 (ProblemBody ''Internal Server Error'' 500 (err_text e)) w))"
proof -
  obtain sub p path content where w: "w_outcomes w = []" "subject c = Inr sub" "List.find (owned sub (c_Params c ''slug'')) (w_portfolios w) = Some p"
    "p_Status p = StatusReady" "p_SnapshotPath p = Some path" "path \<noteq> []" "w_files w path = Some content" "sqlite content = Inr sn"
    using assms(1) by (auto simp: serves_def)
  have get: "run_state (Get sub (c_Params c ''slug'')) w = (Inr p, w)" using w(1,3) by (simp add: Get_def)
  show ?thesis
    using w(2,4-8) assms(2)
    by (auto simp: readSnapshot_def with_portfolio_def get pool_handler_def Opener_Open_def ctx_JSON_def ise_def writeProblem_def send_def answer_def Let_def
        split: sum.splits)
qed

text \<open>
  C11. The holdings of a past day over HTTP. For the caller's ready portfolio whose snapshot file
  opens, in exact arithmetic: a day outside the snapshot's dates is answered with 404, and a day
  inside, when the transactions up to it are complete, nothing is sold that is not held and splits
  have a positive ratio, with 200 and the position of every ticker that has shares left, by ticker and
  once each, with the number of shares and the average price paid that the average-cost method gives
  for the transactions of that ticker alone. Nothing else changes.
\<close>

theorem HoldingsAsOf_request:
  fixes sn :: "'f::linordered_field snapshot"
  assumes "serves sqlite c w sn" and "lib_Marshal lb = (\<lambda>_. True)" and "time_Parse (c_Params c ''date'') = Some d"
    and "healthy sn" and "readDateWindow (re_quote re) sn = Inr (a, b)"
    and "a \<le> d \<and> d \<le> b \<Longrightarrow> \<forall>t \<in> set (txs_until sn d). complete_tx t"
    and "a \<le> d \<and> d \<le> b \<Longrightarrow> \<forall>k. k \<noteq> [] \<longrightarrow> fits (0, 0) (trades_of k (txs_until sn d))"
  shows "if a \<le> d \<and> d \<le> b
    then \<exists>out. run_state (HoldingsAsOf lb (pool_handler (Opener_Open sqlite re) build describe validator inside dir) c) w
          = (Inr (), answer 200 (DataBody (en_HoldingsAsOf (re_json re) out)) w)
        \<and> sorted_wrt (<) (map hh_Ticker (ha_Items out))
        \<and> (\<forall>k q avg. k \<noteq> [] \<and> foldl avg_step (0, 0) (trades_of k (txs_until sn d)) = (q, avg) \<longrightarrow>
            (k \<in> hh_Ticker ` set (ha_Items out) \<longleftrightarrow> 0 < q)
            \<and> (\<forall>h \<in> set (ha_Items out). hh_Ticker h = k \<longrightarrow> hh_Quantity h = q \<and> hh_AvgCost h = avg))
    else run_state (HoldingsAsOf lb (pool_handler (Opener_Open sqlite re) build describe validator inside dir) c) w
          = (Inr (), answer 404 (ProblemBody ''Not Found'' 404 ''not found'') w)"
proof (cases "a \<le> d \<and> d \<le> b")
  case True
  then obtain out where out: "Reader_HoldingsAsOf (re_quote re) sn d = Inr out" "sorted_wrt (<) (map hh_Ticker (ha_Items out))"
    "\<forall>k q avg. k \<noteq> [] \<and> foldl avg_step (0, 0) (trades_of k (txs_until sn d)) = (q, avg) \<longrightarrow>
        (k \<in> hh_Ticker ` set (ha_Items out) \<longleftrightarrow> 0 < q)
        \<and> (\<forall>h \<in> set (ha_Items out). hh_Ticker h = k \<longrightarrow> hh_Quantity h = q \<and> hh_AvgCost h = avg)"
    using HoldingsAsOf_average_cost [OF assms(4,5) _ _ assms(6,7)] by blast
  have "run_state (HoldingsAsOf lb (pool_handler (Opener_Open sqlite re) build describe validator inside dir) c) w
      = (Inr (), answer 200 (DataBody (en_HoldingsAsOf (re_json re) out)) w)"
    by (simp add: HoldingsAsOf_def assms(3) readSnapshot_serves [OF assms(1,2)] readerAdapter_def out(1) adapt_not_found_def or_404_def)
  with out(2,3) show ?thesis unfolding if_P [OF True] by blast
next
  case False
  then have "Reader_HoldingsAsOf (re_quote re) sn d = Inl snap_not_found" using assms(5) by (auto simp: Reader_HoldingsAsOf_def)
  then show ?thesis unfolding if_not_P [OF False]
    by (simp add: HoldingsAsOf_def assms(3) readSnapshot_serves [OF assms(1,2)] readerAdapter_def adapt_not_found_def snap_not_found_def
        snapshot_not_found_def or_404_def not_found_sentinel_def errors_Is_def)
qed

definition demo_reading :: "rat reading" where
  "demo_reading = \<lparr>re_flt = exact_rat, re_quote = id, re_positions = id, re_keys = id,
     re_json = \<lparr>en_Summary = \<lambda>_. [], en_Drawdowns = \<lambda>_. [], en_Statistics = \<lambda>_. [], en_TrailingReturns = \<lambda>_. [], en_Holdings = \<lambda>_. [],
       en_HoldingsAsOf = \<lambda>out. concat (map hh_Ticker (ha_Items out)), en_HoldingsHistory = \<lambda>_. [], en_HoldingsImpact = \<lambda>_. [], en_Performance = \<lambda>_. [],
       en_Transactions = \<lambda>_. [], en_Metrics = \<lambda>_. [], en_Prediction = \<lambda>_. []\<rparr>\<rparr>"

definition demo_day_request :: request where
  "demo_day_request = (demo_request ''auth0|u'' ''adm-custom-aaaa'')\<lparr>c_Params := (\<lambda>k. if k = ''slug'' then ''adm-custom-aaaa'' else ''2024-01-04'')\<rparr>"

definition demo_files :: world where
  "demo_files = demo_world\<lparr>w_files := [''/snap/4'' \<mapsto> ''sqlite'']\<rparr>"

lemma demo_serves: "serves (\<lambda>_. Inr sn) demo_day_request demo_files sn"
  by (simp add: serves_def demo_files_def demo_day_request_def demo_request_def subject_def owned_def demo_portfolio_def)

theorem HoldingsAsOf_request_witness:
  "\<exists>out. run_state (HoldingsAsOf demo_lib (pool_handler (Opener_Open (\<lambda>_. Inr demo_book) demo_reading) Inr (\<lambda>_. Inl (Error [] [])) (\<lambda>_. Inr ()) (\<lambda>_ _. False) ''/snap'') demo_day_request) demo_files
        = (Inr (), answer 200 (DataBody (en_HoldingsAsOf (re_json demo_reading) out)) demo_files)
     \<and> (\<forall>h \<in> set (ha_Items out). hh_Ticker h = ''VTI'' \<longrightarrow> hh_Quantity h = 150 \<and> hh_AvgCost h = 15)"
proof -
  have trades: "trades_of k (txs_until demo_book (Date 2024 1 4)) = (if k = ''VTI'' then [(''buy'', 100, 10), (''buy'', 100, 20), (''sell'', 50, 30)] else [])" for k
    unfolding demo_book_simps(3) by (auto simp: trades_of_def demo_tx_def)
  have c: "\<forall>t \<in> set (txs_until demo_book (Date 2024 1 4)). complete_tx t"
    unfolding demo_book_simps(3) by (auto simp: complete_tx_def demo_tx_def)
  have f: "\<forall>k. k \<noteq> [] \<longrightarrow> fits (0, 0) (trades_of k (txs_until demo_book (Date 2024 1 4)))" unfolding trades by simp
  have d: "Date 2024 1 2 \<le> Date 2024 1 4 \<and> Date 2024 1 4 \<le> Date 2024 1 8" by (simp add: less_eq_date_def)
  have vti: "''VTI'' \<noteq> [] \<and> foldl avg_step (0, 0) (trades_of ''VTI'' (txs_until demo_book (Date 2024 1 4))) = (150, 15)" unfolding trades by simp
  have date: "time_Parse (c_Params demo_day_request ''date'') = Some (Date 2024 1 4)" unfolding demo_day_request_def by code_simp
  have m: "lib_Marshal demo_lib = (\<lambda>_. True)" by (simp add: demo_lib_def)
  have q: "readDateWindow (re_quote demo_reading) demo_book = Inr (Date 2024 1 2, Date 2024 1 8)"
    using demo_book_simps(2) by (simp add: demo_reading_def)
  obtain out where out: "run_state (HoldingsAsOf demo_lib (pool_handler (Opener_Open (\<lambda>_. Inr demo_book) demo_reading) Inr (\<lambda>_. Inl (Error [] [])) (\<lambda>_. Inr ()) (\<lambda>_ _. False) ''/snap'') demo_day_request) demo_files
        = (Inr (), answer 200 (DataBody (en_HoldingsAsOf (re_json demo_reading) out)) demo_files)"
    and spec: "\<forall>k q avg. k \<noteq> [] \<and> foldl avg_step (0, 0) (trades_of k (txs_until demo_book (Date 2024 1 4))) = (q, avg) \<longrightarrow>
        (k \<in> hh_Ticker ` set (ha_Items out) \<longleftrightarrow> 0 < q)
        \<and> (\<forall>h \<in> set (ha_Items out). hh_Ticker h = k \<longrightarrow> hh_Quantity h = q \<and> hh_AvgCost h = avg)"
    using HoldingsAsOf_request [OF demo_serves m date demo_book_simps(1) q c f, of Inr "\<lambda>_. Inl (Error [] [])" "\<lambda>_. Inr ()" "\<lambda>_ _. False" "''/snap''"]
    unfolding if_P [OF d] by (elim exE conjE) (rule that)
  from spec [rule_format, OF vti] out show ?thesis by (intro exI [of _ out] conjI) (rule out, blast)
qed



end
