(* ===== verification/Runners.thy ===== *)
theory Runners
  imports Orchestrator
begin

text \<open>
  The two runners, \<open>backtest/host.go\<close> and \<open>backtest/docker.go\<close>, which the orchestrator calls through
  its field \<open>o_runner\<close>. What a process does, and what the Docker client answers to each call after
  those already made, are arguments; the calls a runner makes are part of its result.
\<close>

subsection \<open>Bounded output\<close>

definition firstNBytes :: "string \<Rightarrow> nat \<Rightarrow> string" where
  "firstNBytes s n = (if length s \<le> n then s else take n s)"

text \<open>\<open>logWriter\<close>: the lines logged and the bytes kept for the next write.\<close>

function log_lines :: "string \<Rightarrow> string list \<times> string" where
  "log_lines buf =
     (if newline \<in> set buf
      then let (ls, rest) = log_lines (tl (dropWhile (\<lambda>c. c \<noteq> newline) buf)) in (takeWhile (\<lambda>c. c \<noteq> newline) buf # ls, rest)
      else ([], buf))"
  by pat_completeness auto
termination
proof (relation "measure length")
  fix buf assume "newline \<in> set buf"
  then have "dropWhile (\<lambda>c. c \<noteq> newline) buf \<noteq> []" by (auto simp: dropWhile_eq_Nil_conv)
  then have "length (tl (dropWhile (\<lambda>c. c \<noteq> newline) buf)) < length (dropWhile (\<lambda>c. c \<noteq> newline) buf)" by simp
  also have "\<dots> \<le> length buf" by (rule length_dropWhile_le)
  finally show "(tl (dropWhile (\<lambda>c. c \<noteq> newline) buf), buf) \<in> measure length" by simp
qed simp

declare log_lines.simps [simp del]

record logWriter =
  lw_buf :: string
  lw_logged :: "string list"

definition newLogWriter :: logWriter where
  "newLogWriter = \<lparr>lw_buf = [], lw_logged = []\<rparr>"

definition logWriter_Write :: "logWriter \<Rightarrow> string \<Rightarrow> logWriter" where
  "logWriter_Write w p = (let (ls, rest) = log_lines (lw_buf w @ p) in \<lparr>lw_buf = rest, lw_logged = lw_logged w @ ls\<rparr>)"

definition tailWriter_Write :: "nat \<Rightarrow> string \<Rightarrow> string \<Rightarrow> string" where
  "tailWriter_Write limit buf p =
     (let remaining = int limit - int (length buf) in
      if remaining \<le> 0 then buf
      else if int (length p) > remaining then buf @ take (nat remaining) p
      else buf @ p)"

subsection \<open>The host runner (host.go)\<close>

record process =
  pc_stdout :: "string list"
  pc_stderr :: string
  pc_err :: "string option"
    \<comment> \<open>the error of \<open>cmd.Run\<close>\<close>
  pc_deadline :: bool
    \<comment> \<open>whether the deadline has passed when the process has ended\<close>
  pc_file :: "string option"
  pc_elapsed :: nat

definition strategy_argv :: "RunRequest \<Rightarrow> string list" where
  "strategy_argv req = [''backtest'', ''--output'', rq_OutPath req] @ (if rq_Progress req then [''--json''] else []) @ rq_Args req"

definition kind_error :: "string \<Rightarrow> ArtifactKind \<Rightarrow> error" where
  "kind_error what k = Error [ErrArtifactKindMismatch]
     (''backtest: artifact kind mismatch: '' @ what @ '', got '' @ (case k of ArtifactBinary \<Rightarrow> ''0'' | ArtifactImage \<Rightarrow> ''1''))"

definition not_run :: "error \<Rightarrow> run_outcome" where
  "not_run e = \<lparr>ro_stdout = [], ro_file = None, ro_elapsed = 0, ro_err = Some e\<rparr>"

definition timed_out :: "string \<Rightarrow> error" where
  "timed_out err_out = Error [ErrTimedOut] (''backtest: runner timed out: '' @ firstNBytes err_out 2048)"

definition HostRunner_Run :: "(string \<Rightarrow> string list \<Rightarrow> process) \<Rightarrow> bool \<Rightarrow> RunRequest \<Rightarrow> run_outcome" where
  "HostRunner_Run exec canceled req =
     (if rq_ArtifactKind req \<noteq> ArtifactBinary then not_run (kind_error ''HostRunner requires ArtifactBinary'' (rq_ArtifactKind req))
      else
        (let pc = exec (rq_Artifact req) (strategy_argv req) in
         \<lparr>ro_stdout = pc_stdout pc, ro_file = pc_file pc, ro_elapsed = pc_elapsed pc,
          ro_err = (if 0 < rq_Timeout req \<and> pc_deadline pc \<or> canceled then Some (timed_out (pc_stderr pc))
                    else case pc_err pc of
                      None \<Rightarrow> None
                    | Some e \<Rightarrow> Some (Error [ErrRunnerFailed] (''backtest: runner failed: '' @ e @ '': '' @ firstNBytes (pc_stderr pc) 2048)))\<rparr>))"

subsection \<open>The Docker runner (docker.go)\<close>

record container_spec =
  cs_Image :: string
  cs_Cmd :: "string list"
  cs_AutoRemove :: bool
  cs_NetworkMode :: string
  cs_NanoCPUs :: int
  cs_Memory :: int
  cs_Mounts :: "(string \<times> string) list"
  cs_Tmpfs :: "(string \<times> string) list"
  cs_Name :: string

datatype docker_call = CreateCall container_spec | StartCall string | LogsCall string | WaitCall string | KillCall string
  | BuildCall "(string \<times> string) list" string | RemoveImageCall string

text \<open>The case of the \<open>select\<close> that fires, and a frame of the log stream.\<close>

datatype wait_event = WaitError error | WaitResult int | CtxDone

datatype log_frame = StdoutFrame string | StderrFrame string

record docker_client =
  dk_ContainerCreate :: "docker_call list \<Rightarrow> container_spec \<Rightarrow> string result"
  dk_ContainerStart :: "docker_call list \<Rightarrow> string \<Rightarrow> unit result"
  dk_ContainerLogs :: "docker_call list \<Rightarrow> string \<Rightarrow> log_frame list result"
  dk_ContainerWait :: "docker_call list \<Rightarrow> string \<Rightarrow> wait_event"
  dk_file :: "docker_call list \<Rightarrow> string option"
    \<comment> \<open>what the container has written to the requested path\<close>
  dk_elapsed :: "docker_call list \<Rightarrow> nat"

record DockerRunner =
  dr_Network :: string
  dr_NanoCPUs :: int
  dr_MemoryBytes :: int
  dr_SnapshotsHostDir :: string
  dr_SnapshotsDir :: string

definition truncID :: "string \<Rightarrow> string" where
  "truncID s = (if length s > 12 then take 12 s else s)"

text \<open>The nil identifier is 0.\<close>

definition containerNameForRun :: "(uuid \<Rightarrow> string) \<Rightarrow> uuid \<Rightarrow> string" where
  "containerNameForRun uuidString runID = (if runID = 0 then [] else ''pvapi-bt-'' @ truncID (uuidString runID))"

definition run_spec :: "(uuid \<Rightarrow> string) \<Rightarrow> DockerRunner \<Rightarrow> RunRequest \<Rightarrow> container_spec" where
  "run_spec uuidString r req =
     \<lparr>cs_Image = rq_Artifact req, cs_Cmd = strategy_argv req, cs_AutoRemove = True, cs_NetworkMode = dr_Network r,
      cs_NanoCPUs = dr_NanoCPUs r, cs_Memory = dr_MemoryBytes r, cs_Mounts = [(dr_SnapshotsHostDir r, dr_SnapshotsDir r)],
      cs_Tmpfs = [(''/tmp'', ''size=256m'')], cs_Name = containerNameForRun uuidString (rq_RunID req)\<rparr>"

fun stdout_of :: "log_frame list \<Rightarrow> string list" where
  "stdout_of [] = []"
| "stdout_of (StdoutFrame s # fs) = s # stdout_of fs"
| "stdout_of (StderrFrame s # fs) = stdout_of fs"

fun stderr_of :: "log_frame list \<Rightarrow> string list" where
  "stderr_of [] = []"
| "stderr_of (StdoutFrame s # fs) = stderr_of fs"
| "stderr_of (StderrFrame s # fs) = s # stderr_of fs"

text \<open>\<open>streamContainerLogs\<close>: what the progress writer is given and the tail of the error output.\<close>

definition streamContainerLogs :: "log_frame list \<Rightarrow> string list \<times> string" where
  "streamContainerLogs frames = (stdout_of frames, foldl (tailWriter_Write 2048) [] (stderr_of frames))"

fun dec_nat :: "nat \<Rightarrow> string" where
  "dec_nat n = (let q = n div 10 in if q = 0 then [digit_char n] else dec_nat q @ [digit_char (n mod 10)])"

declare dec_nat.simps [simp del]

text \<open>The verb \<open>%d\<close>.\<close>

definition dec :: "int \<Rightarrow> string" where
  "dec n = (if 0 \<le> n then [] else ''-'') @ dec_nat (nat \<bar>n\<bar>)"

definition is_timeout :: "error \<Rightarrow> bool" where
  "is_timeout e \<longleftrightarrow> errors_Is e DeadlineExceeded \<or> errors_Is e Canceled"

text \<open>What \<open>Run\<close> does after the container has started: the error and the calls made.\<close>

definition await_container :: "docker_client \<Rightarrow> string \<Rightarrow> docker_call list \<Rightarrow> error option \<times> string list \<times> docker_call list" where
  "await_container dk cid calls =
     (let (progress, tail) = (case dk_ContainerLogs dk calls cid of Inl _ \<Rightarrow> ([], []) | Inr frames \<Rightarrow> streamContainerLogs frames);
          calls1 = calls @ [LogsCall cid, WaitCall cid] in
      case dk_ContainerWait dk (calls @ [LogsCall cid]) cid of
        WaitError e \<Rightarrow>
          if is_timeout e then (Some (timed_out tail), progress, calls1 @ [KillCall cid])
          else (Some (Error (ErrRunnerFailed # err_chain e) (''backtest: runner failed: wait: '' @ err_text e)), progress, calls1)
      | WaitResult st \<Rightarrow>
          (if st \<noteq> 0 then Some (Error [ErrRunnerFailed] (''backtest: runner failed: exit='' @ dec st @ '': '' @ firstNBytes tail 2048)) else None,
           progress, calls1)
      | CtxDone \<Rightarrow> (Some (timed_out tail), progress, calls1 @ [KillCall cid]))"

definition DockerRunner_Run :: "docker_client \<Rightarrow> (uuid \<Rightarrow> string) \<Rightarrow> DockerRunner \<Rightarrow> RunRequest \<Rightarrow> docker_call list \<Rightarrow> run_outcome \<times> docker_call list" where
  "DockerRunner_Run dk uuidString r req calls =
     (if rq_ArtifactKind req \<noteq> ArtifactImage then (not_run (kind_error ''DockerRunner requires ArtifactImage'' (rq_ArtifactKind req)), calls)
      else
        (let spec = run_spec uuidString r req; calls1 = calls @ [CreateCall spec] in
         case dk_ContainerCreate dk calls spec of
           Inl e \<Rightarrow> (not_run (Error (ErrRunnerFailed # err_chain e) (''backtest: runner failed: container create: '' @ err_text e)), calls1)
         | Inr cid \<Rightarrow>
             (case dk_ContainerStart dk calls1 cid of
                Inl e \<Rightarrow> (not_run (Error (ErrRunnerFailed # err_chain e) (''backtest: runner failed: container start: '' @ err_text e)), calls1 @ [StartCall cid])
              | Inr _ \<Rightarrow>
                  (let (err, progress, calls2) = await_container dk cid (calls1 @ [StartCall cid]) in
                   (\<lparr>ro_stdout = progress, ro_file = dk_file dk calls2, ro_elapsed = dk_elapsed dk calls2, ro_err = err\<rparr>, calls2)))))"

section \<open>What the runners keep of the output\<close>

lemma tail_write: "length buf \<le> n \<Longrightarrow> tailWriter_Write n buf p = take n (buf @ p)"
  by (auto simp: tailWriter_Write_def Let_def nat_diff_distrib)

lemma tail_writes: "foldl (tailWriter_Write n) (take n s) ps = take n (s @ concat ps)"
proof (induction ps arbitrary: s)
  case (Cons p ps)
  have "tailWriter_Write n (take n s) p = take n (s @ p)" by (simp add: tail_write min_def)
  with Cons.IH [of "s @ p"] show ?case by simp
qed simp

lemma firstNBytes_take: "firstNBytes s n = take n s"
  by (simp add: firstNBytes_def)

lemma log_lines_step:
  "newline \<notin> set l \<Longrightarrow> log_lines (l @ newline # rest) = (let (ls, r) = log_lines rest in (l # ls, r))"
  "newline \<notin> set l \<Longrightarrow> log_lines l = ([], l)"
  by (subst log_lines.simps; auto simp: takeWhile_append2 dropWhile_append2 takeWhile_append dropWhile_append)+

lemma log_lines_append:
  "log_lines (s @ p) = (let (ls, r) = log_lines s; (ls', r') = log_lines (r @ p) in (ls @ ls', r'))"
proof (induction s rule: log_lines.induct)
  case (1 buf)
  show ?case
  proof (cases "newline \<in> set buf")
    case True
    then obtain l rest where buf: "buf = l @ newline # rest" "newline \<notin> set l" by (meson split_list_first)
    then have tl: "tl (dropWhile (\<lambda>c. c \<noteq> newline) buf) = rest" by (subst buf(1), subst dropWhile_append2) auto
    from 1 [OF True] have IH: "log_lines (rest @ p) = (let (ls, r) = log_lines rest; (ls', r') = log_lines (r @ p) in (ls @ ls', r'))"
      unfolding tl .
    show ?thesis by (simp add: buf log_lines_step IH split: prod.splits)
  next
    case False
    then show ?thesis by (simp add: log_lines_step split: prod.splits)
  qed
qed

text \<open>Cutting the output into writes does not change what is logged.\<close>

lemma logWriter_chunks: "foldl logWriter_Write newLogWriter ps = logWriter_Write newLogWriter (concat ps)"
proof (induction ps rule: rev_induct)
  case Nil
  then show ?case by (simp add: logWriter_Write_def newLogWriter_def log_lines_step)
next
  case (snoc p ps)
  then show ?case
    using log_lines_append [of "concat ps" p] by (simp add: logWriter_Write_def newLogWriter_def split: prod.splits)
qed

section \<open>What a run in a container does\<close>


text \<open>
  What a failed container run reports of its error output are its first 2048 bytes, however the
  log stream was cut into frames, although the code and its comments call it the tail.
\<close>

lemma DockerRunner_reports_head:
  assumes "rq_ArtifactKind req = ArtifactImage" and "dk_ContainerCreate dk calls (run_spec us r req) = Inr cid"
    and "dk_ContainerStart dk (calls @ [CreateCall (run_spec us r req)]) cid = Inr ()"
    and "dk_ContainerLogs dk (calls @ [CreateCall (run_spec us r req), StartCall cid]) cid = Inr frames"
    and "dk_ContainerWait dk (calls @ [CreateCall (run_spec us r req), StartCall cid, LogsCall cid]) cid = WaitResult st" and "st \<noteq> 0"
  shows "\<exists>e. ro_err (fst (DockerRunner_Run dk us r req calls)) = Some e
    \<and> err_text e = ''backtest: runner failed: exit='' @ dec st @ '': '' @ take 2048 (concat (stderr_of frames))"
  using assms tail_writes [of 2048 "[]" "stderr_of frames"]
  by (simp add: DockerRunner_Run_def await_container_def Let_def streamContainerLogs_def firstNBytes_take)


subsection \<open>Container names\<close>

text \<open>The text of a version 7 identifier: the first 48 bits are the time in milliseconds.\<close>

fun hex_w :: "nat \<Rightarrow> nat \<Rightarrow> string" where
  "hex_w 0 n = []"
| "hex_w (Suc w) n = hex_w w (n div 16) @ [hex_digit (n mod 16)]"

definition uuidv7_text :: "nat \<Rightarrow> string \<Rightarrow> string" where
  "uuidv7_text ms rest = hex_w 8 (ms div 65536) @ ''-'' @ hex_w 4 (ms mod 65536) @ ''-7'' @ rest"

lemma length_hex_w [simp]: "length (hex_w w n) = w"
  by (induction w arbitrary: n) simp_all

lemma truncID_uuidv7: "truncID (uuidv7_text ms rest) = hex_w 8 (ms div 65536) @ ''-'' @ hex_w 3 (ms mod 65536 div 16)"
proof -
  have "hex_w 4 n = hex_w 3 (n div 16) @ [hex_digit (n mod 16)]" for n
  proof -
    have "(4 :: nat) = Suc 3" by simp
    then show ?thesis by (simp only: hex_w.simps)
  qed
  then have layout: "uuidv7_text ms rest = (hex_w 8 (ms div 65536) @ ''-'' @ hex_w 3 (ms mod 65536 div 16)) @ hex_digit (ms mod 65536 mod 16) # ''-7'' @ rest"
    by (simp only: uuidv7_text_def append.assoc append.simps)
  have len: "length (hex_w 8 (ms div 65536) @ ''-'' @ hex_w 3 (ms mod 65536 div 16)) = 12" by (simp only: length_append length_hex_w) simp
  show ?thesis unfolding truncID_def layout using len by (simp only: take_append length_append list.size) simp
qed

text \<open>
  C35. Runs that start together can get the same container name. Run identifiers are version 7
  identifiers; the twelve characters of one that go into the name hold its time up to 16 milliseconds.
  So of two runs recorded in the same 16 milliseconds the second one fails while the container of the
  first exists, on a daemon that refuses a name that is in use.
\<close>

theorem container_name_clash:
  assumes "us (rq_RunID req1) = uuidv7_text ms1 rest1" and "us (rq_RunID req2) = uuidv7_text ms2 rest2" and "ms1 div 16 = ms2 div 16"
    and "rq_RunID req1 \<noteq> 0" and "rq_RunID req2 \<noteq> 0" and "rq_ArtifactKind req2 = ArtifactImage"
    and "CreateCall (run_spec us r req1) \<in> set calls"
    and "\<forall>spec1 spec2. CreateCall spec1 \<in> set calls \<and> cs_Name spec2 = cs_Name spec1 \<and> cs_Name spec2 \<noteq> []
        \<longrightarrow> (\<exists>e. dk_ContainerCreate dk calls spec2 = Inl e)"
  shows "\<exists>e. ro_err (fst (DockerRunner_Run dk us r req2 calls)) = Some e \<and> errors_Is e ErrRunnerFailed"
proof -
  have d: "ms div 65536 = ms div 16 div 4096" "ms mod 65536 div 16 = ms div 16 mod 4096" for ms :: nat
    by (simp_all add: div_mult2_eq [symmetric] mod_mult2_eq [of ms 16 4096, simplified])
  have "truncID (us (rq_RunID req1)) = truncID (us (rq_RunID req2))"
    using assms(3) by (simp only: assms(1,2) truncID_uuidv7 d)
  then have "cs_Name (run_spec us r req2) = cs_Name (run_spec us r req1)" "cs_Name (run_spec us r req2) \<noteq> []"
    using assms(4,5) by (simp_all add: run_spec_def containerNameForRun_def)
  with assms(7,8) obtain e where "dk_ContainerCreate dk calls (run_spec us r req2) = Inl e" by blast
  with assms(6) show ?thesis by (simp add: DockerRunner_Run_def Let_def not_run_def errors_Is_def)
qed

subsection \<open>Examples\<close>

text \<open>A daemon that names its containers by the number of calls, runs every container with the given end
  and refuses a name in use.\<close>

definition demo_daemon :: "log_frame list \<Rightarrow> wait_event \<Rightarrow> docker_client" where
  "demo_daemon frames ev = \<lparr>
     dk_ContainerCreate = (\<lambda>calls spec. if cs_Name spec \<noteq> [] \<and> (\<exists>c \<in> set calls. case c of CreateCall s \<Rightarrow> cs_Name s = cs_Name spec | _ \<Rightarrow> False)
       then Inl (Error [] ''Conflict'') else Inr ''c1''),
     dk_ContainerStart = (\<lambda>_ _. Inr ()), dk_ContainerLogs = (\<lambda>_ _. Inr frames), dk_ContainerWait = (\<lambda>_ _. ev),
     dk_file = (\<lambda>_. Some ''db''), dk_elapsed = (\<lambda>_. 5)\<rparr>"

definition demo_image_request :: "uuid \<Rightarrow> RunRequest" where
  "demo_image_request i = \<lparr>rq_RunID = i, rq_Artifact = ''pvapi-strategy/x/adm:v1'', rq_ArtifactKind = ArtifactImage, rq_Args = [], rq_OutPath = ''/snap/1/2.sqlite.tmp'',
     rq_Timeout = 60, rq_Progress = True\<rparr>"

definition demo_runner :: DockerRunner where
  "demo_runner = \<lparr>dr_Network = [], dr_NanoCPUs = 0, dr_MemoryBytes = 0, dr_SnapshotsHostDir = ''/h'', dr_SnapshotsDir = ''/snap''\<rparr>"


theorem container_name_clash_witness:
  "\<exists>e. ro_err (fst (DockerRunner_Run (demo_daemon [] CtxDone) (\<lambda>i. uuidv7_text (2000 + i) []) demo_runner (demo_image_request 8)
       [CreateCall (run_spec (\<lambda>i. uuidv7_text (2000 + i) []) demo_runner (demo_image_request 7))])) = Some e \<and> errors_Is e ErrRunnerFailed"
proof (rule container_name_clash [where ?req1.0 = "demo_image_request 7" and ?rest1.0 = "[]" and ?rest2.0 = "[]" and ?ms1.0 = 2007 and ?ms2.0 = 2008])
  show "\<forall>spec1 spec2. CreateCall spec1 \<in> set [CreateCall (run_spec (\<lambda>i. uuidv7_text (2000 + i) []) demo_runner (demo_image_request 7))]
      \<and> cs_Name spec2 = cs_Name spec1 \<and> cs_Name spec2 \<noteq> []
    \<longrightarrow> (\<exists>e. dk_ContainerCreate (demo_daemon [] CtxDone) [CreateCall (run_spec (\<lambda>i. uuidv7_text (2000 + i) []) demo_runner (demo_image_request 7))] spec2 = Inl e)"
    by (simp add: demo_daemon_def)
qed (simp_all add: demo_image_request_def)

end
