(* ===== verification/Email.thy ===== *)
theory Email
  imports Alert_Checker Opener Runners
begin

text \<open>
  What a mail says: \<open>buildPayload\<close> and its helpers of \<open>alert/checker.go\<close>, and the formatting and the
  plain text of \<open>alert/email/template.go\<close>. A snapshot is opened with \<open>ml_open\<close>; \<open>ml_fmt n\<close> is the verb
  \<open>%.nf\<close>, \<open>ml_value\<close> reads the number of a stored \<open>float64\<close>, and \<open>ml_tmpl\<close> executes the HTML template
  of a success or a failure.
\<close>

record ReturnCell =
  rc_Pct :: string
  rc_Color :: string

record ReturnsRow =
  rw_Label :: string
  rw_Day :: ReturnCell
  rw_Wtd :: ReturnCell
  rw_Mtd :: ReturnCell
  rw_Ytd :: ReturnCell
  rw_OneYear :: ReturnCell

record ReturnsWindow =
  wn_Label :: string
  wn_Cells :: "ReturnCell list"

record TradeRow =
  tr_Ticker :: string
  tr_Action :: string
  tr_ActionColor :: string
  tr_ActionBgColor :: string
  tr_Shares :: string
  tr_Value :: string

record HoldingRow =
  hl_Ticker :: string
  hl_TickerColor :: string
  hl_Shares :: string
  hl_WeightPct :: string
  hl_Value :: string

record Payload =
  pl_PortfolioName :: string
  pl_StrategyCode :: string
  pl_RunDate :: string
  pl_Success :: bool
  pl_LogoDataURL :: string
  pl_CurrentValue :: string
  pl_HasDelta :: bool
  pl_DeltaPct :: string
  pl_DeltaAbs :: string
  pl_SinceLabel :: string
  pl_DeltaColor :: string
  pl_TradesDate :: string
  pl_Returns :: "ReturnsRow list"
  pl_SeriesLabels :: "string list"
  pl_ReturnWindows :: "ReturnsWindow list"
  pl_Trades :: "TradeRow list"
  pl_Holdings :: "HoldingRow list"
  pl_PortfolioURL :: string
  pl_UnsubscribeURL :: string
  pl_ErrorMessage :: string
  pl_LastKnownValue :: string

record 'f mailing =
  ml_open :: "string \<Rightarrow> 'f snapshot result"
  ml_flt :: "'f flt"
  ml_fmt :: "nat \<Rightarrow> 'f \<Rightarrow> string"
  ml_quote :: "string \<Rightarrow> string"
  ml_value :: "float64 \<Rightarrow> 'f"
  ml_logo :: string
  ml_tmpl :: "bool \<Rightarrow> Payload \<Rightarrow> string result"

subsection \<open>Formatting (template.go)\<close>

text \<open>The groups of three digits; \<open>first\<close> says that nothing precedes them.\<close>

function comma_groups :: "bool \<Rightarrow> string \<Rightarrow> string" where
  "comma_groups first s = (if s = [] then [] else (if first then [] else '','') @ take 3 s @ comma_groups False (drop 3 s))"
  by pat_completeness auto
termination by (relation "measure (length \<circ> snd)") auto

declare comma_groups.simps [simp del]

definition FormatMoneyVal :: "(nat \<Rightarrow> 'f \<Rightarrow> string) \<Rightarrow> 'f::{uminus,zero,ord} \<Rightarrow> string" where
  "FormatMoneyVal ff v =
     (let sign = (if v < 0 then ''-'' else []); s = ff 0 (if v < 0 then - v else v); offset = length s mod 3 in
      if length s \<le> 3 then sign @ s else sign @ take offset s @ comma_groups (offset = 0) (drop offset s))"

definition weekday_name :: "date \<Rightarrow> string" where
  "weekday_name d = [''Sunday'', ''Monday'', ''Tuesday'', ''Wednesday'', ''Thursday'', ''Friday'', ''Saturday''] ! nat (Weekday d)"

definition month_name :: "date \<Rightarrow> string" where
  "month_name d = [''January'', ''February'', ''March'', ''April'', ''May'', ''June'', ''July'', ''August'', ''September'', ''October'', ''November'', ''December''] ! (dmonth d - 1)"

definition long_date :: "date \<Rightarrow> string" where
  "long_date d = month_name d @ '' '' @ dec_nat (dday d) @ '', '' @ digits_w 4 (dyear d)"

definition short_date :: "date \<Rightarrow> string" where
  "short_date d = take 3 (weekday_name d) @ '', '' @ take 3 (month_name d) @ '' '' @ dec_nat (dday d)"

definition formatSinceLabel :: "date \<Rightarrow> date \<Rightarrow> string" where
  "formatSinceLabel lastSentAt now =
     (let diffDays = days_of now - days_of lastSentAt in
      if diffDays \<le> 0 then ''earlier today''
      else if diffDays = 1 then ''yesterday''
      else if diffDays \<ge> 2 \<and> diffDays \<le> 6 \<and> Weekday lastSentAt \<noteq> Weekday now then weekday_name lastSentAt
      else short_date lastSentAt)"

record delta =
  dl_Pct :: string
  dl_Abs :: string
  dl_Color :: string
  dl_Since :: string
  dl_Has :: bool

definition FormatDelta :: "'f::{minus,times,inverse,uminus,zero,ord} mailing \<Rightarrow> 'f \<Rightarrow> 'f \<Rightarrow> date \<Rightarrow> date \<Rightarrow> delta" where
  "FormatDelta ml currentValue previousValue lastSentAt now =
     (if previousValue \<le> 0 then \<lparr>dl_Pct = [], dl_Abs = [], dl_Color = [], dl_Since = [], dl_Has = False\<rparr>
      else
        (let fl = ml_flt ml; hundred = fl_lit fl 100; diff = currentValue - previousValue; pct = diff / previousValue * hundred;
             roundedPct = fl_Round fl (pct * hundred) / hundred; roundedDiff = fl_Round fl diff; since = formatSinceLabel lastSentAt now in
         if feq roundedPct 0 \<and> feq roundedDiff 0
         then \<lparr>dl_Pct = ''0.00%'', dl_Abs = ''$0'', dl_Color = ''#94a3b8'', dl_Since = since, dl_Has = True\<rparr>
         else
           (let sign = (if diff < 0 then ''-'' else ''+'') in
            \<lparr>dl_Pct = sign @ ml_fmt ml 2 (if diff < 0 then fl_Abs fl pct else pct) @ ''%'',
             dl_Abs = sign @ ''$'' @ FormatMoneyVal (ml_fmt ml) (if diff < 0 then - diff else diff),
             dl_Color = (if diff < 0 then ''#ef4444'' else ''#22c55e''), dl_Since = since, dl_Has = True\<rparr>)))"

definition FormatReturnPct :: "'f::{times,inverse,uminus,zero,ord} mailing \<Rightarrow> 'f \<Rightarrow> ReturnCell" where
  "FormatReturnPct ml v =
     (let fl = ml_flt ml; rounded = fl_Round fl (v * fl_lit fl 10000) / fl_lit fl 100 in
      if feq rounded 0 then \<lparr>rc_Pct = ''0.00%'', rc_Color = ''#94a3b8''\<rparr>
      else if rounded < 0 then \<lparr>rc_Pct = ''-'' @ ml_fmt ml 2 (- rounded) @ ''%'', rc_Color = ''#dc2626''\<rparr>
      else \<lparr>rc_Pct = ''+'' @ ml_fmt ml 2 rounded @ ''%'', rc_Color = ''#16a34a''\<rparr>)"

text \<open>The padding of \<open>%-12s\<close> and \<open>%7s\<close>, which counts runes.\<close>

definition pad_right :: "nat \<Rightarrow> string \<Rightarrow> string" where
  "pad_right n s = s @ replicate (n - length (runes s)) (CHR '' '')"

definition pad_left :: "nat \<Rightarrow> string \<Rightarrow> string" where
  "pad_left n s = replicate (n - length (runes s)) (CHR '' '') @ s"

definition returns_line :: "string \<Rightarrow> string list \<Rightarrow> string" where
  "returns_line label cells = pad_right 12 label @ concat (map (\<lambda>c. '' '' @ pad_left 7 c) cells) @ Handler.newline"

definition value_lines :: "Payload \<Rightarrow> string" where
  "value_lines p =
     (let nl = Handler.newline in
      ''Portfolio Value: '' @ pl_CurrentValue p @ nl
      @ (if pl_HasDelta p then ''Change: '' @ pl_DeltaPct p @ '' ('' @ pl_DeltaAbs p @ '') since '' @ pl_SinceLabel p @ nl else []) @ nl)"

definition returns_lines :: "Payload \<Rightarrow> string" where
  "returns_lines p =
     (if pl_Returns p \<noteq> []
      then returns_line [] [''DAY'', ''WTD'', ''MTD'', ''YTD'', ''1Y'']
        @ concat (map (\<lambda>r. returns_line (rw_Label r) (map rc_Pct [rw_Day r, rw_Wtd r, rw_Mtd r, rw_Ytd r, rw_OneYear r])) (pl_Returns p)) @ Handler.newline
      else [])"

definition trade_item :: "TradeRow \<Rightarrow> string" where
  "trade_item t = ''  '' @ tr_Action t @ '' '' @ tr_Ticker t @ '' '' @ tr_Shares t @ '' shares (~'' @ tr_Value t @ '')'' @ Handler.newline"

definition trade_lines :: "Payload \<Rightarrow> string" where
  "trade_lines p =
     (let nl = Handler.newline in
      if pl_Trades p = [] then ''No trades required.'' @ nl @ nl
      else (if pl_TradesDate p \<noteq> [] then ''Trades to Execute ('' @ pl_TradesDate p @ ''):'' @ nl else ''Trades to Execute:'' @ nl)
        @ concat (map trade_item (pl_Trades p)) @ nl)"

definition holding_item :: "HoldingRow \<Rightarrow> string" where
  "holding_item h = ''  '' @ hl_Ticker h @ ''  '' @ hl_Shares h @ '' shares  '' @ hl_Value h @ ''  '' @ hl_WeightPct h @ ''%'' @ Handler.newline"

definition holding_lines :: "Payload \<Rightarrow> string" where
  "holding_lines p =
     (if pl_Holdings p \<noteq> [] then ''Current Holdings:'' @ Handler.newline @ concat (map holding_item (pl_Holdings p)) @ Handler.newline else [])"

definition link_lines :: "Payload \<Rightarrow> string" where
  "link_lines p =
     (if pl_PortfolioURL p \<noteq> [] then ''View portfolio: '' @ pl_PortfolioURL p @ Handler.newline else [])
     @ (if pl_UnsubscribeURL p \<noteq> [] then ''Unsubscribe: '' @ pl_UnsubscribeURL p @ Handler.newline else [])"

definition buildPlaintext :: "Payload \<Rightarrow> string" where
  "buildPlaintext p =
     (let nl = Handler.newline; head = pl_PortfolioName p @ '' '' @ em_dash @ '' '' @ pl_RunDate p @ nl @ nl in
      if \<not> pl_Success p then head @ ''ERROR: '' @ pl_ErrorMessage p @ nl
      else head @ value_lines p @ returns_lines p @ trade_lines p @ holding_lines p @ link_lines p)"

definition Render :: "'f mailing \<Rightarrow> Payload \<Rightarrow> (string \<times> string) result" where
  "Render ml p = (case ml_tmpl ml (pl_Success p) p of Inl e \<Rightarrow> Inl (wrap ''render email template'' e) | Inr html \<Rightarrow> Inr (html, buildPlaintext p))"

subsection \<open>The payload (checker.go)\<close>

definition returnCell :: "'f::{times,inverse,uminus,zero,ord} mailing \<Rightarrow> 'f \<Rightarrow> bool \<Rightarrow> ReturnCell" where
  "returnCell ml v present = (if \<not> present then \<lparr>rc_Pct = em_dash, rc_Color = ''#94a3b8''\<rparr> else FormatReturnPct ml v)"

definition deref_value :: "'f::zero option \<Rightarrow> 'f" where
  "deref_value v = (case v of None \<Rightarrow> 0 | Some x \<Rightarrow> x)"

definition returns_row :: "'f::{times,inverse,uminus,zero,ord} mailing \<Rightarrow> string \<Rightarrow> 'f ShortTerm \<Rightarrow> 'f option \<Rightarrow> 'f option \<Rightarrow> ReturnsRow" where
  "returns_row ml label short ytd oneYear =
     \<lparr>rw_Label = label, rw_Day = returnCell ml (st_Day short) True, rw_Wtd = returnCell ml (st_WTD short) True, rw_Mtd = returnCell ml (st_MTD short) True,
      rw_Ytd = returnCell ml (deref_value ytd) (ytd \<noteq> None), rw_OneYear = returnCell ml (deref_value oneYear) (oneYear \<noteq> None)\<rparr>"

definition benchmarkReturnsRow :: "'f::{minus,times,inverse,uminus,zero,ord} mailing \<Rightarrow> 'f snapshot \<Rightarrow> string \<Rightarrow> 'f SnapshotKpis \<Rightarrow> ReturnsRow option" where
  "benchmarkReturnsRow ml sn benchmark kpis =
     (if benchmark = [] then None
      else case BenchmarkCurrentValue sn of
        Inl _ \<Rightarrow> None
      | Inr curBench \<Rightarrow>
          if curBench \<le> 0 then None
          else case shortTermReturns sn benchmarkValueClause of
            Inl _ \<Rightarrow> None
          | Inr benchShort \<Rightarrow>
              Some (returns_row ml (''Benchmark ('' @ benchmark @ '')'') benchShort (kp_BenchmarkYtdReturn kpis) (kp_BenchmarkOneYearReturn kpis)))"

definition windows :: "(string \<times> (ReturnsRow \<Rightarrow> ReturnCell)) list" where
  "windows = [(''Day'', rw_Day), (''WTD'', rw_Wtd), (''MTD'', rw_Mtd), (''YTD'', rw_Ytd), (''1Y'', rw_OneYear)]"

definition fillPhoneReturns :: "Payload \<Rightarrow> Payload" where
  "fillPhoneReturns p = p\<lparr>pl_SeriesLabels := pl_SeriesLabels p @ map rw_Label (pl_Returns p),
     pl_ReturnWindows := pl_ReturnWindows p @ map (\<lambda>(label, pick). \<lparr>wn_Label = label, wn_Cells = map pick (pl_Returns p)\<rparr>) windows\<rparr>"

definition fillReturns :: "'f::{minus,times,inverse,uminus,zero,ord} mailing \<Rightarrow> Payload \<Rightarrow> string \<Rightarrow> string \<Rightarrow> Payload" where
  "fillReturns ml p snapshotPath benchmark =
     (case ml_open ml snapshotPath of
        Inl _ \<Rightarrow> p
      | Inr sn \<Rightarrow>
          (case shortTermReturns sn portfolioValueClause of
             Inl _ \<Rightarrow> p
           | Inr short \<Rightarrow>
               (case Reader_Kpis (ml_quote ml) sn of
                  Inl _ \<Rightarrow> p
                | Inr kpis \<Rightarrow>
                    fillPhoneReturns (p\<lparr>pl_Returns := pl_Returns p @ [returns_row ml ''Portfolio'' short (kp_YtdReturn kpis) (kp_OneYearReturn kpis)]
                      @ (case benchmarkReturnsRow ml sn benchmark kpis of None \<Rightarrow> [] | Some row \<Rightarrow> [row])\<rparr>))))"

text \<open>
  \<open>tx.Type[:1]\<close> would panic on an empty type; the query of \<open>LatestBatchTrades\<close> returns buys and sells
  only (lemma \<open>LatestBatchTrades_types\<close> below).
\<close>

definition upper_first :: "string \<Rightarrow> string" where
  "upper_first s = (case s of [] \<Rightarrow> [] | c # cs \<Rightarrow> (if 97 \<le> (of_char c :: nat) \<and> (of_char c :: nat) \<le> 122 then char_of ((of_char c :: nat) - 32) else c) # cs)"

definition trade_row :: "'f::{uminus,zero,ord} mailing \<Rightarrow> 'f LatestBatchTrade \<Rightarrow> TradeRow" where
  "trade_row ml tx =
     \<lparr>tr_Ticker = lt_Ticker tx, tr_Action = upper_first (lt_Type tx),
      tr_ActionColor = (if lt_Type tx = ''sell'' then ''#ef4444'' else ''#16a34a''),
      tr_ActionBgColor = (if lt_Type tx = ''sell'' then ''#fee2e2'' else ''#dcfce7''),
      tr_Shares = FormatMoneyVal (ml_fmt ml) (fl_Abs (ml_flt ml) (lt_Quantity tx)),
      tr_Value = ''$'' @ FormatMoneyVal (ml_fmt ml) (fl_Abs (ml_flt ml) (lt_Amount tx))\<rparr>"

definition add_trade :: "'f::{uminus,zero,ord} mailing \<Rightarrow> Payload \<Rightarrow> 'f LatestBatchTrade \<Rightarrow> Payload" where
  "add_trade ml p tx =
     p\<lparr>pl_TradesDate := (if pl_TradesDate p = [] \<and> lt_Date tx \<noteq> []
                         then case time_Parse (lt_Date tx) of None \<Rightarrow> [] | Some d \<Rightarrow> long_date d
                         else pl_TradesDate p),
       pl_Trades := pl_Trades p @ [trade_row ml tx]\<rparr>"

definition fillTrades :: "'f::{uminus,zero,ord} mailing \<Rightarrow> Payload \<Rightarrow> 'f LatestBatchTrade list \<Rightarrow> Payload" where
  "fillTrades ml p trades = foldl (add_trade ml) p trades"

definition holding_line :: "'f::{times,inverse,uminus,zero,ord} mailing \<Rightarrow> 'f \<Rightarrow> 'f Holding \<Rightarrow> HoldingRow" where
  "holding_line ml tot h =
     (let weight = (if 0 < tot then ho_MarketValue h / tot * fl_lit (ml_flt ml) 100 else 0) in
      \<lparr>hl_Ticker = ho_Ticker h, hl_TickerColor = (if ho_Ticker h = ''$CASH'' then ''#94a3b8'' else ''#0f172a''),
       hl_Shares = (if ho_Ticker h = ''$CASH'' then em_dash else FormatMoneyVal (ml_fmt ml) (ho_Quantity h)),
       hl_WeightPct = ml_fmt ml 1 weight, hl_Value = ''$'' @ FormatMoneyVal (ml_fmt ml) (ho_MarketValue h)\<rparr>)"

definition fillHoldingsAndTrades :: "'f::{plus,times,inverse,uminus,zero,ord} mailing \<Rightarrow> Payload \<Rightarrow> string \<Rightarrow> Payload" where
  "fillHoldingsAndTrades ml p path =
     (case ml_open ml path of
        Inl _ \<Rightarrow> p
      | Inr sn \<Rightarrow>
          (case CurrentHoldings (ml_quote ml) sn of
             Inl _ \<Rightarrow> p
           | Inr cur \<Rightarrow>
               (let tot = fsum (map ho_MarketValue (hr_Items cur));
                    p1 = p\<lparr>pl_Holdings := pl_Holdings p @ map (holding_line ml tot) (hr_Items cur)\<rparr> in
                case LatestBatchTrades sn of
                  Inl _ \<Rightarrow> p1
                | Inr trades \<Rightarrow> fillTrades ml p1 trades)))"

definition snapshotDayChange :: "'f::zero mailing \<Rightarrow> string \<Rightarrow> 'f DayChangeSummary result" where
  "snapshotDayChange ml path = (case ml_open ml path of Inl e \<Rightarrow> Inl e | Inr sn \<Rightarrow> DayChange sn)"

definition money :: "'f::{uminus,zero,ord} mailing \<Rightarrow> float64 \<Rightarrow> string" where
  "money ml v = ''$'' @ FormatMoneyVal (ml_fmt ml) (ml_value ml v)"

definition base_payload :: "'f mailing \<Rightarrow> portfolioData \<Rightarrow> bool \<Rightarrow> Payload" where
  "base_payload ml port success =
     \<lparr>pl_PortfolioName = q_Name port, pl_StrategyCode = q_StrategyCode port, pl_RunDate = [], pl_Success = success, pl_LogoDataURL = ml_logo ml,
      pl_CurrentValue = [], pl_HasDelta = False, pl_DeltaPct = [], pl_DeltaAbs = [], pl_SinceLabel = [], pl_DeltaColor = [], pl_TradesDate = [],
      pl_Returns = [], pl_SeriesLabels = [], pl_ReturnWindows = [], pl_Trades = [], pl_Holdings = [], pl_PortfolioURL = [], pl_UnsubscribeURL = [],
      pl_ErrorMessage = [], pl_LastKnownValue = []\<rparr>"

definition fill_change :: "'f::{minus,times,inverse,uminus,zero,ord} mailing \<Rightarrow> portfolioData \<Rightarrow> string \<Rightarrow> Payload \<Rightarrow> Payload" where
  "fill_change ml port path p =
     (case snapshotDayChange ml path of
        Inl _ \<Rightarrow> p
      | Inr dc \<Rightarrow>
          (let p1 = p\<lparr>pl_RunDate := ''as of '' @ long_date (dc_LatestDate dc),
                      pl_CurrentValue := (case q_CurrentValue port of None \<Rightarrow> pl_CurrentValue p | Some v \<Rightarrow> money ml v)\<rparr> in
           if dc_HasPrior dc
           then let d = FormatDelta ml (dc_LatestValue dc) (dc_PriorValue dc) (dc_PriorDate dc) (dc_LatestDate dc) in
             p1\<lparr>pl_HasDelta := dl_Has d, pl_DeltaPct := dl_Pct d, pl_DeltaAbs := dl_Abs d, pl_DeltaColor := dl_Color d, pl_SinceLabel := dl_Since d\<rparr>
           else p1))"

definition buildPayload :: "'f::{plus,minus,times,inverse,uminus,zero,ord} mailing \<Rightarrow> portfolioData \<Rightarrow> bool \<Rightarrow> Payload" where
  "buildPayload ml port success =
     (let p = base_payload ml port success in
      if \<not> success
      then p\<lparr>pl_ErrorMessage := (case q_LastError port of None \<Rightarrow> [] | Some e \<Rightarrow> e),
             pl_LastKnownValue := (case q_CurrentValue port of None \<Rightarrow> [] | Some v \<Rightarrow> money ml v)\<rparr>
      else case q_SnapshotPath port of
        Some path \<Rightarrow> fillHoldingsAndTrades ml (fillReturns ml (fill_change ml port path p) path (q_Benchmark port)) path
      | None \<Rightarrow> (case q_CurrentValue port of None \<Rightarrow> p | Some v \<Rightarrow> p\<lparr>pl_CurrentValue := money ml v\<rparr>))"

text \<open>The argument \<open>ck_render\<close> of the checker's model.\<close>

definition render_mail :: "'f::{plus,minus,times,inverse,uminus,zero,ord} mailing \<Rightarrow> portfolioData \<Rightarrow> bool \<Rightarrow> bool \<Rightarrow> string \<Rightarrow> string \<Rightarrow> (string \<times> string) result" where
  "render_mail ml port success trades portfolioURL unsubscribeURL =
     (let p = buildPayload ml port success in
      Render ml (p\<lparr>pl_PortfolioURL := portfolioURL, pl_UnsubscribeURL := unsubscribeURL, pl_Trades := (if trades then pl_Trades p else [])\<rparr>))"


subsection \<open>Amounts\<close>

text \<open>A comma stands exactly where a multiple of four characters remains, itself included.\<close>

definition commas_every_three :: "string \<Rightarrow> bool" where
  "commas_every_three s \<longleftrightarrow> (\<forall>j < length s. s ! j = CHR '','' \<longleftrightarrow> 4 dvd length s - j)"

lemma commas_prefix:
  assumes "commas_every_three s" and "4 dvd length s" and "CHR '','' \<notin> set pre" and "length pre \<le> 3"
  shows "commas_every_three (pre @ s)"
  unfolding commas_every_three_def
proof (intro allI impI)
  fix j assume j: "j < length (pre @ s)"
  show "(pre @ s) ! j = CHR '','' \<longleftrightarrow> 4 dvd length (pre @ s) - j"
  proof (cases "j < length pre")
    case True
    then have "(pre @ s) ! j \<in> set pre" by (simp add: nth_append)
    moreover have "\<not> 4 dvd length (pre @ s) - j" using assms(2,4) True by (auto elim!: dvdE) presburger
    ultimately show ?thesis using assms(3) by metis
  next
    case False
    with j assms(1) show ?thesis by (auto simp: commas_every_three_def nth_append add.commute)
  qed
qed

lemma commas_comma:
  assumes "commas_every_three s" and "length s mod 4 = 3"
  shows "commas_every_three (CHR '','' # s)"
  using assms unfolding commas_every_three_def by (auto simp: nth_Cons split: nat.split) presburger

lemma three_dvd_drop: "3 dvd length s \<Longrightarrow> s \<noteq> [] \<Longrightarrow> 3 \<le> length s \<and> 3 dvd length (drop 3 s)"
  by (auto simp: dvd_diff_nat dest: dvd_imp_le)

lemma comma_groups_props:
  assumes "3 dvd length s" and "CHR '','' \<notin> set s"
  shows "4 dvd length (comma_groups False s) \<and> commas_every_three (comma_groups False s)"
  using assms
proof (induction False s rule: comma_groups.induct)
  case (1 s)
  show ?case
  proof (cases "s = []")
    case True
    then show ?thesis by (simp add: comma_groups.simps commas_every_three_def)
  next
    case False
    note d = three_dvd_drop [OF 1(2) False]
    have ih: "4 dvd length (comma_groups False (drop 3 s))" "commas_every_three (comma_groups False (drop 3 s))"
      using 1(1) [OF False] d 1(3) by (auto dest: in_set_dropD)
    have "commas_every_three (take 3 s @ comma_groups False (drop 3 s))"
      using ih d 1(3) by (intro commas_prefix) (auto dest: in_set_takeD)
    then have "commas_every_three (CHR '','' # take 3 s @ comma_groups False (drop 3 s))"
      using ih d by (intro commas_comma) (auto elim!: dvdE)
    with False ih d show ?thesis by (subst (1 2) comma_groups.simps) (auto elim!: dvdE)
  qed
qed

lemma comma_groups_digits: "CHR '','' \<notin> set s \<Longrightarrow> filter (\<lambda>c. c \<noteq> CHR '','') (comma_groups b s) = s"
proof (induction b s rule: comma_groups.induct)
  case (1 b s)
  show ?case
  proof (cases "s = []")
    case True
    then show ?thesis by (simp add: comma_groups.simps)
  next
    case False
    have "filter (\<lambda>c. c \<noteq> CHR '','') (take 3 s) = take 3 s" using 1(2) by (auto simp: filter_id_conv dest: in_set_takeD)
    moreover have "filter (\<lambda>c. c \<noteq> CHR '','') (comma_groups False (drop 3 s)) = drop 3 s"
      using 1(1) [OF False] 1(2) by (auto dest: in_set_dropD)
    ultimately show ?thesis using False by (subst comma_groups.simps) simp
  qed
qed

text \<open>The amount without its sign.\<close>

lemma FormatMoneyVal_body:
  fixes s :: string
  assumes "CHR '','' \<notin> set s"
  defines "body \<equiv> (if length s \<le> 3 then s else take (length s mod 3) s @ comma_groups (length s mod 3 = 0) (drop (length s mod 3) s))"
  shows "filter (\<lambda>c. c \<noteq> CHR '','') body = s" and "commas_every_three body"
proof -
  let ?o = "length s mod 3"
  have t: "filter (\<lambda>c. c \<noteq> CHR '','') (take n s) = take n s" for n
    using assms(1) by (auto simp: filter_id_conv dest: in_set_takeD)
  have d: "CHR '','' \<notin> set (drop n s)" "CHR '','' \<notin> set (take n s)" for n
    using assms(1) by (auto dest: in_set_dropD in_set_takeD)
  show "filter (\<lambda>c. c \<noteq> CHR '','') body = s"
    using t [of "length s"] by (simp add: body_def t comma_groups_digits [OF d(1)])
  have nil: "commas_every_three []" by (simp add: commas_every_three_def)
  show "commas_every_three body"
  proof (cases "length s \<le> 3")
    case True
    then show ?thesis using commas_prefix [OF nil _ assms(1)] by (simp add: body_def)
  next
    case False
    have long: "3 dvd length (drop ?o s)" by (simp add: minus_mod_eq_mult_div)
    show ?thesis
    proof (cases "?o = 0")
      case True
      have "s \<noteq> []" using False by auto
      then have "body = take 3 s @ comma_groups False (drop 3 s)"
        using False True by (simp add: body_def) (subst comma_groups.simps, simp)
      moreover have "3 dvd length (drop 3 s)" using True three_dvd_drop [of s] \<open>s \<noteq> []\<close> by auto
      ultimately show ?thesis using comma_groups_props [OF _ d(1)] d(2) by (auto intro!: commas_prefix)
    next
      case o: False
      have "body = take ?o s @ comma_groups False (drop ?o s)" using False o by (simp add: body_def)
      then show ?thesis using comma_groups_props [OF long d(1)] d(2) by (auto intro!: commas_prefix)
    qed
  qed
qed

text \<open>C39. \<open>FormatMoneyVal\<close> writes the rounded amount and loses no digit of it: taking the commas out of the
  text gives the sign and the digits back, and after the sign a comma stands exactly before each
  group of three digits counted from the right, so never first and never last.\<close>

theorem FormatMoneyVal_groups:
  fixes v :: "'f::{uminus,zero,ord}"
  assumes "CHR '','' \<notin> set (ff 0 (if v < 0 then - v else v))"
  defines "sign \<equiv> if v < 0 then ''-'' else []"
  shows "filter (\<lambda>c. c \<noteq> CHR '','') (FormatMoneyVal ff v) = sign @ ff 0 (if v < 0 then - v else v) \<and>
    (\<exists>body. FormatMoneyVal ff v = sign @ body \<and> (\<forall>j < length body. body ! j = CHR '','' \<longleftrightarrow> 4 dvd length body - j))"
proof -
  let ?s = "ff 0 (if v < 0 then - v else v)"
  let ?body = "if length ?s \<le> 3 then ?s else take (length ?s mod 3) ?s @ comma_groups (length ?s mod 3 = 0) (drop (length ?s mod 3) ?s)"
  note body = FormatMoneyVal_body [OF assms(1)]
  have eq: "FormatMoneyVal ff v = sign @ ?body" by (simp add: FormatMoneyVal_def sign_def Let_def)
  moreover have "filter (\<lambda>c. c \<noteq> CHR '','') sign = sign" by (simp add: sign_def)
  ultimately have "filter (\<lambda>c. c \<noteq> CHR '','') (FormatMoneyVal ff v) = sign @ ?s" using body(1) by (simp only: filter_append)
  with eq body(2) show ?thesis unfolding commas_every_three_def by blast
qed

text \<open>A concrete case: minus 1234567, written with the decimal digits of an integer.\<close>

theorem FormatMoneyVal_groups_witness:
  "FormatMoneyVal (\<lambda>_ n. dec n) (- 1234567 :: int) = ''-1,234,567'' \<and>
   filter (\<lambda>c. c \<noteq> CHR '','') (FormatMoneyVal (\<lambda>_ n. dec n) (- 1234567 :: int)) = ''-1234567''"
proof -
  have d: "dec 1234567 = ''1234567''" by (simp add: dec_def dec_nat.simps digit_char_def Let_def char_of_def bit_0)
  have "FormatMoneyVal (\<lambda>_ n. dec n) (- 1234567 :: int) = ''-1,234,567''" by (simp add: FormatMoneyVal_def d comma_groups.simps)
  with FormatMoneyVal_groups [of "\<lambda>_ n. dec n" "- 1234567 :: int"] d show ?thesis by simp
qed


subsection \<open>The trades of a mail\<close>

lemma long_date_nonempty [simp]: "long_date d \<noteq> []"
  by (simp add: long_date_def)

definition dated_trade :: "'f LatestBatchTrade \<Rightarrow> bool" where
  "dated_trade t \<longleftrightarrow> lt_Date t \<noteq> [] \<and> time_Parse (lt_Date t) \<noteq> None"

definition trades_date :: "'f LatestBatchTrade list \<Rightarrow> string" where
  "trades_date ts = (case List.find dated_trade ts of None \<Rightarrow> [] | Some t \<Rightarrow> long_date (the (time_Parse (lt_Date t))))"

lemma fillTrades_eq:
  "fillTrades ml p ts = p\<lparr>pl_TradesDate := (if pl_TradesDate p = [] then trades_date ts else pl_TradesDate p),
     pl_Trades := pl_Trades p @ map (trade_row ml) ts\<rparr>"
proof (induction ts arbitrary: p)
  case Nil
  then show ?case by (simp add: fillTrades_def trades_date_def)
next
  case (Cons t ts)
  have "fillTrades ml p (t # ts) = fillTrades ml (add_trade ml p t) ts" by (simp add: fillTrades_def)
  then show ?case by (auto simp: Cons.IH add_trade_def trades_date_def dated_trade_def split: option.split)
qed

text \<open>Nothing before the trades writes trades.\<close>

lemma fill_change_trades [simp]:
  "pl_Trades (fill_change ml port path p) = pl_Trades p" "pl_TradesDate (fill_change ml port path p) = pl_TradesDate p"
  "pl_Success (fill_change ml port path p) = pl_Success p"
  by (simp_all add: fill_change_def Let_def split: sum.split)

lemma fillReturns_trades [simp]:
  "pl_Trades (fillReturns ml p path b) = pl_Trades p" "pl_TradesDate (fillReturns ml p path b) = pl_TradesDate p"
  "pl_Success (fillReturns ml p path b) = pl_Success p"
  by (simp_all add: fillReturns_def fillPhoneReturns_def split: sum.split)

lemma base_payload_trades [simp]:
  "pl_Trades (base_payload ml port b) = []" "pl_TradesDate (base_payload ml port b) = []" "pl_Success (base_payload ml port b) = b"
  by (simp_all add: base_payload_def)

lemma buildPayload_Success [simp]: "pl_Success (buildPayload ml port b) = b"
  by (simp add: buildPayload_def fillHoldingsAndTrades_def fillTrades_eq Let_def split: option.split sum.split)

lemma buildPayload_trades:
  assumes "q_SnapshotPath port = Some path" and "ml_open ml path = Inr sn"
    and "CurrentHoldings (ml_quote ml) sn = Inr cur" and "LatestBatchTrades sn = Inr ts"
  shows "pl_Trades (buildPayload ml port True) = map (trade_row ml) ts" and "pl_TradesDate (buildPayload ml port True) = trades_date ts"
  using assms by (simp_all add: buildPayload_def fillHoldingsAndTrades_def fillTrades_eq Let_def)

lemma list_all2_in_right: "list_all2 P xs ys \<Longrightarrow> y \<in> set ys \<Longrightarrow> \<exists>x \<in> set xs. P x y"
  by (induction rule: list_all2_induct) auto

lemma LatestBatchTrades_types:
  assumes "LatestBatchTrades sn = Inr ts" and "t \<in> set ts"
  shows "lt_Type t \<in> {''buy'', ''sell''}"
proof -
  have "mapR scan_trade (latest_trades (sn_transactions sn)) = Inr ts" using assms(1) by (auto simp: LatestBatchTrades_def andR_def split: sum.splits)
  then obtain x where "x \<in> set (latest_trades (sn_transactions sn))" and "scan_trade x = Inr t"
    using assms(2) unfolding mapR_Inr by (meson list_all2_in_right)
  then show ?thesis by (auto simp: latest_trades_def scan_trade_def is_trade_def Let_def andR_def split: list.splits sum.splits)
qed

lemma upper_first_trade [simp]: "upper_first ''buy'' = ''Buy''" "upper_first ''sell'' = ''Sell''"
  by code_simp+

text \<open>One line of the table of trades.\<close>

definition trade_line :: "'f::{uminus,zero,ord} mailing \<Rightarrow> 'f LatestBatchTrade \<Rightarrow> string" where
  "trade_line ml t = ''  '' @ (if lt_Type t = ''buy'' then ''Buy '' else ''Sell '') @ lt_Ticker t @ '' ''
     @ FormatMoneyVal (ml_fmt ml) (fl_Abs (ml_flt ml) (lt_Quantity t)) @ '' shares (~$''
     @ FormatMoneyVal (ml_fmt ml) (fl_Abs (ml_flt ml) (lt_Amount t)) @ '')'' @ Handler.newline"


definition trade_table :: "'f::{uminus,zero,ord} mailing \<Rightarrow> 'f LatestBatchTrade list \<Rightarrow> string" where
  "trade_table ml ts =
     (if ts = [] then ''No trades required.'' @ Handler.newline
      else ''Trades to Execute'' @ (if trades_date ts = [] then [] else '' ('' @ trades_date ts @ '')'') @ '':'' @ Handler.newline
        @ concat (map (trade_line ml) ts))"

lemma trade_lines_table:
  assumes "pl_Trades p = map (trade_row ml) ts" and "pl_TradesDate p = trades_date ts" and "\<And>t. t \<in> set ts \<Longrightarrow> lt_Type t \<in> {''buy'', ''sell''}"
  shows "trade_lines p = trade_table ml ts @ Handler.newline"
proof -
  have "trade_item (trade_row ml t) = trade_line ml t" if "t \<in> set ts" for t
    using assms(3) [OF that] by (auto simp: trade_row_def trade_line_def trade_item_def)
  then have "concat (map (trade_item \<circ> trade_row ml) ts) = concat (map (trade_line ml) ts)" by (metis (mono_tags, lifting) comp_apply map_cong)
  then show ?thesis using assms(1,2) unfolding trade_lines_def trade_table_def Let_def by auto
qed

text \<open>The text of a success mail has the lines of its payload's trades.\<close>

lemma buildPlaintext_trades: "pl_Success p \<Longrightarrow> \<exists>a b. buildPlaintext p = a @ trade_lines p @ b"
  unfolding buildPlaintext_def Let_def by (simp only: not_True_eq_False if_False) (metis append_assoc)

text \<open>The table of trades in the text of a success mail.\<close>

lemma render_mail_table:
  fixes ml :: "'f::{plus,minus,times,inverse,uminus,zero,ord} mailing"
  assumes "q_SnapshotPath port = Some path" and "ml_open ml path = Inr sn"
    and "CurrentHoldings (ml_quote ml) sn = Inr cur" and "LatestBatchTrades sn = Inr ts"
    and "render_mail ml port True shown url unsub = Inr (html, plain)"
  shows "\<exists>a b. plain = a @ trade_table ml (if shown then ts else []) @ b"
proof -
  let ?p = "(buildPayload ml port True)\<lparr>pl_PortfolioURL := url, pl_UnsubscribeURL := unsub,
    pl_Trades := (if shown then pl_Trades (buildPayload ml port True) else [])\<rparr>"
  have eq: "plain = buildPlaintext ?p" using assms(5) by (auto simp: render_mail_def Render_def Let_def split: sum.splits)
  have lines: "trade_lines ?p = trade_table ml (if shown then ts else []) @ Handler.newline"
  proof (cases shown)
    case True
    then show ?thesis using buildPayload_trades [OF assms(1-4)] LatestBatchTrades_types [OF assms(4)]
      by (intro trade_lines_table) auto
  next
    case False
    then show ?thesis by (simp add: trade_lines_def trade_table_def Let_def)
  qed
  have "pl_Success ?p" by simp
  from buildPlaintext_trades [OF this] obtain a b where "plain = a @ trade_lines ?p @ b" unfolding eq by blast
  then have "plain = a @ trade_table ml (if shown then ts else []) @ Handler.newline @ b" unfolding lines by (simp only: append_assoc)
  then show ?thesis by blast
qed

text \<open>A snapshot with three trades in its latest batch.\<close>

definition demo_mailing :: "rat mailing" where
  "demo_mailing = \<lparr>ml_open = (\<lambda>_. Inr demo_book), ml_flt = exact_rat, ml_fmt = (\<lambda>_ x. dec \<lfloor>x\<rfloor>), ml_quote = id, ml_value = (\<lambda>_. 0),
     ml_logo = [], ml_tmpl = (\<lambda>_ _. Inr ''<html>'')\<rparr>"

definition demo_data :: portfolioData where
  "demo_data = \<lparr>q_Name = ''ADM'', q_Slug = ''adm'', q_StrategyCode = ''adm'', q_StrategySchedule = [], q_Benchmark = [], q_CurrentValue = None,
     q_Status = StatusReady, q_LastError = None, q_SnapshotPath = Some ''/snap/4''\<rparr>"

definition demo_trade :: "string \<Rightarrow> string \<Rightarrow> rat \<Rightarrow> rat \<Rightarrow> rat LatestBatchTrade" where
  "demo_trade day ty n p = \<lparr>lt_Ticker = ''VTI'', lt_Type = ty, lt_Date = day, lt_Quantity = n, lt_Price = p, lt_Amount = n * p\<rparr>"

definition demo_trades :: "rat LatestBatchTrade list" where
  "demo_trades = [demo_trade ''2024-01-02'' ''buy'' 100 10, demo_trade ''2024-01-03'' ''buy'' 100 20, demo_trade ''2024-01-04'' ''sell'' 50 30]"

lemma demo_mailing_reads:
  "q_SnapshotPath demo_data = Some ''/snap/4''" "ml_open demo_mailing ''/snap/4'' = Inr demo_book"
  "\<exists>cur. CurrentHoldings (ml_quote demo_mailing) demo_book = Inr cur" "LatestBatchTrades demo_book = Inr demo_trades"
  "\<exists>plain. render_mail demo_mailing demo_data True shown url unsub = Inr (''<html>'', plain)"
proof -
  have "isl (CurrentHoldings (ml_quote demo_mailing) demo_book) = False" by code_simp
  then show "\<exists>cur. CurrentHoldings (ml_quote demo_mailing) demo_book = Inr cur" by (cases "CurrentHoldings (ml_quote demo_mailing) demo_book") auto
  show "LatestBatchTrades demo_book = Inr demo_trades"
    by (simp add: LatestBatchTrades_def demo_book_simps(1) demo_book_def [THEN arg_cong [where f = sn_transactions]] latest_trades_def is_trade_def demo_tx_def
      scan_trade_def scan_def andR_def demo_trades_def demo_trade_def)
qed (simp_all add: demo_data_def demo_mailing_def render_mail_def Render_def Let_def)

text \<open>The summary that goes out for a ready portfolio says that no trades are required.\<close>

lemma SendSummary_no_trades:
  fixes ml :: "'f::{plus,minus,times,inverse,uminus,zero,ord} mailing"
  assumes "w_outcomes w = []" and "List.find (\<lambda>p. p_ID p = pid) (w_portfolios w) = Some p" and "p_Status p = StatusReady"
    and "ck_APIKey ck \<noteq> []" and "ck_render ck = render_mail ml" and "\<And>m w. ck_mailgun ck m w = None" and "\<And>b q. \<exists>html. ml_tmpl ml b q = Inr html"
  shows "\<exists>m a b. run_state (Checker_SendSummary ck pid r) w = (Inr (), w\<lparr>w_mails := w_mails w @ [m]\<rparr>) \<and> mail_to m = [r]
    \<and> mail_subject m = ''Portfolio Update: '' @ p_Name p \<and> mail_text m = a @ ''No trades required.'' @ b"
proof -
  obtain port where port: "run_state (loadPortfolio pid) w = (Inr port, w)" and "q_Status port = StatusReady" and name: "q_Name port = p_Name p"
    using assms(1-3) by (simp add: loadPortfolio_def)
  let ?p = "(buildPayload ml port True)\<lparr>pl_PortfolioURL := [], pl_UnsubscribeURL := [], pl_Trades := []\<rparr>"
  obtain html where html: "render_mail ml port True False [] [] = Inr (html, buildPlaintext ?p)"
    using assms(7) [of True ?p] by (auto simp: render_mail_def Render_def Let_def)
  have "pl_Success ?p" by simp
  from buildPlaintext_trades [OF this] obtain a b where "buildPlaintext ?p = a @ trade_lines ?p @ b" by blast
  then have "buildPlaintext ?p = a @ ''No trades required.'' @ Handler.newline @ Handler.newline @ b" by (simp add: trade_lines_def Let_def)
  moreover have "run_state (Checker_SendSummary ck pid r) w = (Inr (), w\<lparr>w_mails := w_mails w @
      [\<lparr>mail_to = [r], mail_subject = ''Portfolio Update: '' @ p_Name p, mail_html = html, mail_text = buildPlaintext ?p\<rparr>]\<rparr>)"
    using assms(4-6) port \<open>q_Status port = StatusReady\<close> html name
    by (simp add: Checker_SendSummary_def email_Send_def mail_subject_for_def)
  ultimately show ?thesis by (intro exI conjI) (assumption | simp)+
qed

subsection \<open>The returns of a mail\<close>

text \<open>The phone layout is the wide grid with rows and columns exchanged.\<close>

lemma fillReturns_grid:
  assumes "pl_Returns p = []" and "pl_SeriesLabels p = []" and "pl_ReturnWindows p = []" and q: "q = fillReturns ml p path benchmark"
  shows "pl_SeriesLabels q = map rw_Label (pl_Returns q)"
    and "i < length (pl_Returns q) \<Longrightarrow> map (\<lambda>w. wn_Cells w ! i) (pl_ReturnWindows q)
      = map (\<lambda>(_, pick). pick (pl_Returns q ! i)) windows"
proof -
  have "q = p \<or> (\<exists>rows. q = fillPhoneReturns (p\<lparr>pl_Returns := rows\<rparr>))"
    unfolding q fillReturns_def by (auto split: sum.split)
  then show "pl_SeriesLabels q = map rw_Label (pl_Returns q)"
    and "i < length (pl_Returns q) \<Longrightarrow> map (\<lambda>w. wn_Cells w ! i) (pl_ReturnWindows q) = map (\<lambda>(_, pick). pick (pl_Returns q ! i)) windows"
    using assms(1-3) by (auto simp: fillPhoneReturns_def windows_def)
qed

end
