(* ===== verification/Strategy_Handler.thy ===== *)
theory Strategy_Handler
  imports Handler
begin

text \<open>
  The strategy endpoints of \<open>strategy/handler.go\<close> and \<open>strategy/describe.go\<close>, and the build of an
  unofficial strategy, \<open>strategy/ephemeral.go\<close>. The state of a build is the list of build directories
  that exist; \<open>git\<close>, \<open>go\<close> and the built binary are arguments.
\<close>

subsection \<open>The clone URL (ephemeral.go)\<close>

text \<open>
  The constructs of \<open>regexp\<close> that the allowlist uses, with what is left of the text after each way
  to match.
\<close>

datatype re = Lit string | Plus "char \<Rightarrow> bool" | Opt re | Seq re re

fun plus_rests :: "(char \<Rightarrow> bool) \<Rightarrow> string \<Rightarrow> string list" where
  "plus_rests P [] = []"
| "plus_rests P (c # s) = (if P c then s # plus_rests P s else [])"

fun rests :: "re \<Rightarrow> string \<Rightarrow> string list" where
  "rests (Lit l) s = (if take (length l) s = l then [drop (length l) s] else [])"
| "rests (Plus P) s = plus_rests P s"
| "rests (Opt r) s = s # rests r s"
| "rests (Seq r q) s = concat (map (rests q) (rests r s))"

definition re_match :: "re \<Rightarrow> string \<Rightarrow> bool" where
  "re_match r s \<longleftrightarrow> [] \<in> set (rests r s)"

definition url_char :: "char \<Rightarrow> bool" where
  "url_char c \<longleftrightarrow> (let n = of_char c in (65 \<le> n \<and> n \<le> (90::nat)) \<or> (97 \<le> n \<and> n \<le> 122) \<or> (48 \<le> n \<and> n \<le> 57))
     \<or> c = CHR ''_'' \<or> c = CHR ''.'' \<or> c = CHR ''-''"

definition cloneURLRe :: re where
  "cloneURLRe = Seq (Lit ''https://github.com/'') (Seq (Plus url_char) (Seq (Lit ''/'') (Seq (Plus url_char) (Opt (Lit ''.git'')))))"

definition ValidateCloneURL :: "string \<Rightarrow> unit result" where
  "ValidateCloneURL cloneURL =
     (if cloneURL = [] \<or> \<not> re_match cloneURLRe cloneURL
      then Inl (Error [ErrInvalidCloneURL] ''cloneUrl must be an https GitHub URL of the form https://github.com/<owner>/<repo>(.git)?'')
      else Inr ())"

subsection \<open>Building an unofficial strategy (ephemeral.go)\<close>

record EphemeralOptions =
  eo_CloneURL :: string
  eo_Ver :: string
  eo_Dir :: string
  eo_SkipURLValidation :: bool

record build_tools =
  bt_TempDir :: string
  bt_MkdirAll :: "string \<Rightarrow> error option"
  bt_MkdirTemp :: "string \<Rightarrow> string result"
  bt_exec :: "string list \<Rightarrow> (error \<times> string) option"
    \<comment> \<open>the error of a command and what it printed\<close>
  bt_describe :: "string \<Rightarrow> rawjson result"

definition clone_args :: "EphemeralOptions \<Rightarrow> string \<Rightarrow> string list" where
  "clone_args opts buildDir =
     [''git'', ''clone'', ''--depth=1''] @ (if eo_Ver opts \<noteq> [] then [''--branch'', eo_Ver opts] else []) @ [eo_CloneURL opts, buildDir]"

definition EphemeralBuild :: "build_tools \<Rightarrow> EphemeralOptions \<Rightarrow> string list \<Rightarrow> (string \<times> string) result \<times> string list" where
  "EphemeralBuild bt opts dirs =
     (case (if eo_SkipURLValidation opts then Inr () else ValidateCloneURL (eo_CloneURL opts)) of
        Inl e \<Rightarrow> (Inl e, dirs)
      | Inr _ \<Rightarrow>
          (let parent = (if eo_Dir opts = [] then bt_TempDir bt else eo_Dir opts) in
           case bt_MkdirAll bt parent of
             Some e \<Rightarrow> (Inl (wrap ''ephemeral: create parent dir'' e), dirs)
           | None \<Rightarrow>
               (case bt_MkdirTemp bt parent of
                  Inl e \<Rightarrow> (Inl (wrap ''ephemeral: mkdtemp'' e), dirs)
                | Inr buildDir \<Rightarrow>
                    (let dirs1 = buildDir # dirs; binPath = filepath_Join [buildDir, ''strategy.bin''] in
                     case bt_exec bt (clone_args opts buildDir) of
                       Some (e, out) \<Rightarrow>
                         (Inl (Error (err_chain e) (''ephemeral: git clone '' @ eo_CloneURL opts @ '': '' @ err_text e @ newline @ out)), removeAll buildDir dirs1)
                     | None \<Rightarrow>
                         (case bt_exec bt [''go'', ''build'', ''-o'', binPath, ''.''] of
                            Some (e, out) \<Rightarrow> (Inl (Error (err_chain e) (''ephemeral: go build: '' @ err_text e @ newline @ out)), removeAll buildDir dirs1)
                          | None \<Rightarrow> (Inr (binPath, buildDir), dirs1))))))"

text \<open>The cleanup that a successful build returns; calling it again does nothing.\<close>

definition removeDir :: "string \<Rightarrow> string list \<Rightarrow> string list" where
  "removeDir buildDir dirs = removeAll buildDir dirs"

subsection \<open>Endpoints\<close>

definition strategy_toView :: "Strategy \<Rightarrow> strategyView" where
  "strategy_toView s = \<lparr>sv_ShortCode = s_ShortCode s, sv_RepoOwner = s_RepoOwner s, sv_RepoName = s_RepoName s, sv_CloneURL = s_CloneURL s,
     sv_IsOfficial = s_IsOfficial s, sv_OwnerSub = s_OwnerSub s, sv_Description = s_Description s, sv_Categories = s_Categories s,
     sv_Stars = s_Stars s, sv_InstallState = DeriveInstallState s, sv_InstalledVer = s_InstalledVer s, sv_LastAttemptedVer = s_LastAttemptedVer s,
     sv_InstallError = s_InstallError s, sv_InstalledAt = map_option utc_Format (s_InstalledAt s),
     sv_Describe = (if s_DescribeJSON s = RawEmpty then None else case unmarshalDescribe (s_DescribeJSON s) of Inl _ \<Rightarrow> None | Inr d \<Rightarrow> Some d),
     sv_Stats = s_Stats s\<rparr>"

definition StrategyHandler_List :: "lib \<Rightarrow> unit result io" where
  "StrategyHandler_List lb = do {
     r \<leftarrow> Strategy_List;
     (case r of Inl e \<Rightarrow> ise (err_text e) | Inr rows \<Rightarrow> writeJSON lb 200 (StrategyViewsBody (map strategy_toView rows)))
   }"

definition StrategyHandler_Get :: "lib \<Rightarrow> request \<Rightarrow> unit result io" where
  "StrategyHandler_Get lb c = do {
     let shortCode = c_Params c ''shortCode'';
     r \<leftarrow> Strategy_Get shortCode;
     (case r of
        Inl e \<Rightarrow> if errors_Is e StrategyErrNotFound then writeProblem 404 ''Not Found'' (''strategy not found: '' @ shortCode) else ise (err_text e)
      | Inr row \<Rightarrow> writeJSON lb 200 (StrategyViewBody (strategy_toView row)))
   }"

definition DescribeHandler_Describe :: "lib \<Rightarrow> build_tools \<Rightarrow> EphemeralOptions \<Rightarrow> request \<Rightarrow> string list \<Rightarrow> unit result io \<times> string list" where
  "DescribeHandler_Describe lb bt eopts c dirs =
     (let cloneURL = c_Query c ''cloneUrl'' in
      case ValidateCloneURL cloneURL of
        Inl e \<Rightarrow> (writeProblem 400 ''Bad Request'' (err_text e), dirs)
      | Inr _ \<Rightarrow>
          (case EphemeralBuild bt (eopts\<lparr>eo_CloneURL := cloneURL, eo_Ver := []\<rparr>) dirs of
             (Inl e, dirs1) \<Rightarrow> (writeProblem 422 ''Build failed'' (err_text e), dirs1)
           | (Inr (binPath, buildDir), dirs1) \<Rightarrow>
               ((case bt_describe bt binPath of
                   Inl e \<Rightarrow> writeProblem 422 ''Describe failed'' (err_text e)
                 | Inr raw \<Rightarrow>
                     (case unmarshalDescribe raw of
                        Inl e \<Rightarrow> writeProblem 422 ''Describe JSON malformed'' (err_text e)
                      | Inr d \<Rightarrow> writeJSON lb 200 (DescribeBody d))),
                removeDir buildDir dirs1)))"

section \<open>The allowlist\<close>

lemma plus_rests_iff: "t \<in> set (plus_rests P s) \<longleftrightarrow> (\<exists>x. x \<noteq> [] \<and> list_all P x \<and> s = x @ t)"
proof (induction P s rule: plus_rests.induct)
  case (2 P c s)
  show ?case
  proof
    assume "t \<in> set (plus_rests P (c # s))"
    then have "P c" and "t = s \<or> t \<in> set (plus_rests P s)" by (auto split: if_splits)
    then consider "t = s" | x where "x \<noteq> []" "list_all P x" "s = x @ t" using 2 by (auto simp: \<open>P c\<close>)
    then show "\<exists>x. x \<noteq> [] \<and> list_all P x \<and> c # s = x @ t"
    proof cases
      case 1 with \<open>P c\<close> show ?thesis by (intro exI [of _ "[c]"]) simp
    next
      case (2 x) with \<open>P c\<close> show ?thesis by (intro exI [of _ "c # x"]) simp
    qed
  next
    assume "\<exists>x. x \<noteq> [] \<and> list_all P x \<and> c # s = x @ t"
    then obtain x where "x \<noteq> []" "list_all P x" "c # s = x @ t" by blast
    then obtain y where "P c" "list_all P y" "s = y @ t" by (cases x) auto
    with 2 show "t \<in> set (plus_rests P (c # s))" by (cases y) auto
  qed
qed simp

lemma rests_Lit_iff: "t \<in> set (rests (Lit l) s) \<longleftrightarrow> s = l @ t"
  by (auto simp: append_eq_conv_conj) (metis append_take_drop_id)

lemma rests_Plus_iff: "t \<in> set (rests (Plus P) s) \<longleftrightarrow> (\<exists>x. x \<noteq> [] \<and> list_all P x \<and> s = x @ t)"
  by (simp add: plus_rests_iff)

lemma rests_Opt_iff: "t \<in> set (rests (Opt r) s) \<longleftrightarrow> t = s \<or> t \<in> set (rests r s)"
  by simp

lemma rests_Seq_iff: "t \<in> set (rests (Seq r q) s) \<longleftrightarrow> (\<exists>m. m \<in> set (rests r s) \<and> t \<in> set (rests q m))"
  by auto

lemma url_char_git: "list_all url_char ''.git''"
  by (simp add: url_char_def)

text \<open>
  The allowlist of clone URLs: a URL is accepted exactly when it is
  \<open>https://github.com/owner/repo\<close> with a non-empty owner and repository made of letters, digits,
  underscores, dots and hyphens; the optional suffix of the expression accepts nothing more.
\<close>

lemma ValidateCloneURL_iff:
  "ValidateCloneURL u = Inr () \<longleftrightarrow> (\<exists>owner repo. u = ''https://github.com/'' @ owner @ ''/'' @ repo
     \<and> owner \<noteq> [] \<and> repo \<noteq> [] \<and> list_all url_char owner \<and> list_all url_char repo)"
proof -
  have "re_match cloneURLRe u \<longleftrightarrow> (\<exists>owner repo. u = ''https://github.com/'' @ owner @ ''/'' @ repo
     \<and> owner \<noteq> [] \<and> repo \<noteq> [] \<and> list_all url_char owner \<and> list_all url_char repo)" (is "_ \<longleftrightarrow> ?R")
  proof
    assume "re_match cloneURLRe u"
    then obtain owner repo t where u: "u = ''https://github.com/'' @ owner @ ''/'' @ repo @ t"
      and ne: "owner \<noteq> []" "repo \<noteq> []" and chars: "list_all url_char owner" "list_all url_char repo" and t: "t = [] \<or> t = ''.git''"
      unfolding re_match_def cloneURLRe_def
      by (simp only: rests_Seq_iff rests_Lit_iff rests_Plus_iff rests_Opt_iff) auto
    from t chars url_char_git have "list_all url_char (repo @ t)" by auto
    with u ne chars show ?R by (intro exI [of _ owner] exI [of _ "repo @ t"]) simp
  next
    assume ?R
    then show "re_match cloneURLRe u"
      unfolding re_match_def cloneURLRe_def
      by (simp only: rests_Seq_iff rests_Lit_iff rests_Plus_iff rests_Opt_iff) blast
  qed
  then show ?thesis by (auto simp: ValidateCloneURL_def)
qed

section \<open>Build directories\<close>

text \<open>
  No build directory is left behind: a build that fails leaves the directories as they were,
  and after \<open>GET /strategies/describe\<close> they are as they were whatever happened. Only the directory
  that \<open>MkdirTemp\<close> made, which is new, is ever removed.
\<close>

lemma describe_leaves_no_directory:
  assumes "\<And>parent d. bt_MkdirTemp bt parent = Inr d \<Longrightarrow> d \<notin> set dirs"
  shows "snd (DescribeHandler_Describe lb bt eopts c dirs) = dirs
    \<and> (\<forall>e opts dirs'. EphemeralBuild bt opts dirs = (Inl e, dirs') \<longrightarrow> dirs' = dirs)"
proof -
  have fails: "dirs' = dirs" if "EphemeralBuild bt opts dirs = (Inl e, dirs')" for opts e dirs'
    using that assms by (auto simp: EphemeralBuild_def Let_def removeAll_id split: sum.splits option.splits prod.splits if_splits)
  have ok: "removeDir d dirs' = dirs" if "EphemeralBuild bt opts dirs = (Inr (b, d), dirs')" for opts b d dirs'
    using that assms by (auto simp: EphemeralBuild_def Let_def removeDir_def removeAll_id split: sum.splits option.splits prod.splits if_splits)
  show ?thesis using fails ok by (auto simp: DescribeHandler_Describe_def Let_def split: sum.splits prod.splits)
qed

definition demo_tools :: build_tools where
  "demo_tools = \<lparr>bt_TempDir = ''/tmp'', bt_MkdirAll = \<lambda>_. None, bt_MkdirTemp = \<lambda>parent. Inr (parent @ ''/build-1''),
     bt_exec = \<lambda>_. None, bt_describe = \<lambda>_. Inl (Error [] ''exit status 2'')\<rparr>"

end
