(* ===== verification/Installers.thy ===== *)
theory Installers
  imports Runners Strategy_Handler Sync
begin

text \<open>
  How strategies are found and built: \<open>strategy/github.go\<close> and the version of a repository
  (\<open>ResolveVerWithGit\<close> of \<open>strategy/sync.go\<close>), the install of a binary (\<open>strategy/install.go\<close>) and of an
  image (\<open>strategy/docker_install.go\<close>, \<open>strategy/dockerfile.go\<close>), and the image of an unofficial strategy
  (\<open>strategy/docker_ephemeral.go\<close>). Commands, files, the Docker client and the GitHub search are
  arguments, as in the theories of the runners and of the strategy handlers.
\<close>

subsection \<open>Discovery (github.go)\<close>

record DiscoverOptions =
  do_CacheDir :: string
  do_ExpectOwner :: string
  do_Token :: string
  do_ForceRefresh :: bool

record raw_listing =
  rl_Name :: string
  rl_Owner :: string
  rl_Description :: string
  rl_Categories :: "string list"
  rl_CloneURL :: string
  rl_Stars :: int
  rl_UpdatedAt :: string

text \<open>The state is the value of \<open>GITHUB_TOKEN\<close>; \<open>setenv\<close> is the error of setting it, \<open>search\<close> sees it, and
  \<open>rfc3339\<close> gives the time of a text, the zero time when it does not parse.\<close>

definition DiscoverOfficial :: "(string \<Rightarrow> error option) \<Rightarrow> (string option \<Rightarrow> DiscoverOptions \<Rightarrow> raw_listing list result) \<Rightarrow> (string \<Rightarrow> instant)
    \<Rightarrow> DiscoverOptions \<Rightarrow> string option \<Rightarrow> Listing list result \<times> string option" where
  "DiscoverOfficial setenv search rfc3339 opts env =
     (case (if do_Token opts \<noteq> [] then setenv (do_Token opts) else None) of
        Some e \<Rightarrow> (Inl (wrap ''setting GITHUB_TOKEN'' e), env)
      | None \<Rightarrow>
          (case search (if do_Token opts \<noteq> [] then Some (do_Token opts) else env) opts of
             Inl e \<Rightarrow> (Inl (wrap ''pvbt search'' e), env)
           | Inr raw \<Rightarrow>
               (Inr (map (\<lambda>r. \<lparr>l_Name = rl_Name r, l_Owner = rl_Owner r, l_Description = rl_Description r, l_Categories = rl_Categories r,
                               l_CloneURL = rl_CloneURL r, l_Stars = rl_Stars r, l_UpdatedAt = rfc3339 (rl_UpdatedAt r)\<rparr>)
                      (filter (\<lambda>r. \<not> (do_ExpectOwner opts \<noteq> [] \<and> rl_Owner r \<noteq> do_ExpectOwner opts)) raw)),
                env)))"

subsection \<open>The newest tag (sync.go)\<close>

text \<open>\<open>strings.Split\<close> at line ends and \<open>strings.Fields\<close> on ASCII bytes.\<close>

fun split_on :: "(char \<Rightarrow> bool) \<Rightarrow> string \<Rightarrow> string \<Rightarrow> string list" where
  "split_on sep acc [] = [rev acc]"
| "split_on sep acc (c # s) = (if sep c then rev acc # split_on sep [] s else split_on sep (c # acc) s)"

definition is_blank :: "char \<Rightarrow> bool" where
  "is_blank c \<longleftrightarrow> of_char c \<in> {9, 10, 11, 12, 13, 32 :: nat}"

definition fields_ascii :: "string \<Rightarrow> string list" where
  "fields_ascii s = filter (\<lambda>f. f \<noteq> []) (split_on is_blank [] s)"

definition TrimSuffix :: "string \<Rightarrow> string \<Rightarrow> string" where
  "TrimSuffix s suf = (if suf \<noteq> [] \<and> length suf \<le> length s \<and> drop (length s - length suf) s = suf then take (length s - length suf) s else s)"

definition tag_of_line :: "string \<Rightarrow> string option" where
  "tag_of_line line0 =
     (let line = TrimSpace line0; fs = fields_ascii line in
      if line = [] \<or> length fs \<noteq> 2 then None
      else let ref = TrimSuffix (fs ! 1) ''^{}'' in
           if take (length ''refs/tags/'') ref = ''refs/tags/'' then Some (drop (length ''refs/tags/'') ref) else None)"

definition ResolveVerWithGit :: "(string list \<Rightarrow> error option \<times> string) \<Rightarrow> string \<Rightarrow> string result" where
  "ResolveVerWithGit git cloneURL =
     (let (err, out) = git [''git'', ''ls-remote'', ''--tags'', ''--sort=-v:refname'', cloneURL] in
      case err of
        Some e \<Rightarrow> Inl (Error (err_chain e) (''git ls-remote --tags '' @ cloneURL @ '': '' @ err_text e @ Handler.newline @ out))
      | None \<Rightarrow>
          (case List.map_filter tag_of_line (split_on (\<lambda>c. c = Hub.newline) [] out) of
             [] \<Rightarrow> Inl (Error [ErrNoTagsFound] (''no tags found on '' @ cloneURL))
           | tag # _ \<Rightarrow> Inr tag))"

subsection \<open>Installing a binary (install.go)\<close>

record install_tools =
  it_exec :: "string \<Rightarrow> string list \<Rightarrow> (error \<times> string) option"
    \<comment> \<open>the error of a command run in a directory and what it printed\<close>
  it_describe :: "string \<Rightarrow> rawjson result"
  it_Rename :: "string \<Rightarrow> string \<Rightarrow> error option"
  it_goVersion :: "string \<Rightarrow> string option"
    \<comment> \<open>the go directive of the module file in a directory\<close>
  it_WriteFile :: "string \<Rightarrow> string \<Rightarrow> error option"

definition missing_fields :: "InstallRequest \<Rightarrow> bool" where
  "missing_fields req \<longleftrightarrow> iq_CloneURL req = [] \<or> iq_Version req = [] \<or> iq_DestDir req = []"

definition missing_fields_error :: error where
  "missing_fields_error = Error [ErrInstallMissingFields] ''InstallRequest: all fields required''"

definition clone_error :: "InstallRequest \<Rightarrow> error \<times> string \<Rightarrow> error" where
  "clone_error req = (\<lambda>(e, out). Error (err_chain e) (''git clone '' @ iq_CloneURL req @ ''@'' @ iq_Version req @ '': '' @ err_text e @ Handler.newline @ out))"

definition install_clone :: "install_tools \<Rightarrow> InstallRequest \<Rightarrow> unit result" where
  "install_clone it req =
     (case it_exec it [] [''git'', ''clone'', ''--depth=1'', ''--branch'', iq_Version req, iq_CloneURL req, iq_DestDir req] of
        Some x \<Rightarrow> Inl (clone_error req x)
      | None \<Rightarrow> Inr ())"

definition parse_describe :: "rawjson \<Rightarrow> Describe result" where
  "parse_describe raw = (case unmarshalDescribe raw of Inl e \<Rightarrow> Inl (wrap ''parsing describe output'' e) | Inr d \<Rightarrow> Inr d)"

definition Install :: "install_tools \<Rightarrow> InstallRequest \<Rightarrow> InstallResult result" where
  "Install it req =
     (if missing_fields req then Inl missing_fields_error
      else case install_clone it req of
        Inl e \<Rightarrow> Inl e
      | Inr _ \<Rightarrow>
          (let tmpBinPath = filepath_Join [iq_DestDir req, ''strategy.bin''] in
           case it_exec it (iq_DestDir req) [''go'', ''build'', ''-o'', tmpBinPath, ''.''] of
             Some (e, out) \<Rightarrow> Inl (Error (err_chain e) (''go build: '' @ err_text e @ Handler.newline @ out))
           | None \<Rightarrow>
               (case it_describe it tmpBinPath of
                  Inl e \<Rightarrow> Inl (wrap (tmpBinPath @ '' describe --json'') e)
                | Inr raw \<Rightarrow>
                    (case parse_describe raw of
                       Inl e \<Rightarrow> Inl e
                     | Inr d \<Rightarrow>
                         (let binPath = filepath_Join [iq_DestDir req, d_ShortCode d @ ''.bin''] in
                          case it_Rename it tmpBinPath binPath of
                            Some e \<Rightarrow> Inl (wrap (''rename binary to '' @ binPath) e)
                          | None \<Rightarrow> Inr \<lparr>ir_BinPath = binPath, ir_ArtifactRef = binPath, ir_DescribeJSON = raw, ir_ShortCode = d_ShortCode d\<rparr>)))))"

subsection \<open>Images (dockerfile.go, docker_install.go)\<close>

definition DefaultGoVersion :: string where "DefaultGoVersion = ''1.24''"

definition ParseGoVersion :: "install_tools \<Rightarrow> string \<Rightarrow> string" where
  "ParseGoVersion it dir = (case it_goVersion it dir of None \<Rightarrow> [] | Some v \<Rightarrow> v)"

definition RenderDockerfile :: "string \<Rightarrow> string" where
  "RenderDockerfile goVer0 =
     (let goVer = (if goVer0 = [] then DefaultGoVersion else goVer0); nl = Handler.newline in
      ''# syntax=docker/dockerfile:1.7'' @ nl @ ''FROM golang:'' @ goVer @ ''-alpine AS build'' @ nl @ ''WORKDIR /src'' @ nl @ ''COPY . .'' @ nl
      @ ''RUN CGO_ENABLED=0 go build -trimpath -o /out/strategy .'' @ nl @ nl @ ''FROM gcr.io/distroless/static-debian12:nonroot'' @ nl
      @ ''COPY --from=build /out/strategy /strategy'' @ nl @ ''USER nonroot:nonroot'' @ nl @ ''ENTRYPOINT [\"/strategy\"]'' @ nl)"

definition writeDockerfileIntoDir :: "install_tools \<Rightarrow> string \<Rightarrow> unit result" where
  "writeDockerfileIntoDir it dir =
     (case it_WriteFile it (filepath_Join [dir, ''Dockerfile'']) (RenderDockerfile (ParseGoVersion it dir)) of
        Some e \<Rightarrow> Inl (wrap ''write Dockerfile'' e)
      | None \<Rightarrow> Inr ())"

text \<open>\<open>url.Parse\<close> as host and path: exact for \<open>https\<close> URLs of plain characters, for others the argument
  \<open>other\<close>.\<close>

definition url_Parse :: "(string \<Rightarrow> (string \<times> string) option) \<Rightarrow> string \<Rightarrow> (string \<times> string) option" where
  "url_Parse other s =
     (let rest = drop (length ''https://'') s in
      if take (length ''https://'') s = ''https://'' \<and> list_all (\<lambda>c. url_char c \<or> c = CHR ''/'') rest
      then Some (takeWhile (\<lambda>c. c \<noteq> CHR ''/'') rest, dropWhile (\<lambda>c. c \<noteq> CHR ''/'') rest)
      else other s)"

definition repo_path :: "string \<Rightarrow> string" where
  "repo_path path = TrimSuffix (if take 1 path = ''/'' then drop 1 path else path) ''.git''"

definition dashed :: "string \<Rightarrow> string" where
  "dashed s = map (\<lambda>c. if c = CHR ''/'' \<or> c = CHR '':'' then CHR ''-'' else c) s"

definition ImageTag :: "(string \<Rightarrow> (string \<times> string) option) \<Rightarrow> string \<Rightarrow> string \<Rightarrow> string \<Rightarrow> string" where
  "ImageTag other prefix cloneURL ver =
     (let u = url_Parse other cloneURL;
          unknown = prefix @ ''/unknown/'' @ dashed (case u of Some (host, path) \<Rightarrow> if host \<noteq> [] then host @ path else cloneURL | None \<Rightarrow> cloneURL) @ '':'' @ ver in
      case u of
        Some (host, path) \<Rightarrow>
          if host = ''github.com'' \<and> CHR ''/'' \<in> set (repo_path path)
          then prefix @ ''/'' @ takeWhile (\<lambda>c. c \<noteq> CHR ''/'') (repo_path path) @ ''/'' @ tl (dropWhile (\<lambda>c. c \<noteq> CHR ''/'') (repo_path path)) @ '':'' @ ver
          else unknown
      | None \<Rightarrow> unknown)"

record build_frame =
  bf_Stream :: string
  bf_Error :: "string option"

text \<open>The client with what building needs: the stream of an \<open>ImageBuild\<close> as the results of decoding it,
  the error of the demultiplexer other than the end of the stream, and that of the context.\<close>

record build_client = docker_client +
  dk_ImageBuild :: "docker_call list \<Rightarrow> (string \<times> string) list \<Rightarrow> string \<Rightarrow> build_frame result list result"
  dk_StdCopyErr :: "docker_call list \<Rightarrow> error option"
  dk_ctxErr :: error

text \<open>A step of \<open>filepath.Walk\<close> under the build directory: the error it reports, the path relative to the
  directory, the error of the header, and the contents of a regular file.\<close>

record walk_entry =
  we_err :: "error option"
  we_Rel :: string
  we_headerErr :: "error option"
  we_content :: "string result option"

definition tar_entry :: "(string \<times> string) list \<Rightarrow> walk_entry \<Rightarrow> (string \<times> string) list result" where
  "tar_entry tar x =
     (case we_err x of
        Some e \<Rightarrow> Inl e
      | None \<Rightarrow>
          if we_Rel x = ''.'' then Inr tar
          else (case we_headerErr x of
                  Some e \<Rightarrow> Inl e
                | None \<Rightarrow>
                    (case we_content x of
                       None \<Rightarrow> Inr (tar @ [(we_Rel x, [])])
                     | Some (Inl e) \<Rightarrow> Inl e
                     | Some (Inr c) \<Rightarrow> Inr (tar @ [(we_Rel x, c)]))))"

fun tar_entries :: "(string \<times> string) list \<Rightarrow> walk_entry list \<Rightarrow> (string \<times> string) list result" where
  "tar_entries tar [] = Inr tar"
| "tar_entries tar (x # xs) = (case tar_entry tar x of Inl e \<Rightarrow> Inl e | Inr tar' \<Rightarrow> tar_entries tar' xs)"

definition tarDir :: "(string \<Rightarrow> walk_entry list) \<Rightarrow> string \<Rightarrow> (string \<times> string) list result" where
  "tarDir walk dir = tar_entries [] (walk dir)"

fun drainBuildStream :: "string \<Rightarrow> build_frame result list \<Rightarrow> string \<times> error option" where
  "drainBuildStream out [] = (out, None)"
| "drainBuildStream out (Inl e # fs) = (out, Some e)"
| "drainBuildStream out (Inr f # fs) =
     (case bf_Error f of
        Some msg \<Rightarrow> (out @ bf_Stream f, Some (Error [ErrDockerBuildFailed] (''strategy: docker image build failed: '' @ msg)))
      | None \<Rightarrow> drainBuildStream (out @ bf_Stream f) fs)"

definition build_failed :: "error \<Rightarrow> string \<Rightarrow> error" where
  "build_failed e out = Error (ErrDockerBuildFailed # err_chain e) (''strategy: docker image build failed: '' @ err_text e @ out)"

definition buildDockerImage :: "(string \<Rightarrow> walk_entry list) \<Rightarrow> build_client \<Rightarrow> string \<Rightarrow> string \<Rightarrow> docker_call list \<Rightarrow> unit result \<times> docker_call list" where
  "buildDockerImage walk dk dir tag calls =
     (case tarDir walk dir of
        Inl e \<Rightarrow> (Inl (wrap ''tar build context'' e), calls)
      | Inr tar \<Rightarrow>
          (case dk_ImageBuild dk calls tar tag of
             Inl e \<Rightarrow> (Inl (build_failed e []), calls @ [BuildCall tar tag])
           | Inr stream \<Rightarrow>
               (case drainBuildStream [] stream of
                  (out, Some e) \<Rightarrow> (Inl (build_failed e (Handler.newline @ out)), calls @ [BuildCall tar tag])
                | (out, None) \<Rightarrow> (Inr (), calls @ [BuildCall tar tag]))))"

definition describe_spec :: "string \<Rightarrow> container_spec" where
  "describe_spec img = \<lparr>cs_Image = img, cs_Cmd = [''describe'', ''--json''], cs_AutoRemove = True, cs_NetworkMode = [], cs_NanoCPUs = 0,
     cs_Memory = 0, cs_Mounts = [], cs_Tmpfs = [], cs_Name = []\<rparr>"

text \<open>The end of \<open>runDescribeInContainer\<close>, after the container has exited with 0.\<close>

definition describe_logs :: "build_client \<Rightarrow> string \<Rightarrow> docker_call list \<Rightarrow> string result \<times> docker_call list" where
  "describe_logs dk cid calls =
     (case dk_ContainerLogs dk calls cid of
        Inl e \<Rightarrow> (Inl (wrap ''container logs'' e), calls @ [LogsCall cid])
      | Inr frames \<Rightarrow>
          (case dk_StdCopyErr dk calls of
             Some e \<Rightarrow> (Inl (wrap ''demux logs'' e), calls @ [LogsCall cid])
           | None \<Rightarrow> (Inr (TrimSpace (concat (stdout_of frames))), calls @ [LogsCall cid])))"

definition runDescribeInContainer :: "build_client \<Rightarrow> string \<Rightarrow> docker_call list \<Rightarrow> string result \<times> docker_call list" where
  "runDescribeInContainer dk img calls =
     (let spec = describe_spec img; calls1 = calls @ [CreateCall spec] in
      case dk_ContainerCreate dk calls spec of
        Inl e \<Rightarrow> (Inl (wrap ''container create'' e), calls1)
      | Inr cid \<Rightarrow>
          (case dk_ContainerStart dk calls1 cid of
             Inl e \<Rightarrow> (Inl (wrap ''container start'' e), calls1 @ [StartCall cid])
           | Inr _ \<Rightarrow>
               (let calls2 = calls1 @ [StartCall cid, WaitCall cid] in
                case dk_ContainerWait dk (calls1 @ [StartCall cid]) cid of
                  WaitError e \<Rightarrow> (Inl (wrap ''container wait'' e), calls2)
                | WaitResult st \<Rightarrow>
                    if st \<noteq> 0 then (Inl (Error [ErrDescribeNonZeroExit] (''strategy: describe container exited non-zero: exit '' @ dec st)), calls2)
                    else describe_logs dk cid calls2
                | CtxDone \<Rightarrow> (Inl (dk_ctxErr dk), calls2))))"

definition describeDockerImage :: "(string \<Rightarrow> rawjson) \<Rightarrow> build_client \<Rightarrow> string \<Rightarrow> docker_call list \<Rightarrow> (rawjson \<times> Describe) result \<times> docker_call list" where
  "describeDockerImage raw_of dk tag calls =
     (case runDescribeInContainer dk tag calls of
        (Inl e, calls1) \<Rightarrow> (Inl (wrap ''describe after build'' e), calls1)
      | (Inr text', calls1) \<Rightarrow>
          (case parse_describe (raw_of text') of
             Inl e \<Rightarrow> (Inl e, calls1)
           | Inr d \<Rightarrow> (Inr (raw_of text', d), calls1)))"

record DockerInstallDeps =
  dd_Client :: "build_client option"
  dd_ImagePrefix :: string
  dd_BuildTimeout :: int

definition client_nil :: error where "client_nil = Error [ErrDockerClientNil] ''strategy: docker client is nil''"

definition validateDockerInstallInputs :: "InstallRequest \<Rightarrow> DockerInstallDeps \<Rightarrow> (build_client \<times> DockerInstallDeps) result" where
  "validateDockerInstallInputs req deps =
     (if missing_fields req then Inl missing_fields_error
      else case dd_Client deps of
        None \<Rightarrow> Inl client_nil
      | Some dk \<Rightarrow> Inr (dk, deps\<lparr>dd_ImagePrefix := if dd_ImagePrefix deps = [] then ''pvapi-strategy'' else dd_ImagePrefix deps,
                                 dd_BuildTimeout := if dd_BuildTimeout deps \<le> 0 then 600000000000 else dd_BuildTimeout deps\<rparr>))"

definition InstallDocker :: "(string \<Rightarrow> (string \<times> string) option) \<Rightarrow> (string \<Rightarrow> rawjson) \<Rightarrow> (string \<Rightarrow> walk_entry list) \<Rightarrow> install_tools
    \<Rightarrow> InstallRequest \<Rightarrow> DockerInstallDeps \<Rightarrow> docker_call list \<Rightarrow> InstallResult result \<times> docker_call list" where
  "InstallDocker other raw_of walk it req deps0 calls =
     (case validateDockerInstallInputs req deps0 of
        Inl e \<Rightarrow> (Inl e, calls)
      | Inr (dk, deps) \<Rightarrow>
          (case install_clone it req of
             Inl e \<Rightarrow> (Inl e, calls)
           | Inr _ \<Rightarrow>
               (case writeDockerfileIntoDir it (iq_DestDir req) of
                  Inl e \<Rightarrow> (Inl e, calls)
                | Inr _ \<Rightarrow>
                    (let tag = ImageTag other (dd_ImagePrefix deps) (iq_CloneURL req) (iq_Version req) in
                     case buildDockerImage walk dk (iq_DestDir req) tag calls of
                       (Inl e, calls1) \<Rightarrow> (Inl e, calls1)
                     | (Inr _, calls1) \<Rightarrow>
                         (case describeDockerImage raw_of dk tag calls1 of
                            (Inl e, calls2) \<Rightarrow> (Inl e, calls2)
                          | (Inr (raw, d), calls2) \<Rightarrow>
                              (Inr \<lparr>ir_BinPath = [], ir_ArtifactRef = tag, ir_DescribeJSON = raw, ir_ShortCode = d_ShortCode d\<rparr>, calls2))))))"

subsection \<open>The image of an unofficial strategy (docker_ephemeral.go)\<close>

record DockerEphemeralOptions =
  de_CloneURL :: string
  de_Ver :: string
  de_Dir :: string
  de_Timeout :: int
  de_SkipURLValidation :: bool
  de_Client :: "build_client option"
  de_ImagePrefix :: string

definition normalizeEphemeralOptions :: "string \<Rightarrow> DockerEphemeralOptions \<Rightarrow> (build_client \<times> DockerEphemeralOptions) result" where
  "normalizeEphemeralOptions tempDir opts =
     (case (if de_SkipURLValidation opts then Inr () else ValidateCloneURL (de_CloneURL opts)) of
        Inl e \<Rightarrow> Inl e
      | Inr _ \<Rightarrow>
          (case de_Client opts of
             None \<Rightarrow> Inl client_nil
           | Some dk \<Rightarrow> Inr (dk, opts\<lparr>de_ImagePrefix := if de_ImagePrefix opts = [] then ''pvapi-strategy'' else de_ImagePrefix opts,
                                      de_Timeout := if de_Timeout opts = 0 then 300000000000 else de_Timeout opts,
                                      de_Dir := if de_Dir opts = [] then tempDir else de_Dir opts\<rparr>)))"

definition prepareEphemeralBuildDir :: "build_tools \<Rightarrow> string \<Rightarrow> string result" where
  "prepareEphemeralBuildDir bt parent =
     (case bt_MkdirAll bt parent of
        Some e \<Rightarrow> Inl (wrap ''ephemeral-image: parent dir'' e)
      | None \<Rightarrow> (case bt_MkdirTemp bt parent of Inl e \<Rightarrow> Inl (wrap ''ephemeral-image: mkdtemp'' e) | Inr d \<Rightarrow> Inr d))"

definition ephemeralClone :: "build_tools \<Rightarrow> string \<Rightarrow> string \<Rightarrow> string \<Rightarrow> unit result" where
  "ephemeralClone bt cloneURL ver buildDir =
     (case bt_exec bt ([''git'', ''clone'', ''--depth=1''] @ (if ver \<noteq> [] then [''--branch'', ver] else []) @ [cloneURL, buildDir]) of
        Some (e, out) \<Rightarrow> Inl (Error (err_chain e) (''ephemeral-image: git clone: '' @ err_text e @ Handler.newline @ out))
      | None \<Rightarrow> Inr ())"

definition ephemeralBuildImage :: "(string \<Rightarrow> walk_entry list) \<Rightarrow> build_client \<Rightarrow> string \<Rightarrow> string \<Rightarrow> docker_call list \<Rightarrow> unit result \<times> docker_call list" where
  "ephemeralBuildImage walk dk buildDir tag calls =
     (case tarDir walk buildDir of
        Inl e \<Rightarrow> (Inl (wrap ''ephemeral-image: tar'' e), calls)
      | Inr tar \<Rightarrow>
          (case dk_ImageBuild dk calls tar tag of
             Inl e \<Rightarrow> (Inl (build_failed e []), calls @ [BuildCall tar tag])
           | Inr stream \<Rightarrow>
               (case drainBuildStream [] stream of
                  (_, Some e) \<Rightarrow> (Inl (build_failed e []), calls @ [BuildCall tar tag])
                | (_, None) \<Rightarrow> (Inr (), calls @ [BuildCall tar tag]))))"

text \<open>The state is the build directories that exist and the calls made; \<open>new_uuid\<close> is \<open>uuid.NewString\<close>.\<close>

definition EphemeralImageBuild :: "(string \<Rightarrow> walk_entry list) \<Rightarrow> install_tools \<Rightarrow> build_tools \<Rightarrow> string \<Rightarrow> DockerEphemeralOptions
    \<Rightarrow> string list \<times> docker_call list \<Rightarrow> (string \<times> string) result \<times> string list \<times> docker_call list" where
  "EphemeralImageBuild walk it bt new_uuid opts0 = (\<lambda>(dirs, calls).
     case normalizeEphemeralOptions (bt_TempDir bt) opts0 of
       Inl e \<Rightarrow> (Inl e, dirs, calls)
     | Inr (dk, opts) \<Rightarrow>
         (case prepareEphemeralBuildDir bt (de_Dir opts) of
            Inl e \<Rightarrow> (Inl e, dirs, calls)
          | Inr buildDir \<Rightarrow>
              (let tag = de_ImagePrefix opts @ ''/ephemeral/'' @ new_uuid @ '':latest''; dirs1 = buildDir # dirs in
               case ephemeralClone bt (de_CloneURL opts) (de_Ver opts) buildDir of
                 Inl e \<Rightarrow> (Inl e, removeAll buildDir dirs1, calls)
               | Inr _ \<Rightarrow>
                   (case writeDockerfileIntoDir it buildDir of
                      Inl e \<Rightarrow> (Inl (wrap ''ephemeral-image'' e), removeAll buildDir dirs1, calls)
                    | Inr _ \<Rightarrow>
                        (case ephemeralBuildImage walk dk buildDir tag calls of
                           (Inl e, calls1) \<Rightarrow> (Inl e, removeAll buildDir dirs1, calls1)
                         | (Inr _, calls1) \<Rightarrow> (Inr (tag, buildDir), dirs1, calls1))))))"

text \<open>The cleanup of a successful build, with the flag that says it has run.\<close>

definition makeEphemeralCleanup :: "string \<Rightarrow> string \<Rightarrow> bool \<times> string list \<times> docker_call list \<Rightarrow> bool \<times> string list \<times> docker_call list" where
  "makeEphemeralCleanup tag buildDir = (\<lambda>(removed, dirs, calls).
     if removed then (removed, dirs, calls) else (True, removeAll buildDir dirs, calls @ [RemoveImageCall tag]))"

section \<open>Image names\<close>

lemma separators: "\<not> url_char (CHR ''/'')" "\<not> url_char (CHR '':'')"
  by (simp_all add: url_char_def)

lemma takeWhile_slash: "list_all url_char xs \<Longrightarrow> takeWhile (\<lambda>c. c \<noteq> CHR ''/'') (xs @ CHR ''/'' # ys) = xs"
  "list_all url_char xs \<Longrightarrow> dropWhile (\<lambda>c. c \<noteq> CHR ''/'') (xs @ CHR ''/'' # ys) = CHR ''/'' # ys"
proof -
  assume "list_all url_char xs"
  then have "\<And>c. c \<in> set xs \<Longrightarrow> c \<noteq> CHR ''/''" using separators by (auto simp: list_all_iff)
  then show "takeWhile (\<lambda>c. c \<noteq> CHR ''/'') (xs @ CHR ''/'' # ys) = xs" "dropWhile (\<lambda>c. c \<noteq> CHR ''/'') (xs @ CHR ''/'' # ys) = CHR ''/'' # ys"
    by (simp_all add: takeWhile_append2 dropWhile_append2)
qed

lemma first_separator: "c \<notin> set xs \<Longrightarrow> c \<notin> set xs' \<Longrightarrow> xs @ c # ys = xs' @ c # ys' \<longleftrightarrow> xs = xs' \<and> ys = ys'"
proof (induction xs arbitrary: xs')
  case Nil
  then show ?case by (cases xs') auto
next
  case (Cons a xs)
  then show ?case by (cases xs') auto
qed

lemma TrimSuffix_append:
  assumes "c \<notin> set suf"
  shows "TrimSuffix (xs @ c # ys) suf = xs @ c # TrimSuffix ys suf"
proof (cases "length suf \<le> length ys")
  case True
  then show ?thesis by (simp add: TrimSuffix_def Suc_diff_le)
next
  case False
  have "drop (length (xs @ c # ys) - length suf) (xs @ c # ys) \<noteq> suf" if "length suf \<le> length (xs @ c # ys)"
  proof
    assume d: "drop (length (xs @ c # ys) - length suf) (xs @ c # ys) = suf"
    have "c \<in> set (drop (length (xs @ c # ys) - length suf) (xs @ c # ys))" using False by (simp add: drop_Cons')
    with d assms show False by simp
  qed
  with False show ?thesis by (auto simp: TrimSuffix_def)
qed

lemma TrimSuffix_chars: "list_all P ys \<Longrightarrow> list_all P (TrimSuffix ys suf)"
  by (auto simp: TrimSuffix_def list_all_iff dest: in_set_takeD)

lemma ImageTag_github:
  assumes "list_all url_char owner" and "list_all url_char repo"
  shows "ImageTag other prefix (''https://github.com/'' @ owner @ ''/'' @ repo) ver = prefix @ ''/'' @ owner @ ''/'' @ TrimSuffix repo ''.git'' @ '':'' @ ver"
proof -
  have host: "list_all url_char ''github.com''" by (simp add: url_char_def)
  have url: "''https://github.com/'' @ owner @ ''/'' @ repo = ''https://'' @ ''github.com'' @ CHR ''/'' # owner @ CHR ''/'' # repo" by simp
  have rest: "list_all (\<lambda>c. url_char c \<or> c = CHR ''/'') (''github.com'' @ CHR ''/'' # owner @ CHR ''/'' # repo)"
    using assms host by (auto simp: list_all_iff)
  have parse: "url_Parse other (''https://github.com/'' @ owner @ ''/'' @ repo) = Some (''github.com'', CHR ''/'' # owner @ CHR ''/'' # repo)"
    unfolding url url_Parse_def Let_def append_eq_conv_conj [THEN iffD1, OF refl, of "''https://''", THEN conjunct1]
    using rest takeWhile_slash [OF host] by simp
  have path: "repo_path (CHR ''/'' # owner @ CHR ''/'' # repo) = owner @ CHR ''/'' # TrimSuffix repo ''.git''"
    by (simp add: repo_path_def TrimSuffix_append)
  show ?thesis unfolding ImageTag_def Let_def parse using takeWhile_slash [OF assms(1)] by (simp add: path)
qed

text \<open>
  C36. The image of a strategy is named by its repository and version. For clone URLs that the
  allowlist accepts, two installs have the same image name exactly when the URLs are the same up to
  an ending \<open>.git\<close> and the versions are equal, so an install never replaces the image of another
  repository or version.
\<close>

theorem ImageTag_inj:
  assumes "ValidateCloneURL u = Inr ()" and "ValidateCloneURL u' = Inr ()"
  shows "ImageTag other prefix u ver = ImageTag other prefix u' ver' \<longleftrightarrow> TrimSuffix u ''.git'' = TrimSuffix u' ''.git'' \<and> ver = ver'"
proof -
  obtain ow re ow' re' where u: "u = ''https://github.com/'' @ ow @ ''/'' @ re" "list_all url_char ow" "list_all url_char re"
    and u': "u' = ''https://github.com/'' @ ow' @ ''/'' @ re'" "list_all url_char ow'" "list_all url_char re'"
    using assms by (auto simp: ValidateCloneURL_iff)
  let ?r = "TrimSuffix re ''.git''" and ?r' = "TrimSuffix re' ''.git''"
  have trim: "TrimSuffix u ''.git'' = ''https://github.com/'' @ ow @ CHR ''/'' # ?r" "TrimSuffix u' ''.git'' = ''https://github.com/'' @ ow' @ CHR ''/'' # ?r'"
    using TrimSuffix_append [of "CHR ''/''" "''.git''" "''https://github.com/'' @ ow" re] TrimSuffix_append [of "CHR ''/''" "''.git''" "''https://github.com/'' @ ow'" re']
    by (simp_all add: u(1) u'(1))
  have colon: "CHR '':'' \<notin> set ?r" "CHR '':'' \<notin> set ?r'"
    using TrimSuffix_chars [OF u(3), of "''.git''"] TrimSuffix_chars [OF u'(3), of "''.git''"] separators by (auto simp: list_all_iff)
  have slash: "CHR ''/'' \<notin> set ow" "CHR ''/'' \<notin> set ow'" using u(2) u'(2) separators by (auto simp: list_all_iff)
  have "ow @ CHR ''/'' # ?r @ CHR '':'' # ver = ow' @ CHR ''/'' # ?r' @ CHR '':'' # ver' \<longleftrightarrow> ow = ow' \<and> ?r = ?r' \<and> ver = ver'"
    using slash colon by (simp add: first_separator)
  moreover have "ow @ CHR ''/'' # ?r = ow' @ CHR ''/'' # ?r' \<longleftrightarrow> ow = ow' \<and> ?r = ?r'"
    using slash by (rule first_separator)
  ultimately show ?thesis unfolding trim unfolding u(1) u'(1) ImageTag_github [OF u(2,3)] ImageTag_github [OF u'(2,3)] by simp
qed

theorem ImageTag_inj_witness:
  "ImageTag (\<lambda>_. None) ''p'' ''https://github.com/x/adm.git'' ''v1'' = ImageTag (\<lambda>_. None) ''p'' ''https://github.com/x/adm'' ''v1''
   \<and> ImageTag (\<lambda>_. None) ''p'' ''https://github.com/x/adm.git'' ''v1'' \<noteq> ImageTag (\<lambda>_. None) ''p'' ''https://github.com/x/adm.git'' ''v2''"
proof -
  have "ValidateCloneURL ''https://github.com/x/adm.git'' = Inr ()" "ValidateCloneURL ''https://github.com/x/adm'' = Inr ()"
    unfolding ValidateCloneURL_iff
    by (rule exI [of _ "''x''"], rule exI [of _ "''adm.git''"], simp add: url_char_def, rule exI [of _ "''x''"], rule exI [of _ "''adm''"], simp add: url_char_def)
  then show ?thesis by (simp add: ImageTag_inj TrimSuffix_def)
qed

section \<open>Installs\<close>

text \<open>The search sees the configured token, and the environment is afterwards as it was.\<close>

lemma DiscoverOfficial_spec:
  "snd (DiscoverOfficial setenv search rfc3339 opts env) = env"
  "fst (DiscoverOfficial setenv search rfc3339 opts env) = Inr ls \<Longrightarrow> do_ExpectOwner opts \<noteq> [] \<Longrightarrow> \<forall>l \<in> set ls. l_Owner l = do_ExpectOwner opts"
  by (auto simp: DiscoverOfficial_def split: option.splits sum.splits if_splits)

lemma runDescribe_Inr:
  assumes "runDescribeInContainer dk img calls = (Inr out, calls')"
  shows "\<exists>cid frames. calls' = calls @ [CreateCall (describe_spec img), StartCall cid, WaitCall cid, LogsCall cid]
    \<and> dk_ContainerWait dk (calls @ [CreateCall (describe_spec img), StartCall cid]) cid = WaitResult 0
    \<and> dk_ContainerLogs dk (calls @ [CreateCall (describe_spec img), StartCall cid, WaitCall cid]) cid = Inr frames
    \<and> out = TrimSpace (concat (stdout_of frames))"
  using assms
  by (auto simp: runDescribeInContainer_def describe_logs_def Let_def split: sum.splits wait_event.splits option.splits if_splits)

lemma buildDockerImage_Inr:
  assumes "buildDockerImage walk dk dir tag calls = (Inr u, calls')"
  shows "\<exists>tar stream out. tarDir walk dir = Inr tar \<and> dk_ImageBuild dk calls tar tag = Inr stream \<and> drainBuildStream [] stream = (out, None)
    \<and> calls' = calls @ [BuildCall tar tag]"
  using assms by (auto simp: buildDockerImage_def split: sum.splits prod.splits option.splits)

text \<open>
  An install in Docker mode that succeeds has built the image of the cloned directory under the
  name of the repository and version, with no error in the build's stream, has run \<open>describe\<close> in a
  container of that image which exited with 0, and returns the name as the artifact and the document
  and the short code that the container printed; these are all the calls it made.
\<close>

lemma InstallDocker_succeeded:
  assumes "InstallDocker other raw_of walk it req deps calls = (Inr res, calls')"
  shows "\<exists>dk tar stream out cid frames d. let tag = ImageTag other (if dd_ImagePrefix deps = [] then ''pvapi-strategy'' else dd_ImagePrefix deps) (iq_CloneURL req) (iq_Version req) in
    dd_Client deps = Some dk \<and> tarDir walk (iq_DestDir req) = Inr tar \<and> dk_ImageBuild dk calls tar tag = Inr stream \<and> drainBuildStream [] stream = (out, None)
    \<and> calls' = calls @ [BuildCall tar tag, CreateCall (describe_spec tag), StartCall cid, WaitCall cid, LogsCall cid]
    \<and> dk_ContainerWait dk (calls @ [BuildCall tar tag, CreateCall (describe_spec tag), StartCall cid]) cid = WaitResult 0
    \<and> dk_ContainerLogs dk (calls @ [BuildCall tar tag, CreateCall (describe_spec tag), StartCall cid, WaitCall cid]) cid = Inr frames
    \<and> unmarshalDescribe (raw_of (TrimSpace (concat (stdout_of frames)))) = Inr d
    \<and> res = \<lparr>ir_BinPath = [], ir_ArtifactRef = tag, ir_DescribeJSON = raw_of (TrimSpace (concat (stdout_of frames))), ir_ShortCode = d_ShortCode d\<rparr>"
proof -
  define tag where "tag = ImageTag other (if dd_ImagePrefix deps = [] then ''pvapi-strategy'' else dd_ImagePrefix deps) (iq_CloneURL req) (iq_Version req)"
  obtain dk calls1 u out d where dk: "dd_Client deps = Some dk" and build: "buildDockerImage walk dk (iq_DestDir req) tag calls = (Inr u, calls1)"
    and run: "runDescribeInContainer dk tag calls1 = (Inr out, calls')" and d: "unmarshalDescribe (raw_of out) = Inr d"
    and res: "res = \<lparr>ir_BinPath = [], ir_ArtifactRef = tag, ir_DescribeJSON = raw_of out, ir_ShortCode = d_ShortCode d\<rparr>"
    using assms
    by (auto simp: InstallDocker_def validateDockerInstallInputs_def describeDockerImage_def parse_describe_def Let_def tag_def
        split: sum.splits prod.splits option.splits if_splits)
  from buildDockerImage_Inr [OF build] runDescribe_Inr [OF run] dk d res show ?thesis unfolding tag_def [symmetric] Let_def by auto
qed

definition removes_on_exit :: "build_client \<Rightarrow> bool" where
  "removes_on_exit dk \<longleftrightarrow> (\<forall>calls cid. WaitCall cid \<in> set calls \<and> dk_ContainerWait dk (takeWhile (\<lambda>c. c \<noteq> WaitCall cid) calls) cid = WaitResult 0
     \<longrightarrow> (\<exists>e. dk_ContainerLogs dk calls cid = Inl e))"


text \<open>
  C37. Building the image of an unofficial strategy leaves nothing behind. When the build fails the
  build directories are as they were. When it succeeds there is one more, and after its cleanup,
  however often it is called, they are as they were and the removal of the image has been asked for
  once.
\<close>

theorem EphemeralImageBuild_no_leak:
  assumes "\<And>parent d. bt_MkdirTemp bt parent = Inr d \<Longrightarrow> d \<notin> set dirs"
    and "EphemeralImageBuild walk it bt new_uuid opts (dirs, calls) = (r, dirs', calls')"
  shows "case r of Inl e \<Rightarrow> dirs' = dirs
    | Inr (tag, d) \<Rightarrow> dirs' = d # dirs \<and> (\<forall>n. (makeEphemeralCleanup tag d ^^ Suc n) (False, dirs', calls') = (True, dirs, calls' @ [RemoveImageCall tag]))"
proof (cases r)
  case (Inl e)
  then show ?thesis using assms
    by (auto simp: EphemeralImageBuild_def prepareEphemeralBuildDir_def Let_def removeAll_id split: sum.splits prod.splits option.splits)
next
  case (Inr x)
  obtain tag d where x: "x = (tag, d)" by fastforce
  have d: "dirs' = d # dirs" "d \<notin> set dirs" using assms Inr x
    by (auto simp: EphemeralImageBuild_def prepareEphemeralBuildDir_def Let_def split: sum.splits prod.splits option.splits)
  have "(makeEphemeralCleanup tag d ^^ Suc n) (False, dirs', calls') = (True, dirs, calls' @ [RemoveImageCall tag])" for n
    using d by (induction n) (simp_all add: makeEphemeralCleanup_def removeAll_id)
  with d Inr x show ?thesis by simp
qed

subsection \<open>Examples\<close>

text \<open>A builder whose containers print a describe document, and are gone or not when they have exited.\<close>

definition demo_builder :: "bool \<Rightarrow> build_client" where
  "demo_builder gone = \<lparr>dk_ContainerCreate = (\<lambda>_ _. Inr ''c1''), dk_ContainerStart = (\<lambda>_ _. Inr ()),
     dk_ContainerLogs = (\<lambda>calls cid. if gone \<and> WaitCall cid \<in> set calls then Inl (Error [] ''No such container: c1'') else Inr [StdoutFrame ''D'']),
     dk_ContainerWait = (\<lambda>_ _. WaitResult 0), dk_file = (\<lambda>_. None), dk_elapsed = (\<lambda>_. 0),
     dk_ImageBuild = (\<lambda>_ _ _. Inr [Inr \<lparr>bf_Stream = ''Step 1'', bf_Error = None\<rparr>]), dk_StdCopyErr = (\<lambda>_. None), dk_ctxErr = Error [DeadlineExceeded] []\<rparr>"

definition demo_install_tools :: install_tools where
  "demo_install_tools = \<lparr>it_exec = (\<lambda>_ _. None), it_describe = (\<lambda>_. Inl (Error [] [])), it_Rename = (\<lambda>_ _. None), it_goVersion = (\<lambda>_. None), it_WriteFile = (\<lambda>_ _. None)\<rparr>"

definition demo_install :: InstallRequest where
  "demo_install = \<lparr>iq_ShortCode = [], iq_CloneURL = ''https://github.com/x/adm'', iq_Version = ''v1'', iq_DestDir = ''/d''\<rparr>"

definition demo_deps :: "bool \<Rightarrow> DockerInstallDeps" where
  "demo_deps gone = \<lparr>dd_Client = Some (demo_builder gone), dd_ImagePrefix = ''p'', dd_BuildTimeout = 0\<rparr>"

definition demo_walk :: "string \<Rightarrow> walk_entry list" where
  "demo_walk _ = [\<lparr>we_err = None, we_Rel = ''.'', we_headerErr = None, we_content = None\<rparr>, \<lparr>we_err = None, we_Rel = ''go.mod'', we_headerErr = None, we_content = Some (Inr ''m'')\<rparr>]"


theorem EphemeralImageBuild_no_leak_witness:
  "\<exists>tag d dirs' calls'. EphemeralImageBuild demo_walk demo_install_tools \<lparr>bt_TempDir = ''/tmp'', bt_MkdirAll = \<lambda>_. None, bt_MkdirTemp = \<lambda>_. Inr ''/tmp/build-1'', bt_exec = \<lambda>_. None, bt_describe = \<lambda>_. Inr RawEmpty\<rparr> ''u''
      \<lparr>de_CloneURL = [], de_Ver = [], de_Dir = [], de_Timeout = 0, de_SkipURLValidation = True, de_Client = Some (demo_builder True), de_ImagePrefix = []\<rparr> ([''/tmp/x''], []) = (Inr (tag, d), dirs', calls')
    \<and> (makeEphemeralCleanup tag d ^^ 2) (False, dirs', calls') = (True, [''/tmp/x''], calls' @ [RemoveImageCall tag])"
proof -
  let ?bt = "\<lparr>bt_TempDir = ''/tmp'', bt_MkdirAll = \<lambda>_. None, bt_MkdirTemp = \<lambda>_. Inr ''/tmp/build-1'', bt_exec = \<lambda>_. None, bt_describe = \<lambda>_. Inr RawEmpty\<rparr>"
  let ?opts = "\<lparr>de_CloneURL = [], de_Ver = [], de_Dir = [], de_Timeout = 0, de_SkipURLValidation = True, de_Client = Some (demo_builder True), de_ImagePrefix = []\<rparr>"
  obtain tag d dirs' calls' where b: "EphemeralImageBuild demo_walk demo_install_tools ?bt ''u'' ?opts ([''/tmp/x''], []) = (Inr (tag, d), dirs', calls')"
    by (auto simp: EphemeralImageBuild_def normalizeEphemeralOptions_def prepareEphemeralBuildDir_def ephemeralClone_def writeDockerfileIntoDir_def ephemeralBuildImage_def
        tarDir_def tar_entry_def Let_def demo_builder_def demo_install_tools_def demo_walk_def)
  have "case (Inr (tag, d) :: (string \<times> string) result) of Inl e \<Rightarrow> dirs' = [''/tmp/x''] | Inr (tag, d) \<Rightarrow> dirs' = d # [''/tmp/x'']
      \<and> (\<forall>n. (makeEphemeralCleanup tag d ^^ Suc n) (False, dirs', calls') = (True, [''/tmp/x''], calls' @ [RemoveImageCall tag]))"
    by (rule EphemeralImageBuild_no_leak [OF _ b]) auto
  then have "(makeEphemeralCleanup tag d ^^ Suc 1) (False, dirs', calls') = (True, [''/tmp/x''], calls' @ [RemoveImageCall tag])"
    unfolding sum.case prod.case by blast
  with b show ?thesis by (metis One_nat_def numeral_2_eq_2)
qed

end
