(* ===== verification/Api.thy ===== *)
theory Api
  imports Alert_Behaviour Strategy_Handler
begin

text \<open>
  The HTTP layer of \<open>api/\<close>: the problem responses (\<open>errors.go\<close>), the bearer token check (\<open>auth.go\<close>)
  and the application that \<open>NewApp\<close> builds (\<open>server.go\<close>, \<open>portfolios.go\<close>, \<open>strategies.go\<close>), which
  checks the token of every route under \<open>/api/v3\<close> before a handler runs. The key cache, \<open>jwt.Parse\<close>
  and fiber's path matcher are arguments; fiber takes the first registered route that matches.
\<close>

subsection \<open>Problems (errors.go)\<close>

definition classify :: "error \<Rightarrow> nat \<times> string" where
  "classify e =
     (if errors_Is e ErrInvalidToken then (401, ''Unauthorized'')
      else if errors_Is e ApiErrNotFound then (404, ''Not Found'')
      else if errors_Is e ErrConflict then (409, ''Conflict'')
      else if errors_Is e ErrInvalidParams then (422, ''Unprocessable Entity'')
      else if errors_Is e ErrNotImplemented then (501, ''Not Implemented'')
      else (500, ''Internal Server Error''))"

definition problem_detail :: "error \<Rightarrow> string \<Rightarrow> string" where
  "problem_detail e override =
     (let detail = (if override \<noteq> [] then override else err_text e) in
      if fst (classify e) = 500 then [] else detail)"

definition writeProblemWithOptionalDetail :: "lib \<Rightarrow> error \<Rightarrow> string \<Rightarrow> unit result io" where
  "writeProblemWithOptionalDetail lb e override =
     (let (status, title) = classify e; p = ProblemBody title status (problem_detail e override) in
      if lib_Marshal lb p then send status p else send 500 (TextBody ''Internal Server Error''))"

definition WriteProblem :: "lib \<Rightarrow> error \<Rightarrow> unit result io" where
  "WriteProblem lb e = writeProblemWithOptionalDetail lb e []"

definition WriteProblemWithDetail :: "lib \<Rightarrow> error \<Rightarrow> string \<Rightarrow> unit result io" where
  "WriteProblemWithDetail lb e detail = writeProblemWithOptionalDetail lb e detail"

subsection \<open>Authentication (auth.go)\<close>

record AuthConfig =
  au_JWKSURL :: string
  au_Audience :: string
  au_Issuer :: string

text \<open>
  \<open>jl_Lookup\<close> is the key cache and \<open>jl_Parse\<close> is \<open>jwt.Parse\<close> with the key set, the issuer and the
  audience; it gives the token's subject when the token is valid.
\<close>

record 'k jwt_lib =
  jl_Lookup :: "string \<Rightarrow> 'k result"
  jl_Parse :: "'k \<Rightarrow> string \<Rightarrow> string \<Rightarrow> string \<Rightarrow> string option result"

text \<open>\<open>strings.EqualFold\<close> against a text whose letters have ASCII case variants only.\<close>

definition EqualFold :: "string \<Rightarrow> string \<Rightarrow> bool" where
  "EqualFold s t \<longleftrightarrow> map to_lower s = map to_lower t"

definition bearerToken :: "string \<Rightarrow> string" where
  "bearerToken hdr =
     (let prefix = ''Bearer '' in
      if length hdr \<le> length prefix \<or> \<not> EqualFold (take (length prefix) hdr) prefix then [] else drop (length prefix) hdr)"

definition check_config :: "AuthConfig \<Rightarrow> unit result" where
  "check_config conf =
     (if au_JWKSURL conf = [] then Inl (Error [ErrAuthConfigIncomplete] ''auth config incomplete: JWKSURL must not be empty'')
      else if au_Audience conf = [] then Inl (Error [ErrAuthConfigIncomplete] ''auth config incomplete: Audience must not be empty'')
      else if au_Issuer conf = [] then Inl (Error [ErrAuthConfigIncomplete] ''auth config incomplete: Issuer must not be empty'')
      else Inr ())"

definition invalid_bearer :: error where
  "invalid_bearer = Error [ErrInvalidToken] ''invalid or expired token''"

definition authenticate :: "'k jwt_lib \<Rightarrow> AuthConfig \<Rightarrow> string \<Rightarrow> string result" where
  "authenticate jl conf hdr =
     (let token = bearerToken hdr in
      if token = [] then Inl (wrap ''missing bearer token'' invalid_bearer)
      else case jl_Lookup jl (au_JWKSURL conf) of
        Inl e \<Rightarrow> Inl (wrap ''JWKS lookup failed'' e)
      | Inr keyset \<Rightarrow>
          (case jl_Parse jl keyset (au_Issuer conf) (au_Audience conf) token of
             Inl e \<Rightarrow> Inl (Error (err_chain invalid_bearer @ err_chain e) (err_text invalid_bearer @ '': '' @ err_text e))
           | Inr None \<Rightarrow> Inl (wrap ''missing sub claim'' invalid_bearer)
           | Inr (Some sub) \<Rightarrow> if sub = [] then Inl (wrap ''missing sub claim'' invalid_bearer) else Inr sub))"

subsection \<open>Routes (portfolios.go, strategies.go)\<close>

datatype endpoint =
    EHealthz
  | EPortfolio route
  | EAlert alert_route
  | EStrategyList | EStrategyDescribe | EStrategyGet
  | EStub

type_synonym registration = "string \<times> string \<times> endpoint"

definition RegisterPortfolioRoutesWith :: "registration list" where
  "RegisterPortfolioRoutesWith = map (\<lambda>(m, p, r). (m, ''/api/v3/portfolios'' @ p, EPortfolio r))
     [(''GET'', [], RList), (''POST'', [], RCreate), (''GET'', ''/:slug'', RGet), (''PATCH'', ''/:slug'', RPatch),
      (''DELETE'', ''/:slug'', RDelete), (''GET'', ''/:slug/summary'', RSummary), (''GET'', ''/:slug/drawdowns'', RDrawdowns),
      (''GET'', ''/:slug/statistics'', RStatistics), (''GET'', ''/:slug/metrics'', RMetrics),
      (''GET'', ''/:slug/trailing-returns'', RTrailingReturns), (''GET'', ''/:slug/holdings'', RHoldings),
      (''GET'', ''/:slug/holdings/history'', RHoldingsHistory), (''GET'', ''/:slug/holdings/:date'', RHoldingsAsOf),
      (''GET'', ''/:slug/holdings-impact'', RHoldingsImpact), (''GET'', ''/:slug/prediction'', RPrediction),
      (''GET'', ''/:slug/performance'', RPerformance), (''GET'', ''/:slug/transactions'', RTransactions),
      (''POST'', ''/:slug/upgrade'', RUpgrade), (''POST'', ''/:slug/run'', RCreateRun), (''GET'', ''/:slug/runs'', RListRuns),
      (''GET'', ''/:slug/runs/:runId'', RGetRun), (''GET'', ''/:slug/runs/:runId/progress'', RStream)]"

definition RegisterAlertRoutesWith :: "registration list" where
  "RegisterAlertRoutesWith = map (\<lambda>(m, p, r). (m, ''/api/v3/portfolios/:slug'' @ p, EAlert r))
     [(''POST'', ''/alerts'', ACreate), (''GET'', ''/alerts'', AList), (''PATCH'', ''/alerts/:alertId'', AUpdate),
      (''DELETE'', ''/alerts/:alertId'', ADelete), (''POST'', ''/email-summary'', ASendSummary)]"

definition RegisterPublicAlertRoutesWith :: "registration list" where
  "RegisterPublicAlertRoutesWith = [(''GET'', ''/api/alerts/unsubscribe'', EAlert AUnsubscribe)]"

definition RegisterStrategyRoutesWith :: "registration list" where
  "RegisterStrategyRoutesWith =
     [(''GET'', ''/api/v3/strategies'', EStrategyList), (''GET'', ''/api/v3/strategies/describe'', EStrategyDescribe),
      (''GET'', ''/api/v3/strategies/:shortCode'', EStrategyGet)]"

definition RegisterPortfolioRoutes :: "registration list" where
  "RegisterPortfolioRoutes = map (\<lambda>(m, p). (m, ''/api/v3/portfolios'' @ p, EStub))
     [(''GET'', []), (''POST'', []), (''GET'', ''/:slug''), (''PATCH'', ''/:slug''), (''DELETE'', ''/:slug''),
      (''GET'', ''/:slug/summary''), (''GET'', ''/:slug/drawdowns''), (''GET'', ''/:slug/statistics''), (''GET'', ''/:slug/metrics''),
      (''GET'', ''/:slug/performance''), (''GET'', ''/:slug/transactions''), (''GET'', ''/:slug/trailing-returns''),
      (''GET'', ''/:slug/holdings''), (''GET'', ''/:slug/holdings/history''), (''GET'', ''/:slug/holdings-impact''),
      (''GET'', ''/:slug/holdings/:date''), (''GET'', ''/:slug/prediction''), (''POST'', ''/:slug/upgrade''),
      (''POST'', ''/:slug/run''), (''POST'', ''/:slug/email-summary''), (''GET'', ''/:slug/runs''), (''GET'', ''/:slug/runs/:runId''),
      (''GET'', ''/:slug/runs/:runId/progress'')]"

definition RegisterStrategyRoutes :: "registration list" where
  "RegisterStrategyRoutes = map (\<lambda>p. (''GET'', ''/api/v3/strategies'' @ p, EStub)) [[], ''/describe'', ''/:shortCode'']"

subsection \<open>The application (server.go)\<close>

text \<open>
  \<open>matches\<close> is fiber's matcher: the parameters of a path under a pattern, \<open>None\<close> when the path does
  not match; \<open>inGroup\<close> says which paths the group \<open>/api/v3\<close> covers.
\<close>

record 'k app =
  ap_jwt :: "'k jwt_lib"
  ap_auth :: AuthConfig
  ap_matches :: "string \<Rightarrow> string \<Rightarrow> (string \<Rightarrow> string) option"
  ap_inGroup :: "string \<Rightarrow> bool"
  ap_pool :: bool
  ap_lib :: lib
  ap_alertLib :: alert_lib
  ap_openfn :: "string \<Rightarrow> SnapshotReader result"
  ap_tools :: build_tools
  ap_ephemeral :: EphemeralOptions
  ap_inside :: "string \<Rightarrow> string \<Rightarrow> bool"
  ap_snapshotsDir :: string
  ap_checker :: Checker
  ap_unsubscribeSecret :: string

record http_request =
  hr_Method :: string
  hr_Path :: string
  hr_Authorization :: string
  hr_Query :: "string \<Rightarrow> string"
  hr_Body :: string

definition app_routes :: "'k app \<Rightarrow> registration list" where
  "app_routes a = (''GET'', ''/healthz'', EHealthz) #
     (if ap_pool a
      then RegisterPortfolioRoutesWith @ RegisterAlertRoutesWith @ RegisterPublicAlertRoutesWith @ RegisterStrategyRoutesWith
      else RegisterPortfolioRoutes @ RegisterStrategyRoutes)"

fun find_endpoint :: "(string \<Rightarrow> string \<Rightarrow> (string \<Rightarrow> string) option) \<Rightarrow> string \<Rightarrow> string \<Rightarrow> registration list \<Rightarrow> (endpoint \<times> (string \<Rightarrow> string)) option" where
  "find_endpoint matches method path [] = None"
| "find_endpoint matches method path ((m, pattern, e) # rs) =
     (case (if m = method then matches pattern path else None) of
        Some params \<Rightarrow> Some (e, params)
      | None \<Rightarrow> find_endpoint matches method path rs)"

definition app_portfolio_handler :: "'k app \<Rightarrow> string list \<Rightarrow> handler" where
  "app_portfolio_handler a dirs =
     pool_handler (ap_openfn a)
       (\<lambda>url. case EphemeralBuild (ap_tools a) ((ap_ephemeral a)\<lparr>eo_CloneURL := url\<rparr>) dirs of
                (Inl e, _) \<Rightarrow> Inl e | (Inr (bin, _), _) \<Rightarrow> Inr bin)
       (bt_describe (ap_tools a)) ValidateCloneURL (ap_inside a) (ap_snapshotsDir a)"

definition app_alert_handler :: "'k app \<Rightarrow> AlertHandler" where
  "app_alert_handler a = \<lparr>ah_summarizer = Some (Checker_SendSummary (ap_checker a)), ah_unsubscribeSecret = ap_unsubscribeSecret a\<rparr>"

fun run_endpoint :: "'k app \<Rightarrow> string list \<Rightarrow> endpoint \<Rightarrow> request \<Rightarrow> unit result io" where
  "run_endpoint a dirs EHealthz c = send 200 (TextBody ''ok'')"
| "run_endpoint a dirs (EPortfolio r) c = serve (ap_lib a) (app_portfolio_handler a dirs) r c"
| "run_endpoint a dirs (EAlert r) c = serve_alert (ap_lib a) (ap_alertLib a) (app_alert_handler a) r c"
| "run_endpoint a dirs EStrategyList c = StrategyHandler_List (ap_lib a)"
| "run_endpoint a dirs EStrategyDescribe c = fst (DescribeHandler_Describe (ap_lib a) (ap_tools a) (ap_ephemeral a) c dirs)"
| "run_endpoint a dirs EStrategyGet c = StrategyHandler_Get (ap_lib a) c"
| "run_endpoint a dirs EStub c = WriteProblem (ap_lib a) (Error [ErrNotImplemented] ''not implemented'')"

definition run_route :: "'k app \<Rightarrow> string list \<Rightarrow> string option \<Rightarrow> http_request \<Rightarrow> unit result io" where
  "run_route a dirs sub rq =
     (case find_endpoint (ap_matches a) (hr_Method rq) (hr_Path rq) (app_routes a) of
        None \<Rightarrow> State_Monad.return (Inl (Error [] (''Cannot '' @ hr_Method rq @ '' '' @ hr_Path rq)))
      | Some (e, params) \<Rightarrow>
          run_endpoint a dirs e \<lparr>c_Subject = sub, c_Params = params, c_Query = hr_Query rq, c_Body = hr_Body rq\<rparr>)"

definition serve_api :: "'k app \<Rightarrow> string list \<Rightarrow> http_request \<Rightarrow> unit result io" where
  "serve_api a dirs rq =
     (if ap_inGroup a (hr_Path rq)
      then case authenticate (ap_jwt a) (ap_auth a) (hr_Authorization rq) of
             Inl e \<Rightarrow> WriteProblem (ap_lib a) e
           | Inr sub \<Rightarrow> run_route a dirs (Some sub) rq
      else run_route a dirs None rq)"

section \<open>Authentication\<close>

lemma bearerToken_Some: "bearerToken hdr \<noteq> [] \<Longrightarrow> \<exists>scheme. hdr = scheme @ bearerToken hdr \<and> EqualFold scheme ''Bearer ''"
  by (intro exI [of _ "take (length ''Bearer '') hdr"]) (simp only: bearerToken_def Let_def append_take_drop_id split: if_splits, simp)

lemma bearerToken_append: "t \<noteq> [] \<Longrightarrow> EqualFold scheme ''Bearer '' \<Longrightarrow> bearerToken (scheme @ t) = t"
proof -
  assume t: "t \<noteq> []" and s: "EqualFold scheme ''Bearer ''"
  then have "length (map to_lower scheme) = length (map to_lower ''Bearer '')" by (simp only: EqualFold_def)
  then have "length scheme = length ''Bearer ''" by (simp only: length_map)
  with t s show ?thesis unfolding bearerToken_def Let_def by simp
qed

lemma authenticate_sub: "authenticate jl conf hdr = Inr sub \<Longrightarrow> sub \<noteq> []"
  by (auto simp: authenticate_def Let_def split: if_splits sum.splits option.splits)

text \<open>
  A request is authenticated as \<open>sub\<close> exactly when its header is \<open>Bearer\<close>, in any case, one
  blank and a non-empty token which the verifier accepts, under the configured issuer and audience
  and the current keys, with the non-empty subject \<open>sub\<close>.
\<close>

lemma authenticate_iff:
  "authenticate jl conf hdr = Inr sub \<longleftrightarrow> sub \<noteq> [] \<and> (\<exists>scheme token keyset. hdr = scheme @ token \<and> EqualFold scheme ''Bearer ''
     \<and> token \<noteq> [] \<and> jl_Lookup jl (au_JWKSURL conf) = Inr keyset
     \<and> jl_Parse jl keyset (au_Issuer conf) (au_Audience conf) token = Inr (Some sub))"
proof -
  have "authenticate jl conf hdr = Inr sub \<longleftrightarrow> sub \<noteq> [] \<and> bearerToken hdr \<noteq> [] \<and> (\<exists>keyset. jl_Lookup jl (au_JWKSURL conf) = Inr keyset
     \<and> jl_Parse jl keyset (au_Issuer conf) (au_Audience conf) (bearerToken hdr) = Inr (Some sub))"
    by (auto simp: authenticate_def Let_def split: sum.splits option.splits)
  moreover have "\<exists>scheme token. hdr = scheme @ token \<and> EqualFold scheme ''Bearer '' \<and> token = bearerToken hdr" if "bearerToken hdr \<noteq> []"
    using bearerToken_Some [OF that] by blast
  ultimately show ?thesis using bearerToken_append by (metis (no_types, lifting))
qed

section \<open>The composed server\<close>

lemma WriteProblem_run:
  obtains b where "run_state (WriteProblem lb e) w = (Inr (), w\<lparr>w_resp := Some b\<rparr>)"
    and "rs_status b = fst (classify e) \<or> rs_status b = 500"
    and "rs_status b = 500 \<Longrightarrow> rs_body b = ProblemBody (snd (classify e)) 500 [] \<or> rs_body b = TextBody ''Internal Server Error''"
proof -
  obtain st t where c: "classify e = (st, t)" by fastforce
  show thesis
  proof (cases "lib_Marshal lb (ProblemBody t st (problem_detail e []))")
    case True
    with c show ?thesis
      by (intro that [of "\<lparr>rs_status = st, rs_body = ProblemBody t st (problem_detail e [])\<rparr>"])
        (auto simp: WriteProblem_def writeProblemWithOptionalDetail_def send_def problem_detail_def)
  next
    case False
    with c show ?thesis
      by (intro that [of "\<lparr>rs_status = 500, rs_body = TextBody ''Internal Server Error''\<rparr>"])
        (auto simp: WriteProblem_def writeProblemWithOptionalDetail_def send_def)
  qed
qed

lemma auth_status: "authenticate jl conf hdr = Inl e \<Longrightarrow> fst (classify e) = 401 \<or> (\<exists>e'. jl_Lookup jl (au_JWKSURL conf) = Inl e' \<and> e = wrap ''JWKS lookup failed'' e')"
  by (auto simp: authenticate_def Let_def classify_def errors_Is_def wrap_def invalid_bearer_def split: if_splits sum.splits option.splits)

lemma StrategyHandler_keeps:
  assumes "outcome_free I" and "\<And>w b. I w \<Longrightarrow> I (w\<lparr>w_resp := b\<rparr>)"
  shows "preserves I (StrategyHandler_List lb)" "preserves I (StrategyHandler_Get lb c)"
    "preserves I (fst (DescribeHandler_Describe lb bt eopts c dirs))" "preserves I (WriteProblem lb e)" "preserves I (send s b)"
proof -
  have snd: "preserves I (send s b)" for s b
    unfolding send_def by (intro preserve_rules preserves_update assms)
  then show "preserves I (send s b)" .
  show "preserves I (StrategyHandler_List lb)" "preserves I (StrategyHandler_Get lb c)"
    unfolding StrategyHandler_List_def StrategyHandler_Get_def Strategy_List_def Strategy_Get_def writeJSON_def ise_def writeProblem_def Let_def
    by (intro preserve_rules preserves_dbread assms(1) snd)+
  show "preserves I (fst (DescribeHandler_Describe lb bt eopts c dirs))"
    by (auto simp: DescribeHandler_Describe_def Let_def writeProblem_def writeJSON_def ise_def snd split: sum.splits prod.splits)
  show "preserves I (WriteProblem lb e)"
    by (auto simp: WriteProblem_def writeProblemWithOptionalDetail_def Let_def snd split: prod.splits)
qed

lemma classify_status: "400 \<le> fst (classify e)"
  by (simp add: classify_def)

lemma find_endpoint_Some:
  "find_endpoint matches m path rs = Some (e, params) \<Longrightarrow> \<exists>pattern. (m, pattern, e) \<in> set rs \<and> matches pattern path = Some params"
  by (induction rs) (auto split: option.splits if_splits)

lemma find_endpoint_before:
  assumes "matches pattern path \<noteq> None" and "find_endpoint matches m path (xs @ (m, pattern, e') # ys) = Some (e, params)"
  shows "e = e' \<or> e \<in> snd ` snd ` set xs"
  using assms by (induction xs) (auto split: option.splits if_splits)

lemma unsubscribe_pattern: "(m, pattern, EAlert AUnsubscribe) \<in> set (app_routes a) \<Longrightarrow> pattern = ''/api/alerts/unsubscribe''"
  by (auto simp: app_routes_def RegisterPortfolioRoutesWith_def RegisterAlertRoutesWith_def RegisterPublicAlertRoutesWith_def
      RegisterStrategyRoutesWith_def RegisterPortfolioRoutes_def RegisterStrategyRoutes_def split: if_splits)

lemma run_endpoint_isolated:
  assumes "c_Subject c = Some sub" and "e \<noteq> EAlert AUnsubscribe"
  shows "preserves (others_same sub X) (run_endpoint a dirs e c)"
proof -
  have s: "s = sub" if "subject c = Inr s" for s using that assms(1) by (auto simp: subject_def split: if_splits)
  have frame: "others_same sub X w \<Longrightarrow> others_same sub X (w\<lparr>w_resp := b\<rparr>)" for w b by (rule isolated.resp_frame)
  note keeps = StrategyHandler_keeps [OF outcome_free_isolation(1) frame]
  show ?thesis
    by (cases e) (use assms(2) in \<open>auto simp: app_portfolio_handler_def app_alert_handler_def
        intro: keeps isolated.serve_keeps alerts_isolated.serve_alert_keeps s\<close>)
qed

text \<open>
  The composed server keeps tenants apart: a request under \<open>/api/v3\<close> without an accepted token
  reaches no handler, so that nothing but the response, an error, is written; with a token of
  subject \<open>sub\<close>, whatever the route, the body and the faults of the database, the portfolios of the
  other subjects and their runs and alerts are as before, and the tables' invariant is kept.
  (The one public route that writes, \<open>/api/alerts/unsubscribe\<close>, is not under \<open>/api/v3\<close>.)
\<close>

lemma serve_api_isolated:
  assumes "db_inv w" and "ap_inGroup a (hr_Path rq)" and "ap_matches a ''/api/alerts/unsubscribe'' (hr_Path rq) = None"
    and "run_state (serve_api a dirs rq) w = (res, w')"
  shows "case authenticate (ap_jwt a) (ap_auth a) (hr_Authorization rq) of
      Inl e \<Rightarrow> \<exists>b. w' = w\<lparr>w_resp := Some b\<rparr> \<and> 400 \<le> rs_status b
    | Inr sub \<Rightarrow> foreign sub w' = foreign sub w \<and> db_inv w'"
proof (cases "authenticate (ap_jwt a) (ap_auth a) (hr_Authorization rq)")
  case (Inl e)
  obtain b where "run_state (WriteProblem (ap_lib a) e) w = (Inr (), w\<lparr>w_resp := Some b\<rparr>)"
    and "rs_status b = fst (classify e) \<or> rs_status b = 500" by (rule WriteProblem_run)
  with Inl assms(2,4) classify_status [of e] show ?thesis by (auto simp: serve_api_def)
next
  case (Inr sub)
  have "preserves (others_same sub (foreign sub w)) (run_route a dirs (Some sub) rq)"
  proof (cases "find_endpoint (ap_matches a) (hr_Method rq) (hr_Path rq) (app_routes a)")
    case (Some r)
    then obtain e params where r: "r = (e, params)" by fastforce
    with find_endpoint_Some Some assms(3) unsubscribe_pattern have "e \<noteq> EAlert AUnsubscribe" by fastforce
    with Some r show ?thesis by (auto simp: run_route_def intro: run_endpoint_isolated)
  qed (auto simp: run_route_def intro: preserves_return)
  with Inr assms show ?thesis by (auto simp: serve_api_def preserves_def others_same_def)
qed

definition demo_app :: "unit app" where
  "demo_app = \<lparr>ap_jwt = \<lparr>jl_Lookup = \<lambda>_. Inr (), jl_Parse = \<lambda>_ _ _ t. if t = ''tok'' then Inr (Some ''auth0|v'') else Inl (Error [] ''signature'')\<rparr>,
     ap_auth = \<lparr>au_JWKSURL = ''u'', au_Audience = ''a'', au_Issuer = ''i''\<rparr>,
     ap_matches = (\<lambda>pattern path. if pattern = ''/api/v3/portfolios/:slug'' then Some (\<lambda>_. ''adm-custom-aaaa'') else None), ap_inGroup = (\<lambda>_. True),
     ap_pool = True, ap_lib = demo_lib, ap_alertLib = \<lparr>al_Body = \<lambda>_. Inr ([], []), al_Recipient = \<lambda>_. Inr []\<rparr>,
     ap_openfn = (\<lambda>_. Inl (Error [] ''x'')), ap_tools = demo_tools,
     ap_ephemeral = \<lparr>eo_CloneURL = [], eo_Ver = [], eo_Dir = [], eo_SkipURLValidation = False\<rparr>, ap_inside = (\<lambda>_ _. False),
     ap_snapshotsDir = ''/snap'', ap_checker = demo_checker, ap_unsubscribeSecret = ''s''\<rparr>"

definition demo_http :: "string \<Rightarrow> http_request" where
  "demo_http hdr = \<lparr>hr_Method = ''DELETE'', hr_Path = ''/api/v3/portfolios/adm-custom-aaaa'', hr_Authorization = hdr, hr_Query = \<lambda>_. [], hr_Body = []\<rparr>"

text \<open>
  A route with a parameter never takes the requests of the literal route that must precede it.
\<close>

lemma literal_routes_first:
  assumes "ap_pool a"
  shows "ap_matches a ''/api/v3/portfolios/:slug/holdings/history'' path \<noteq> None
      \<Longrightarrow> find_endpoint (ap_matches a) ''GET'' path (app_routes a) \<noteq> Some (EPortfolio RHoldingsAsOf, params)"
    and "ap_matches a ''/api/v3/strategies/describe'' path \<noteq> None
      \<Longrightarrow> find_endpoint (ap_matches a) ''GET'' path (app_routes a) \<noteq> Some (EStrategyGet, params)"
proof -
  note defs = app_routes_def RegisterPortfolioRoutesWith_def RegisterAlertRoutesWith_def RegisterPublicAlertRoutesWith_def
    RegisterStrategyRoutesWith_def
  have 1: "app_routes a = take 12 (app_routes a) @ (''GET'', ''/api/v3/portfolios/:slug/holdings/history'', EPortfolio RHoldingsHistory) # drop 13 (app_routes a)"
    "EPortfolio RHoldingsAsOf \<notin> snd ` snd ` set (take 12 (app_routes a))"
    using assms by (simp_all add: defs)
  have 2: "app_routes a = take 30 (app_routes a) @ (''GET'', ''/api/v3/strategies/describe'', EStrategyDescribe) # drop 31 (app_routes a)"
    "EStrategyGet \<notin> snd ` snd ` set (take 30 (app_routes a))"
    using assms by (simp_all add: defs)
  show "ap_matches a ''/api/v3/portfolios/:slug/holdings/history'' path \<noteq> None
      \<Longrightarrow> find_endpoint (ap_matches a) ''GET'' path (app_routes a) \<noteq> Some (EPortfolio RHoldingsAsOf, params)"
    using find_endpoint_before [of "ap_matches a" _ path "''GET''", where e = "EPortfolio RHoldingsAsOf"] 1 by (metis endpoint.inject(1) route.distinct)
  show "ap_matches a ''/api/v3/strategies/describe'' path \<noteq> None
      \<Longrightarrow> find_endpoint (ap_matches a) ''GET'' path (app_routes a) \<noteq> Some (EStrategyGet, params)"
    using find_endpoint_before [of "ap_matches a" _ path "''GET''", where e = EStrategyGet] 2 by (metis endpoint.distinct)
qed

end
