(* ===== verification/Server.thy ===== *)
theory Server
  imports Installers Stats Scheduler Upgrade Api Opener
begin

text \<open>
  Putting the server together: the configuration (\<open>cmd/config.go\<close>, \<open>cmd/viper.go\<close>), the start of the
  server (\<open>cmd/server.go\<close>) and the start of the registry (\<open>api/server.go\<close>). A \<open>log.Fatal\<close> and a
  returned error are both \<open>Inl\<close>. Durations are in microseconds. What the start asks of the world
  outside (the holiday table, the snapshots directory, the Docker client, the key cache) is the
  record \<open>start_env\<close>.
\<close>

subsection \<open>The configuration (config.go)\<close>

record logConf =
  lg_Level :: string
  lg_Output :: string
  lg_Pretty :: bool
  lg_ReportCaller :: bool

record serverConf =
  se_Port :: int
  se_AllowOrigins :: string

record authConf =
  ac_JWKSURL :: string
  ac_Audience :: string
  ac_Issuer :: string

record strategyConf =
  sy_RegistrySyncInterval :: int
  sy_InstallConcurrency :: int
  sy_OfficialDir :: string
  sy_GithubQuery :: string
  sy_EphemeralDir :: string
  sy_EphemeralInstallTimeout :: int
  sy_StatsRefreshTime :: string
  sy_StatsStartDate :: string
  sy_StatsTickInterval :: int

record backtestConf =
  bk_SnapshotsDir :: string
  bk_MaxConcurrency :: int
  bk_Timeout :: int
  bk_OrphanGCInterval :: int

record dockerConf =
  dx_Socket :: string
  dx_Network :: string
  dx_CPULimit :: float64
  dx_MemoryLimit :: string
  dx_BuildTimeout :: int
  dx_ImagePrefix :: string
  dx_SnapshotsHostPath :: string

record runnerConf =
  rn_Mode :: string
  rn_Docker :: dockerConf

record mailgunConf =
  mg_Domain :: string
  mg_APIKey :: string
  mg_FromAddress :: string

record schedulerConf =
  sd_TickInterval :: int
  sd_BatchSize :: int
  sd_Enabled :: bool

record Config =
  cf_DataDir :: string
  cf_AppBaseURL :: string
  cf_UnsubscribeSecret :: string
  cf_Log :: logConf
  cf_DBURL :: string
  cf_Server :: serverConf
  cf_Auth :: authConf
  cf_GitHubToken :: string
  cf_Strategy :: strategyConf
  cf_Backtest :: backtestConf
  cf_Runner :: runnerConf
  cf_Scheduler :: schedulerConf
  cf_Mailgun :: mailgunConf

definition or_else :: "string \<Rightarrow> string \<Rightarrow> string" where
  "or_else s fallback = (if s = [] then fallback else s)"

definition applyDataDirFallbacks :: "Config \<Rightarrow> Config" where
  "applyDataDirFallbacks c =
     (let base = cf_DataDir c; b = cf_Backtest c; s = cf_Strategy c in
      c\<lparr>cf_Backtest := b\<lparr>bk_SnapshotsDir := or_else (bk_SnapshotsDir b) (filepath_Join [base, ''snapshots''])\<rparr>,
        cf_Strategy := s\<lparr>sy_OfficialDir := or_else (sy_OfficialDir s) (filepath_Join [base, ''strategies'', ''official'']),
                         sy_EphemeralDir := or_else (sy_EphemeralDir s) (filepath_Join [base, ''strategies'', ''ephemeral''])\<rparr>\<rparr>)"

subsection \<open>Flags (viper.go, server.go)\<close>

fun replace_first :: "char \<Rightarrow> char \<Rightarrow> string \<Rightarrow> string" where
  "replace_first old new [] = []"
| "replace_first old new (c # cs) = (if c = old then new # cs else c # replace_first old new cs)"

text \<open>The key that a flag is bound to.\<close>

definition bindPFlag :: "string \<Rightarrow> string" where
  "bindPFlag name = map (\<lambda>c. if c = CHR ''-'' then CHR ''_'' else c) (replace_first (CHR ''-'') (CHR ''.'') name)"

definition server_flags :: "string list" where
  "server_flags = [''data-dir'', ''db-url'', ''server-port'', ''server-allow-origins'', ''auth-jwks-url'', ''auth-audience'', ''auth-issuer'',
     ''github-token'', ''strategy-registry-sync-interval'', ''strategy-install-concurrency'', ''strategy-official-dir'', ''strategy-github-query'',
     ''strategy-ephemeral-dir'', ''strategy-ephemeral-install-timeout'', ''backtest-snapshots-dir'', ''backtest-orphan-gc-interval'',
     ''runner-docker-socket'', ''runner-docker-network'', ''runner-docker-cpu-limit'', ''runner-docker-memory-limit'', ''runner-docker-build-timeout'',
     ''runner-docker-image-prefix'', ''runner-docker-snapshots-host-path'', ''mailgun-domain'', ''mailgun-api-key'', ''mailgun-from-address'',
     ''app-base-url'', ''unsubscribe-secret'']"

definition mustBindPFlag :: "(string \<times> string) list" where
  "mustBindPFlag = [(''runner.docker.socket'', ''runner-docker-socket''), (''runner.docker.network'', ''runner-docker-network''),
     (''runner.docker.cpu_limit'', ''runner-docker-cpu-limit''), (''runner.docker.memory_limit'', ''runner-docker-memory-limit''),
     (''runner.docker.build_timeout'', ''runner-docker-build-timeout''), (''runner.docker.image_prefix'', ''runner-docker-image-prefix''),
     (''runner.docker.snapshots_host_path'', ''runner-docker-snapshots-host-path'')]"

text \<open>The keys that \<open>viper.Unmarshal\<close> reads into a field: the tags of the structs, or the field names.\<close>

definition config_keys :: "string list" where
  "config_keys = [''data_dir'', ''app_base_url'', ''unsubscribe_secret'', ''log.level'', ''log.output'', ''log.pretty'', ''log.report_caller'', ''db.url'',
     ''server.port'', ''server.allow_origins'', ''auth.jwks_url'', ''auth.audience'', ''auth.issuer'', ''github.token'',
     ''strategy.registry_sync_interval'', ''strategy.install_concurrency'', ''strategy.official_dir'', ''strategy.github_query'',
     ''strategy.ephemeral_dir'', ''strategy.ephemeral_install_timeout'', ''strategy.stats_refresh_time'', ''strategy.stats_start_date'',
     ''strategy.stats_tick_interval'', ''backtest.snapshots_dir'', ''backtest.max_concurrency'', ''backtest.timeout'', ''backtest.orphan_gc_interval'',
     ''runner.mode'', ''runner.docker.socket'', ''runner.docker.network'', ''runner.docker.cpu_limit'', ''runner.docker.memory_limit'',
     ''runner.docker.build_timeout'', ''runner.docker.image_prefix'', ''runner.docker.snapshots_host_path'', ''scheduler.tick_interval'',
     ''scheduler.batch_size'', ''scheduler.enabled'', ''mailgun.domain'', ''mailgun.api_key'', ''mailgun.from_address'']"

definition flag_keys :: "string \<Rightarrow> string list" where
  "flag_keys flag = bindPFlag flag # map fst (filter (\<lambda>(_, f). f = flag) mustBindPFlag)"

subsection \<open>Artifacts (server.go)\<close>

text \<open>
  The closures \<open>resolve\<close> of the two modes: an installed artifact needs no cleanup, a build returns
  the directory that its cleanup removes. \<open>'s\<close> is the state of the build.
\<close>

definition resolve_artifact :: "(Strategy list \<Rightarrow> Strategy list) \<Rightarrow> ('s \<Rightarrow> (string \<times> 'c) result \<times> 's) \<Rightarrow> string \<Rightarrow> string \<Rightarrow> 's
    \<Rightarrow> ((string \<times> 'c option) result \<times> 's) io" where
  "resolve_artifact plan build cloneURL ver s =
     (let built = State_Monad.return (case build s of (Inl e, s1) \<Rightarrow> (Inl e, s1) | (Inr (artifact, c), s1) \<Rightarrow> (Inr (artifact, Some c), s1)) in
      if ver = [] then built
      else do {
        r \<leftarrow> LookupArtifact plan cloneURL ver;
        (case r of
           Inr artifact \<Rightarrow> if artifact \<noteq> [] then State_Monad.return (Inr (artifact, None), s) else built
         | Inl e \<Rightarrow> if errors_Is e StrategyErrNotFound then built else State_Monad.return (Inl e, s))
      })"

definition host_resolve :: "(Strategy list \<Rightarrow> Strategy list) \<Rightarrow> build_tools \<Rightarrow> Config \<Rightarrow> string \<Rightarrow> string \<Rightarrow> string list
    \<Rightarrow> ((string \<times> string option) result \<times> string list) io" where
  "host_resolve plan bt c cloneURL ver =
     resolve_artifact plan (EphemeralBuild bt \<lparr>eo_CloneURL = cloneURL, eo_Ver = ver, eo_Dir = sy_EphemeralDir (cf_Strategy c), eo_SkipURLValidation = False\<rparr>)
       cloneURL ver"

definition docker_resolve :: "(Strategy list \<Rightarrow> Strategy list) \<Rightarrow> (string \<Rightarrow> walk_entry list) \<Rightarrow> install_tools \<Rightarrow> build_tools \<Rightarrow> string
    \<Rightarrow> build_client \<Rightarrow> Config \<Rightarrow> string \<Rightarrow> string \<Rightarrow> string list \<times> docker_call list \<Rightarrow> ((string \<times> string option) result \<times> string list \<times> docker_call list) io" where
  "docker_resolve plan walk it bt new_uuid dc c cloneURL ver =
     resolve_artifact plan (EphemeralImageBuild walk it bt new_uuid
         \<lparr>de_CloneURL = cloneURL, de_Ver = ver, de_Dir = sy_EphemeralDir (cf_Strategy c), de_Timeout = sy_EphemeralInstallTimeout (cf_Strategy c) * 1000,
          de_SkipURLValidation = False, de_Client = Some dc, de_ImagePrefix = dx_ImagePrefix (rn_Docker (cf_Runner c))\<rparr>)
       cloneURL ver"

definition docker_deps :: "build_client \<Rightarrow> Config \<Rightarrow> DockerInstallDeps" where
  "docker_deps dc c = \<lparr>dd_Client = Some dc, dd_ImagePrefix = dx_ImagePrefix (rn_Docker (cf_Runner c)), dd_BuildTimeout = dx_BuildTimeout (rn_Docker (cf_Runner c)) * 1000\<rparr>"

subsection \<open>The runner\<close>

record start_env =
  sv_numCPU :: int
  sv_holidays :: "error option"
  sv_MkdirAll :: "string \<Rightarrow> error option"
  sv_docker :: "string \<Rightarrow> build_client result"
  sv_RAMInBytes :: "string \<Rightarrow> int result"
  sv_nanoCPUs :: "float64 \<Rightarrow> int"
    \<comment> \<open>\<open>int64(x * 1e9)\<close>\<close>
  sv_jwkCache :: "string \<Rightarrow> error option"

datatype runner_choice = UseHost | UseDocker build_client DockerRunner

definition fatal :: "string \<Rightarrow> error" where "fatal msg = Error [] msg"

definition memory_bytes :: "start_env \<Rightarrow> string \<Rightarrow> int result" where
  "memory_bytes ev m = (if m \<noteq> [] \<and> m \<noteq> ''0'' then sv_RAMInBytes ev m else Inr 0)"

definition select_runner :: "start_env \<Rightarrow> Config \<Rightarrow> runner_choice result" where
  "select_runner ev c =
     (let mode = rn_Mode (cf_Runner c); d = rn_Docker (cf_Runner c) in
      if mode = ''host'' then Inr UseHost
      else if mode = ''docker'' then
        (case sv_docker ev (dx_Socket d) of
           Inl e \<Rightarrow> Inl e
         | Inr dc \<Rightarrow>
             (case memory_bytes ev (dx_MemoryLimit d) of
                Inl e \<Rightarrow> Inl e
              | Inr memBytes \<Rightarrow>
                  Inr (UseDocker dc \<lparr>dr_Network = dx_Network d, dr_NanoCPUs = sv_nanoCPUs ev (dx_CPULimit d), dr_MemoryBytes = memBytes,
                    dr_SnapshotsHostDir = or_else (dx_SnapshotsHostPath d) (bk_SnapshotsDir (cf_Backtest c)),
                    dr_SnapshotsDir = bk_SnapshotsDir (cf_Backtest c)\<rparr>)))
      else if mode = ''kubernetes'' then Inl (fatal ''runner.mode = kubernetes lands in plan 9'')
      else Inl (fatal ''unknown runner.mode''))"

subsection \<open>The registry (api/server.go)\<close>

text \<open>\<open>st_search\<close> is the discovery with its options, \<open>st_plan\<close> the order in which Postgres reads the strategies.\<close>

record RegistryConfig =
  rg_GitHubToken :: string
  rg_SyncInterval :: int
  rg_Concurrency :: int
  rg_OfficialDir :: string
  rg_GitHubOwner :: string
  rg_CacheDir :: string
  rg_RunnerMode :: string
  rg_DockerInstaller :: "(InstallRequest \<Rightarrow> InstallResult result io) option"
  rg_StatsRefreshTime :: string
  rg_StatsStartDate :: date
  rg_StatsTickInterval :: int

definition hostStatRunner_Run :: "(world \<Rightarrow> string \<Rightarrow> string list \<Rightarrow> process) \<Rightarrow> (world \<Rightarrow> bool) \<Rightarrow> StatRunRequest \<Rightarrow> world \<Rightarrow> error option" where
  "hostStatRunner_Run exec canceled req w =
     ro_err (HostRunner_Run (exec w) (canceled w) \<lparr>rq_RunID = 0, rq_Artifact = sq_Artifact req, rq_ArtifactKind = ArtifactBinary, rq_Args = sq_Args req,
       rq_OutPath = sq_OutPath req, rq_Timeout = 0, rq_Progress = False\<rparr>)"

text \<open>\<open>num\<close> writes a \<open>float64\<close> of the snapshot as the column holds it.\<close>

definition snapshotKpis :: "('f \<Rightarrow> float64) \<Rightarrow> (string \<Rightarrow> string) \<Rightarrow> (string \<Rightarrow> world \<Rightarrow> 'f::zero snapshot result) \<Rightarrow> string \<Rightarrow> world \<Rightarrow> StatKpis result" where
  "snapshotKpis num quote opn path w =
     (case opn path w of
        Inl e \<Rightarrow> Inl (wrap ''open stats snapshot'' e)
      | Inr sn \<Rightarrow>
          (case Reader_Kpis quote sn of
             Inl e \<Rightarrow> Inl (wrap ''read stats kpis'' e)
           | Inr k \<Rightarrow>
               (let n = map_option num in
                Inr \<lparr>sk_CAGR = n (kp_Cagr k), sk_MaxDrawdown = n (kp_MaxDrawdown k), sk_Sharpe = n (kp_Sharpe k), sk_Sortino = n (kp_Sortino k),
                     sk_UlcerIndex = n (kp_UlcerIndex k), sk_Beta = n (kp_Beta k), sk_Alpha = n (kp_Alpha k), sk_StdDev = n (kp_StdDev k),
                     sk_TaxCostRatio = n (kp_TaxCostRatio k), sk_OneYearReturn = n (kp_OneYearReturn k), sk_YtdReturn = n (kp_YtdReturn k),
                     sk_BenchmarkYtdReturn = n (kp_BenchmarkYtdReturn k)\<rparr>)))"

definition registry_error :: "sentinel \<Rightarrow> string \<Rightarrow> error" where
  "registry_error s field = Error [s] (''RegistryConfig.'' @ field)"

record registry_tools =
  st_search :: "DiscoverOptions \<Rightarrow> Listing list result io"
  st_ResolveVer :: "string \<Rightarrow> string result io"
  st_Install :: "InstallRequest \<Rightarrow> InstallResult result io"
  st_quote :: "string \<Rightarrow> string"
  st_statRunner :: "StatRunRequest \<Rightarrow> world \<Rightarrow> error option"
  st_statKpis :: "string \<Rightarrow> world \<Rightarrow> StatKpis result"
  st_MkdirTemp :: "string \<Rightarrow> world \<Rightarrow> string result"
  st_at :: "instant \<Rightarrow> int \<Rightarrow> int \<Rightarrow> instant"
  st_InstallDocker :: "DockerInstallDeps \<Rightarrow> InstallRequest \<Rightarrow> InstallResult result io"
  st_autoUpgrade :: "string \<Rightarrow> string \<Rightarrow> unit io"

text \<open>The two loops it starts: the syncer and the statistics.\<close>

definition startRegistrySync :: "registry_tools \<Rightarrow> RegistryConfig \<Rightarrow> (SyncerOptions \<times> StatsRefresher) result" where
  "startRegistrySync rt conf =
     (if rg_SyncInterval conf \<le> 0 then Inl (registry_error ErrRegistrySyncInterval ''SyncInterval must be > 0'')
      else if rg_OfficialDir conf = [] then Inl (registry_error ErrRegistryOfficialDir ''OfficialDir must not be empty'')
      else if rg_GitHubOwner conf = [] then Inl (registry_error ErrRegistryGitHubOwner ''GitHubOwner must not be empty'')
      else
        (let cacheDir = or_else (rg_CacheDir conf) (filepath_Join [rg_OfficialDir conf, ''.cache'']);
             opts = \<lparr>do_CacheDir = cacheDir, do_ExpectOwner = rg_GitHubOwner conf, do_Token = rg_GitHubToken conf, do_ForceRefresh = False\<rparr> in
         case NewStatsRefresher (st_quote rt) (st_statRunner rt) (st_statKpis rt) (st_MkdirTemp rt) (st_at rt)
                \<lparr>sc_StartDate = Some (rg_StatsStartDate conf), sc_RefreshTime = rg_StatsRefreshTime conf,
                 StatsRefresherConfig.sc_TickInterval = rg_StatsTickInterval conf * 1000, sc_SnapshotDir = []\<rparr> of
           Inl e \<Rightarrow> Inl (wrap ''building stats refresher'' e)
         | Inr stats \<Rightarrow>
             Inr (NewSyncer \<lparr>so_Discovery = st_search rt opts, so_ResolveVer = st_ResolveVer rt, so_Installer = Some (st_Install rt),
                    so_DockerInstaller = rg_DockerInstaller conf, so_RunnerMode = rg_RunnerMode conf, so_OfficialDir = rg_OfficialDir conf,
                    so_Concurrency = rg_Concurrency conf, so_Interval = rg_SyncInterval conf, so_Stats = Some (RunOne stats),
                    so_AutoUpgrader = Some (st_autoUpgrade rt)\<rparr>, stats)))"

subsection \<open>The start (server.go)\<close>

definition cors_origins :: "string \<Rightarrow> string list option" where
  "cors_origins s = (if s = [] then None else Some (map TrimSpace (split_on (\<lambda>c. c = CHR '','') [] s)))"

definition NewApp_start :: "start_env \<Rightarrow> registry_tools \<Rightarrow> AuthConfig \<Rightarrow> RegistryConfig \<Rightarrow> (SyncerOptions \<times> StatsRefresher) result" where
  "NewApp_start ev rt auth registry =
     (case check_config auth of
        Inl e \<Rightarrow> Inl (wrap ''build auth middleware'' e)
      | Inr _ \<Rightarrow>
          (case sv_jwkCache ev (au_JWKSURL auth) of
             Some e \<Rightarrow> Inl (wrap ''build auth middleware'' e)
           | None \<Rightarrow>
               (case startRegistrySync rt registry of
                  Inl e \<Rightarrow> Inl (wrap ''start registry sync'' e)
                | Inr loops \<Rightarrow> Inr loops)))"

definition parseStatsStartDate :: "string \<Rightarrow> date" where
  "parseStatsStartDate s = (if s = [] then Date 2010 1 1 else case time_Parse s of None \<Rightarrow> Date 2010 1 1 | Some t \<Rightarrow> t)"

definition registry_of :: "registry_tools \<Rightarrow> Config \<Rightarrow> runner_choice \<Rightarrow> RegistryConfig" where
  "registry_of rt c runner =
     (let s = cf_Strategy c in
      \<lparr>rg_GitHubToken = cf_GitHubToken c, rg_SyncInterval = sy_RegistrySyncInterval s, rg_Concurrency = sy_InstallConcurrency s,
       rg_OfficialDir = sy_OfficialDir s, rg_GitHubOwner = ''penny-vault'', rg_CacheDir = [], rg_RunnerMode = rn_Mode (cf_Runner c),
       rg_DockerInstaller = (case runner of UseHost \<Rightarrow> None | UseDocker dc _ \<Rightarrow> Some (st_InstallDocker rt (docker_deps dc c))),
       rg_StatsRefreshTime = sy_StatsRefreshTime s, rg_StatsStartDate = parseStatsStartDate (sy_StatsStartDate s),
       rg_StatsTickInterval = sy_StatsTickInterval s\<rparr>)"

definition backtest_of :: "Config \<Rightarrow> backtest_config" where
  "backtest_of c =
     \<lparr>bc_SnapshotsDir = bk_SnapshotsDir (cf_Backtest c), bc_MaxConcurrency = bk_MaxConcurrency (cf_Backtest c), bc_Timeout = bk_Timeout (cf_Backtest c),
      bc_RunnerMode = rn_Mode (cf_Runner c), bc_OrphanGCInterval = bk_OrphanGCInterval (cf_Backtest c)\<rparr>"

definition scheduler_of :: "schedulerConf \<Rightarrow> scheduler_config option result" where
  "scheduler_of sd =
     (if sd_Enabled sd
      then let schedCfg = Scheduler_ApplyDefaults \<lparr>scheduler_config.sc_TickInterval = sd_TickInterval sd, sc_BatchSize = sd_BatchSize sd\<rparr> in
        case Scheduler_Validate schedCfg of Inl e \<Rightarrow> Inl e | Inr _ \<Rightarrow> Inr (Some schedCfg)
      else Inr None)"

record server_parts =
  sp_config :: Config
  sp_backtest :: backtest_config
  sp_runner :: runner_choice
  sp_scheduler :: "scheduler_config option"
  sp_syncer :: SyncerOptions
  sp_stats :: StatsRefresher

definition start_app :: "start_env \<Rightarrow> registry_tools \<Rightarrow> Config \<Rightarrow> backtest_config \<Rightarrow> runner_choice \<Rightarrow> scheduler_config option \<Rightarrow> server_parts result" where
  "start_app ev rt c btCfg runner sched =
     (case NewApp_start ev rt \<lparr>au_JWKSURL = ac_JWKSURL (cf_Auth c), au_Audience = ac_Audience (cf_Auth c), au_Issuer = ac_Issuer (cf_Auth c)\<rparr>
             (registry_of rt c runner) of
        Inl e \<Rightarrow> Inl (wrap ''build app'' e)
      | Inr (syncer, stats) \<Rightarrow>
          Inr \<lparr>sp_config = c, sp_backtest = btCfg, sp_runner = runner, sp_scheduler = sched, sp_syncer = syncer, sp_stats = stats\<rparr>)"

text \<open>
  What \<open>RunE\<close> does until it listens, as far as it decides whether the server starts. The dispatcher,
  the startup sweep and the orphan collection that it starts on the way cannot stop it.
\<close>

definition serve_setup :: "start_env \<Rightarrow> registry_tools \<Rightarrow> Config \<Rightarrow> server_parts result" where
  "serve_setup ev rt conf =
     (let c = applyDataDirFallbacks conf; btCfg = ApplyDefaults (sv_numCPU ev) (backtest_of c) in
      case sv_holidays ev of
        Some e \<Rightarrow> Inl e
      | None \<Rightarrow>
          (case Config_Validate btCfg of
             Inl e \<Rightarrow> Inl e
           | Inr _ \<Rightarrow>
               (case sv_MkdirAll ev (bc_SnapshotsDir btCfg) of
                  Some e \<Rightarrow> Inl e
                | None \<Rightarrow>
                    (case select_runner ev c of
                       Inl e \<Rightarrow> Inl e
                     | Inr runner \<Rightarrow>
                         (case scheduler_of (cf_Scheduler c) of
                            Inl e \<Rightarrow> Inl e
                          | Inr sched \<Rightarrow> start_app ev rt c btCfg runner sched)))))"

section \<open>Which configurations start\<close>

lemma or_else_nonempty [simp]: "or_else s t = [] \<longleftrightarrow> s = [] \<and> t = []"
  by (simp add: or_else_def)

lemma Join_nonempty [simp]: "filepath_Join (es @ [x]) = [] \<longleftrightarrow> (\<forall>e \<in> set (es @ [x]). e = [])"
  by (auto simp: filepath_Join_def filepath_Clean_nonempty filter_empty_conv Let_def)

text \<open>The directories are set afterwards, a directory that was set is kept, and a second pass changes nothing.\<close>

lemma applyDataDirFallbacks_dirs:
  "bk_SnapshotsDir (cf_Backtest (applyDataDirFallbacks c)) \<noteq> []" "sy_OfficialDir (cf_Strategy (applyDataDirFallbacks c)) \<noteq> []"
  "sy_EphemeralDir (cf_Strategy (applyDataDirFallbacks c)) \<noteq> []"
  using Join_nonempty [of "[cf_DataDir c]" "''snapshots''"] Join_nonempty [of "[cf_DataDir c, ''strategies'']" "''official''"]
    Join_nonempty [of "[cf_DataDir c, ''strategies'']" "''ephemeral''"]
  by (auto simp: applyDataDirFallbacks_def Let_def)

lemma applyDataDirFallbacks_keeps:
  "bk_SnapshotsDir (cf_Backtest c) \<noteq> [] \<Longrightarrow> bk_SnapshotsDir (cf_Backtest (applyDataDirFallbacks c)) = bk_SnapshotsDir (cf_Backtest c)"
  "sy_OfficialDir (cf_Strategy c) \<noteq> [] \<Longrightarrow> sy_OfficialDir (cf_Strategy (applyDataDirFallbacks c)) = sy_OfficialDir (cf_Strategy c)"
  "sy_EphemeralDir (cf_Strategy c) \<noteq> [] \<Longrightarrow> sy_EphemeralDir (cf_Strategy (applyDataDirFallbacks c)) = sy_EphemeralDir (cf_Strategy c)"
  by (simp_all add: applyDataDirFallbacks_def or_else_def Let_def)

lemma applyDataDirFallbacks_other [simp]:
  "cf_Runner (applyDataDirFallbacks c) = cf_Runner c" "cf_Scheduler (applyDataDirFallbacks c) = cf_Scheduler c"
  "cf_Auth (applyDataDirFallbacks c) = cf_Auth c" "bk_MaxConcurrency (cf_Backtest (applyDataDirFallbacks c)) = bk_MaxConcurrency (cf_Backtest c)"
  "sy_RegistrySyncInterval (cf_Strategy (applyDataDirFallbacks c)) = sy_RegistrySyncInterval (cf_Strategy c)"
  "sy_StatsRefreshTime (cf_Strategy (applyDataDirFallbacks c)) = sy_StatsRefreshTime (cf_Strategy c)"
  by (simp_all add: applyDataDirFallbacks_def Let_def)

lemma applyDataDirFallbacks_idem: "applyDataDirFallbacks (applyDataDirFallbacks c) = applyDataDirFallbacks c"
  using applyDataDirFallbacks_dirs [of c] unfolding applyDataDirFallbacks_def [of "applyDataDirFallbacks c"] by (simp add: or_else_def Let_def)

text \<open>When the server starts, in terms of the configuration alone.\<close>

definition runner_ok :: "start_env \<Rightarrow> runnerConf \<Rightarrow> bool" where
  "runner_ok ev r \<longleftrightarrow> rn_Mode r = ''host'' \<or>
     rn_Mode r = ''docker'' \<and> isl (sv_docker ev (dx_Socket (rn_Docker r))) = False \<and>
     (dx_MemoryLimit (rn_Docker r) \<in> {[], ''0''} \<or> isl (sv_RAMInBytes ev (dx_MemoryLimit (rn_Docker r))) = False)"

definition refresh_time_ok :: "string \<Rightarrow> bool" where
  "refresh_time_ok s \<longleftrightarrow> (case scan_time (or_else s ''17:00'') of None \<Rightarrow> False | Some (h, m) \<Rightarrow> 0 \<le> h \<and> h \<le> 23 \<and> 0 \<le> m \<and> m \<le> 59)"

definition startable :: "start_env \<Rightarrow> Config \<Rightarrow> bool" where
  "startable ev c \<longleftrightarrow> sv_holidays ev = None \<and> 0 \<le> bk_MaxConcurrency (cf_Backtest c) \<and> runner_ok ev (cf_Runner c) \<and>
     sv_MkdirAll ev (bk_SnapshotsDir (cf_Backtest (applyDataDirFallbacks c))) = None \<and>
     (sd_Enabled (cf_Scheduler c) \<longrightarrow> 0 \<le> sd_TickInterval (cf_Scheduler c) \<and> 0 \<le> sd_BatchSize (cf_Scheduler c)) \<and>
     ac_JWKSURL (cf_Auth c) \<noteq> [] \<and> ac_Audience (cf_Auth c) \<noteq> [] \<and> ac_Issuer (cf_Auth c) \<noteq> [] \<and> sv_jwkCache ev (ac_JWKSURL (cf_Auth c)) = None \<and>
     0 < sy_RegistrySyncInterval (cf_Strategy c) \<and> refresh_time_ok (sy_StatsRefreshTime (cf_Strategy c))"

lemma select_runner_iff: "(\<exists>r. select_runner ev c = Inr r) \<longleftrightarrow> runner_ok ev (cf_Runner c)"
  by (auto simp: select_runner_def runner_ok_def memory_bytes_def Let_def isl_def split: sum.splits)

lemma Config_Validate_iff:
  assumes "bc_SnapshotsDir b \<noteq> []"
  shows "Config_Validate b = Inr () \<longleftrightarrow> 0 \<le> bc_MaxConcurrency b \<and> bc_RunnerMode b \<in> {''host'', ''docker''}"
  using assms by (auto simp: Config_Validate_def)

lemma scheduler_of_iff: "(\<exists>x. scheduler_of sd = Inr x) \<longleftrightarrow> (sd_Enabled sd \<longrightarrow> 0 \<le> sd_TickInterval sd \<and> 0 \<le> sd_BatchSize sd)"
  by (auto simp: scheduler_of_def Scheduler_ApplyDefaults_def Scheduler_Validate_def Let_def)

lemma NewStatsRefresher_iff: "(\<exists>r. NewStatsRefresher q run k mk day cfg = Inr r) \<longleftrightarrow> refresh_time_ok (sc_RefreshTime cfg)"
  by (auto simp: NewStatsRefresher_def refresh_time_ok_def stats_defaults_def or_else_def Let_def split: option.splits)

lemma startRegistrySync_iff:
  assumes "rg_OfficialDir conf \<noteq> []" and "rg_GitHubOwner conf \<noteq> []"
  shows "(\<exists>r. startRegistrySync rt conf = Inr r) \<longleftrightarrow> 0 < rg_SyncInterval conf \<and> refresh_time_ok (rg_StatsRefreshTime conf)"
proof -
  have "refresh_time_ok (rg_StatsRefreshTime conf) \<longleftrightarrow> (\<exists>r. NewStatsRefresher (st_quote rt) (st_statRunner rt) (st_statKpis rt) (st_MkdirTemp rt) (st_at rt)
      \<lparr>sc_StartDate = Some (rg_StatsStartDate conf), sc_RefreshTime = rg_StatsRefreshTime conf,
       StatsRefresherConfig.sc_TickInterval = rg_StatsTickInterval conf * 1000, sc_SnapshotDir = []\<rparr> = Inr r)"
    unfolding NewStatsRefresher_iff by simp
  then show ?thesis using assms by (auto simp: startRegistrySync_def Let_def split: sum.splits)
qed

lemma start_app_iff:
  assumes "sy_OfficialDir (cf_Strategy c) \<noteq> []"
  shows "(\<exists>p. start_app ev rt c b r sch = Inr p) \<longleftrightarrow>
    ac_JWKSURL (cf_Auth c) \<noteq> [] \<and> ac_Audience (cf_Auth c) \<noteq> [] \<and> ac_Issuer (cf_Auth c) \<noteq> [] \<and> sv_jwkCache ev (ac_JWKSURL (cf_Auth c)) = None \<and>
    0 < sy_RegistrySyncInterval (cf_Strategy c) \<and> refresh_time_ok (sy_StatsRefreshTime (cf_Strategy c))"
proof -
  have "(\<exists>x. startRegistrySync rt (registry_of rt c r) = Inr x) \<longleftrightarrow>
      0 < sy_RegistrySyncInterval (cf_Strategy c) \<and> refresh_time_ok (sy_StatsRefreshTime (cf_Strategy c))"
    using assms by (subst startRegistrySync_iff) (simp_all add: registry_of_def Let_def)
  then show ?thesis
    by (auto simp: start_app_def NewApp_start_def check_config_def split: sum.splits option.splits)
qed

lemma backtest_defaults:
  "bc_SnapshotsDir (ApplyDefaults n b) = bc_SnapshotsDir b" "bc_RunnerMode (ApplyDefaults n b) = bc_RunnerMode b"
  "bc_MaxConcurrency (ApplyDefaults n b) = (if bc_MaxConcurrency b = 0 then n else bc_MaxConcurrency b)"
  by (simp_all add: ApplyDefaults_def Let_def)

lemma start_app_parts:
  "start_app ev rt c b r sch = Inr p \<Longrightarrow> sp_config p = c \<and> sp_backtest p = b \<and> sp_runner p = r \<and> sp_scheduler p = sch
     \<and> 0 < so_Concurrency (sp_syncer p) \<and> 0 < so_Interval (sp_syncer p) \<and> so_OfficialDir (sp_syncer p) = sy_OfficialDir (cf_Strategy c)"
  by (auto simp: start_app_def NewApp_start_def startRegistrySync_def NewSyncer_def registry_of_def Let_def split: sum.splits option.splits if_splits)


text \<open>A concrete case: a host server with only the values that have no default.\<close>

definition demo_env :: start_env where
  "demo_env = \<lparr>sv_numCPU = 4, sv_holidays = None, sv_MkdirAll = (\<lambda>_. None), sv_docker = (\<lambda>_. Inl (fatal [])), sv_RAMInBytes = (\<lambda>_. Inl (fatal [])),
     sv_nanoCPUs = (\<lambda>_. 0), sv_jwkCache = (\<lambda>_. None)\<rparr>"

definition demo_registry_tools :: registry_tools where
  "demo_registry_tools = \<lparr>st_search = (\<lambda>_. State_Monad.return (Inr [])), st_ResolveVer = (\<lambda>_. State_Monad.return (Inr ''v1.0.0'')),
     st_Install = (\<lambda>_. State_Monad.return (Inl (fatal []))), st_quote = id, st_statRunner = (\<lambda>_ _. None), st_statKpis = (\<lambda>_ _. Inl (fatal [])),
     st_MkdirTemp = (\<lambda>_ _. Inl (fatal [])), st_at = (\<lambda>t _ _. t), st_InstallDocker = (\<lambda>_ _. State_Monad.return (Inl (fatal []))),
     st_autoUpgrade = (\<lambda>_ _. State_Monad.return ())\<rparr>"

definition demo_config :: "string \<Rightarrow> Config" where
  "demo_config mode = \<lparr>cf_DataDir = ''/var/lib/pvapi'', cf_AppBaseURL = [], cf_UnsubscribeSecret = [],
     cf_Log = \<lparr>lg_Level = ''info'', lg_Output = ''stdout'', lg_Pretty = True, lg_ReportCaller = False\<rparr>, cf_DBURL = ''postgres://db'',
     cf_Server = \<lparr>se_Port = 3000, se_AllowOrigins = []\<rparr>, cf_Auth = \<lparr>ac_JWKSURL = ''https://k'', ac_Audience = ''pv'', ac_Issuer = ''https://i''\<rparr>,
     cf_GitHubToken = [], cf_Strategy = \<lparr>sy_RegistrySyncInterval = 3600000000, sy_InstallConcurrency = 0, sy_OfficialDir = [], sy_GithubQuery = [],
       sy_EphemeralDir = [], sy_EphemeralInstallTimeout = 0, sy_StatsRefreshTime = ''17:00'', sy_StatsStartDate = [], sy_StatsTickInterval = 0\<rparr>,
     cf_Backtest = \<lparr>bk_SnapshotsDir = [], bk_MaxConcurrency = 0, bk_Timeout = 0, bk_OrphanGCInterval = 0\<rparr>,
     cf_Runner = \<lparr>rn_Mode = mode, rn_Docker = \<lparr>dx_Socket = [], dx_Network = [], dx_CPULimit = ''0'', dx_MemoryLimit = [], dx_BuildTimeout = 0,
       dx_ImagePrefix = [], dx_SnapshotsHostPath = []\<rparr>\<rparr>, cf_Scheduler = \<lparr>sd_TickInterval = 0, sd_BatchSize = 0, sd_Enabled = True\<rparr>,
     cf_Mailgun = \<lparr>mg_Domain = [], mg_APIKey = [], mg_FromAddress = []\<rparr>\<rparr>"


section \<open>Artifacts\<close>

text \<open>
  On a working database \<open>resolve\<close> builds nothing when the version is installed, whatever the kind of
  the artifact that was installed: after a change of \<open>runner.mode\<close> the reference of the other kind is
  handed to the runner until the syncer has installed the version again.
\<close>

lemma resolve_installed:
  assumes "w_outcomes w = []" and "ver \<noteq> []"
    and "List.find (\<lambda>s. s_CloneURL s = url \<and> s_InstalledVer s = Some ver \<and> s_InstallError s = None) (plan (w_strategies w)) = Some s"
    and "s_ArtifactRef s = Some ref" and "ref \<noteq> []"
  shows "run_state (resolve_artifact plan build url ver st) w = ((Inr (ref, None), st), w)"
  using assms by (simp add: resolve_artifact_def LookupArtifact_def Let_def)

lemma resolve_builds:
  assumes "w_outcomes w = []" and "ver = [] \<or> List.find (\<lambda>s. s_CloneURL s = url \<and> s_InstalledVer s = Some ver \<and> s_InstallError s = None) (plan (w_strategies w)) = None"
  shows "run_state (resolve_artifact plan build url ver st) w = ((map_sum id (map_prod id Some) (fst (build st)), snd (build st)), w)"
  using assms by (auto simp: resolve_artifact_def LookupArtifact_def Let_def split: prod.split sum.split)

text \<open>A lookup that fails for another reason than a missing row is returned, and nothing is built.\<close>

lemma resolve_db_error:
  "w_outcomes w = DbLost # os \<Longrightarrow> ver \<noteq> [] \<Longrightarrow> \<exists>w'. run_state (resolve_artifact plan build url ver st) w = ((Inl db_error, st), w')"
  by (simp add: resolve_artifact_def LookupArtifact_def dbread_def run_dbop next_outcome_def Let_def)

section \<open>Flags\<close>

text \<open>Three flags are bound to keys that no field of the configuration reads, so setting them has no effect.\<close>

lemma unread_flags:
  "filter (\<lambda>f. list_all (\<lambda>k. k \<notin> set config_keys) (flag_keys f)) server_flags = [''data-dir'', ''app-base-url'', ''unsubscribe-secret'']"
  by code_simp

end
