(* ===== verification/Middleware.thy ===== *)
theory Middleware
  imports Api
begin

text \<open>
  The middleware around the routes, \<open>api/middleware.go\<close>. An exchange is the world, the response
  headers, the request id of the context and the log; a handler, \<open>c.Next()\<close> from the point of view of
  a middleware, returns an error or nil and changes the exchange. \<open>mw_code\<close> is the code of a
  \<open>fiber.Error\<close> in the chain of an error and \<open>mw_dur\<close> writes microseconds as milliseconds with three
  decimals.
\<close>

datatype log_level = InfoLevel | WarnLevel | ErrorLevel

record log_entry =
  le_level :: log_level
  le_request_id :: string
  le_status :: nat
  le_method :: string
  le_path :: string
  le_duration :: int
  le_ip :: string
  le_ua :: string
  le_bytes :: nat
  le_user :: "string option"
  le_xff :: "string option"
  le_query :: "string option"
  le_referer :: "string option"

record full_request = http_request +
  fr_RequestID :: string
  fr_IP :: string
  fr_UserAgent :: string
  fr_XForwardedFor :: string
  fr_QueryString :: string
  fr_Referer :: string

record exchange =
  ex_world :: world
  ex_headers :: "(string \<times> string) list"
  ex_requestID :: string
  ex_subject :: string
  ex_log :: "log_entry list"

type_synonym next_handler = "exchange \<Rightarrow> unit result \<times> exchange"

record middleware =
  mw_newID :: "world \<Rightarrow> string"
  mw_code :: "error \<Rightarrow> nat option"
  mw_dur :: "int \<Rightarrow> string"
  mw_bytes :: "world \<Rightarrow> nat"
  mw_clock :: "world \<Rightarrow> instant"
    \<comment> \<open>the clock when the handler is done with the world\<close>

definition requestIDHeader :: string where "requestIDHeader = ''X-Request-Id''"

definition requestIDMiddleware :: "middleware \<Rightarrow> full_request \<Rightarrow> next_handler \<Rightarrow> next_handler" where
  "requestIDMiddleware mw rq nxt x =
     (let rid = (if fr_RequestID rq = [] then mw_newID mw (ex_world x) else fr_RequestID rq) in
      nxt (x\<lparr>ex_requestID := rid, ex_headers := filter (\<lambda>(k, _). k \<noteq> requestIDHeader) (ex_headers x) @ [(requestIDHeader, rid)]\<rparr>))"

definition timerMiddleware :: "middleware \<Rightarrow> next_handler \<Rightarrow> next_handler" where
  "timerMiddleware mw nxt x =
     (case nxt x of (err, y) \<Rightarrow>
        (err, y\<lparr>ex_headers := ex_headers y @ [(''Server-Timing'', ''app;dur='' @ mw_dur mw (mw_clock mw (ex_world y) - w_now (ex_world x)))]\<rparr>))"

definition response_status :: "world \<Rightarrow> nat" where
  "response_status w = (case w_resp w of None \<Rightarrow> 200 | Some r \<Rightarrow> rs_status r)"

definition logged_status :: "middleware \<Rightarrow> unit result \<Rightarrow> world \<Rightarrow> nat" where
  "logged_status mw err w =
     (case err of Inr _ \<Rightarrow> response_status w | Inl e \<Rightarrow> (case mw_code mw e of Some code \<Rightarrow> code | None \<Rightarrow> 500))"

definition level_of :: "nat \<Rightarrow> log_level" where
  "level_of status = (if status \<ge> 500 then ErrorLevel else if status \<ge> 400 then WarnLevel else InfoLevel)"

definition some_field :: "string \<Rightarrow> string option" where
  "some_field s = (if s = [] then None else Some s)"

definition loggerMiddleware :: "middleware \<Rightarrow> full_request \<Rightarrow> next_handler \<Rightarrow> next_handler" where
  "loggerMiddleware mw rq nxt x =
     (case nxt x of (err, y) \<Rightarrow>
        (let status = logged_status mw err (ex_world y) in
         (err, y\<lparr>ex_log := ex_log y @ [\<lparr>le_level = level_of status, le_request_id = ex_requestID y, le_status = status, le_method = hr_Method rq,
            le_path = hr_Path rq, le_duration = mw_clock mw (ex_world y) - w_now (ex_world x), le_ip = fr_IP rq, le_ua = fr_UserAgent rq,
            le_bytes = mw_bytes mw (ex_world y), le_user = some_field (ex_subject y), le_xff = some_field (fr_XForwardedFor rq),
            le_query = some_field (fr_QueryString rq), le_referer = some_field (fr_Referer rq)\<rparr>]\<rparr>)))"

text \<open>The routes: the subject is a local of the context once the token is accepted.\<close>

definition routes_next :: "'k app \<Rightarrow> string list \<Rightarrow> full_request \<Rightarrow> next_handler" where
  "routes_next a dirs rq x =
     (case run_state (serve_api a dirs (http_request.truncate rq)) (ex_world x) of (err, w) \<Rightarrow>
        (err, x\<lparr>ex_world := w,
          ex_subject := (if ap_inGroup a (hr_Path rq)
                         then case authenticate (ap_jwt a) (ap_auth a) (hr_Authorization rq) of Inl _ \<Rightarrow> [] | Inr sub \<Rightarrow> sub
                         else [])\<rparr>))"

text \<open>\<open>cors\<close> is the CORS handler of fiber, present when origins are configured.\<close>

definition NewApp_chain :: "middleware \<Rightarrow> (next_handler \<Rightarrow> next_handler) \<Rightarrow> 'k app \<Rightarrow> string list \<Rightarrow> full_request \<Rightarrow> next_handler" where
  "NewApp_chain mw cors a dirs rq =
     requestIDMiddleware mw rq (timerMiddleware mw (cors (loggerMiddleware mw rq (routes_next a dirs rq))))"

text \<open>The status on the wire: after the chain fiber's error handler answers a returned error.\<close>

definition wire_status :: "middleware \<Rightarrow> unit result \<times> exchange \<Rightarrow> nat" where
  "wire_status mw = (\<lambda>(err, x). case err of Inr _ \<Rightarrow> response_status (ex_world x) | Inl e \<Rightarrow> (case mw_code mw e of Some code \<Rightarrow> code | None \<Rightarrow> 500))"

section \<open>The middleware changes nothing but headers and log\<close>

text \<open>A CORS handler on a request that is not a preflight: it passes it on and at most adds headers.\<close>

definition passes_on :: "(next_handler \<Rightarrow> next_handler) \<Rightarrow> bool" where
  "passes_on cors \<longleftrightarrow> (\<forall>n x. fst (cors n x) = fst (n x) \<and> ex_world (snd (cors n x)) = ex_world (snd (n x)) \<and> ex_log (snd (cors n x)) = ex_log (snd (n x))
     \<and> set (ex_headers (snd (n x))) \<subseteq> set (ex_headers (snd (cors n x))))"

text \<open>The line that is logged for a request.\<close>

definition logs_request :: "middleware \<Rightarrow> 'k app \<Rightarrow> full_request \<Rightarrow> exchange \<Rightarrow> unit result \<times> exchange \<Rightarrow> bool" where
  "logs_request mw a rq x y \<longleftrightarrow> (\<exists>e. ex_log (snd y) = ex_log x @ [e] \<and> le_status e = wire_status mw y \<and> le_level e = level_of (wire_status mw y)
     \<and> (requestIDHeader, le_request_id e) \<in> set (ex_headers (snd y)) \<and> (fr_RequestID rq \<noteq> [] \<longrightarrow> le_request_id e = fr_RequestID rq)
     \<and> le_user e = (if ap_inGroup a (hr_Path rq)
                    then case authenticate (ap_jwt a) (ap_auth a) (hr_Authorization rq) of Inl _ \<Rightarrow> None | Inr sub \<Rightarrow> Some sub else None))"

lemma inner_chain:
  assumes "run_state (serve_api a dirs (http_request.truncate rq)) (ex_world x) = (err, w)" and "(requestIDHeader, ex_requestID x) \<in> set (ex_headers x)"
    and "ex_requestID x = (if fr_RequestID rq = [] then rid else fr_RequestID rq)" and y: "y = loggerMiddleware mw rq (routes_next a dirs rq) x"
  shows "fst y = err \<and> ex_world (snd y) = w \<and> logs_request mw a rq x y"
  using assms(1-3) authenticate_sub unfolding y logs_request_def
  by (auto simp: loggerMiddleware_def routes_next_def logged_status_def wire_status_def some_field_def Let_def split: sum.splits)

lemma NewApp_chain_spec:
  assumes "run_state (serve_api a dirs (http_request.truncate rq)) (ex_world x) = (err, w)" and "passes_on cors"
    and y: "y = NewApp_chain mw cors a dirs rq x"
  shows "fst y = err \<and> ex_world (snd y) = w \<and> logs_request mw a rq x y"
proof -
  define rid where "rid = (if fr_RequestID rq = [] then mw_newID mw (ex_world x) else fr_RequestID rq)"
  define x1 where "x1 = x\<lparr>ex_requestID := rid, ex_headers := filter (\<lambda>(k, _). k \<noteq> requestIDHeader) (ex_headers x) @ [(requestIDHeader, rid)]\<rparr>"
  define z where "z = loggerMiddleware mw rq (routes_next a dirs rq) x1"
  have z: "fst z = err \<and> ex_world (snd z) = w \<and> logs_request mw a rq x1 z"
    using assms(1) by (intro inner_chain [where rid = "mw_newID mw (ex_world x)", OF _ _ _ z_def]) (simp_all add: x1_def rid_def)
  define c where "c = cors (loggerMiddleware mw rq (routes_next a dirs rq)) x1"
  have c: "fst c = fst z" "ex_world (snd c) = ex_world (snd z)" "ex_log (snd c) = ex_log (snd z)" "set (ex_headers (snd z)) \<subseteq> set (ex_headers (snd c))"
    using assms(2) by (simp_all add: passes_on_def c_def z_def)
  have eq: "fst y = fst c" "ex_world (snd y) = ex_world (snd c)" "ex_log (snd y) = ex_log (snd c)" "set (ex_headers (snd c)) \<subseteq> set (ex_headers (snd y))"
    unfolding y NewApp_chain_def requestIDMiddleware_def timerMiddleware_def Let_def c_def x1_def rid_def by (auto split: prod.split)
  have "wire_status mw y = wire_status mw z" using c eq by (simp add: wire_status_def split_beta split: sum.split)
  moreover have "ex_log x1 = ex_log x" by (simp add: x1_def)
  ultimately show ?thesis using z c eq unfolding logs_request_def by (metis (no_types, lifting) subsetD)
qed

end
