(* ===== verification/Spec2Isabelle.thy ===== *)
theory Spec2Isabelle
  imports Scheduler Sweep Upgrade_Behaviour Alert_Behaviour Stats Email Server Middleware
begin

text \<open>
  \<^bold>\<open>A verification of pv-api\<close>

  pv-api is the server of Penny Vault. Users create \<^emph>\<open>portfolios\<close>, each an instance of a published
  investment \<^emph>\<open>strategy\<close>; the server runs the strategy's backtest, stores the snapshot the run
  writes, serves what can be read from it, runs every open portfolio again each night, upgrades
  portfolios to new versions of their strategy and mails alerts. Its parts and how they interact:

  \<^item> the \<^emph>\<open>stores\<close> (\<open>portfolio/db.go\<close>, \<open>portfolio/runs.go\<close>, \<open>strategy/db.go\<close>, \<open>alert/db.go\<close>) are the only
    code that talks to Postgres; the \<open>PoolStore\<close> methods of \<open>portfolio/store.go\<close> and
    \<open>strategy/store.go\<close> pass their arguments on to them;
  \<^item> the \<^emph>\<open>API server\<close> (\<open>api/\<close>) logs each request, checks its token and routes it to the \<^emph>\<open>HTTP handlers\<close>
    (\<open>portfolio/handler.go\<close>, \<open>portfolio/upgrade.go\<close>, \<open>alert/handler.go\<close>, \<open>strategy/handler.go\<close>), which validate
    requests, call the stores and submit runs;
  \<^item> the \<^emph>\<open>dispatcher\<close> (\<open>backtest/dispatcher.go\<close>) takes a submission, records a queued run and puts a
    task on a bounded channel, and its workers give each task to the \<^emph>\<open>orchestrator\<close>
    (\<open>backtest/run.go\<close>), which runs the strategy with one of the \<^emph>\<open>runners\<close> (\<open>backtest/host.go\<close>,
    \<open>backtest/docker.go\<close>), publishes the snapshot, prunes old runs, completes the run in the
    \<^emph>\<open>progress hub\<close> (\<open>progress/hub.go\<close>) and tells the \<^emph>\<open>alert checker\<close> (\<open>alert/checker.go\<close>);
  \<^item> the \<^emph>\<open>snapshot readers\<close> (\<open>snapshot/\<close>) answer every question about a finished run from the SQLite
    file it wrote, for the handlers, the orchestrator, the mails (\<open>alert/email/template.go\<close>) and the
    \<^emph>\<open>statistics\<close> of strategies (\<open>strategy/stats.go\<close>);
  \<^item> the \<^emph>\<open>scheduler\<close> (\<open>scheduler/scheduler.go\<close>) claims due portfolios and submits them; the
    \<^emph>\<open>sweeps\<close> (\<open>backtest/sweep.go\<close>, \<open>backtest/orphan_sweep.go\<close>) repair the tables and the snapshots
    directory after a restart;
  \<^item> the \<^emph>\<open>syncer\<close> (\<open>strategy/sync.go\<close>) installs new versions of strategies with the \<^emph>\<open>installers\<close>
    (\<open>strategy/install.go\<close>, \<open>strategy/docker_install.go\<close>) and calls the automatic upgrade
    (\<open>portfolio/auto_upgrade.go\<close>);
  \<^item> \<open>cmd/server.go\<close> reads the configuration and puts the parts together.

  \<^bold>\<open>How the code is modelled\<close>

  The state shared by the parts is the record \<open>world\<close> of \<^theory_text>\<open>Schema\<close>: the rows of the four tables, the
  dispatcher's channel, the files under the snapshots directory, the hub, the mails sent, the last
  response, the clock, and a flag for a Go panic. Code that changes state is written in the state
  monad, one definition per Go function, with the calls, guards and early returns in the order of
  the source. A pair of a value and an error is a sum, an error is its chain of sentinels and its
  text. Every database call takes the next entry of a list of outcomes, so that it may succeed, fail
  without effect, or take effect although the caller sees an error; a theorem that does not fix this
  list holds for every behaviour of the database, and a theorem that assumes it empty is about a
  working database. Concurrent parts interleave at these calls. Machine integers keep their width
  where it matters (the FNV hash of a slug, the run duration, SHA-256).

  A float64 that is only copied is the text Go prints for it. Where the code computes with float64
  (\<open>snapshot/\<close> and the mails) it is a type variable with the operators the code uses, so that the
  definitions fix the order of every operation but no rounding; the theorems on computed values
  instantiate it with an ordered field and speak of exact arithmetic.

  Code outside the repository is an argument of the definitions that use it: the strategy's process,
  the Docker client, git, SQLite's parser, the JWT library and the key cache, the path matcher of
  fiber, \<open>sonic\<close>, \<open>uuid\<close>, \<open>semver\<close>, the verbs of \<open>fmt\<close> on float64, the HTML templates, the trading calendar,
  the mail service, the order in which Go iterates a map, the order in which Postgres returns rows
  without \<open>ORDER BY\<close>, and the Unicode tables. The theorems name what they need of an argument as a
  hypothesis, and their witnesses give a concrete function for it.

  \<^bold>\<open>The theories\<close>

  \<^item> \<^theory_text>\<open>Prelude\<close>: the calculus of preserved invariants and pre/postconditions for the state monad
    (collections \<open>preserve_rules\<close> and \<open>valid_rules\<close>), rows updated by a condition, \<open>strings.TrimSpace\<close>.
    \<^theory_text>\<open>Dates\<close>, \<^theory_text>\<open>Json\<close>, \<^theory_text>\<open>Paths\<close>, \<^theory_text>\<open>Sha256\<close>: what the code uses of Go's \<open>time\<close>, \<open>encoding/json\<close>,
    \<open>path/filepath\<close>, \<open>crypto/hmac\<close> and \<open>encoding/base64\<close>.
  \<^item> \<^theory_text>\<open>Schema\<close>: the Go structs, the shared state and database calls.
  \<^item> \<^theory_text>\<open>Hub\<close> (\<open>progress/hub.go\<close>): channels as bounded lists with a closed flag; no interleaving of hub
    operations panics or blocks, a late subscriber is replayed exactly the last twenty messages, and
    cutting the output of a run into writes does not matter.
  \<^item> \<^theory_text>\<open>Validate\<close> (\<open>portfolio/validate.go\<close>): a create request is accepted iff a declarative condition
    holds; the parameter diff is a partition; a compatible diff merges into valid parameters.
    \<^theory_text>\<open>Slug\<close> (\<open>portfolio/slug.go\<close>): shape and stability of slugs, the base32 suffix.
  \<^item> \<^theory_text>\<open>Portfolio_Store\<close>: every query of \<open>portfolio/db.go\<close> and \<open>portfolio/runs.go\<close>; every history of store
    calls, with any failures, keeps the invariant \<open>db_inv\<close> (unique ids and slugs, no dangling row, at
    most one run in flight per portfolio); pruning and claiming are exact.
    \<^theory_text>\<open>Strategy_Store\<close> (\<open>strategy/db.go\<close>), \<^theory_text>\<open>Alert_Store\<close> (\<open>alert/db.go\<close>).
  \<^item> \<^theory_text>\<open>Dispatcher\<close> (\<open>backtest/dispatcher.go\<close>, the adapters of \<open>cmd/server.go\<close>): the locale \<open>run_store\<close>
    is what submission needs of the run store; submission never loses a run and is specified on
    every branch. \<^theory_text>\<open>Orchestrator\<close> (\<open>backtest/run.go\<close>, \<open>backtest/args.go\<close>), with the locale
    \<open>portfolio_store\<close> that extends \<open>run_store\<close>: every run ends, a good run ends ready with its snapshot
    in place, retention, and what a failure leaves.
    \<^theory_text>\<open>Scheduler\<close>: the nightly pass ends and leaves no due portfolio without a run; the search for a
    missed fire is a bounded loop over fires and finds the last one. \<^theory_text>\<open>Sweep\<close>: the sweeps remove
    orphans and nothing else.
  \<^item> \<^theory_text>\<open>Handler\<close> (\<open>portfolio/handler.go\<close>, \<open>portfolio/holdings_impact.go\<close>, \<open>portfolio/progress_handler.go\<close>)
    and \<^theory_text>\<open>Upgrade\<close> (\<open>portfolio/upgrade_core.go\<close>, \<open>portfolio/upgrade.go\<close>, \<open>portfolio/auto_upgrade.go\<close>)
    define the endpoints; \<^theory_text>\<open>Routes\<close> mounts them and states the locale \<open>tenant\<close>: whatever invariant the
    services keep, every endpoint keeps. It is interpreted twice on the server's own handler: for the
    tables' invariant, and in \<^theory_text>\<open>Isolation\<close> for the view of the other subjects' rows, which gives that
    tenants are isolated. \<^theory_text>\<open>Handler_Behaviour\<close> and \<^theory_text>\<open>Upgrade_Behaviour\<close> specify creation, patching,
    recomputation, upgrades and the automatic upgrade.
  \<^item> \<^theory_text>\<open>Alert_Handler\<close> (\<open>alert/handler.go\<close>, \<open>alert/unsubscribe_token.go\<close>) and \<^theory_text>\<open>Alert_Checker\<close>
    (\<open>alert/evaluate.go\<close>, \<open>alert/checker.go\<close>); \<^theory_text>\<open>Alert_Behaviour\<close>: which alerts a run sends, at most one
    per day, the unsubscribe link, isolation through the locale \<open>alert_tenant\<close> that extends
    \<open>tenant\<close>, and that the checker is a notifier as the orchestrator's theorems require.
    \<^theory_text>\<open>Email\<close> (\<open>alert/checker.go\<close>, \<open>alert/email/template.go\<close>): the payload of a mail, its plain text, the
    grouping of amounts.
  \<^item> \<^theory_text>\<open>Snapshot\<close>, \<^theory_text>\<open>Snapshot_Reads\<close>, \<^theory_text>\<open>Holdings\<close>, \<^theory_text>\<open>Drawdowns\<close>, \<^theory_text>\<open>Impact\<close> and \<^theory_text>\<open>Opener\<close> (\<open>snapshot/\<close>): a
    snapshot is the record of its tables with the faults of its queries; every reader is defined on
    it. The holdings of a day are those of the average-cost method, the drawdowns are the cycles of
    the equity curve, the contributions of a period add up; the requests that reach the readers are
    specified down to the response.
  \<^item> \<^theory_text>\<open>Runners\<close> (\<open>backtest/host.go\<close>, \<open>backtest/docker.go\<close>): the calls of a container run in order and the
    error of each ending. \<^theory_text>\<open>Installers\<close> (\<open>strategy/github.go\<close>, \<open>strategy/install.go\<close>, the Docker installs):
    image names do not collide, a failed build leaves nothing behind.
  \<^item> \<^theory_text>\<open>Sync\<close> (\<open>strategy/sync.go\<close>): a successful build ends as a ready registry row, and how failures
    are recorded. \<^theory_text>\<open>Strategy_Handler\<close> (\<open>strategy/handler.go\<close>, \<open>strategy/describe.go\<close>, \<open>strategy/ephemeral.go\<close>).
    \<^theory_text>\<open>Stats\<close> (\<open>strategy/stats.go\<close>): the daily pass refreshes exactly the strategies that are due.
  \<^item> \<^theory_text>\<open>Api\<close> (\<open>api/auth.go\<close>, \<open>api/errors.go\<close>, \<open>api/portfolios.go\<close>, \<open>api/strategies.go\<close>, \<open>api/server.go\<close>): token check,
    route tables and the composed server. \<^theory_text>\<open>Middleware\<close> (\<open>api/middleware.go\<close>): what surrounds it.
    \<^theory_text>\<open>Server\<close> (\<open>cmd/config.go\<close>, \<open>cmd/viper.go\<close>, \<open>cmd/server.go\<close>, \<open>api/server.go\<close>): flags and fallbacks,
    the artifact resolvers, and exactly which configurations start.
  \<^item> This theory holds the two properties that go through most parts: what a request can touch, and
    what a finished run tells its readers to trade.

  \<^bold>\<open>Loops and bounds\<close>

  Loops over lists are structural. The dispatch loop of the scheduler takes the interferences of other
  goroutines as a list, which is its fuel, and \<open>dispatchDue_dispatches_all\<close> shows that one more round
  than there are due portfolios is enough on a server with room in the queue. The probes for a missed
  fire have the length of the window as fuel, which \<open>mostRecentFire_latest\<close> shows to be enough.
  The endless loops of the scheduler and the syncer run until the context is cancelled, after a given
  number of fires or ticks. UTF-8 decoding consumes at least one byte per step.

  \<^bold>\<open>Not modelled\<close>

  Generated code (\<open>openapi/\<close>), the documentation pages (\<open>api/docs.go\<close>) and the set-up of logging carry no
  logic. Viper's reading of files, flags and the environment, pgx's pool and go-migrate's migrations
  (\<open>sql/\<close>) are library calls; the tables that the migrations make are in \<^theory_text>\<open>Schema\<close>. The HTML of a mail is
  a template. Test data builders (\<open>snapshot/fixture.go\<close>, \<open>api/apitesting/\<close>) are not part of the server.
\<close>

section \<open>A request, through the whole server\<close>

text \<open>C2. The composed server keeps tenants apart. A request under \<open>/api/v3\<close> without an accepted token
  reaches no handler: nothing but the response, an error, is written. With a token of subject \<open>sub\<close>,
  whatever the route, the body and the faults of the database, the portfolios of the other subjects
  and their runs and alerts are as before and the tables' invariant is kept. In both cases one line
  is logged, with the subject of the token, the request id that the response carries and the status
  that goes out. (The one public route that writes, \<open>/api/alerts/unsubscribe\<close>, is not under
  \<open>/api/v3\<close>.)\<close>

theorem requests_isolated:
  assumes "db_inv (ex_world x)" and "ap_inGroup a (hr_Path rq)" and "ap_matches a ''/api/alerts/unsubscribe'' (hr_Path rq) = None"
    and "passes_on cors" and "NewApp_chain mw cors a dirs rq x = (res, y)"
  shows "(case authenticate (ap_jwt a) (ap_auth a) (hr_Authorization rq) of
      Inl e \<Rightarrow> \<exists>b. ex_world y = (ex_world x)\<lparr>w_resp := Some b\<rparr> \<and> 400 \<le> rs_status b
    | Inr sub \<Rightarrow> foreign sub (ex_world y) = foreign sub (ex_world x) \<and> db_inv (ex_world y)) \<and> logs_request mw a rq x (res, y)"
proof -
  obtain err w where run: "run_state (serve_api a dirs (http_request.truncate rq)) (ex_world x) = (err, w)" by fastforce
  from NewApp_chain_spec [OF run assms(4) assms(5) [symmetric]] have y: "ex_world y = w" and log: "logs_request mw a rq x (res, y)" by (elim conjE, simp)+
  have "hr_Path (http_request.truncate rq) = hr_Path rq" "hr_Authorization (http_request.truncate rq) = hr_Authorization rq"
    by (simp_all add: http_request.truncate_def)
  with serve_api_isolated [OF assms(1) _ _ run] assms(2,3) log show ?thesis unfolding y by simp
qed

text \<open>A concrete case: a delete with the token of another user, and one without a token.\<close>

definition demo_full :: "string \<Rightarrow> full_request" where
  "demo_full hdr = http_request.extend (demo_http hdr) (full_request.fields ''req-1'' ''10.0.0.1'' [] [] [] [])"

definition demo_exchange :: exchange where
  "demo_exchange = \<lparr>ex_world = demo_world, ex_headers = [], ex_requestID = [], ex_subject = [], ex_log = []\<rparr>"

definition demo_middleware :: middleware where
  "demo_middleware = \<lparr>mw_newID = (\<lambda>_. ''req-2''), mw_code = (\<lambda>_. None), mw_dur = dec, mw_bytes = (\<lambda>_. 0), mw_clock = w_now\<rparr>"

theorem requests_isolated_witness:
  "foreign ''auth0|v'' (ex_world (snd (NewApp_chain demo_middleware id demo_app [] (demo_full ''bearer tok'') demo_exchange))) = foreign ''auth0|v'' demo_world
   \<and> logs_request demo_middleware demo_app (demo_full ''bearer tok'') demo_exchange (NewApp_chain demo_middleware id demo_app [] (demo_full ''bearer tok'') demo_exchange)
   \<and> (\<exists>b. ex_world (snd (NewApp_chain demo_middleware id demo_app [] (demo_full ''Basic tok'') demo_exchange)) = demo_world\<lparr>w_resp := Some b\<rparr> \<and> 400 \<le> rs_status b)
   \<and> demo_portfolio \<in> set (fst (foreign ''auth0|v'' demo_world))"
proof -
  have tok: "bearerToken ''bearer tok'' = ''tok''" "bearerToken ''Basic tok'' = []" by code_simp+
  have h: "hr_Authorization (demo_full t) = t" for t
    by (simp add: demo_full_def demo_http_def http_request.extend_def)
  have auth: "authenticate (ap_jwt demo_app) (ap_auth demo_app) (hr_Authorization (demo_full ''bearer tok'')) = Inr ''auth0|v''"
    and no: "authenticate (ap_jwt demo_app) (ap_auth demo_app) (hr_Authorization (demo_full ''Basic tok'')) = Inl (wrap ''missing bearer token'' invalid_bearer)"
    unfolding h by (simp_all add: authenticate_def demo_app_def tok)
  have g: "ap_inGroup demo_app (hr_Path (demo_full t))" "ap_matches demo_app ''/api/alerts/unsubscribe'' (hr_Path (demo_full t)) = None" for t
    by (simp_all add: demo_app_def)
  have w: "ex_world demo_exchange = demo_world" by (simp add: demo_exchange_def)
  have p: "passes_on id" by (simp add: passes_on_def)
  have "demo_portfolio \<in> set (fst (foreign ''auth0|v'' demo_world))"
    by (simp add: foreign_def demo_world_def) (simp add: demo_portfolio_def)
  with requests_isolated [of demo_exchange, unfolded w, OF demo_world_inv g [of "''bearer tok''"] p surjective_pairing, of demo_middleware "[]", unfolded auth]
    requests_isolated [of demo_exchange, unfolded w, OF demo_world_inv g [of "''Basic tok''"] p surjective_pairing, of demo_middleware "[]", unfolded no]
  show ?thesis by simp
qed

section \<open>From a finished run to what its mails say\<close>

lemma recipient_mails_table:
  fixes ml :: "'f::{plus,minus,times,inverse,uminus,zero,ord} mailing"
  assumes "ck_render ck = render_mail ml" and "\<And>q. \<exists>html. ml_tmpl ml True q = Inr html"
    and "q_SnapshotPath port = Some path" and "ml_open ml path = Inr sn" and "CurrentHoldings (ml_quote ml) sn = Inr cur" and "LatestBatchTrades sn = Inr ts"
  shows "\<exists>m. recipient_mails lb ck port True al r = [m] \<and> mail_to m = [r] \<and> (\<exists>a b. mail_text m = a @ trade_table ml ts @ b)"
proof -
  have "\<exists>html plain. render_mail ml port True True url unsub = Inr (html, plain)" for url unsub
    using assms(2) by (auto simp: render_mail_def Render_def Let_def split: sum.split) (metis Inl_Inr_False)
  then obtain html plain where r: "render_mail ml port True True (portfolio_url ck port) (unsubscribe_url lb ck (a_ID al) r) = Inr (html, plain)" by blast
  with render_mail_table [OF assms(3-6) r] assms(1) show ?thesis by (simp add: recipient_mails_def)
qed

lemma alert_mails_table:
  assumes "\<And>al r. \<exists>m. recipient_mails lb ck port True al r = [m] \<and> mail_to m = [r] \<and> P m"
  shows "map mail_to (concat (map (alert_mails lb ck port True) as)) = concat (map (\<lambda>a. map (\<lambda>r. [r]) (a_Recipients a)) as)
    \<and> (\<forall>m \<in> set (concat (map (alert_mails lb ck port True) as)). P m)"
proof -
  have one: "map mail_to (concat (map (recipient_mails lb ck port True al) rs)) = map (\<lambda>r. [r]) rs
      \<and> (\<forall>m \<in> set (concat (map (recipient_mails lb ck port True al) rs)). P m)" for al rs
  proof (induction rs)
    case (Cons r rs)
    with assms [of al r] show ?case by auto
  qed simp
  show ?thesis by (induction as) (use one in \<open>auto simp: alert_mails_def\<close>)
qed

text \<open>C16. What a successful run tells its readers to trade. When a run ends on a working server and its
  snapshot can be read, each recipient of each due alert is sent one mail, and its text has one line
  for each buy and sell of the snapshot's latest batch, in the order of the batch, under the date of
  the first dated one; it says that no trades are required exactly when that batch has none. The
  summary that is sent on demand for the same portfolio says that no trades are required whatever
  the batch holds.\<close>

theorem run_mails_trades:
  fixes ml :: "'f::{plus,minus,times,inverse,uminus,zero,ord} mailing"
  assumes "db_inv w" and "w_outcomes w = []" and "List.find (\<lambda>p. p_ID p = pid) (w_portfolios w) = Some p" and "p_Status p = StatusReady"
    and "mail_works ck" and "ck_render ck = render_mail ml" and "\<And>b q. \<exists>html. ml_tmpl ml b q = Inr html"
    and "p_SnapshotPath p = Some path" and "ml_open ml path = Inr sn" and "CurrentHoldings (ml_quote ml) sn = Inr cur" and "LatestBatchTrades sn = Inr ts"
  shows "(\<exists>ms. w_mails (snd (run_state (NotifyRunComplete lb ck pid rid True) w)) = w_mails w @ ms
      \<and> map mail_to ms = concat (map (\<lambda>al. map (\<lambda>r. [r]) (a_Recipients al))
          (filter (\<lambda>al. isDue (ck_calendar ck) al (describe_schedule (p_StrategyDescribeJSON p)) (w_now w)) (listed pid w)))
      \<and> (\<forall>m \<in> set ms. \<exists>a b. mail_text m = a @ trade_table ml ts @ b))
    \<and> (\<exists>m a b. w_mails (snd (run_state (Checker_SendSummary ck pid r) w)) = w_mails w @ [m] \<and> mail_to m = [r]
      \<and> mail_text m = a @ ''No trades required.'' @ b)"
proof
  let ?due = "filter (\<lambda>al. isDue (ck_calendar ck) al (describe_schedule (p_StrategyDescribeJSON p)) (w_now w)) (listed pid w)"
  have path: "q_SnapshotPath (port_of p) = Some path" using assms(8) by (simp add: port_of_def)
  have "due ck (port_of p) (w_now w) = (\<lambda>al. isDue (ck_calendar ck) al (describe_schedule (p_StrategyDescribeJSON p)) (w_now w))"
    by (simp add: fun_eq_iff port_of_def)
  then have "w_mails (snd (run_state (NotifyRunComplete lb ck pid rid True) w)) = w_mails w @ concat (map (alert_mails lb ck (port_of p) True) ?due)"
    using run_NotifyRunComplete [OF assms(1-3), of lb ck rid True] assms(5) by auto
  with alert_mails_table [where as = ?due, OF recipient_mails_table [where lb = lb, OF assms(6,7) path assms(9-11)]]
  show "\<exists>ms. w_mails (snd (run_state (NotifyRunComplete lb ck pid rid True) w)) = w_mails w @ ms
      \<and> map mail_to ms = concat (map (\<lambda>al. map (\<lambda>r. [r]) (a_Recipients al)) ?due)
      \<and> (\<forall>m \<in> set ms. \<exists>a b. mail_text m = a @ trade_table ml ts @ b)" by blast
  have ck: "ck_APIKey ck \<noteq> []" "\<And>m w. ck_mailgun ck m w = None" using assms(5) by (simp_all add: mail_works_def)
  show "\<exists>m a b. w_mails (snd (run_state (Checker_SendSummary ck pid r) w)) = w_mails w @ [m] \<and> mail_to m = [r]
      \<and> mail_text m = a @ ''No trades required.'' @ b"
    using SendSummary_no_trades [OF assms(2-4) ck(1) assms(6) ck(2) assms(7), of r] by fastforce
qed

text \<open>A concrete case: two recipients of a daily alert, and the snapshot with three trades.\<close>

theorem run_mails_trades_witness:
  "\<exists>ms. w_mails (snd (run_state (NotifyRunComplete demo_lib (demo_checker\<lparr>ck_render := render_mail demo_mailing\<rparr>) 1 4 True) demo_alerts)) = ms
     \<and> map mail_to ms = [[''a@x.io''], [''b@x.io'']] \<and> (\<forall>m \<in> set ms. \<exists>a b. mail_text m = a @ trade_table demo_mailing demo_trades @ b)
     \<and> trade_line demo_mailing (demo_trades ! 2) = ''  Sell VTI 50 shares (~$1,500)'' @ Handler.newline"
proof -
  let ?ck = "demo_checker\<lparr>ck_render := render_mail demo_mailing\<rparr>"
  obtain cur where cur: "CurrentHoldings (ml_quote demo_mailing) demo_book = Inr cur" using demo_mailing_reads(3) by blast
  have p: "p_Status demo_portfolio = StatusReady" "p_SnapshotPath demo_portfolio = Some ''/snap/4''" by (simp_all add: demo_portfolio_def)
  have ck: "mail_works ?ck" "ck_render ?ck = render_mail demo_mailing" by (simp_all add: mail_works_def demo_checker_def)
  have tmpl: "\<exists>html. ml_tmpl demo_mailing b q = Inr html" for b q by (simp add: demo_mailing_def)
  have due: "isDue (ck_calendar demo_checker) demo_alert sch t" for sch t using demo_due by (simp add: demo_checker_def)
  have l: "listed 1 demo_alerts = [demo_alert]" by (simp add: listed_def demo_alerts_simps) (simp add: demo_alert_def)
  from run_mails_trades [OF demo_alerts_simps(1-3) p(1) ck tmpl p(2) demo_mailing_reads(2) cur demo_mailing_reads(4), of demo_lib 4 "[]"]
  obtain ms where ms: "w_mails (snd (run_state (NotifyRunComplete demo_lib ?ck 1 4 True) demo_alerts)) = ms"
      "map mail_to ms = map (\<lambda>r. [r]) (a_Recipients demo_alert)" "\<forall>m \<in> set ms. \<exists>a b. mail_text m = a @ trade_table demo_mailing demo_trades @ b"
    unfolding l by (auto simp: due demo_alerts_simps)
  moreover have "trade_line demo_mailing (demo_trades ! 2) = ''  Sell VTI 50 shares (~$1,500)'' @ Handler.newline" by code_simp
  ultimately show ?thesis by (simp add: demo_alert_def)
qed

end
